(* ===== verification/Soroban_Prelude.thy ===== *)
theory Soroban_Prelude
  imports Main "HOL-Library.Signed_Division"
begin

text \<open>
  Shared foundation of the development.

  \<^item> Rust's fixed-width integers. The contracts are built with
    \<^verbatim>\<open>overflow-checks = true\<close> (Cargo.toml, \<^verbatim>\<open>[profile.release]\<close>), so an
    arithmetic operation that leaves its range panics; the \<^verbatim>\<open>checked_*\<close> and
    \<^verbatim>\<open>saturating_*\<close> methods are written out below. A value of a signed type is an
    \<open>int\<close>, a value of an unsigned type a \<open>nat\<close>; the ranges are explicit.
  \<^item> The execution model of a Soroban contract function. A Rust function with return type
    \<^verbatim>\<open>Result<T, Error>\<close> that reads and writes storage becomes an \<open>action\<close>: from a
    state it gives an \<open>outcome\<close> and the state at that point. The state is kept for
    \<open>Err\<close> as well: an early \<^verbatim>\<open>return Err(e)\<close> or \<^verbatim>\<open>?\<close> inside a
    helper does not undo the writes made before it. Only the host undoes them, when the error
    leaves the contract (\<open>invoke\<close>); a panic (\<open>Trap\<close>) cannot be caught by the contract.
  \<^item> A weakest-precondition calculus for actions whose rules are equations
    (\<open>wp_simps\<close>), so that the simplifier computes the precondition of a whole entry point.
\<close>

section \<open>Machine integers\<close>

type_synonym i128 = int
type_synonym u64 = nat
type_synonym u32 = nat

definition i128_max :: i128 where
  "i128_max = 170141183460469231731687303715884105727"

definition i128_min :: i128 where
  "i128_min = - 170141183460469231731687303715884105728"

definition u32_max :: u32 where
  "u32_max = 4294967295"

definition u64_max :: u64 where
  "u64_max = 18446744073709551615"

lemma width_bounds:
  "i128_max = 2 ^ 127 - 1" "i128_min = - (2 ^ 127)"
  "u32_max = 2 ^ 32 - 1" "u64_max = 2 ^ 64 - 1"
  by (simp_all add: i128_max_def i128_min_def u32_max_def u64_max_def)

definition in_i128 :: "int \<Rightarrow> bool" where
  "in_i128 x \<longleftrightarrow> i128_min \<le> x \<and> x \<le> i128_max"

text \<open>\<open>to_i128\<close> is the result of an exact computation if it fits, as every
  \<^verbatim>\<open>checked_*\<close> method on \<^verbatim>\<open>i128\<close> returns it.\<close>

definition to_i128 :: "int \<Rightarrow> i128 option" where
  "to_i128 x = (if in_i128 x then Some x else None)"

definition checked_add :: "i128 \<Rightarrow> i128 \<Rightarrow> i128 option" where
  "checked_add a b = to_i128 (a + b)"

definition checked_sub :: "i128 \<Rightarrow> i128 \<Rightarrow> i128 option" where
  "checked_sub a b = to_i128 (a - b)"

definition checked_mul :: "i128 \<Rightarrow> i128 \<Rightarrow> i128 option" where
  "checked_mul a b = to_i128 (a * b)"

text \<open>Rust divides towards zero, which is \<open>sdiv\<close> of \<open>HOL-Library.Signed_Division\<close>.\<close>

definition checked_div :: "i128 \<Rightarrow> i128 \<Rightarrow> i128 option" where
  "checked_div a b = (if b = 0 then None else to_i128 (a sdiv b))"

definition saturating_add :: "i128 \<Rightarrow> i128 \<Rightarrow> i128" where
  "saturating_add a b = max i128_min (min i128_max (a + b))"

text \<open>Unsigned arithmetic; \<open>-\<close> on \<open>nat\<close> is exactly \<^verbatim>\<open>saturating_sub\<close>.\<close>

definition checked_add_u32 :: "u32 \<Rightarrow> u32 \<Rightarrow> u32 option" where
  "checked_add_u32 a b = (if a + b \<le> u32_max then Some (a + b) else None)"

definition checked_add_u64 :: "u64 \<Rightarrow> u64 \<Rightarrow> u64 option" where
  "checked_add_u64 a b = (if a + b \<le> u64_max then Some (a + b) else None)"

definition saturating_add_u32 :: "u32 \<Rightarrow> u32 \<Rightarrow> u32" where
  "saturating_add_u32 a b = min u32_max (a + b)"

definition saturating_add_u64 :: "u64 \<Rightarrow> u64 \<Rightarrow> u64" where
  "saturating_add_u64 a b = min u64_max (a + b)"

abbreviation saturating_sub :: "nat \<Rightarrow> nat \<Rightarrow> nat" where
  "saturating_sub a b \<equiv> a - b"

named_theorems int_simps "the checked and saturating integer operations, unfolded"

lemmas checked_defs [int_simps] =
  checked_add_def checked_sub_def checked_mul_def checked_div_def to_i128_def
  checked_add_u32_def checked_add_u64_def

lemma to_i128_Some [simp]: "to_i128 x = Some y \<longleftrightarrow> in_i128 x \<and> y = x"
  by (auto simp: to_i128_def)

lemma to_i128_None [simp]: "to_i128 x = None \<longleftrightarrow> \<not> in_i128 x"
  by (simp add: to_i128_def)

lemma checked_add_Some: "checked_add a b = Some c \<longleftrightarrow> in_i128 (a + b) \<and> c = a + b"
  by (simp add: checked_add_def)

lemma checked_sub_Some: "checked_sub a b = Some c \<longleftrightarrow> in_i128 (a - b) \<and> c = a - b"
  by (simp add: checked_sub_def)

lemma checked_mul_Some: "checked_mul a b = Some c \<longleftrightarrow> in_i128 (a * b) \<and> c = a * b"
  by (simp add: checked_mul_def)

lemma sdiv_nonneg: "0 \<le> a \<Longrightarrow> 0 < b \<Longrightarrow> a sdiv b = a div (b :: int)"
  by (simp add: signed_divide_int_def sgn_if)

lemma checked_div_Some_nonneg:
  assumes "0 \<le> a" "0 < b"
  shows "checked_div a b = Some c \<longleftrightarrow> in_i128 (a div b) \<and> c = a div b"
  using assms by (simp add: checked_div_def sdiv_nonneg)

text \<open>A quotient of a value in range by a positive number stays in range, so the
  \<^verbatim>\<open>checked_div(10_000)\<close> of the fee formulas never fails.\<close>

lemma in_i128_div: "in_i128 a \<Longrightarrow> 0 \<le> a \<Longrightarrow> 0 < b \<Longrightarrow> in_i128 (a div b)"
proof -
  assume a: "in_i128 a" "0 \<le> a" "0 < b"
  have "a div b \<le> a" using a(2,3) zdiv_mono2 [of a 1 b] by simp
  moreover have "0 \<le> a div b" using a(2,3) by (simp add: pos_imp_zdiv_nonneg_iff)
  ultimately show ?thesis using a(1) by (simp add: in_i128_def i128_min_def)
qed

lemma saturating_add_in_range [simp]: "in_i128 (saturating_add a b)"
  by (simp add: saturating_add_def in_i128_def i128_min_def i128_max_def)

lemma saturating_add_exact: "in_i128 (a + b) \<Longrightarrow> saturating_add a b = a + b"
  by (simp add: saturating_add_def in_i128_def)

text \<open>The basis-point formula of the fees: a share of at most 10000 basis points of a
  non-negative amount lies between zero and the amount.\<close>

lemma bps_share_bounds:
  fixes x b :: int
  assumes "0 \<le> x" "0 \<le> b" "b \<le> 10000"
  shows "0 \<le> x * b div 10000" "x * b div 10000 \<le> x"
proof -
  show "0 \<le> x * b div 10000" using assms by (simp add: pos_imp_zdiv_nonneg_iff)
  have "x * b \<le> x * 10000" using assms by (intro mult_left_mono)
  then have "x * b div 10000 \<le> x * 10000 div 10000" by (rule zdiv_mono1) simp
  then show "x * b div 10000 \<le> x" by simp
qed

lemma bps_share_sdiv:
  fixes x b :: int
  assumes "0 \<le> x" "0 \<le> b"
  shows "x * b sdiv 10000 = x * b div 10000"
  using assms by (simp add: sdiv_nonneg)

section \<open>Contract functions as actions\<close>

datatype ('e, 'a) outcome = Ok 'a | Err 'e | Trap

type_synonym ('s, 'e, 'a) action = "'s \<Rightarrow> ('e, 'a) outcome \<times> 's"

definition ret :: "'a \<Rightarrow> ('s, 'e, 'a) action" where
  "ret a = (\<lambda>s. (Ok a, s))"

definition fail :: "'e \<Rightarrow> ('s, 'e, 'a) action" where
  "fail e = (\<lambda>s. (Err e, s))"

definition trap :: "('s, 'e, 'a) action" where
  "trap = (\<lambda>s. (Trap, s))"

definition bnd :: "('s, 'e, 'a) action \<Rightarrow> ('a \<Rightarrow> ('s, 'e, 'b) action) \<Rightarrow> ('s, 'e, 'b) action" where
  "bnd m f = (\<lambda>s. case m s of (r, s') \<Rightarrow>
     (case r of Ok a \<Rightarrow> f a s' | Err e \<Rightarrow> (Err e, s') | Trap \<Rightarrow> (Trap, s')))"

primrec seqs :: "('s, 'e, unit) action list \<Rightarrow> ('s, 'e, unit) action" where
  "seqs [] = ret ()"
| "seqs (m # ms) = bnd m (\<lambda>_. seqs ms)"

definition gets :: "('s \<Rightarrow> 'a) \<Rightarrow> ('s, 'e, 'a) action" where
  "gets f = (\<lambda>s. (Ok (f s), s))"

definition modify :: "('s \<Rightarrow> 's) \<Rightarrow> ('s, 'e, unit) action" where
  "modify f = (\<lambda>s. (Ok (), f s))"

text \<open>\<^verbatim>\<open>if c { return Err(e) }\<close>\<close>

definition reject_if :: "bool \<Rightarrow> 'e \<Rightarrow> ('s, 'e, unit) action" where
  "reject_if c e = (if c then fail e else ret ())"

text \<open>\<^verbatim>\<open>opt.ok_or(e)?\<close>\<close>

definition ok_or :: "'a option \<Rightarrow> 'e \<Rightarrow> ('s, 'e, 'a) action" where
  "ok_or x e = (case x of None \<Rightarrow> fail e | Some a \<Rightarrow> ret a)"

text \<open>A host call or an arithmetic operation that panics.\<close>

definition or_trap :: "'a option \<Rightarrow> ('s, 'e, 'a) action" where
  "or_trap x = (case x of None \<Rightarrow> trap | Some a \<Rightarrow> ret a)"

text \<open>\<^verbatim>\<open>if c { m }\<close>\<close>

definition only_if :: "bool \<Rightarrow> ('s, 'e, unit) action \<Rightarrow> ('s, 'e, unit) action" where
  "only_if c m = (if c then m else ret ())"

text \<open>\<^verbatim>\<open>f(..).err()\<close>: the error becomes a value, the writes stay. A panic is not caught.\<close>

definition catch_err :: "('s, 'e, 'a) action \<Rightarrow> ('s, 'e, 'e option) action" where
  "catch_err m = (\<lambda>s. case m s of (r, s') \<Rightarrow>
     (case r of Ok _ \<Rightarrow> (Ok None, s') | Err e \<Rightarrow> (Ok (Some e), s') | Trap \<Rightarrow> (Trap, s')))"

text \<open>A \<^verbatim>\<open>for\<close> loop over a vector that pushes one result per element.\<close>

primrec collect :: "('x \<Rightarrow> ('s, 'e, 'y) action) \<Rightarrow> 'x list \<Rightarrow> ('s, 'e, 'y list) action" where
  "collect f [] = ret []"
| "collect f (x # xs) = bnd (f x) (\<lambda>y. bnd (collect f xs) (\<lambda>ys. ret (y # ys)))"

text \<open>A call from outside the contract: the host commits the state only on \<open>Ok\<close>.\<close>

definition invoke :: "('s, 'e, 'a) action \<Rightarrow> ('s, 'e, 'a) action" where
  "invoke m = (\<lambda>s. case m s of (r, s') \<Rightarrow> (r, (case r of Ok _ \<Rightarrow> s' | _ \<Rightarrow> s)))"

section \<open>Weakest preconditions\<close>

text \<open>\<open>wp m Q E T s\<close>: from \<open>s\<close>, a normal return satisfies \<open>Q\<close>, an error return
  satisfies \<open>E\<close>, and \<open>T\<close> holds if the action panics. With \<open>T = False\<close> and
  \<open>E = (\<lambda>_ _. False)\<close> this is total correctness: the action returns.\<close>

definition wp :: "('s, 'e, 'a) action \<Rightarrow> ('a \<Rightarrow> 's \<Rightarrow> bool) \<Rightarrow> ('e \<Rightarrow> 's \<Rightarrow> bool) \<Rightarrow> bool \<Rightarrow> 's \<Rightarrow> bool" where
  "wp m Q E T s = (case m s of (r, s') \<Rightarrow>
     (case r of Ok a \<Rightarrow> Q a s' | Err e \<Rightarrow> E e s' | Trap \<Rightarrow> T))"

named_theorems wp_simps "weakest preconditions of the primitive actions"
named_theorems run_simps "the primitive actions applied to a state"

lemma run_primitives [run_simps]:
  "ret a s = (Ok a, s)"
  "fail e s = (Err e, s)"
  "trap s = (Trap, s)"
  "gets f s = (Ok (f s), s)"
  "modify g s = (Ok (), g s)"
  "reject_if c e s = (if c then (Err e, s) else (Ok (), s))"
  "ok_or x e s = (case x of None \<Rightarrow> (Err e, s) | Some a \<Rightarrow> (Ok a, s))"
  "or_trap x s = (case x of None \<Rightarrow> (Trap, s) | Some a \<Rightarrow> (Ok a, s))"
  "only_if c m s = (if c then m s else (Ok (), s))"
  by (auto simp: ret_def fail_def trap_def gets_def modify_def reject_if_def ok_or_def
      or_trap_def only_if_def split: option.splits)

lemma run_bnd [run_simps]:
  "bnd m f s = (case m s of (Ok a, s') \<Rightarrow> f a s' | (Err e, s') \<Rightarrow> (Err e, s') | (Trap, s') \<Rightarrow> (Trap, s'))"
  by (auto simp: bnd_def split: prod.splits outcome.splits)

lemma run_catch_err [run_simps]:
  "catch_err m s = (case m s of (Ok _, s') \<Rightarrow> (Ok None, s') | (Err e, s') \<Rightarrow> (Ok (Some e), s') | (Trap, s') \<Rightarrow> (Trap, s'))"
  by (auto simp: catch_err_def split: prod.splits outcome.splits)

lemma run_invoke [run_simps]:
  "invoke m s = (case m s of (Ok a, s') \<Rightarrow> (Ok a, s') | (Err e, s') \<Rightarrow> (Err e, s) | (Trap, s') \<Rightarrow> (Trap, s))"
  by (auto simp: invoke_def split: prod.splits outcome.splits)

lemma wp_ret [wp_simps]: "wp (ret a) Q E T s = Q a s"
  by (simp add: wp_def ret_def)

lemma wp_fail [wp_simps]: "wp (fail e) Q E T s = E e s"
  by (simp add: wp_def fail_def)

lemma wp_trap [wp_simps]: "wp trap Q E T s = T"
  by (simp add: wp_def trap_def)

lemma wp_bnd [wp_simps]: "wp (bnd m f) Q E T s = wp m (\<lambda>a. wp (f a) Q E T) E T s"
  by (simp add: wp_def bnd_def split: prod.splits outcome.splits)

lemma wp_gets [wp_simps]: "wp (gets f) Q E T s = Q (f s) s"
  by (simp add: wp_def gets_def)

lemma wp_modify [wp_simps]: "wp (modify f) Q E T s = Q () (f s)"
  by (simp add: wp_def modify_def)

lemma wp_reject_if [wp_simps]: "wp (reject_if c e) Q E T s = ((c \<longrightarrow> E e s) \<and> (\<not> c \<longrightarrow> Q () s))"
  by (simp add: wp_def reject_if_def fail_def ret_def)

lemma wp_ok_or [wp_simps]:
  "wp (ok_or x e) Q E T s = ((x = None \<longrightarrow> E e s) \<and> (\<forall>a. x = Some a \<longrightarrow> Q a s))"
  by (simp add: wp_def ok_or_def fail_def ret_def split: option.splits)

lemma wp_or_trap [wp_simps]:
  "wp (or_trap x) Q E T s = ((x = None \<longrightarrow> T) \<and> (\<forall>a. x = Some a \<longrightarrow> Q a s))"
  by (simp add: wp_def or_trap_def trap_def ret_def split: option.splits)

lemma wp_only_if [wp_simps]: "wp (only_if c m) Q E T s = ((c \<longrightarrow> wp m Q E T s) \<and> (\<not> c \<longrightarrow> Q () s))"
  by (simp add: wp_def only_if_def ret_def)

lemma wp_if [wp_simps]:
  "wp (if c then m else n) Q E T s = ((c \<longrightarrow> wp m Q E T s) \<and> (\<not> c \<longrightarrow> wp n Q E T s))"
  by simp

lemma wp_case_option [wp_simps]:
  "wp (case x of None \<Rightarrow> m | Some a \<Rightarrow> f a) Q E T s =
     ((x = None \<longrightarrow> wp m Q E T s) \<and> (\<forall>a. x = Some a \<longrightarrow> wp (f a) Q E T s))"
  by (simp split: option.splits)

lemma wp_let [wp_simps]: "wp (let x = t in f x) Q E T s = (let x = t in wp (f x) Q E T s)"
  by (simp add: Let_def)

lemma wp_catch_err [wp_simps]:
  "wp (catch_err m) Q E T s = wp m (\<lambda>_. Q None) (\<lambda>e. Q (Some e)) T s"
  by (simp add: wp_def catch_err_def split: prod.splits outcome.splits)

lemma wp_seqs_Cons [wp_simps]:
  "wp (seqs (m # ms)) Q E T s = wp m (\<lambda>_. wp (seqs ms) Q E T) E T s"
  by (simp add: wp_bnd)

lemma wp_seqs_Nil [wp_simps]: "wp (seqs []) Q E T s = Q () s"
  by (simp add: wp_ret)

lemma wp_seqs_append: "wp (seqs (ms @ ns)) Q E T s = wp (seqs ms) (\<lambda>_. wp (seqs ns) Q E T) E T s"
proof (induction ms arbitrary: s)
  case (Cons m ms)
  then have "wp (seqs (ms @ ns)) Q E T = wp (seqs ms) (\<lambda>_. wp (seqs ns) Q E T) E T" by (rule ext)
  then show ?case by (simp add: wp_bnd)
qed (simp add: wp_ret)

lemma wp_invoke: "wp (invoke m) Q E T s = wp m Q (\<lambda>e _. E e s) T s"
  by (simp add: wp_def invoke_def split: prod.splits outcome.splits)

lemma wp_mono:
  assumes "wp m Q E T s"
    and "\<And>a s'. Q a s' \<Longrightarrow> Q' a s'" and "\<And>e s'. E e s' \<Longrightarrow> E' e s'" and "T \<Longrightarrow> T'"
  shows "wp m Q' E' T' s"
  using assms by (auto simp: wp_def split: prod.splits outcome.splits)

lemma wp_okD: "wp m Q E T s \<Longrightarrow> m s = (Ok a, s') \<Longrightarrow> Q a s'"
  by (simp add: wp_def)

lemma wp_errD: "wp m Q E T s \<Longrightarrow> m s = (Err e, s') \<Longrightarrow> E e s'"
  by (simp add: wp_def)

lemma wp_total: "wp m Q (\<lambda>_ _. False) False s \<Longrightarrow> \<exists>a s'. m s = (Ok a, s') \<and> Q a s'"
  by (auto simp: wp_def split: prod.splits outcome.splits)

lemma wp_error: "wp m (\<lambda>_ _. False) (\<lambda>e' _. e' = e) False s \<Longrightarrow> \<exists>s'. m s = (Err e, s')"
  by (auto simp: wp_def split: prod.splits outcome.splits)

lemma wpI_ok: "(\<And>a s'. m s = (Ok a, s') \<Longrightarrow> Q a s') \<Longrightarrow> wp m Q (\<lambda>_ _. True) True s"
  by (auto simp: wp_def split: prod.splits outcome.splits)

lemma wp_both:
  "wp m Q E T s \<Longrightarrow> wp m Q' E' T s \<Longrightarrow> wp m (\<lambda>a s. Q a s \<and> Q' a s) (\<lambda>e s. E e s \<and> E' e s) T s"
  by (auto simp: wp_def split: prod.splits outcome.splits)

lemma wpI_any: "wp m (\<lambda>_ _. True) (\<lambda>_ _. True) True s"
  by (simp add: wp_def split: prod.splits outcome.splits)

text \<open>What an invocation can do to the state: keep it, or commit a normal return.\<close>

lemma invoke_cases:
  assumes "invoke m s = (r, s')"
  obtains (committed) a where "r = Ok a" "m s = (Ok a, s')" | (rolled_back) "s' = s" "\<And>a. r \<noteq> Ok a"
  using assms by (auto simp: invoke_def split: prod.splits outcome.splits)

lemma invoke_ok: "invoke m s = (Ok a, s') \<longleftrightarrow> m s = (Ok a, s')"
  by (auto simp: invoke_def split: prod.splits outcome.splits)

lemma invoke_err: "invoke m s = (Err e, s') \<longleftrightarrow> s' = s \<and> (\<exists>s''. m s = (Err e, s''))"
  by (auto simp: invoke_def split: prod.splits outcome.splits)

text \<open>An invariant kept by every normal return is kept by every invocation.\<close>

lemma invoke_preserves:
  assumes "I s" and "wp m (\<lambda>_. I) (\<lambda>_ _. True) True s" and "invoke m s = (r, s')"
  shows "I s'"
  using assms(3)
proof (cases rule: invoke_cases)
  case (committed a)
  with assms(2) show ?thesis by (blast dest: wp_okD)
next
  case rolled_back
  with assms(1) show ?thesis by simp
qed

text \<open>The loop rule: an invariant of the body, on normal and on caught errors.\<close>

lemma wp_collect:
  assumes "\<And>x s. x \<in> set xs \<Longrightarrow> I s \<Longrightarrow> wp (f x) (\<lambda>_. I) E T s" and "I s"
    and "\<And>ys s'. I s' \<Longrightarrow> length ys = length xs \<Longrightarrow> Q ys s'"
  shows "wp (collect f xs) Q E T s"
  using assms
proof (induction xs arbitrary: s Q)
  case Nil
  then show ?case by (simp add: wp_simps)
next
  case (Cons x xs)
  have "wp (f x) (\<lambda>_. I) E T s" using Cons.prems by simp
  then show ?case
    unfolding collect.simps wp_bnd
    by (rule wp_mono) (auto intro!: Cons.IH Cons.prems(1,3) simp: wp_simps)
qed

section \<open>Frames\<close>

text \<open>\<open>frame f m\<close>: whatever \<open>m\<close> returns, it leaves the part \<open>f\<close> of the state
  alone. The rules follow the structure of an action, so the frame of a long entry point is
  derived without computing its states.\<close>

definition frame :: "('s \<Rightarrow> 'p) \<Rightarrow> ('s, 'e, 'a) action \<Rightarrow> bool" where
  "frame f m \<longleftrightarrow> (\<forall>s. f (snd (m s)) = f s)"

named_theorems frame_rules "frames of the primitive actions"

lemma frame_primitives [frame_rules]:
  "frame f (ret a)" "frame f (fail e)" "frame f trap" "frame f (gets g)"
  "frame f (reject_if c e)" "frame f (ok_or x e)" "frame f (or_trap x)"
  by (auto simp: frame_def run_simps split: option.splits)

lemma frame_modify [frame_rules]: "(\<And>s. f (g s) = f s) \<Longrightarrow> frame f (modify g)"
  by (simp add: frame_def run_simps)

lemma frame_bnd [frame_rules]: "frame f m \<Longrightarrow> (\<And>a. frame f (k a)) \<Longrightarrow> frame f (bnd m k)"
  by (simp add: frame_def bnd_def split: prod.splits outcome.splits) (metis snd_conv)

lemma frame_seqs [frame_rules]:
  "frame f (seqs [])" "frame f m \<Longrightarrow> frame f (seqs ms) \<Longrightarrow> frame f (seqs (m # ms))"
  by (simp_all add: frame_primitives frame_bnd)

lemma frame_seqs_map [frame_rules]: "(\<And>x. frame f (k x)) \<Longrightarrow> frame f (seqs (map k xs))"
  by (induction xs) (simp_all add: frame_primitives frame_bnd)

lemma frame_cond [frame_rules]:
  "(c \<Longrightarrow> frame f m) \<Longrightarrow> (\<not> c \<Longrightarrow> frame f n) \<Longrightarrow> frame f (if c then m else n)"
  "(c \<Longrightarrow> frame f m) \<Longrightarrow> frame f (only_if c m)"
  by (simp_all add: only_if_def frame_primitives)

lemma frame_case_option [frame_rules]:
  "(x = None \<Longrightarrow> frame f m) \<Longrightarrow> (\<And>a. x = Some a \<Longrightarrow> frame f (k a)) \<Longrightarrow>
     frame f (case x of None \<Rightarrow> m | Some a \<Rightarrow> k a)"
  by (cases x) auto

lemma frame_let [frame_rules]: "(\<And>x. frame f (k x)) \<Longrightarrow> frame f (let x = t in k x)"
  by (simp add: Let_def)

lemma frame_catch_err [frame_rules]: "frame f m \<Longrightarrow> frame f (catch_err m)"
  by (simp add: frame_def run_simps split: prod.splits outcome.splits) (metis snd_conv)

lemma frame_collect [frame_rules]: "(\<And>x. frame f (k x)) \<Longrightarrow> frame f (collect k xs)"
  by (induction xs) (auto intro!: frame_rules)

lemma frame_invoke: "frame f m \<Longrightarrow> frame f (invoke m)"
  by (simp add: frame_def run_simps split: prod.splits outcome.splits) (metis snd_conv)

text \<open>\<open>after m s\<close> names the state a helper leaves behind. With \<open>wp_after\<close> the
  weakest precondition of a helper is an equation as well, and its frame gives simp rules for the
  parts of \<open>after m s\<close>.\<close>

definition after :: "('s, 'e, 'a) action \<Rightarrow> 's \<Rightarrow> 's" where
  "after m s = snd (m s)"

definition verdict :: "('s, 'e, 'a) action \<Rightarrow> 's \<Rightarrow> ('e, 'a) outcome" where
  "verdict m s = fst (m s)"

lemma wp_after:
  "wp m Q E T s =
     ((\<forall>a. verdict m s = Ok a \<longrightarrow> Q a (after m s)) \<and>
      (\<forall>e. verdict m s = Err e \<longrightarrow> E e (after m s)) \<and> (verdict m s = Trap \<longrightarrow> T))"
  by (simp add: wp_def after_def verdict_def split: prod.split outcome.split)

lemma frame_after: "frame f m \<Longrightarrow> f (after m s) = f s"
  by (simp add: frame_def after_def)

lemma wp_frame:
  assumes "frame f m" and "\<And>a s'. f s' = f s \<Longrightarrow> Q a s'" and "\<And>e s'. f s' = f s \<Longrightarrow> E e s'"
  shows "wp m Q E True s"
  using assms frame_after [OF assms(1), of s] by (simp add: wp_after)

lemma run_after: "m s = (r, s') \<Longrightarrow> verdict m s = r \<and> after m s = s'"
  by (simp add: after_def verdict_def)

section \<open>Preorders on states\<close>

text \<open>A reflexive and transitive relation between the state before and the state after is kept
  by every composition of actions that keep it, loops with caught errors included. This is how a
  fact about single entry points becomes a fact about batches and whole transactions.\<close>

locale state_order =
  fixes R :: "'s \<Rightarrow> 's \<Rightarrow> bool"
  assumes order_refl: "R s s"
    and order_trans: "R s s' \<Longrightarrow> R s' s'' \<Longrightarrow> R s s''"
begin

definition obeys :: "('s, 'e, 'a) action \<Rightarrow> bool" where
  "obeys m \<longleftrightarrow> (\<forall>s. wp m (\<lambda>_. R s) (\<lambda>_. R s) True s)"

lemma obeys_bnd: "obeys m \<Longrightarrow> (\<And>a. obeys (k a)) \<Longrightarrow> obeys (bnd m k)"
  unfolding obeys_def wp_bnd
proof (rule allI)
  fix s
  assume m: "\<forall>s. wp m (\<lambda>_. R s) (\<lambda>_. R s) True s"
    and k: "\<And>a. \<forall>s. wp (k a) (\<lambda>_. R s) (\<lambda>_. R s) True s"
  show "wp m (\<lambda>a. wp (k a) (\<lambda>_. R s) (\<lambda>_. R s) True) (\<lambda>_. R s) True s"
  proof (rule wp_mono [OF m [rule_format, of s]])
    fix a s'
    assume "R s s'"
    then show "wp (k a) (\<lambda>_. R s) (\<lambda>_. R s) True s'"
      by (intro wp_mono [OF k [rule_format, of a s']]) (auto intro: order_trans)
  qed
qed

lemma obeys_catch_err: "obeys m \<Longrightarrow> obeys (catch_err m)"
  by (simp add: obeys_def wp_simps)

lemma obeys_frame: "frame f m \<Longrightarrow> (\<And>s s'. f s' = f s \<Longrightarrow> R s s') \<Longrightarrow> obeys m"
  by (auto simp: obeys_def wp_after dest: frame_after)

lemma obeys_pure:
  "obeys (ret a)" "obeys (fail e)" "obeys (gets g)" "obeys (reject_if c e)"
  "obeys (ok_or x e)" "obeys (or_trap x)" "obeys trap"
  by (auto simp: obeys_def wp_simps order_refl)

lemma obeys_cond:
  "obeys m \<Longrightarrow> obeys n \<Longrightarrow> obeys (if c then m else n)"
  "obeys m \<Longrightarrow> obeys (only_if c m)"
  by (simp_all add: obeys_def wp_simps order_refl)

lemma obeys_seqs:
  "obeys (seqs [])" "obeys m \<Longrightarrow> obeys (seqs ms) \<Longrightarrow> obeys (seqs (m # ms))"
  by (simp_all add: obeys_pure obeys_bnd)

lemma obeys_collect: "(\<And>x. obeys (k x)) \<Longrightarrow> obeys (collect k xs)"
  by (induction xs) (simp_all add: obeys_pure obeys_bnd)

lemma obeys_run: "obeys m \<Longrightarrow> m s = (Ok a, s') \<Longrightarrow> R s s'"
  by (auto simp: obeys_def dest: wp_okD)

lemma obeys_invoke: "obeys m \<Longrightarrow> invoke m s = (r, s') \<Longrightarrow> R s s'"
  by (erule invoke_cases) (auto simp: order_refl dest: obeys_run)

lemma obeys_seqs_map: "(\<And>x. x \<in> set xs \<Longrightarrow> obeys (k x)) \<Longrightarrow> obeys (seqs (map k xs))"
  by (induction xs) (simp_all add: obeys_pure obeys_bnd)

lemmas obeys_rules = obeys_bnd obeys_catch_err obeys_pure obeys_cond obeys_seqs obeys_collect

end

text \<open>An invariant is the special case in which the state after satisfies it if the state before
  does.\<close>

locale state_invariant =
  fixes I :: "'s \<Rightarrow> bool"

sublocale state_invariant \<subseteq> state_order "\<lambda>s s'. I s \<longrightarrow> I s'"
  by unfold_locales auto

context state_invariant
begin

lemma obeysI:
  assumes "\<And>s. I s \<Longrightarrow> wp m (\<lambda>_. I) (\<lambda>_. I) True s"
  shows "obeys m"
  unfolding obeys_def
proof
  fix s
  show "wp m (\<lambda>_ s'. I s \<longrightarrow> I s') (\<lambda>_ s'. I s \<longrightarrow> I s') True s"
    using assms [of s] wpI_any [of m s] by (cases "I s") (auto elim!: wp_mono)
qed

end

end
