(* ===== verification/Soroban_Host.thy ===== *)
theory Soroban_Host
  imports Soroban_Prelude
begin

text \<open>
  What the Soroban host gives to a contract, shared by the escrow and the oracle contract.

  \<^item> \<open>host\<close>: the context of one invocation. The contract's own address, the ledger sequence
    and timestamp, the addresses that authorized the invocation, and the token contracts it calls.
    A token is a parameter: which contract answers is decided at run time by an address. The state
    of the other contracts is the type parameter \<open>'w\<close>; the host forbids re-entering a contract
    that is on the call stack, so such a call changes \<open>'w\<close> only. A failing call returns
    \<open>None\<close> and traps the caller.
  \<^item> \<open>hosted\<close>: the part of a contract's state that lives outside its storage: the other
    contracts and the events published so far. A contract's record extends it by its storage.
\<close>

section \<open>Addresses and bytes\<close>

text \<open>An \<^verbatim>\<open>Address\<close> is an opaque identifier; \<^verbatim>\<open>BytesN<32>\<close> is a list of
  byte values.\<close>

datatype address = Address nat

type_synonym bytes = "nat list"

definition unwrap_or :: "'a option \<Rightarrow> 'a \<Rightarrow> 'a" where
  "unwrap_or x d = (case x of None \<Rightarrow> d | Some v \<Rightarrow> v)"

lemma unwrap_or_simps [simp]: "unwrap_or None d = d" "unwrap_or (Some v) d = v"
  by (simp_all add: unwrap_or_def)

section \<open>The context of an invocation and the state around the storage\<close>

record 'w host =
  current_contract_address :: address
  ledger_sequence :: u32
  ledger_timestamp :: u64
  authorized :: "address \<Rightarrow> bool"
  token_transfer :: "address \<Rightarrow> address \<Rightarrow> address \<Rightarrow> i128 \<Rightarrow> 'w \<Rightarrow> 'w option"
  token_balance :: "address \<Rightarrow> address \<Rightarrow> 'w \<Rightarrow> i128 option"

type_synonym 'v event = "string \<times> string \<times> 'v list"

record ('w, 'v) hosted =
  world :: 'w
  events :: "'v event list"

definition publish :: "string \<Rightarrow> string \<Rightarrow> 'v list \<Rightarrow> (('w, 'v, 'x) hosted_scheme, 'e, unit) action" where
  "publish topic name payload = modify (\<lambda>s. s\<lparr>events := events s @ [(topic, name, payload)]\<rparr>)"

text \<open>\<^verbatim>\<open>address.require_auth()\<close> panics when the address did not authorize the
  invocation.\<close>

definition require_auth :: "('w, 'h) host_scheme \<Rightarrow> address \<Rightarrow> ('s, 'e, unit) action" where
  "require_auth env a = (if authorized env a then ret () else trap)"

text \<open>\<^verbatim>\<open>token::Client::new(&env, &t).transfer(&from, &to, &amount)\<close>\<close>

definition transfer ::
    "('w, 'h) host_scheme \<Rightarrow> address \<Rightarrow> address \<Rightarrow> address \<Rightarrow> i128 \<Rightarrow> (('w, 'v, 'x) hosted_scheme, 'e, unit) action" where
  "transfer env t from to amount =
     bnd (gets (\<lambda>s. token_transfer env t from to amount (world s))) (\<lambda>r.
     bnd (or_trap r) (\<lambda>w. modify (\<lambda>s. s\<lparr>world := w\<rparr>)))"

lemma wp_publish [wp_simps]:
  "wp (publish a b c) Q E T s = Q () (s\<lparr>events := events s @ [(a, b, c)]\<rparr>)"
  by (simp add: publish_def wp_simps)

lemma wp_require_auth [wp_simps]:
  "wp (require_auth env a) Q E T s = ((authorized env a \<longrightarrow> Q () s) \<and> (\<not> authorized env a \<longrightarrow> T))"
  by (simp add: require_auth_def wp_simps)

lemma wp_transfer [wp_simps]:
  "wp (transfer env t a b n) Q E T s =
     ((token_transfer env t a b n (world s) = None \<longrightarrow> T) \<and>
      (\<forall>w. token_transfer env t a b n (world s) = Some w \<longrightarrow> Q () (s\<lparr>world := w\<rparr>)))"
  by (simp add: transfer_def wp_simps)

lemma frame_host [frame_rules]:
  "(\<And>s e. f (s\<lparr>events := e\<rparr>) = f s) \<Longrightarrow> frame f (publish a b c)"
  "(\<And>s w. f (s\<lparr>world := w\<rparr>) = f s) \<Longrightarrow> frame f (transfer env t x y n)"
  "frame g (require_auth env adr)"
  by (auto simp: publish_def transfer_def require_auth_def intro!: frame_rules)

lemmas host_run_defs [run_simps] = publish_def require_auth_def transfer_def

section \<open>The token interface\<close>

text \<open>What the contracts rely on about a token contract (the documented SEP-41 behaviour of
  \<^verbatim>\<open>transfer\<close>): a transfer that returns moved exactly \<open>amount \<ge> 0\<close> between
  the two balances and changed no other balance of any token. \<open>balances_of\<close> reads the balances
  out of the world.\<close>

definition sep41 :: "('w, 'h) host_scheme \<Rightarrow> ('w \<Rightarrow> address \<Rightarrow> address \<Rightarrow> int) \<Rightarrow> bool" where
  "sep41 env balances_of \<longleftrightarrow>
     (\<forall>t from to amount w w'. token_transfer env t from to amount w = Some w' \<longrightarrow>
        0 \<le> amount \<and>
        (\<forall>t' a. balances_of w' t' a =
           balances_of w t' a
           - (if t' = t \<and> a = from then amount else 0)
           + (if t' = t \<and> a = to then amount else 0)))"

lemma sep41D:
  assumes "sep41 env bal" and "token_transfer env t from to amount w = Some w'"
  shows "0 \<le> amount"
    and "bal w' t' a = bal w t' a - (if t' = t \<and> a = from then amount else 0)
           + (if t' = t \<and> a = to then amount else 0)"
  using assms unfolding sep41_def by blast+

text \<open>A ledger of balances that satisfies the interface: concrete runs use it.\<close>

type_synonym ledger = "address \<Rightarrow> address \<Rightarrow> int"

definition ledger_transfer :: "address \<Rightarrow> address \<Rightarrow> address \<Rightarrow> i128 \<Rightarrow> ledger \<Rightarrow> ledger option" where
  "ledger_transfer t from to amount w =
     (if amount < 0 \<or> w t from < amount then None
      else let w1 = w(t := (w t)(from := w t from - amount))
           in Some (w1(t := (w1 t)(to := w1 t to + amount))))"

lemma sep41_ledger_transfer: "token_transfer env = ledger_transfer \<Longrightarrow> sep41 env (\<lambda>w. w)"
  by (auto simp: sep41_def ledger_transfer_def Let_def split: if_splits)

end
