(* ===== verification/Escrow_Types.thy ===== *)
theory Escrow_Types
  imports Soroban_Host
begin

text \<open>
  The data of the escrow contract: contracts/escrow/src/types.rs and errors.rs. Structs are
  records, enums are datatypes with the source's variants. A field carries the prefix of its
  struct (\<open>m_\<close> for \<^verbatim>\<open>Match\<close>, \<open>d_\<close> for \<^verbatim>\<open>Dispute\<close>, ...),
  and a variant whose name is taken twice is qualified (\<open>NoWinner\<close> is
  \<^verbatim>\<open>Winner::None\<close>, \<open>DisputeActive\<close> is \<^verbatim>\<open>DisputeState::Active\<close>,
  \<open>SnapDeposit\<close> is \<^verbatim>\<open>SnapshotReason::Deposit\<close>). The last section is
  \<^verbatim>\<open>OracleRotationState\<close> with its methods.
\<close>

section \<open>Errors\<close>

datatype error =
    MatchNotFound | AlreadyFunded | NotFunded | Unauthorized | InvalidState | AlreadyExists
  | AlreadyInitialized | Overflow | ContractPaused | InvalidAmount | PlayerFrozen
  | DuplicateGameId | MatchNotExpired | InvalidGameId | InvalidPlayers | TokenNotAllowed
  | InvalidAddress | MatchAlreadyActive | InvalidTimeout | SnapshotNotFound | VestingNotExpired
  | AlreadyClaimed | DisputeNotFound | PendingResultNotFound | DisputeAlreadyResolved
  | VotingPeriodElapsed | AlreadyVoted | NotStaker | VotingPeriodNotElapsed
  | MatchNotInPendingResult | DisputePeriodNotElapsed | DisputeAlreadyRaised
  | InvalidEvidenceHash | TierStakeNotAllowed | NotInitialized | InvalidPauseState
  | ConversionRateOutOfBounds | ConversionRateStalePriceSource | InsufficientBond | QuorumNotMet
  | InsufficientHoldingDuration | TooManyActiveMatches | NotStablecoin | UpgradeNotScheduled
  | UpgradeReviewPeriodNotElapsed | InvalidVersion | UpgradeAlreadyScheduled
  | OracleAlreadyConfirmed | ConflictingResult | NotAnOracle | DepositInProgress
  | DisputeFallbackNotElapsed | ConfigValueTooHigh | UpgradeNotConfirmed
  | RecoveryTimelockNotElapsed

section \<open>Enumerations\<close>

datatype match_state = Pending | Active | PendingResult | Completed | Cancelled | Paused

datatype platform = Lichess | ChessDotCom

datatype winner = NoWinner | Player1 | Player2 | Draw

datatype player_tier = Bronze | Silver | Gold | Platinum

datatype snapshot_reason =
    SnapCreated | SnapDeposit | SnapPaused | SnapResumed | SnapCompleted | SnapCancelled
  | SnapResultSubmitted | SnapFinalized

datatype dispute_state = DisputeActive | Upheld | Overturned | ResolvedUpheld | ResolvedOverturned

datatype balance_at_timestamp = Known i128 | NoHistory | Pruned

section \<open>Configuration\<close>

record pending_admin_proposal =
  pa_proposer :: address
  pa_pending_admin :: address

record fee_config =
  fc_protocol_fee_bps :: u32
  fc_fee_recipient :: address
  fc_cancellation_fee_basis_points :: u32
  fc_max_protocol_fee :: "i128 option"

record timeout_config =
  tc_match_timeout_seconds :: u64
  tc_vesting_duration_seconds :: u64

record dispute_bond_tier =
  bt_max_stake :: i128
  bt_bond_basis_points :: u32

record stake_config =
  sc_minimum_stake :: i128
  sc_maximum_stake :: "i128 option"
  sc_stablecoin_only_mode :: bool
  sc_dispute_bond_tier_schedule :: "dispute_bond_tier list"

record protocol_config =
  pc_treasury :: address
  pc_fees :: fee_config
  pc_timeouts :: timeout_config
  pc_stakes :: stake_config

record fee_tier =
  ft_max_stake :: i128
  ft_fee_basis_points :: u32

section \<open>Matches, snapshots, disputes, statistics\<close>

record match_rec =
  m_id :: u64
  m_player1 :: address
  m_player2 :: address
  m_stake_amount :: i128
  m_token :: address
  m_game_id :: string
  m_platform :: platform
  m_state :: match_state
  m_player1_deposited :: bool
  m_player2_deposited :: bool
  m_created_ledger :: u32
  m_completed_ledger :: "u32 option"
  m_winner :: winner
  m_vested_at :: "u64 option"
  m_player1_claimed :: bool
  m_player2_claimed :: bool
  m_conversion_rate :: "i128 option"
  m_token_b :: "address option"
  m_conversion_rate_ledger :: "u32 option"
  m_paused_ledger :: "u32 option"
  m_paused_at_ledger :: "u32 option"
  m_total_pause_duration :: u32
  m_referrer :: "address option"
  m_last_heartbeat :: u64
  m_bracket_id :: "u64 option"
  m_activated_at :: "u64 option"
  m_rollback_vote_player1 :: bool
  m_rollback_vote_player2 :: bool
  m_round :: "u32 option"
  m_vesting_override_seconds :: "u64 option"

record balance_snapshot =
  bs_match_id :: u64
  bs_index :: u32
  bs_reason :: snapshot_reason
  bs_ledger :: u32
  bs_token :: address
  bs_token_symbol :: string
  bs_stake_amount :: i128
  bs_escrow_balance :: i128
  bs_player1_deposited :: bool
  bs_player2_deposited :: bool
  bs_nonce :: bytes
  bs_commitment :: bytes

record player_balance_snapshot =
  ps_player :: address
  ps_index :: u64
  ps_ledger :: u64
  ps_balance :: i128

record dispute_rec =
  d_id :: u64
  d_match_id :: u64
  d_disputer :: address
  d_created_ledger :: u32
  d_voting_deadline :: u32
  d_state :: dispute_state
  d_evidence_hash :: string
  d_uphold_votes :: u32
  d_overturn_votes :: u32
  d_yes_votes :: i128
  d_no_votes :: i128
  d_dispute_bond :: i128
  d_snapshot_ledger :: u32
  d_snapshot_total_weight :: i128
  d_quorum_threshold :: i128

record platform_stats =
  st_total_matches :: u64
  st_total_volume :: i128
  st_total_payouts :: u64

record player_stats =
  pl_total_matches :: u64
  pl_wins :: u64
  pl_losses :: u64
  pl_draws :: u64
  pl_total_volume_staked :: i128

record player_rating =
  pr_username :: string
  pr_rating :: u32
  pr_recorded_ledger :: u32

section \<open>Oracle rotation state\<close>

record temp_oracle_rotation =
  tr_old_oracle :: address
  tr_temp_oracle :: address
  tr_expiry :: u64

record pending_oracle_rotation =
  por_old_oracle :: address
  por_new_oracle :: address

record oracle_rotation_state =
  rs_temp_old_oracle :: "address option"
  rs_temp_new_oracle :: "address option"
  rs_temp_expiry :: "u64 option"
  rs_pending_old_oracle :: "address option"
  rs_pending_new_oracle :: "address option"

text \<open>\<^verbatim>\<open>#[derive(Default)]\<close>\<close>

definition rotation_default :: oracle_rotation_state where
  "rotation_default = \<lparr>rs_temp_old_oracle = None, rs_temp_new_oracle = None,
     rs_temp_expiry = None, rs_pending_old_oracle = None, rs_pending_new_oracle = None\<rparr>"

definition rotation_temp :: "oracle_rotation_state \<Rightarrow> temp_oracle_rotation option" where
  "rotation_temp st =
     (case (rs_temp_old_oracle st, rs_temp_new_oracle st, rs_temp_expiry st) of
        (Some old, Some new, Some expiry) \<Rightarrow>
          Some \<lparr>tr_old_oracle = old, tr_temp_oracle = new, tr_expiry = expiry\<rparr>
      | _ \<Rightarrow> None)"

definition rotation_set_temp ::
    "temp_oracle_rotation option \<Rightarrow> oracle_rotation_state \<Rightarrow> oracle_rotation_state" where
  "rotation_set_temp temp st =
     (case temp of
        Some t \<Rightarrow> st\<lparr>rs_temp_old_oracle := Some (tr_old_oracle t),
                    rs_temp_new_oracle := Some (tr_temp_oracle t),
                    rs_temp_expiry := Some (tr_expiry t)\<rparr>
      | None \<Rightarrow> st\<lparr>rs_temp_old_oracle := None, rs_temp_new_oracle := None,
                  rs_temp_expiry := None\<rparr>)"

definition rotation_pending :: "oracle_rotation_state \<Rightarrow> pending_oracle_rotation option" where
  "rotation_pending st =
     (case (rs_pending_old_oracle st, rs_pending_new_oracle st) of
        (Some old, Some new) \<Rightarrow> Some \<lparr>por_old_oracle = old, por_new_oracle = new\<rparr>
      | _ \<Rightarrow> None)"

definition rotation_set_pending ::
    "pending_oracle_rotation option \<Rightarrow> oracle_rotation_state \<Rightarrow> oracle_rotation_state" where
  "rotation_set_pending pending st =
     (case pending of
        Some p \<Rightarrow> st\<lparr>rs_pending_old_oracle := Some (por_old_oracle p),
                    rs_pending_new_oracle := Some (por_new_oracle p)\<rparr>
      | None \<Rightarrow> st\<lparr>rs_pending_old_oracle := None, rs_pending_new_oracle := None\<rparr>)"

definition rotation_is_empty :: "oracle_rotation_state \<Rightarrow> bool" where
  "rotation_is_empty st \<longleftrightarrow>
     rs_temp_old_oracle st = None \<and> rs_pending_old_oracle st = None"

lemmas rotation_defs =
  rotation_default_def rotation_temp_def rotation_set_temp_def rotation_pending_def
  rotation_set_pending_def rotation_is_empty_def

text \<open>The flattened fields behave as two independent optional records: what was set is
  read back, and setting one does not touch the other.\<close>

lemma rotation_temp_set_temp [simp]: "rotation_temp (rotation_set_temp t st) = t"
  by (auto simp: rotation_defs split: option.splits)

lemma rotation_pending_set_pending [simp]: "rotation_pending (rotation_set_pending p st) = p"
  by (auto simp: rotation_defs split: option.splits)

lemma rotation_pending_set_temp [simp]:
  "rotation_pending (rotation_set_temp t st) = rotation_pending st"
  by (simp add: rotation_defs split: option.splits)

lemma rotation_temp_set_pending [simp]:
  "rotation_temp (rotation_set_pending p st) = rotation_temp st"
  by (simp add: rotation_defs split: option.splits)

text \<open>The fields of a half are set or cleared together (\<open>rotation_wf\<close>) in every state the
  setters build; in such a state \<^verbatim>\<open>is_empty\<close> is the absence of both rotations.\<close>

definition rotation_wf :: "oracle_rotation_state \<Rightarrow> bool" where
  "rotation_wf st \<longleftrightarrow>
     (rs_temp_old_oracle st = None \<longleftrightarrow> rs_temp_new_oracle st = None) \<and>
     (rs_temp_old_oracle st = None \<longleftrightarrow> rs_temp_expiry st = None) \<and>
     (rs_pending_old_oracle st = None \<longleftrightarrow> rs_pending_new_oracle st = None)"

lemma rotation_wf_intros [simp]:
  "rotation_wf rotation_default"
  "rotation_wf st \<Longrightarrow> rotation_wf (rotation_set_temp t st)"
  "rotation_wf st \<Longrightarrow> rotation_wf (rotation_set_pending p st)"
  by (auto simp: rotation_wf_def rotation_defs split: option.splits)

lemma rotation_is_empty_iff:
  "rotation_wf st \<Longrightarrow>
     rotation_is_empty st \<longleftrightarrow> rotation_temp st = None \<and> rotation_pending st = None"
  by (auto simp: rotation_wf_def rotation_defs split: option.splits)

end
