(* ===== verification/Escrow_Storage.thy ===== *)
theory Escrow_Storage
  imports Escrow_Types
begin

text \<open>
  The world a call of the escrow contract runs in.

  \<^item> \<open>env\<close>: the host's context of one invocation, extended by the other parameters the
    escrow calls: the symbol of a token (\<open>token_symbol\<close>), the configured oracle
    (\<open>oracle_get_rate\<close>, \<open>oracle_swap_call\<close>), the host's PRNG and SHA-256.
  \<^item> \<open>escrow\<close>: the contract's storage, split as the host splits it into instance,
    persistent and temporary storage, with one field per variant of \<^verbatim>\<open>DataKey\<close> (and of
    the overflow key enums). A key without parameters is an \<open>option\<close>, a key with parameters
    a map. The published events are kept in order. Time-to-live bookkeeping
    (\<^verbatim>\<open>extend_ttl\<close>) is not modelled: entries do not expire.
\<close>

section \<open>The environment of an invocation\<close>

record 'w env = "'w host" +
  token_symbol :: "address \<Rightarrow> 'w \<Rightarrow> string option"
  oracle_get_rate :: "address \<Rightarrow> address \<Rightarrow> address \<Rightarrow> 'w \<Rightarrow> i128 option"
  oracle_swap_call :: "address \<Rightarrow> address \<Rightarrow> address \<Rightarrow> address \<Rightarrow> i128 \<Rightarrow> i128 \<Rightarrow> address \<Rightarrow> 'w \<Rightarrow> 'w option"
  prng_gen :: "nat \<Rightarrow> bytes"
  sha256 :: "bytes \<Rightarrow> bytes"

section \<open>Storage\<close>

record instance_storage =
  i_match_count :: "u64 option"
  i_oracle :: "address option"
  i_admin :: "address option"
  i_pending_admin :: "pending_admin_proposal option"
  i_paused :: "bool option"
  i_allowed_token :: "address \<Rightarrow> bool option"
  i_allowed_token_count :: "u32 option"
  i_allowlist_enforced :: "bool option"
  i_protocol_config :: "protocol_config option"
  i_dispute_period :: "u32 option"
  i_dispute_count :: "u64 option"
  i_dispute_bond_basis_points :: "u32 option"
  i_minimum_hold_duration :: "u32 option"
  i_quorum_basis_points :: "u32 option"
  i_stablecoin_issuer :: "address \<Rightarrow> bool option"
  i_stablecoin_issuer_count :: "u32 option"
  i_pending_upgrade_hash :: "bytes option"
  i_upgrade_scheduled_at :: "u32 option"
  i_contract_version :: "u32 option"
  i_referral_share_basis_points :: "u32 option"
  i_blacklisted_token :: "address \<Rightarrow> string option"
  i_approved_oracles :: "address list option"
  i_required_oracle_confirmations :: "u32 option"
  i_oracle_rotation :: "oracle_rotation_state option"
  i_frozen_player :: "address \<Rightarrow> string option"
  i_confirmed_by :: "address option"

record persistent_storage =
  p_match :: "u64 \<Rightarrow> match_rec option"
  p_game_id :: "string \<Rightarrow> bool option"
  p_player_matches :: "address \<Rightarrow> u64 list option"
  p_allowed_tokens :: "address list option"
  p_snapshot :: "u64 \<Rightarrow> u32 \<Rightarrow> balance_snapshot option"
  p_snapshot_count :: "u64 \<Rightarrow> u32 option"
  p_pending_winner :: "u64 \<Rightarrow> winner option"
  p_result_deadline :: "u64 \<Rightarrow> u32 option"
  p_dispute :: "u64 \<Rightarrow> dispute_rec option"
  p_dispute_vote :: "u64 \<Rightarrow> address \<Rightarrow> bool option"
  p_match_dispute :: "u64 \<Rightarrow> u64 option"
  p_player_balance_snapshot :: "address \<Rightarrow> u64 \<Rightarrow> player_balance_snapshot option"
  p_player_balance_snapshot_count :: "address \<Rightarrow> u64 option"
  p_dispute_vote_weight :: "u64 \<Rightarrow> address \<Rightarrow> i128 option"
  p_dispute_oracle :: "u64 \<Rightarrow> address option"
  p_active_match :: "address \<Rightarrow> u64 \<Rightarrow> bool option"
  p_player_active_match_count :: "address \<Rightarrow> u32 option"
  p_player_completed_match_count :: "address \<Rightarrow> u32 option"
  p_blacklisted_tokens :: "address list option"
  p_fee_tiers :: "fee_tier list option"
  p_player_preferred_token :: "address \<Rightarrow> address option"
  p_stats :: "platform_stats option"
  p_platform_stats :: "platform \<Rightarrow> platform_stats option"
  p_player_stats :: "address \<Rightarrow> player_stats option"
  p_oracle_record :: "u64 \<Rightarrow> string option"
  p_consensus_leading_winner :: "u64 \<Rightarrow> winner option"
  p_oracle_confirmations :: "u64 \<Rightarrow> u32 option"
  p_oracle_vote :: "u64 \<Rightarrow> address \<Rightarrow> winner option"
  p_bracket_matches :: "u64 \<Rightarrow> u64 list option"
  p_matches_by_state :: "match_state \<Rightarrow> u64 list option"
  p_bracket_organizer :: "u64 \<Rightarrow> address option"
  p_oracle_deadlock :: "u64 \<Rightarrow> bool option"
  p_frozen_players :: "address list option"
  p_rating :: "address \<Rightarrow> platform \<Rightarrow> player_rating option"
  p_token_symbol :: "address \<Rightarrow> string option"
  p_escrow_balance :: "address \<Rightarrow> i128 option"

section \<open>Events\<close>

datatype val =
    VAddr address | VNat nat | VInt int | VBool bool | VStr string | VBytes bytes
  | VState match_state | VStateOpt "match_state option" | VWinner winner
  | VDisputeState dispute_state | VPlatform platform | VIntOpt "int option"

record 'w escrow = "('w, val) hosted" +
  inst :: instance_storage
  pers :: persistent_storage
  t_deposit_in_progress :: "u64 \<Rightarrow> bool option"
  prng_draws :: nat
  current_wasm :: "bytes option"

type_synonym ('w, 'a) act = "('w escrow, error, 'a) action"

section \<open>Storage and host operations\<close>

definition upd_inst :: "(instance_storage \<Rightarrow> instance_storage) \<Rightarrow> ('w, unit) act" where
  "upd_inst f = modify (\<lambda>s. s\<lparr>inst := f (inst s)\<rparr>)"

definition upd_pers :: "(persistent_storage \<Rightarrow> persistent_storage) \<Rightarrow> ('w, unit) act" where
  "upd_pers f = modify (\<lambda>s. s\<lparr>pers := f (pers s)\<rparr>)"

text \<open>The load that opens every admin-only function:
  \<^verbatim>\<open>instance().get(&DataKey::Admin).ok_or(Error::Unauthorized)?\<close>\<close>

definition load_admin :: "('w, address) act" where
  "load_admin = bnd (gets (\<lambda>s. i_admin (inst s))) (\<lambda>a. ok_or a Unauthorized)"

text \<open>\<^verbatim>\<open>persistent().get(&DataKey::Match(id)).ok_or(Error::MatchNotFound)?\<close>\<close>

definition load_match :: "u64 \<Rightarrow> ('w, match_rec) act" where
  "load_match match_id = bnd (gets (\<lambda>s. p_match (pers s) match_id)) (\<lambda>m. ok_or m MatchNotFound)"

definition store_match :: "u64 \<Rightarrow> match_rec \<Rightarrow> ('w, unit) act" where
  "store_match match_id m = upd_pers (\<lambda>p. p\<lparr>p_match := (p_match p)(match_id \<mapsto> m)\<rparr>)"

abbreviation is_contract_paused :: "'w escrow \<Rightarrow> bool" where
  "is_contract_paused s \<equiv> unwrap_or (i_paused (inst s)) False"

lemma wp_upd_inst [wp_simps]: "wp (upd_inst f) Q E T s = Q () (s\<lparr>inst := f (inst s)\<rparr>)"
  by (simp add: upd_inst_def wp_simps)

lemma wp_upd_pers [wp_simps]: "wp (upd_pers f) Q E T s = Q () (s\<lparr>pers := f (pers s)\<rparr>)"
  by (simp add: upd_pers_def wp_simps)

lemma wp_load_admin [wp_simps]:
  "wp load_admin Q E T s = 
     ((i_admin (inst s) = None \<longrightarrow> E Unauthorized s) \<and> (\<forall>a. i_admin (inst s) = Some a \<longrightarrow> Q a s))"
  by (simp add: load_admin_def wp_simps)

lemma wp_load_match [wp_simps]:
  "wp (load_match i) Q E T s =
     ((p_match (pers s) i = None \<longrightarrow> E MatchNotFound s) \<and>
      (\<forall>m. p_match (pers s) i = Some m \<longrightarrow> Q m s))"
  by (simp add: load_match_def wp_simps)

lemma wp_store_match [wp_simps]:
  "wp (store_match i m) Q E T s =
     Q () (s\<lparr>pers := (pers s)\<lparr>p_match := (p_match (pers s))(i \<mapsto> m)\<rparr>\<rparr>)"
  by (simp add: store_match_def wp_simps)

lemma wp_case_winner [wp_simps]:
  "wp (case x of NoWinner \<Rightarrow> a | Player1 \<Rightarrow> b | Player2 \<Rightarrow> c | Draw \<Rightarrow> d) Q E T s =
     ((x = NoWinner \<longrightarrow> wp a Q E T s) \<and> (x = Player1 \<longrightarrow> wp b Q E T s) \<and>
      (x = Player2 \<longrightarrow> wp c Q E T s) \<and> (x = Draw \<longrightarrow> wp d Q E T s))"
  by (cases x) simp_all

lemma wp_case_platform [wp_simps]:
  "wp (case x of Lichess \<Rightarrow> a | ChessDotCom \<Rightarrow> b) Q E T s =
     ((x = Lichess \<longrightarrow> wp a Q E T s) \<and> (x = ChessDotCom \<longrightarrow> wp b Q E T s))"
  by (cases x) simp_all

lemma frame_storage [frame_rules]:
  "(\<And>s. f (s\<lparr>inst := g (inst s)\<rparr>) = f s) \<Longrightarrow> frame f (upd_inst g)"
  "(\<And>s. f (s\<lparr>pers := h (pers s)\<rparr>) = f s) \<Longrightarrow> frame f (upd_pers h)"
  "frame f load_admin" "frame f (load_match i)"
  by (auto simp: upd_inst_def upd_pers_def load_admin_def
      load_match_def intro!: frame_rules)

lemma frame_store_match [frame_rules]:
  "(\<And>s g. f (s\<lparr>pers := (pers s)\<lparr>p_match := g\<rparr>\<rparr>) = f s) \<Longrightarrow> frame f (store_match i m)"
  by (auto simp: store_match_def intro!: frame_rules)

lemma frame_case_winner [frame_rules]:
  "frame f a \<Longrightarrow> frame f b \<Longrightarrow> frame f c \<Longrightarrow> frame f d \<Longrightarrow>
     frame f (case x of NoWinner \<Rightarrow> a | Player1 \<Rightarrow> b | Player2 \<Rightarrow> c | Draw \<Rightarrow> d)"
  by (cases x) simp_all

lemma frame_case_platform [frame_rules]:
  "frame f a \<Longrightarrow> frame f b \<Longrightarrow> frame f (case x of Lichess \<Rightarrow> a | ChessDotCom \<Rightarrow> b)"
  by (cases x) simp_all

lemmas storage_run_defs [run_simps] =
  upd_inst_def upd_pers_def load_admin_def load_match_def store_match_def

section \<open>The initial state\<close>

text \<open>A freshly deployed contract: empty storage. The witnesses start from it.\<close>

definition empty_instance :: instance_storage where
  "empty_instance = \<lparr>i_match_count = None, i_oracle = None, i_admin = None,
     i_pending_admin = None, i_paused = None, i_allowed_token = Map.empty,
     i_allowed_token_count = None, i_allowlist_enforced = None, i_protocol_config = None,
     i_dispute_period = None, i_dispute_count = None, i_dispute_bond_basis_points = None,
     i_minimum_hold_duration = None, i_quorum_basis_points = None,
     i_stablecoin_issuer = Map.empty, i_stablecoin_issuer_count = None,
     i_pending_upgrade_hash = None, i_upgrade_scheduled_at = None, i_contract_version = None,
     i_referral_share_basis_points = None, i_blacklisted_token = Map.empty,
     i_approved_oracles = None, i_required_oracle_confirmations = None,
     i_oracle_rotation = None, i_frozen_player = Map.empty, i_confirmed_by = None\<rparr>"

definition empty_persistent :: persistent_storage where
  "empty_persistent = \<lparr>p_match = Map.empty, p_game_id = Map.empty, p_player_matches = Map.empty,
     p_allowed_tokens = None, p_snapshot = (\<lambda>_. Map.empty), p_snapshot_count = Map.empty,
     p_pending_winner = Map.empty, p_result_deadline = Map.empty, p_dispute = Map.empty,
     p_dispute_vote = (\<lambda>_. Map.empty), p_match_dispute = Map.empty,
     p_player_balance_snapshot = (\<lambda>_. Map.empty), p_player_balance_snapshot_count = Map.empty,
     p_dispute_vote_weight = (\<lambda>_. Map.empty), p_dispute_oracle = Map.empty,
     p_active_match = (\<lambda>_. Map.empty), p_player_active_match_count = Map.empty,
     p_player_completed_match_count = Map.empty, p_blacklisted_tokens = None,
     p_fee_tiers = None, p_player_preferred_token = Map.empty, p_stats = None,
     p_platform_stats = Map.empty, p_player_stats = Map.empty, p_oracle_record = Map.empty,
     p_consensus_leading_winner = Map.empty, p_oracle_confirmations = Map.empty,
     p_oracle_vote = (\<lambda>_. Map.empty), p_bracket_matches = Map.empty,
     p_matches_by_state = Map.empty, p_bracket_organizer = Map.empty,
     p_oracle_deadlock = Map.empty, p_frozen_players = None, p_rating = (\<lambda>_. Map.empty),
     p_token_symbol = Map.empty, p_escrow_balance = Map.empty\<rparr>"

definition deployed :: "'w \<Rightarrow> 'w escrow" where
  "deployed w = \<lparr>world = w, events = [], inst = empty_instance, pers = empty_persistent,
     t_deposit_in_progress = Map.empty, prng_draws = 0, current_wasm = None\<rparr>"

section \<open>A ledger as the environment\<close>

definition ledger_env :: "address \<Rightarrow> u32 \<Rightarrow> u64 \<Rightarrow> (address \<Rightarrow> bool) \<Rightarrow> ledger env" where
  "ledger_env self seq now auth = \<lparr>current_contract_address = self, ledger_sequence = seq,
     ledger_timestamp = now, authorized = auth, token_transfer = ledger_transfer,
     token_balance = (\<lambda>t a w. Some (w t a)), token_symbol = (\<lambda>_ _. None),
     oracle_get_rate = (\<lambda>_ _ _ _. Some 10000000),
     oracle_swap_call = (\<lambda>_ self tin tout ain mout to w. None),
     prng_gen = (\<lambda>n. [n]), sha256 = (\<lambda>x. x)\<rparr>"

lemma sep41_ledger_env [simp]: "sep41 (ledger_env self seq now auth) (\<lambda>w. w)"
  by (simp add: sep41_ledger_transfer ledger_env_def)

end
