(* ===== verification/Escrow_Config.thy ===== *)
theory Escrow_Config
  imports Escrow_Storage
begin

text \<open>
  Initialization, the contract-wide pause, the protocol configuration and the parameters an
  admin sets, and the fee formulas that read them (contracts/escrow/src/lib.rs). The tier
  schedules of the protocol fee and of the dispute bond share one contract, the locale
  \<open>tier_schedule\<close>, interpreted on both.
\<close>

section \<open>Constants\<close>

definition DEFAULT_MATCH_TIMEOUT_SECONDS :: u64 where "DEFAULT_MATCH_TIMEOUT_SECONDS = 2592000"
definition MIN_MATCH_TIMEOUT_SECONDS :: u64 where "MIN_MATCH_TIMEOUT_SECONDS = 86400"
definition MAX_MATCH_TIMEOUT_SECONDS :: u64 where "MAX_MATCH_TIMEOUT_SECONDS = 7776000"
definition SECONDS_PER_LEDGER :: u64 where "SECONDS_PER_LEDGER = 5"
definition DEFAULT_DISPUTE_BOND_BASIS_POINTS :: u32 where "DEFAULT_DISPUTE_BOND_BASIS_POINTS = 100"
definition DEFAULT_MINIMUM_HOLD_DURATION :: u32 where "DEFAULT_MINIMUM_HOLD_DURATION = 100"
definition DEFAULT_QUORUM_BASIS_POINTS :: u32 where "DEFAULT_QUORUM_BASIS_POINTS = 2000"
definition DEFAULT_MINIMUM_STAKE :: i128 where "DEFAULT_MINIMUM_STAKE = 1"
definition CONTRACT_VERSION :: u32 where "CONTRACT_VERSION = 1000"

lemmas config_consts =
  DEFAULT_MATCH_TIMEOUT_SECONDS_def MIN_MATCH_TIMEOUT_SECONDS_def MAX_MATCH_TIMEOUT_SECONDS_def
  SECONDS_PER_LEDGER_def DEFAULT_DISPUTE_BOND_BASIS_POINTS_def DEFAULT_MINIMUM_HOLD_DURATION_def
  DEFAULT_QUORUM_BASIS_POINTS_def DEFAULT_MINIMUM_STAKE_def CONTRACT_VERSION_def

section \<open>The admin preamble\<close>

text \<open>Every admin-only entry point opens with
  \<^verbatim>\<open>let admin = instance().get(&DataKey::Admin).ok_or(Error::Unauthorized)?;
  admin.require_auth();\<close>\<close>

definition admin_only :: "'w env \<Rightarrow> (address \<Rightarrow> ('w, 'a) act) \<Rightarrow> ('w, 'a) act" where
  "admin_only env body = bnd load_admin (\<lambda>admin. bnd (require_auth env admin) (\<lambda>_. body admin))"

lemma wp_admin_only [wp_simps]:
  "wp (admin_only env body) Q E T s =
     ((i_admin (inst s) = None \<longrightarrow> E Unauthorized s) \<and>
      (\<forall>admin. i_admin (inst s) = Some admin \<longrightarrow>
        (authorized env admin \<longrightarrow> wp (body admin) Q E T s) \<and> (\<not> authorized env admin \<longrightarrow> T)))"
  by (simp add: admin_only_def wp_simps)

lemma admin_only_ok:
  assumes "admin_only env body s = (Ok a, s')"
  obtains admin where "i_admin (inst s) = Some admin" "authorized env admin"
    "body admin s = (Ok a, s')"
  using assms
  by (auto simp: admin_only_def run_simps split: option.splits if_splits)

text \<open>\<^verbatim>\<open>caller.require_auth(); let admin = ...; if caller != admin { return
  Err(Error::Unauthorized) }\<close>\<close>

definition caller_is_admin :: "'w env \<Rightarrow> address \<Rightarrow> ('w, unit) act" where
  "caller_is_admin env caller =
     seqs [require_auth env caller,
           bnd load_admin (\<lambda>admin. reject_if (caller \<noteq> admin) Unauthorized)]"

lemma wp_caller_is_admin [wp_simps]:
  "wp (caller_is_admin env caller) Q E T s =
     ((authorized env caller \<longrightarrow>
         (i_admin (inst s) = Some caller \<longrightarrow> Q () s) \<and>
         (i_admin (inst s) \<noteq> Some caller \<longrightarrow> E Unauthorized s)) \<and>
      (\<not> authorized env caller \<longrightarrow> T))"
  by (cases "i_admin (inst s)") (auto simp: caller_is_admin_def wp_simps)

section \<open>Initialization and pause\<close>

definition initialize :: "'w env \<Rightarrow> address \<Rightarrow> address \<Rightarrow> ('w, unit) act" where
  "initialize env oracle admin =
     bnd (gets (\<lambda>s. i_oracle (inst s) \<noteq> None)) (\<lambda>has_oracle.
     seqs [reject_if has_oracle AlreadyInitialized,
       reject_if (oracle = current_contract_address env) InvalidAddress,
       upd_inst (\<lambda>i. i\<lparr>i_oracle := Some oracle, i_admin := Some admin,
         i_match_count := Some 0, i_paused := Some False, i_allowlist_enforced := Some False,
         i_allowed_token_count := Some 0,
         i_dispute_bond_basis_points := Some DEFAULT_DISPUTE_BOND_BASIS_POINTS,
         i_minimum_hold_duration := Some DEFAULT_MINIMUM_HOLD_DURATION,
         i_quorum_basis_points := Some DEFAULT_QUORUM_BASIS_POINTS,
         i_contract_version := Some CONTRACT_VERSION\<rparr>),
       publish ''escrow'' ''init'' [VAddr oracle, VAddr admin]])"

definition pause :: "'w env \<Rightarrow> address \<Rightarrow> ('w, unit) act" where
  "pause env caller =
     bnd (caller_is_admin env caller) (\<lambda>_.
     bnd (gets is_contract_paused) (\<lambda>already_paused.
     seqs [reject_if already_paused InvalidPauseState,
       upd_inst (\<lambda>i. i\<lparr>i_paused := Some True\<rparr>),
       publish ''admin'' ''paused'' []]))"

definition unpause :: "'w env \<Rightarrow> address \<Rightarrow> ('w, unit) act" where
  "unpause env caller =
     bnd (caller_is_admin env caller) (\<lambda>_.
     bnd (gets is_contract_paused) (\<lambda>already_paused.
     seqs [reject_if (\<not> already_paused) InvalidPauseState,
       upd_inst (\<lambda>i. i\<lparr>i_paused := Some False\<rparr>),
       publish ''admin'' ''unpaused'' []]))"

definition is_paused :: "'w escrow \<Rightarrow> bool" where
  "is_paused s = unwrap_or (i_paused (inst s)) False"

definition is_initialized :: "'w escrow \<Rightarrow> bool" where
  "is_initialized s \<longleftrightarrow> i_oracle (inst s) \<noteq> None"

section \<open>Protocol configuration\<close>

definition get_config :: "'w env \<Rightarrow> 'w escrow \<Rightarrow> protocol_config" where
  "get_config env s =
     (case i_protocol_config (inst s) of Some c \<Rightarrow> c
      | None \<Rightarrow>
         (let default_recipient = unwrap_or (i_admin (inst s)) (current_contract_address env)
          in \<lparr>pc_treasury = default_recipient,
              pc_fees = \<lparr>fc_protocol_fee_bps = 0, fc_fee_recipient = default_recipient,
                fc_cancellation_fee_basis_points = 0, fc_max_protocol_fee = None\<rparr>,
              pc_timeouts = \<lparr>tc_match_timeout_seconds = DEFAULT_MATCH_TIMEOUT_SECONDS,
                tc_vesting_duration_seconds = 259200\<rparr>,
              pc_stakes = \<lparr>sc_minimum_stake = DEFAULT_MINIMUM_STAKE, sc_maximum_stake = None,
                sc_stablecoin_only_mode = False, sc_dispute_bond_tier_schedule = []\<rparr>\<rparr>))"

text \<open>The validation loop over a schedule: \<open>prev\<close> is \<^verbatim>\<open>prev_max_stake\<close>.\<close>

fun bond_schedule_ok :: "i128 \<Rightarrow> dispute_bond_tier list \<Rightarrow> bool" where
  "bond_schedule_ok prev [] = True"
| "bond_schedule_ok prev (t # ts) =
     (if bt_max_stake t \<le> prev then False
      else if bt_bond_basis_points t > 10000 then False
      else bond_schedule_ok (bt_max_stake t) ts)"

definition set_protocol_config :: "'w env \<Rightarrow> protocol_config \<Rightarrow> ('w, unit) act" where
  "set_protocol_config env config = admin_only env (\<lambda>admin.
     bnd (gets (\<lambda>s. case i_protocol_config (inst s) of None \<Rightarrow> False
                   | Some c \<Rightarrow> sc_stablecoin_only_mode (pc_stakes c))) (\<lambda>old_mode.
     let fees = pc_fees config; timeouts = pc_timeouts config; stakes = pc_stakes config;
         new_mode = sc_stablecoin_only_mode stakes in
     seqs [
       reject_if (fc_protocol_fee_bps fees > 10000) InvalidAmount,
       reject_if (fc_cancellation_fee_basis_points fees > 10000) InvalidAmount,
       reject_if (\<not> (MIN_MATCH_TIMEOUT_SECONDS \<le> tc_match_timeout_seconds timeouts \<and>
                     tc_match_timeout_seconds timeouts \<le> MAX_MATCH_TIMEOUT_SECONDS)) InvalidAmount,
       reject_if (sc_minimum_stake stakes < 1) InvalidAmount,
       (case sc_maximum_stake stakes of None \<Rightarrow> ret ()
        | Some mx \<Rightarrow> reject_if (mx < sc_minimum_stake stakes) InvalidAmount),
       reject_if (\<not> bond_schedule_ok (-1) (sc_dispute_bond_tier_schedule stakes)) InvalidAmount,
       reject_if (pc_treasury config = current_contract_address env) InvalidAddress,
       reject_if (fc_fee_recipient fees = current_contract_address env) InvalidAddress,
       upd_inst (\<lambda>i. i\<lparr>i_protocol_config := Some config\<rparr>),
       only_if (old_mode \<noteq> new_mode)
         (publish ''escrow'' ''stablecoin_mode'' [VBool new_mode, VAddr admin]),
       publish ''admin'' ''protocol_config_set'' [VAddr admin]]))"

definition set_referral_share_bps :: "'w env \<Rightarrow> u32 \<Rightarrow> ('w, unit) act" where
  "set_referral_share_bps env basis_points = admin_only env (\<lambda>admin. seqs [
     reject_if (basis_points > 10000) InvalidAmount,
     upd_inst (\<lambda>i. i\<lparr>i_referral_share_basis_points := Some basis_points\<rparr>),
     publish ''admin'' ''ref_share'' [VNat basis_points, VAddr admin]])"

definition get_referral_share_bps :: "'w escrow \<Rightarrow> u32" where
  "get_referral_share_bps s = unwrap_or (i_referral_share_basis_points (inst s)) 2000"

definition set_minimum_stake :: "'w env \<Rightarrow> i128 \<Rightarrow> ('w, unit) act" where
  "set_minimum_stake env amount = admin_only env (\<lambda>_.
     bnd (reject_if (amount < 1) InvalidAmount) (\<lambda>_.
     bnd (gets (get_config env)) (\<lambda>config. seqs [
       upd_inst (\<lambda>i. i\<lparr>i_protocol_config :=
         Some (config\<lparr>pc_stakes := (pc_stakes config)\<lparr>sc_minimum_stake := amount\<rparr>\<rparr>)\<rparr>),
       publish ''admin'' ''min_stake'' [VInt amount]])))"

definition set_maximum_stake :: "'w env \<Rightarrow> i128 option \<Rightarrow> ('w, unit) act" where
  "set_maximum_stake env amount = admin_only env (\<lambda>_.
     bnd (case amount of None \<Rightarrow> ret () | Some mx \<Rightarrow> reject_if (mx \<le> 0) InvalidAmount) (\<lambda>_.
     bnd (gets (get_config env)) (\<lambda>config. seqs [
       upd_inst (\<lambda>i. i\<lparr>i_protocol_config :=
         Some (config\<lparr>pc_stakes := (pc_stakes config)\<lparr>sc_maximum_stake := amount\<rparr>\<rparr>)\<rparr>),
       publish ''admin'' ''max_stake'' [VIntOpt amount]])))"

definition set_match_timeout :: "'w env \<Rightarrow> u64 \<Rightarrow> ('w, unit) act" where
  "set_match_timeout env seconds = admin_only env (\<lambda>_.
     bnd (reject_if (\<not> (MIN_MATCH_TIMEOUT_SECONDS \<le> seconds \<and>
                        seconds \<le> MAX_MATCH_TIMEOUT_SECONDS)) InvalidTimeout) (\<lambda>_.
     bnd (gets (get_config env)) (\<lambda>config. seqs [
       upd_inst (\<lambda>i. i\<lparr>i_protocol_config :=
         Some (config\<lparr>pc_timeouts := (pc_timeouts config)\<lparr>tc_match_timeout_seconds := seconds\<rparr>\<rparr>)\<rparr>),
       publish ''admin'' ''timeout''
         [VNat (tc_match_timeout_seconds (pc_timeouts config)), VNat seconds]])))"

definition get_match_timeout :: "'w env \<Rightarrow> 'w escrow \<Rightarrow> u64" where
  "get_match_timeout env s = tc_match_timeout_seconds (pc_timeouts (get_config env s))"

text \<open>The timeout in ledgers, rounded up. \<open>None\<close> is the overflow panic of the \<^verbatim>\<open>u64\<close>
  addition; the cast to \<^verbatim>\<open>u32\<close> truncates.\<close>

definition current_match_timeout :: "'w env \<Rightarrow> 'w escrow \<Rightarrow> u32 option" where
  "current_match_timeout env s =
     (let seconds = tc_match_timeout_seconds (pc_timeouts (get_config env s))
      in if seconds + SECONDS_PER_LEDGER > u64_max then None
         else Some ((seconds + SECONDS_PER_LEDGER - 1) div SECONDS_PER_LEDGER mod (u32_max + 1)))"

definition set_dispute_period :: "'w env \<Rightarrow> u32 \<Rightarrow> ('w, unit) act" where
  "set_dispute_period env period = admin_only env (\<lambda>_. seqs [
     upd_inst (\<lambda>i. i\<lparr>i_dispute_period := Some period\<rparr>),
     publish ''admin'' ''dispute_period'' [VNat period]])"

definition get_dispute_period :: "'w escrow \<Rightarrow> u32" where
  "get_dispute_period s = unwrap_or (i_dispute_period (inst s)) 0"

definition set_dispute_bond_basis_points :: "'w env \<Rightarrow> u32 \<Rightarrow> ('w, unit) act" where
  "set_dispute_bond_basis_points env basis_points = admin_only env (\<lambda>_. seqs [
     reject_if (basis_points = 0 \<or> basis_points > 10000) InvalidAmount,
     upd_inst (\<lambda>i. i\<lparr>i_dispute_bond_basis_points := Some basis_points\<rparr>),
     publish ''admin'' ''dispute_bond'' [VNat basis_points]])"

definition set_minimum_hold_duration :: "'w env \<Rightarrow> u32 \<Rightarrow> ('w, unit) act" where
  "set_minimum_hold_duration env duration = admin_only env (\<lambda>_. seqs [
     upd_inst (\<lambda>i. i\<lparr>i_minimum_hold_duration := Some duration\<rparr>),
     publish ''admin'' ''min_hold_duration'' [VNat duration]])"

definition set_quorum_basis_points :: "'w env \<Rightarrow> u32 \<Rightarrow> ('w, unit) act" where
  "set_quorum_basis_points env basis_points = admin_only env (\<lambda>_. seqs [
     reject_if (basis_points = 0 \<or> basis_points > 10000) InvalidAmount,
     upd_inst (\<lambda>i. i\<lparr>i_quorum_basis_points := Some basis_points\<rparr>),
     publish ''admin'' ''quorum_basis_points'' [VNat basis_points]])"

definition get_dispute_bond_basis_points :: "'w escrow \<Rightarrow> u32" where
  "get_dispute_bond_basis_points s =
     unwrap_or (i_dispute_bond_basis_points (inst s)) DEFAULT_DISPUTE_BOND_BASIS_POINTS"

definition get_minimum_hold_duration :: "'w escrow \<Rightarrow> u32" where
  "get_minimum_hold_duration s =
     unwrap_or (i_minimum_hold_duration (inst s)) DEFAULT_MINIMUM_HOLD_DURATION"

definition get_quorum_basis_points :: "'w escrow \<Rightarrow> u32" where
  "get_quorum_basis_points s =
     unwrap_or (i_quorum_basis_points (inst s)) DEFAULT_QUORUM_BASIS_POINTS"

definition set_preferred_payout_token ::
    "'w env \<Rightarrow> address \<Rightarrow> address option \<Rightarrow> ('w, unit) act" where
  "set_preferred_payout_token env player token_address = seqs [
     require_auth env player,
     upd_pers (\<lambda>p. p\<lparr>p_player_preferred_token :=
       (p_player_preferred_token p)(player := token_address)\<rparr>)]"

definition get_preferred_payout_token :: "address \<Rightarrow> 'w escrow \<Rightarrow> address option" where
  "get_preferred_payout_token player s = p_player_preferred_token (pers s) player"

section \<open>Fee tiers and fees\<close>

fun fee_tiers_ok :: "i128 \<Rightarrow> fee_tier list \<Rightarrow> bool" where
  "fee_tiers_ok prev [] = True"
| "fee_tiers_ok prev (t # ts) =
     (if ft_max_stake t \<le> prev then False
      else if ft_fee_basis_points t > 10000 then False
      else fee_tiers_ok (ft_max_stake t) ts)"

definition set_fee_tiers :: "'w env \<Rightarrow> fee_tier list \<Rightarrow> ('w, unit) act" where
  "set_fee_tiers env tiers = admin_only env (\<lambda>admin. seqs [
     reject_if (\<not> fee_tiers_ok (-1) tiers) InvalidAmount,
     upd_pers (\<lambda>p. p\<lparr>p_fee_tiers := Some tiers\<rparr>),
     publish ''admin'' ''fee_tiers_set'' [VNat (length tiers), VAddr admin]])"

definition get_fee_tiers :: "'w escrow \<Rightarrow> fee_tier list" where
  "get_fee_tiers s = unwrap_or (p_fee_tiers (pers s)) []"

text \<open>The first tier whose \<^verbatim>\<open>max_stake\<close> covers the stake, else the last one.\<close>

definition select_fee_bps :: "fee_tier list \<Rightarrow> i128 \<Rightarrow> u32" where
  "select_fee_bps tiers stake =
     (case find (\<lambda>t. stake \<le> ft_max_stake t) tiers of
        Some t \<Rightarrow> ft_fee_basis_points t
      | None \<Rightarrow> if tiers = [] then 0 else ft_fee_basis_points (last tiers))"

definition compute_tiered_fee :: "i128 \<Rightarrow> ('w, i128) act" where
  "compute_tiered_fee stake_amount =
     bnd (gets (\<lambda>s. unwrap_or (p_fee_tiers (pers s)) [])) (\<lambda>tiers.
     if tiers = [] then ret 0
     else let selected_bps = select_fee_bps tiers stake_amount in
       bnd (ok_or (checked_mul stake_amount 2) Overflow) (\<lambda>pot.
       bnd (ok_or (checked_mul pot (int selected_bps)) Overflow) (\<lambda>x.
       ok_or (checked_div x 10000) Overflow)))"

definition select_bond_bps :: "dispute_bond_tier list \<Rightarrow> i128 \<Rightarrow> u32" where
  "select_bond_bps schedule stake =
     (case find (\<lambda>t. stake \<le> bt_max_stake t) schedule of
        Some t \<Rightarrow> bt_bond_basis_points t
      | None \<Rightarrow> if schedule = [] then 0 else bt_bond_basis_points (last schedule))"

definition dispute_bond_basis_points_for :: "'w env \<Rightarrow> i128 \<Rightarrow> 'w escrow \<Rightarrow> u32" where
  "dispute_bond_basis_points_for env stake_amount s =
     (let schedule = sc_dispute_bond_tier_schedule (pc_stakes (get_config env s))
      in if schedule \<noteq> [] then select_bond_bps schedule stake_amount
         else unwrap_or (i_dispute_bond_basis_points (inst s)) DEFAULT_DISPUTE_BOND_BASIS_POINTS)"

definition compute_referral_fee :: "'w env \<Rightarrow> match_rec \<Rightarrow> i128 \<Rightarrow> ('w, i128) act" where
  "compute_referral_fee env m pot =
     (if m_referrer m = None then ret 0
      else bnd (gets (get_config env)) (\<lambda>config.
        if fc_cancellation_fee_basis_points (pc_fees config) = 0 then ret 0
        else
          bnd (ok_or (checked_mul pot (int (fc_cancellation_fee_basis_points (pc_fees config))))
                 Overflow) (\<lambda>x.
          let platform_fee = x sdiv 10000 in
          bnd (gets get_referral_share_bps) (\<lambda>referral_share_bps.
          bnd (ok_or (checked_mul platform_fee (int referral_share_bps)) Overflow) (\<lambda>y.
          ret (y sdiv 10000))))))"

definition compute_protocol_fee :: "'w env \<Rightarrow> i128 \<Rightarrow> ('w, i128) act" where
  "compute_protocol_fee env pot =
     bnd (gets (get_config env)) (\<lambda>config.
     if fc_protocol_fee_bps (pc_fees config) = 0 then ret 0
     else
       bnd (ok_or (checked_mul pot (int (fc_protocol_fee_bps (pc_fees config)))) Overflow) (\<lambda>x.
       let fee = x sdiv 10000 in
       ret (case fc_max_protocol_fee (pc_fees config) of
              Some cap \<Rightarrow> min fee cap | None \<Rightarrow> fee)))"

text \<open>The vesting duration of a match, with its per-match override.\<close>

definition resolve_vesting_duration :: "'w env \<Rightarrow> match_rec \<Rightarrow> 'w escrow \<Rightarrow> u64" where
  "resolve_vesting_duration env m s =
     unwrap_or (m_vesting_override_seconds m)
       (tc_vesting_duration_seconds (pc_timeouts (get_config env s)))"

section \<open>Tier schedules\<close>

text \<open>The contract of a validated schedule and of the lookup in it.\<close>

locale tier_schedule =
  fixes max_stake :: "'t \<Rightarrow> int"
    and bps :: "'t \<Rightarrow> nat"
    and valid :: "int \<Rightarrow> 't list \<Rightarrow> bool"
    and select :: "'t list \<Rightarrow> int \<Rightarrow> nat"
  assumes valid_Nil: "valid prev []"
    and valid_Cons: "valid prev (t # ts) \<longleftrightarrow>
      prev < max_stake t \<and> bps t \<le> 10000 \<and> valid (max_stake t) ts"
    and select_hit: "stake \<le> max_stake t \<Longrightarrow> select (t # ts) stake = bps t"
    and select_miss: "max_stake t < stake \<Longrightarrow> ts \<noteq> [] \<Longrightarrow> select (t # ts) stake = select ts stake"
    and select_last: "select [t] stake = bps t"
begin

lemma valid_above: "valid prev ts \<Longrightarrow> t \<in> set ts \<Longrightarrow> prev < max_stake t"
  by (induction ts arbitrary: prev) (fastforce simp: valid_Cons)+

lemma valid_sorted: "valid prev ts \<Longrightarrow> sorted_wrt (<) (map max_stake ts)"
  by (induction ts arbitrary: prev) (auto simp: valid_Cons dest: valid_above)

lemma valid_bps: "valid prev ts \<Longrightarrow> t \<in> set ts \<Longrightarrow> bps t \<le> 10000"
  by (induction ts arbitrary: prev) (auto simp: valid_Cons)

lemma select_in: "ts \<noteq> [] \<Longrightarrow> \<exists>t \<in> set ts. select ts stake = bps t"
proof (induction ts)
  case (Cons t ts)
  show ?case
    by (cases "stake \<le> max_stake t \<or> ts = []")
      (use Cons.IH in \<open>auto simp: select_hit select_miss select_last\<close>)
qed simp

lemma select_le: "valid prev ts \<Longrightarrow> ts \<noteq> [] \<Longrightarrow> select ts stake \<le> 10000"
  using select_in valid_bps by metis

lemma select_bracket:
  assumes "i < length ts" "stake \<le> max_stake (ts ! i)" "\<forall>j < i. max_stake (ts ! j) < stake"
  shows "select ts stake = bps (ts ! i)"
  using assms
proof (induction ts arbitrary: i)
  case (Cons t ts)
  show ?case
  proof (cases i)
    case 0
    with Cons.prems show ?thesis by (simp add: select_hit)
  next
    case (Suc k)
    have "max_stake t < stake" using Cons.prems(3) Suc by force
    moreover have "\<forall>j < k. max_stake (ts ! j) < stake" using Cons.prems(3) Suc by force
    moreover have "ts \<noteq> []" using Cons.prems(1) Suc by auto
    ultimately show ?thesis
      using Cons.IH [of k] Cons.prems(1,2) Suc by (auto simp: select_miss)
  qed
qed simp

lemma select_catch_all:
  "ts \<noteq> [] \<Longrightarrow> \<forall>t \<in> set ts. max_stake t < stake \<Longrightarrow> select ts stake = bps (last ts)"
proof (induction ts)
  case (Cons t ts)
  then show ?case by (cases "ts = []") (auto simp: select_miss select_last)
qed simp

end

interpretation fee_schedule: tier_schedule ft_max_stake ft_fee_basis_points fee_tiers_ok select_fee_bps
  by unfold_locales (auto simp: select_fee_bps_def split: option.splits)

interpretation bond_schedule: tier_schedule bt_max_stake bt_bond_basis_points bond_schedule_ok select_bond_bps
  by unfold_locales (auto simp: select_bond_bps_def split: option.splits)

section \<open>The configuration invariant\<close>

text \<open>What the validation guards establish about a stored configuration.\<close>

definition config_ok :: "protocol_config \<Rightarrow> bool" where
  "config_ok c \<longleftrightarrow>
     fc_protocol_fee_bps (pc_fees c) \<le> 10000 \<and>
     fc_cancellation_fee_basis_points (pc_fees c) \<le> 10000 \<and>
     MIN_MATCH_TIMEOUT_SECONDS \<le> tc_match_timeout_seconds (pc_timeouts c) \<and>
     tc_match_timeout_seconds (pc_timeouts c) \<le> MAX_MATCH_TIMEOUT_SECONDS \<and>
     1 \<le> sc_minimum_stake (pc_stakes c) \<and>
     (\<forall>mx. sc_maximum_stake (pc_stakes c) = Some mx \<longrightarrow> 0 < mx) \<and>
     bond_schedule_ok (-1) (sc_dispute_bond_tier_schedule (pc_stakes c))"

text \<open>The stored configuration, the share of the referrer, the fee tiers and the dispute
  parameters are all within the bounds the setters check.\<close>

definition config_inv :: "'w escrow \<Rightarrow> bool" where
  "config_inv s \<longleftrightarrow>
     (\<forall>c. i_protocol_config (inst s) = Some c \<longrightarrow> config_ok c) \<and>
     get_referral_share_bps s \<le> 10000 \<and>
     fee_tiers_ok (-1) (get_fee_tiers s) \<and>
     0 < get_dispute_bond_basis_points s \<and> get_dispute_bond_basis_points s \<le> 10000 \<and>
     0 < get_quorum_basis_points s \<and> get_quorum_basis_points s \<le> 10000"

lemmas config_getters =
  get_referral_share_bps_def get_fee_tiers_def get_dispute_bond_basis_points_def
  get_quorum_basis_points_def get_minimum_hold_duration_def get_dispute_period_def

lemma config_ok_get_config: "config_inv s \<Longrightarrow> config_ok (get_config env s)"
  by (auto simp: config_inv_def get_config_def config_ok_def Let_def config_consts
      split: option.split)

text \<open>The invariant reads only these fields, so an action that keeps them keeps it.\<close>

lemma config_inv_frame:
  assumes "config_inv s"
    and "i_protocol_config (inst s') = i_protocol_config (inst s)"
    and "i_referral_share_basis_points (inst s') = i_referral_share_basis_points (inst s)"
    and "i_dispute_bond_basis_points (inst s') = i_dispute_bond_basis_points (inst s)"
    and "i_quorum_basis_points (inst s') = i_quorum_basis_points (inst s)"
    and "p_fee_tiers (pers s') = p_fee_tiers (pers s)"
  shows "config_inv s'"
  using assms by (simp add: config_inv_def config_getters)

lemma config_inv_deployed: "config_inv (deployed w)"
  by (simp add: config_inv_def deployed_def empty_instance_def empty_persistent_def
      config_getters config_consts)

named_theorems config_steps "the entry points that keep the configuration invariant"

lemma initialize_config [config_steps]:
  "config_inv s \<Longrightarrow> wp (initialize env oracle admin) (\<lambda>_. config_inv) (\<lambda>_ _. True) True s"
  by (auto simp: initialize_def wp_simps config_inv_def config_getters config_consts)

lemma set_protocol_config_config [config_steps]:
  "config_inv s \<Longrightarrow> wp (set_protocol_config env c) (\<lambda>_. config_inv) (\<lambda>_ _. True) True s"
  by (auto simp: set_protocol_config_def wp_simps config_inv_def config_getters config_ok_def Let_def
      split: option.splits)

lemma set_referral_share_bps_config [config_steps]:
  "config_inv s \<Longrightarrow> wp (set_referral_share_bps env b) (\<lambda>_. config_inv) (\<lambda>_ _. True) True s"
  by (auto simp: set_referral_share_bps_def wp_simps config_inv_def config_getters split: option.splits)

lemma config_ok_update:
  assumes "config_ok c"
  shows "1 \<le> a \<Longrightarrow> config_ok (c\<lparr>pc_stakes := (pc_stakes c)\<lparr>sc_minimum_stake := a\<rparr>\<rparr>)"
    and "(\<And>mx. b = Some mx \<Longrightarrow> 0 < mx) \<Longrightarrow>
           config_ok (c\<lparr>pc_stakes := (pc_stakes c)\<lparr>sc_maximum_stake := b\<rparr>\<rparr>)"
    and "MIN_MATCH_TIMEOUT_SECONDS \<le> n \<Longrightarrow> n \<le> MAX_MATCH_TIMEOUT_SECONDS \<Longrightarrow>
           config_ok (c\<lparr>pc_timeouts := (pc_timeouts c)\<lparr>tc_match_timeout_seconds := n\<rparr>\<rparr>)"
  using assms by (simp_all add: config_ok_def)

lemma config_inv_store:
  "config_inv s \<Longrightarrow> config_ok c \<Longrightarrow>
     config_inv (s\<lparr>inst := (inst s)\<lparr>i_protocol_config := Some c\<rparr>, events := e\<rparr>)"
  by (simp add: config_inv_def config_getters)

lemma set_minimum_stake_config [config_steps]:
  "config_inv s \<Longrightarrow> wp (set_minimum_stake env a) (\<lambda>_. config_inv) (\<lambda>_ _. True) True s"
  by (auto simp: set_minimum_stake_def wp_simps split: option.split
      intro!: config_inv_store config_ok_update config_ok_get_config)

lemma set_maximum_stake_config [config_steps]:
  "config_inv s \<Longrightarrow> wp (set_maximum_stake env b) (\<lambda>_. config_inv) (\<lambda>_ _. True) True s"
  by (auto simp: set_maximum_stake_def wp_simps split: option.split
      intro!: config_inv_store config_ok_update config_ok_get_config)

lemma set_match_timeout_config [config_steps]:
  "config_inv s \<Longrightarrow> wp (set_match_timeout env n) (\<lambda>_. config_inv) (\<lambda>_ _. True) True s"
  by (auto simp: set_match_timeout_def wp_simps split: option.split
      intro!: config_inv_store config_ok_update config_ok_get_config)

lemma set_dispute_parameters_config [config_steps]:
  "config_inv s \<Longrightarrow> wp (set_dispute_period env p) (\<lambda>_. config_inv) (\<lambda>_ _. True) True s"
  "config_inv s \<Longrightarrow> wp (set_dispute_bond_basis_points env b) (\<lambda>_. config_inv) (\<lambda>_ _. True) True s"
  "config_inv s \<Longrightarrow> wp (set_minimum_hold_duration env p) (\<lambda>_. config_inv) (\<lambda>_ _. True) True s"
  "config_inv s \<Longrightarrow> wp (set_quorum_basis_points env b) (\<lambda>_. config_inv) (\<lambda>_ _. True) True s"
  by (auto simp: set_dispute_period_def set_dispute_bond_basis_points_def
      set_minimum_hold_duration_def set_quorum_basis_points_def wp_simps config_inv_def config_getters
      split: option.splits)

lemma set_fee_tiers_config [config_steps]:
  "config_inv s \<Longrightarrow> wp (set_fee_tiers env ts) (\<lambda>_. config_inv) (\<lambda>_ _. True) True s"
  by (auto simp: set_fee_tiers_def wp_simps config_inv_def config_getters split: option.splits)

section \<open>Consequences for timeouts and fees\<close>

text \<open>Under the invariant the timeout never panics and never truncates: it is the configured
  number of seconds in ledgers, rounded up, between one and ninety days.\<close>

lemma current_match_timeout_exact:
  fixes env :: "'w env" and s :: "'w escrow"
  assumes "config_inv s"
  defines "n \<equiv> get_match_timeout env s"
  shows "current_match_timeout env s = Some ((n + 4) div 5)"
    and "17280 \<le> (n + 4) div 5" and "(n + 4) div 5 \<le> 1555200" and "n \<le> 5 * ((n + 4) div 5)"
proof -
  have n: "86400 \<le> n" "n \<le> 7776000"
    using config_ok_get_config [OF assms(1), of env]
    by (simp_all add: n_def get_match_timeout_def config_ok_def config_consts)
  show "current_match_timeout env s = Some ((n + 4) div 5)"
    using n by (simp add: current_match_timeout_def Let_def config_consts u64_max_def u32_max_def
        n_def get_match_timeout_def)
  show "17280 \<le> (n + 4) div 5" "(n + 4) div 5 \<le> 1555200" "n \<le> 5 * ((n + 4) div 5)"
    using n by presburger+
qed

lemma compute_tiered_fee_ok:
  assumes "config_inv s" "0 \<le> stake" "20000 * stake \<le> i128_max" "get_fee_tiers s \<noteq> []"
  defines "fee \<equiv> 2 * stake * int (select_fee_bps (get_fee_tiers s) stake) div 10000"
  shows "compute_tiered_fee stake s = (Ok fee, s) \<and> 0 \<le> fee \<and> fee \<le> 2 * stake"
proof -
  let ?b = "int (select_fee_bps (get_fee_tiers s) stake)"
  have b: "0 \<le> ?b" "?b \<le> 10000"
    using assms(1,4) fee_schedule.select_le [of "-1" "get_fee_tiers s" stake]
    by (auto simp: config_inv_def)
  have p: "2 * stake * ?b \<le> 2 * stake * 10000" using assms(2) b by (intro mult_left_mono) auto
  moreover have "0 \<le> 2 * stake * ?b" using assms(2) b by simp
  ultimately have r: "in_i128 (2 * stake)" "in_i128 (2 * stake * ?b)"
    unfolding in_i128_def i128_min_def using assms(2,3) by linarith+
  moreover have "in_i128 (2 * stake * ?b div 10000)" using r(2) assms(2) b by (intro in_i128_div) auto
  ultimately have "compute_tiered_fee stake s = (Ok fee, s)"
    using assms(2,4) b
    by (simp add: compute_tiered_fee_def run_simps get_fee_tiers_def Let_def fee_def
        checked_mul_def checked_div_def to_i128_def mult.commute [of stake] sdiv_nonneg in_i128_div)
  with bps_share_bounds [of "2 * stake" ?b] assms(2) b show ?thesis by (simp add: fee_def)
qed

text \<open>The fees never write storage, and under the invariant the referral fee of a
  non-negative pot stays within it.\<close>

lemma compute_referral_fee_bounds:
  assumes "config_inv s" "0 \<le> pot" "compute_referral_fee env m pot s = (Ok fee, s')"
  shows "s' = s" "0 \<le> fee" "fee \<le> pot"
proof -
  define c r where "c = int (fc_cancellation_fee_basis_points (pc_fees (get_config env s)))"
    and "r = int (get_referral_share_bps s)"
  have cr: "0 \<le> c" "c \<le> 10000" "0 \<le> r" "r \<le> 10000"
    using assms(1) config_ok_get_config [OF assms(1), of env]
    by (auto simp: c_def r_def config_ok_def config_inv_def)
  have f: "0 \<le> pot * c div 10000" "pot * c div 10000 \<le> pot"
    "0 \<le> pot * c div 10000 * r div 10000"
    "pot * c div 10000 * r div 10000 \<le> pot * c div 10000"
    using bps_share_bounds [of pot c] bps_share_bounds [of "pot * c div 10000" r] assms(2) cr
    by auto
  have "s' = s \<and> (fee = 0 \<or> fee = pot * c div 10000 * r div 10000)"
    using assms(2,3) cr f
    by (auto simp: compute_referral_fee_def run_simps Let_def checked_mul_def to_i128_def
        bps_share_sdiv c_def r_def split: if_splits option.splits)
  with f assms(2) show "s' = s" "0 \<le> fee" "fee \<le> pot" by auto
qed

lemma compute_protocol_fee_value:
  fixes env :: "'w env" and s :: "'w escrow"
  assumes "0 \<le> pot" "compute_protocol_fee env pot s = (Ok fee, s')"
  defines "b \<equiv> int (fc_protocol_fee_bps (pc_fees (get_config env s)))"
  shows "s' = s \<and> fee = (if b = 0 then 0 else
     (case fc_max_protocol_fee (pc_fees (get_config env s)) of
        None \<Rightarrow> pot * b div 10000 | Some cap \<Rightarrow> min (pot * b div 10000) cap))"
  using assms(1,2)
  by (auto simp: compute_protocol_fee_def run_simps Let_def checked_mul_def to_i128_def
      bps_share_sdiv b_def split: if_splits option.splits)

end
