(* ===== verification/Escrow_Registry.thy ===== *)
theory Escrow_Registry
  imports Escrow_Config
begin

text \<open>
  The registries an admin maintains (contracts/escrow/src/lib.rs): the token allowlist, the
  stablecoin issuers, the token blacklist and the frozen players. Blacklist and freeze list are
  the same structure, a keyed entry with a reason in instance storage and an ordered list in
  persistent storage: the locale \<open>listed_registry\<close> states it and is interpreted on both.
\<close>

definition MAX_REASON_LEN :: u32 where "MAX_REASON_LEN = 256"

section \<open>Token allowlist\<close>

definition get_allowed_token_list :: "'w escrow \<Rightarrow> address list" where
  "get_allowed_token_list s = unwrap_or (p_allowed_tokens (pers s)) []"

definition set_allowed_token_list :: "address list \<Rightarrow> ('w, unit) act" where
  "set_allowed_token_list allowed_tokens =
     upd_pers (\<lambda>p. p\<lparr>p_allowed_tokens :=
       (if allowed_tokens = [] then None else Some allowed_tokens)\<rparr>)"

definition append_allowed_token :: "address \<Rightarrow> ('w, unit) act" where
  "append_allowed_token token =
     bnd (gets (\<lambda>s. unwrap_or (p_allowed_tokens (pers s)) [])) (\<lambda>allowed_tokens.
     only_if (\<not> list_ex (\<lambda>existing. existing = token) allowed_tokens)
       (set_allowed_token_list (allowed_tokens @ [token])))"

definition remove_allowed_token_from_list :: "address \<Rightarrow> ('w, unit) act" where
  "remove_allowed_token_from_list token =
     bnd (gets get_allowed_token_list) (\<lambda>allowed_tokens.
     if allowed_tokens = [] then ret ()
     else set_allowed_token_list (filter (\<lambda>existing. existing \<noteq> token) allowed_tokens))"

definition add_allowed_token :: "'w env \<Rightarrow> address \<Rightarrow> ('w, unit) act" where
  "add_allowed_token env token = admin_only env (\<lambda>admin.
     bnd (gets (\<lambda>s. unwrap_or (i_allowed_token (inst s) token) False)) (\<lambda>already_allowed.
     seqs [
       upd_inst (\<lambda>i. i\<lparr>i_allowed_token := (i_allowed_token i)(token \<mapsto> True)\<rparr>),
       (if \<not> already_allowed then
          bnd (gets (\<lambda>s. unwrap_or (i_allowed_token_count (inst s)) 0)) (\<lambda>count.
          bnd (ok_or (checked_add_u32 count 1) Overflow) (\<lambda>next_count.
          upd_inst (\<lambda>i. i\<lparr>i_allowed_token_count := Some next_count,
                          i_allowlist_enforced := Some True\<rparr>)))
        else upd_inst (\<lambda>i. i\<lparr>i_allowlist_enforced := Some True\<rparr>)),
       append_allowed_token token,
       publish ''admin'' ''token_add'' [VAddr token, VAddr admin]]))"

definition remove_allowed_token :: "'w env \<Rightarrow> address \<Rightarrow> ('w, unit) act" where
  "remove_allowed_token env token = admin_only env (\<lambda>admin.
     bnd (gets (\<lambda>s. i_allowed_token (inst s) token \<noteq> None)) (\<lambda>was_allowed.
     seqs [
       upd_inst (\<lambda>i. i\<lparr>i_allowed_token := (i_allowed_token i)(token := None)\<rparr>),
       only_if was_allowed (
          bnd (gets (\<lambda>s. unwrap_or (i_allowed_token_count (inst s)) 0)) (\<lambda>count.
          let next_count = saturating_sub count 1 in
          seqs [upd_inst (\<lambda>i. i\<lparr>i_allowed_token_count := Some next_count\<rparr>),
            only_if (next_count = 0) (upd_inst (\<lambda>i. i\<lparr>i_allowlist_enforced := Some False\<rparr>))])),
       remove_allowed_token_from_list token,
       publish ''admin'' ''tok_rm'' [VAddr token, VAddr admin]]))"

definition is_token_allowed :: "address \<Rightarrow> 'w escrow \<Rightarrow> bool" where
  "is_token_allowed token s = unwrap_or (i_allowed_token (inst s) token) False"

definition is_allowlist_enforced :: "'w escrow \<Rightarrow> bool" where
  "is_allowlist_enforced s = unwrap_or (i_allowlist_enforced (inst s)) False"

definition get_allowed_tokens_paginated :: "u32 \<Rightarrow> u32 \<Rightarrow> 'w escrow \<Rightarrow> address list" where
  "get_allowed_tokens_paginated offset limit s =
     (let all = get_allowed_token_list s; total = length all;
          start = min offset total; stop = min (saturating_add_u32 start limit) total
      in map (\<lambda>i. all ! i) [start..<stop])"

section \<open>Stablecoin issuers\<close>

definition add_stablecoin_issuer :: "'w env \<Rightarrow> address \<Rightarrow> ('w, unit) act" where
  "add_stablecoin_issuer env issuer = admin_only env (\<lambda>_.
     bnd (reject_if (issuer = current_contract_address env) InvalidAddress) (\<lambda>_.
     bnd (gets (\<lambda>s. unwrap_or (i_stablecoin_issuer (inst s) issuer) False)) (\<lambda>already_registered.
     seqs [
       upd_inst (\<lambda>i. i\<lparr>i_stablecoin_issuer := (i_stablecoin_issuer i)(issuer \<mapsto> True)\<rparr>),
       only_if (\<not> already_registered) (
          bnd (gets (\<lambda>s. unwrap_or (i_stablecoin_issuer_count (inst s)) 0)) (\<lambda>count.
          bnd (ok_or (checked_add_u32 count 1) Overflow) (\<lambda>next_count.
          upd_inst (\<lambda>i. i\<lparr>i_stablecoin_issuer_count := Some next_count\<rparr>)))),
       publish ''admin'' ''sc_issuer_add'' [VAddr issuer]])))"

definition remove_stablecoin_issuer :: "'w env \<Rightarrow> address \<Rightarrow> ('w, unit) act" where
  "remove_stablecoin_issuer env issuer = admin_only env (\<lambda>_.
     bnd (gets (\<lambda>s. unwrap_or (i_stablecoin_issuer (inst s) issuer) False)) (\<lambda>was_registered.
     only_if was_registered (
       bnd (upd_inst (\<lambda>i. i\<lparr>i_stablecoin_issuer := (i_stablecoin_issuer i)(issuer := None)\<rparr>)) (\<lambda>_.
       bnd (gets (\<lambda>s. unwrap_or (i_stablecoin_issuer_count (inst s)) 0)) (\<lambda>count.
       seqs [upd_inst (\<lambda>i. i\<lparr>i_stablecoin_issuer_count := Some (saturating_sub count 1)\<rparr>),
         publish ''admin'' ''sc_issuer_rm'' [VAddr issuer]])))))"

definition check_is_stablecoin :: "address \<Rightarrow> 'w escrow \<Rightarrow> bool" where
  "check_is_stablecoin token s = unwrap_or (i_stablecoin_issuer (inst s) token) False"

section \<open>Token blacklist\<close>

definition add_token_to_blacklist :: "'w env \<Rightarrow> address \<Rightarrow> string \<Rightarrow> ('w, unit) act" where
  "add_token_to_blacklist env token reason = admin_only env (\<lambda>admin.
     bnd (reject_if (reason = [] \<or> length reason > MAX_REASON_LEN) InvalidAmount) (\<lambda>_.
     bnd (gets (\<lambda>s. i_blacklisted_token (inst s) token = None)) (\<lambda>is_new.
     seqs [
       upd_inst (\<lambda>i. i\<lparr>i_blacklisted_token := (i_blacklisted_token i)(token \<mapsto> reason)\<rparr>),
       only_if is_new (upd_pers (\<lambda>p. p\<lparr>p_blacklisted_tokens :=
         Some (unwrap_or (p_blacklisted_tokens p) [] @ [token])\<rparr>)),
       publish ''admin'' ''tok_blacklist'' [VAddr token, VStr reason, VAddr admin]])))"

definition remove_token_from_blacklist :: "'w env \<Rightarrow> address \<Rightarrow> ('w, unit) act" where
  "remove_token_from_blacklist env token = admin_only env (\<lambda>_.
     bnd (gets (\<lambda>s. i_blacklisted_token (inst s) token \<noteq> None)) (\<lambda>was_blacklisted.
     only_if was_blacklisted (seqs [
       upd_inst (\<lambda>i. i\<lparr>i_blacklisted_token := (i_blacklisted_token i)(token := None)\<rparr>),
       upd_pers (\<lambda>p. p\<lparr>p_blacklisted_tokens :=
         map_option (filter (\<lambda>existing. existing \<noteq> token)) (p_blacklisted_tokens p)\<rparr>),
       publish ''admin'' ''tok_unblacklist'' [VAddr token]])))"

definition is_token_blacklisted :: "address \<Rightarrow> 'w escrow \<Rightarrow> bool" where
  "is_token_blacklisted token s \<longleftrightarrow> i_blacklisted_token (inst s) token \<noteq> None"

definition get_blacklist :: "'w escrow \<Rightarrow> address list" where
  "get_blacklist s = unwrap_or (p_blacklisted_tokens (pers s)) []"

section \<open>Frozen players\<close>

definition admin_freeze_player :: "'w env \<Rightarrow> address \<Rightarrow> string \<Rightarrow> ('w, unit) act" where
  "admin_freeze_player env player reason = admin_only env (\<lambda>_.
     bnd (reject_if (reason = [] \<or> length reason > MAX_REASON_LEN) InvalidAmount) (\<lambda>_.
     bnd (gets (\<lambda>s. i_frozen_player (inst s) player = None)) (\<lambda>is_new.
     seqs [
       upd_inst (\<lambda>i. i\<lparr>i_frozen_player := (i_frozen_player i)(player \<mapsto> reason)\<rparr>),
       only_if is_new (upd_pers (\<lambda>p. p\<lparr>p_frozen_players :=
         Some (unwrap_or (p_frozen_players p) [] @ [player])\<rparr>)),
       publish ''admin'' ''freeze'' [VAddr player]])))"

definition admin_unfreeze_player :: "'w env \<Rightarrow> address \<Rightarrow> ('w, unit) act" where
  "admin_unfreeze_player env player = admin_only env (\<lambda>_.
     bnd (gets (\<lambda>s. i_frozen_player (inst s) player \<noteq> None)) (\<lambda>was_frozen.
     only_if was_frozen (seqs [
       upd_inst (\<lambda>i. i\<lparr>i_frozen_player := (i_frozen_player i)(player := None)\<rparr>),
       upd_pers (\<lambda>p. p\<lparr>p_frozen_players :=
         map_option (filter (\<lambda>existing. existing \<noteq> player)) (p_frozen_players p)\<rparr>),
       publish ''admin'' ''unfreeze'' [VAddr player]])))"

definition is_player_frozen :: "address \<Rightarrow> 'w escrow \<Rightarrow> bool" where
  "is_player_frozen player s \<longleftrightarrow> i_frozen_player (inst s) player \<noteq> None"

text \<open>The pagination loop of the freeze list. The bound \<^verbatim>\<open>offset + capped_limit\<close> is a
  \<^verbatim>\<open>u32\<close> addition evaluated in each round; \<open>None\<close> is its overflow panic.\<close>

fun frozen_page :: "u32 \<Rightarrow> u32 \<Rightarrow> u32 \<Rightarrow> address list \<Rightarrow> address list option" where
  "frozen_page offset capped_limit count [] = Some []"
| "frozen_page offset capped_limit count (player # rest) =
     (if offset + capped_limit > u32_max then None
      else if count \<ge> offset + capped_limit then Some []
      else map_option (\<lambda>result. if count \<ge> offset then player # result else result)
             (frozen_page offset capped_limit (count + 1) rest))"

definition get_frozen_players :: "u32 \<Rightarrow> u32 \<Rightarrow> ('w, address list) act" where
  "get_frozen_players offset limit =
     bnd (gets (\<lambda>s. unwrap_or (p_frozen_players (pers s)) [])) (\<lambda>all.
     or_trap (frozen_page offset (if limit > 100 then 100 else limit) 0 all))"

definition admin_list_frozen_players ::
    "'w env \<Rightarrow> address \<Rightarrow> u32 \<Rightarrow> u32 \<Rightarrow> ('w, address list) act" where
  "admin_list_frozen_players env caller offset limit =
     bnd load_admin (\<lambda>admin.
     bnd (require_auth env caller) (\<lambda>_.
     bnd (reject_if (caller \<noteq> admin) Unauthorized) (\<lambda>_.
     bnd (gets (\<lambda>s. unwrap_or (p_frozen_players (pers s)) [])) (\<lambda>all.
     or_trap (frozen_page offset (if limit > 100 then 100 else limit) 0 all)))))"

definition require_player_not_frozen :: "address \<Rightarrow> ('w, unit) act" where
  "require_player_not_frozen player =
     bnd (gets (\<lambda>s. i_frozen_player (inst s) player \<noteq> None)) (\<lambda>frozen.
     reject_if frozen ContractPaused)"

lemma wp_require_player_not_frozen [wp_simps]:
  "wp (require_player_not_frozen p) Q E T s =
     ((is_player_frozen p s \<longrightarrow> E ContractPaused s) \<and> (\<not> is_player_frozen p s \<longrightarrow> Q () s))"
  by (simp add: require_player_not_frozen_def is_player_frozen_def wp_simps)

section \<open>A registry with a listing\<close>

text \<open>The contract of a registry: \<open>entry\<close> is the keyed entry, \<open>listing\<close> the ordered
  list kept beside it, \<open>add\<close> and \<open>remove\<close> the two admin operations with the effect
  their code has on a normal return. \<open>consistent\<close> says that the two copies agree.\<close>

locale listed_registry =
  fixes entry :: "'s \<Rightarrow> 'k \<Rightarrow> string option"
    and listing :: "'s \<Rightarrow> 'k list"
    and add :: "'k \<Rightarrow> string \<Rightarrow> ('s, 'e, unit) action"
    and remove :: "'k \<Rightarrow> ('s, 'e, unit) action"
  assumes add_entry: "add k r s = (Ok (), s') \<Longrightarrow> entry s' = (entry s)(k \<mapsto> r)"
    and add_listing: "add k r s = (Ok (), s') \<Longrightarrow>
      listing s' = (if entry s k = None then listing s @ [k] else listing s)"
    and remove_entry: "remove k s = (Ok (), s') \<Longrightarrow> entry s' = (entry s)(k := None)"
    and remove_listing: "remove k s = (Ok (), s') \<Longrightarrow>
      listing s' = (if entry s k = None then listing s else filter (\<lambda>x. x \<noteq> k) (listing s))"
begin

definition consistent :: "'s \<Rightarrow> bool" where
  "consistent s \<longleftrightarrow> distinct (listing s) \<and> set (listing s) = dom (entry s)"

lemma add_consistent: "consistent s \<Longrightarrow> add k r s = (Ok (), s') \<Longrightarrow> consistent s'"
  by (auto simp: consistent_def add_entry add_listing)

lemma remove_consistent: "consistent s \<Longrightarrow> remove k s = (Ok (), s') \<Longrightarrow> consistent s'"
  by (auto simp: consistent_def remove_entry remove_listing)

lemma consistent_listed: "consistent s \<Longrightarrow> k \<in> set (listing s) \<longleftrightarrow> entry s k \<noteq> None"
  by (auto simp: consistent_def)

text \<open>Adding and removing a key that was not there restores the registry, order included.\<close>

lemma add_remove:
  assumes "consistent s" "entry s k = None" "add k r s = (Ok (), s1)" "remove k s1 = (Ok (), s2)"
  shows "entry s2 = entry s" "listing s2 = listing s"
proof -
  have k: "k \<notin> set (listing s)" using assms(1,2) by (simp add: consistent_listed)
  show "entry s2 = entry s"
    using add_entry [OF assms(3)] remove_entry [OF assms(4)] assms(2) by (simp add: fun_upd_idem)
  show "listing s2 = listing s"
    using add_entry [OF assms(3)] add_listing [OF assms(3)] remove_listing [OF assms(4)] assms(2) k
    by (auto simp: filter_id_conv)
qed

end

lemma unwrap_filter:
  "unwrap_or (map_option (filter P) x) [] = filter P (unwrap_or x [])"
  by (cases x) simp_all

interpretation blacklist: listed_registry "\<lambda>s. i_blacklisted_token (inst s)" get_blacklist
    "add_token_to_blacklist env" "remove_token_from_blacklist env" for env
  by unfold_locales
    (auto simp: add_token_to_blacklist_def remove_token_from_blacklist_def get_blacklist_def
      run_simps unwrap_filter fun_upd_idem elim!: admin_only_ok split: if_splits)

interpretation freeze: listed_registry "\<lambda>s. i_frozen_player (inst s)"
    "\<lambda>s. unwrap_or (p_frozen_players (pers s)) []"
    "admin_freeze_player env" "admin_unfreeze_player env" for env
  by unfold_locales
    (auto simp: admin_freeze_player_def admin_unfreeze_player_def
      run_simps unwrap_filter fun_upd_idem elim!: admin_only_ok split: if_splits)

section \<open>The allowlist\<close>

text \<open>The four places that describe the allowlist agree: the keyed flags, the ordered list, the
  counter and the enforcement flag.\<close>

definition allowlist_inv :: "'w escrow \<Rightarrow> bool" where
  "allowlist_inv s \<longleftrightarrow>
     distinct (get_allowed_token_list s) \<and>
     (\<forall>t. i_allowed_token (inst s) t = (if t \<in> set (get_allowed_token_list s) then Some True else None)) \<and>
     unwrap_or (i_allowed_token_count (inst s)) 0 = length (get_allowed_token_list s) \<and>
     (is_allowlist_enforced s \<longleftrightarrow> get_allowed_token_list s \<noteq> [])"

lemma unwrap_nonempty [simp]: "unwrap_or (if xs = [] then None else Some xs) [] = xs"
  by simp

lemma wp_append_allowed_token [wp_simps]:
  "wp (append_allowed_token t) Q E T s =
     ((t \<in> set (get_allowed_token_list s) \<longrightarrow> Q () s) \<and>
      (t \<notin> set (get_allowed_token_list s) \<longrightarrow>
         Q () (s\<lparr>pers := (pers s)\<lparr>p_allowed_tokens := Some (get_allowed_token_list s @ [t])\<rparr>\<rparr>)))"
  by (auto simp: append_allowed_token_def set_allowed_token_list_def wp_simps list_ex_iff
      get_allowed_token_list_def)

lemma wp_remove_allowed_token_from_list [wp_simps]:
  "wp (remove_allowed_token_from_list t) Q E T s =
     (if get_allowed_token_list s = [] then Q () s
      else let xs = filter (\<lambda>x. x \<noteq> t) (get_allowed_token_list s) in
        Q () (s\<lparr>pers := (pers s)\<lparr>p_allowed_tokens := if xs = [] then None else Some xs\<rparr>\<rparr>))"
  by (simp add: remove_allowed_token_from_list_def set_allowed_token_list_def wp_simps Let_def)

lemma length_filter_neq:
  assumes "distinct xs" "x \<in> set xs"
  shows "length (filter (\<lambda>y. y \<noteq> x) xs) = length xs - Suc 0"
proof -
  have "filter (\<lambda>y. y \<noteq> x) xs = remove1 x xs"
    using assms(1) by (simp add: distinct_remove1_removeAll removeAll_filter_not_eq) metis
  with assms show ?thesis by (simp add: length_remove1)
qed

lemma add_allowed_token_inv:
  assumes "allowlist_inv s"
  shows "wp (add_allowed_token env t) (\<lambda>_. allowlist_inv) (\<lambda>_ _. True) True s"
proof (cases "t \<in> set (get_allowed_token_list s)")
  case True
  with assms show ?thesis
    by (auto simp: add_allowed_token_def wp_simps allowlist_inv_def is_allowlist_enforced_def
        get_allowed_token_list_def fun_upd_idem split: option.split)
next
  case False
  with assms show ?thesis
    by (simp add: add_allowed_token_def wp_simps allowlist_inv_def is_allowlist_enforced_def
        get_allowed_token_list_def checked_add_u32_def split: option.split)
qed

lemma remove_allowed_token_inv:
  assumes "allowlist_inv s"
  shows "wp (remove_allowed_token env t) (\<lambda>_. allowlist_inv) (\<lambda>_ _. True) True s"
proof (cases "t \<in> set (get_allowed_token_list s)")
  case True
  define L where "L = get_allowed_token_list s"
  define xs where "xs = filter (\<lambda>x. x \<noteq> t) L"
  have L: "t \<in> set L" "L \<noteq> []" "distinct L" using True assms by (auto simp: L_def allowlist_inv_def)
  have xs: "distinct xs" "x \<in> set xs \<longleftrightarrow> x \<in> set L \<and> x \<noteq> t" "length xs = length L - Suc 0" for x
    using L by (auto simp: xs_def length_filter_neq)
  have inv: "unwrap_or (i_allowed_token_count (inst s)) 0 = length L"
    "i_allowed_token (inst s) x = (if x \<in> set L then Some True else None)"
    "unwrap_or (i_allowlist_enforced (inst s)) False" for x
    using assms L by (auto simp: allowlist_inv_def is_allowlist_enforced_def L_def)
  have "allowlist_inv s'" if "get_allowed_token_list s' = xs"
    "i_allowed_token (inst s') = (i_allowed_token (inst s))(t := None)"
    "i_allowed_token_count (inst s') = Some (length L - 1)"
    "i_allowlist_enforced (inst s') = (if length L - 1 = 0 then Some False else i_allowlist_enforced (inst s))"
    for s' :: "'a escrow"
  proof -
    have "\<forall>u. i_allowed_token (inst s') u = (if u \<in> set xs then Some True else None)"
      using that(2) inv(2) xs(2) by simp
    moreover have "unwrap_or (i_allowlist_enforced (inst s')) False \<longleftrightarrow> xs \<noteq> []"
      using that(4) inv(3) xs(3) by (cases "xs = []") auto
    ultimately show ?thesis
      unfolding allowlist_inv_def is_allowlist_enforced_def that(1,3) using xs(1,3) by simp
  qed
  then show ?thesis
    using L inv
    by (auto simp: remove_allowed_token_def wp_simps Let_def get_allowed_token_list_def L_def xs_def split: option.split)
next
  case False
  then have "filter (\<lambda>x. x \<noteq> t) (get_allowed_token_list s) = get_allowed_token_list s"
    by (auto simp: filter_id_conv)
  with False assms show ?thesis
    by (simp add: remove_allowed_token_def wp_simps allowlist_inv_def is_allowlist_enforced_def
        get_allowed_token_list_def Let_def fun_upd_idem split: option.split)
qed

section \<open>Pagination\<close>

lemma map_nth_range: "j \<le> length xs \<Longrightarrow> map (\<lambda>i. xs ! i) [i..<j] = take (j - i) (drop i xs)"
  by (intro nth_equalityI) auto

lemma get_allowed_tokens_paginated_slice:
  assumes "length (get_allowed_token_list s) \<le> u32_max"
  shows "get_allowed_tokens_paginated offset limit s = take limit (drop offset (get_allowed_token_list s))"
  using assms
  by (auto simp: get_allowed_tokens_paginated_def Let_def map_nth_range saturating_add_u32_def min_def)

lemma frozen_page_slice:
  assumes "offset + l \<le> u32_max"
  shows "frozen_page offset l count xs =
    Some (take (offset + l - max offset count) (drop (offset - count) xs))"
proof (induction xs arbitrary: count)
  case (Cons x xs)
  have "take n (x # ys) = (if n = 0 then [] else x # take (n - 1) ys)" for n and ys :: "address list"
    by (cases n) auto
  with assms show ?case
    by (auto simp: Cons.IH max_def drop_Cons' Suc_diff_le not_less_eq_eq)
qed simp

end
