(* ===== verification/Rust_Text.thy ===== *)
theory Rust_Text
  imports Soroban_Prelude
begin

text \<open>
  Strings of the Rust programs. A \<^verbatim>\<open>&str\<close> is the list of its UTF-8 bytes, one
  \<open>char\<close> per byte, so \<^verbatim>\<open>len()\<close> is \<open>length\<close>. The methods of the standard
  library that the sources call are written out: classification of ASCII bytes, trimming of Unicode
  white space, lower-casing, splitting, parsing of decimal integers, and the lossy conversion of bytes
  to UTF-8. The last section has the decimal digits of a number and the fact that parsing reads
  them back.
\<close>

section \<open>Bytes\<close>

abbreviation byte :: "char \<Rightarrow> nat" where
  "byte c \<equiv> of_char c"

text \<open>\<^verbatim>\<open>u8::is_ascii_digit\<close>, \<^verbatim>\<open>is_ascii_alphanumeric\<close> and
  \<^verbatim>\<open>is_ascii_hexdigit\<close> on the byte of a character.\<close>

definition is_ascii_digit :: "char \<Rightarrow> bool" where
  "is_ascii_digit c \<longleftrightarrow> (let b = of_char c :: nat in 48 \<le> b \<and> b \<le> 57)"

definition is_ascii_alphanumeric :: "char \<Rightarrow> bool" where
  "is_ascii_alphanumeric c \<longleftrightarrow>
     (let b = of_char c :: nat in (48 \<le> b \<and> b \<le> 57) \<or> (65 \<le> b \<and> b \<le> 90) \<or> (97 \<le> b \<and> b \<le> 122))"

definition is_ascii_hexdigit :: "char \<Rightarrow> bool" where
  "is_ascii_hexdigit c \<longleftrightarrow>
     (let b = of_char c :: nat in (48 \<le> b \<and> b \<le> 57) \<or> (65 \<le> b \<and> b \<le> 70) \<or> (97 \<le> b \<and> b \<le> 102))"

definition is_ascii_lowercase :: "char \<Rightarrow> bool" where
  "is_ascii_lowercase c \<longleftrightarrow> (let b = of_char c :: nat in 97 \<le> b \<and> b \<le> 122)"

text \<open>\<^verbatim>\<open>u8::to_ascii_lowercase\<close> and \<^verbatim>\<open>char::to_digit(16)\<close>\<close>

definition to_ascii_lowercase :: "char \<Rightarrow> char" where
  "to_ascii_lowercase c = (let b = of_char c :: nat in if 65 \<le> b \<and> b \<le> 90 then char_of (b + 32) else c)"

definition hex_digit :: "char \<Rightarrow> nat option" where
  "hex_digit c = (let b = of_char c :: nat in
     if 48 \<le> b \<and> b \<le> 57 then Some (b - 48)
     else if 65 \<le> b \<and> b \<le> 70 then Some (b - 55)
     else if 97 \<le> b \<and> b \<le> 102 then Some (b - 87)
     else None)"

section \<open>Trimming\<close>

text \<open>\<^verbatim>\<open>str::trim\<close> removes the characters with the Unicode property
  \<^verbatim>\<open>White_Space\<close> at both ends. \<open>white_space\<close> lists their UTF-8 encodings; no
  encoding is a proper prefix or suffix of another.\<close>

definition white_space :: "nat list list" where
  "white_space = map (\<lambda>b. [b]) [9, 10, 11, 12, 13, 32] @ [[0xC2, 0x85], [0xC2, 0xA0], [0xE1, 0x9A, 0x80]] @
     map (\<lambda>b. [0xE2, 0x80, b]) [0x80, 0x81, 0x82, 0x83, 0x84, 0x85, 0x86, 0x87, 0x88, 0x89, 0x8A, 0xA8, 0xA9, 0xAF] @
     [[0xE2, 0x81, 0x9F], [0xE3, 0x80, 0x80]]"

definition starts_with_any :: "nat list list \<Rightarrow> string \<Rightarrow> nat option" where
  "starts_with_any ps s = map_option length (find (\<lambda>p. map of_char (take (length p) s) = p) ps)"

function drop_leading :: "nat list list \<Rightarrow> string \<Rightarrow> string" where
  "drop_leading ps s = (case starts_with_any ps s of
     Some n \<Rightarrow> if 0 < n \<and> s \<noteq> [] then drop_leading ps (drop n s) else s
   | None \<Rightarrow> s)"
  by pat_completeness auto
termination by (relation "measure (length \<circ> snd)") auto

declare drop_leading.simps [simp del]

definition trim :: "string \<Rightarrow> string" where
  "trim s = rev (drop_leading (map rev white_space) (rev (drop_leading white_space s)))"

section \<open>Splitting\<close>

text \<open>\<^verbatim>\<open>str::split(c)\<close> and \<^verbatim>\<open>str::split_once(c)\<close>\<close>

fun split_on :: "char \<Rightarrow> string \<Rightarrow> string list" where
  "split_on c [] = [[]]"
| "split_on c (x # xs) = (if x = c then [] # split_on c xs
     else case split_on c xs of [] \<Rightarrow> [[x]] | part # parts \<Rightarrow> (x # part) # parts)"

fun split_once :: "char \<Rightarrow> string \<Rightarrow> (string \<times> string) option" where
  "split_once c [] = None"
| "split_once c (x # xs) = (if x = c then Some ([], xs)
     else map_option (\<lambda>(a, b). (x # a, b)) (split_once c xs))"

fun contains_str :: "string \<Rightarrow> string \<Rightarrow> bool" where
  "contains_str pat [] = (pat = [])"
| "contains_str pat (x # xs) = (take (length pat) (x # xs) = pat \<or> contains_str pat xs)"

section \<open>Parsing integers\<close>

text \<open>The loop of \<^verbatim>\<open>str::parse\<close> for an integer type with the bound \<open>limit\<close> on the
  absolute value: multiply by ten and add, both checked. Any byte that is not a digit is an error.\<close>

fun parse_digits :: "nat \<Rightarrow> nat \<Rightarrow> string \<Rightarrow> nat option" where
  "parse_digits limit acc [] = Some acc"
| "parse_digits limit acc (c # cs) =
     (if \<not> is_ascii_digit c then None
      else if acc * 10 > limit then None
      else if acc * 10 + (of_char c - 48) > limit then None
      else parse_digits limit (acc * 10 + (of_char c - 48)) cs)"

text \<open>An unsigned type takes an optional plus sign, a signed one an optional sign.\<close>

definition parse_unsigned :: "nat \<Rightarrow> string \<Rightarrow> nat option" where
  "parse_unsigned limit s =
     (let digits = (case s of c # cs \<Rightarrow> if c = CHR ''+'' then cs else s | [] \<Rightarrow> s)
      in if digits = [] then None else parse_digits limit 0 digits)"

definition parse_signed :: "nat \<Rightarrow> nat \<Rightarrow> string \<Rightarrow> int option" where
  "parse_signed max_pos max_neg s = (case s of
     [] \<Rightarrow> None
   | c # cs \<Rightarrow>
       if c = CHR ''-'' then (if cs = [] then None else map_option (\<lambda>n. - int n) (parse_digits max_neg 0 cs))
       else let digits = (if c = CHR ''+'' then cs else s)
            in if digits = [] then None else map_option int (parse_digits max_pos 0 digits))"

section \<open>Lossy UTF-8\<close>

text \<open>\<^verbatim>\<open>String::from_utf8_lossy\<close>: the ranges that the continuation bytes after a
  leading byte must lie in, or \<open>None\<close> for a byte that cannot lead; each maximal prefix of a
  sequence that does not complete becomes the replacement character.\<close>

definition continuations :: "nat \<Rightarrow> (nat \<times> nat) list option" where
  "continuations b =
     (if b < 0x80 then Some []
      else if 0xC2 \<le> b \<and> b \<le> 0xDF then Some [(0x80, 0xBF)]
      else if b = 0xE0 then Some [(0xA0, 0xBF), (0x80, 0xBF)]
      else if b = 0xED then Some [(0x80, 0x9F), (0x80, 0xBF)]
      else if 0xE1 \<le> b \<and> b \<le> 0xEF then Some [(0x80, 0xBF), (0x80, 0xBF)]
      else if b = 0xF0 then Some [(0x90, 0xBF), (0x80, 0xBF), (0x80, 0xBF)]
      else if 0xF1 \<le> b \<and> b \<le> 0xF3 then Some [(0x80, 0xBF), (0x80, 0xBF), (0x80, 0xBF)]
      else if b = 0xF4 then Some [(0x80, 0x8F), (0x80, 0xBF), (0x80, 0xBF)]
      else None)"

fun matched :: "(nat \<times> nat) list \<Rightarrow> string \<Rightarrow> nat" where
  "matched ((lo, hi) # rs) (c # cs) = (if lo \<le> byte c \<and> byte c \<le> hi then Suc (matched rs cs) else 0)"
| "matched _ _ = 0"

definition replacement_character :: string where
  "replacement_character = map char_of [0xEF, 0xBF, 0xBD :: nat]"

function from_utf8_lossy :: "string \<Rightarrow> string" where
  "from_utf8_lossy [] = []"
| "from_utf8_lossy (c # cs) = (case continuations (of_char c) of
     None \<Rightarrow> replacement_character @ from_utf8_lossy cs
   | Some rs \<Rightarrow>
       let n = matched rs cs in
       if n = length rs then c # take n cs @ from_utf8_lossy (drop n cs)
       else replacement_character @ from_utf8_lossy (drop n cs))"
  by pat_completeness auto
termination by (relation "measure length") auto

lemma from_utf8_lossy_ascii: "\<forall>c \<in> set s. byte c < 128 \<Longrightarrow> from_utf8_lossy s = s"
  by (induction s) (auto simp: continuations_def)

section \<open>Decimal digits\<close>

text \<open>Reference: the decimal digits of a number as ASCII codes, most significant first.\<close>

function lsd_digits :: "nat \<Rightarrow> nat list" where
  "lsd_digits x = (if x > 0 then (48 + x mod 10) # lsd_digits (x div 10) else [])"
  by pat_completeness auto
termination by (relation "measure id") auto

declare lsd_digits.simps [simp del]

definition decimal :: "nat \<Rightarrow> nat list" where
  "decimal n = (if n = 0 then [48] else rev (lsd_digits n))"

definition read_decimal :: "nat list \<Rightarrow> nat" where
  "read_decimal ds = foldl (\<lambda>a d. 10 * a + (d - 48)) 0 ds"

lemma lsd_digits_value: "foldr (\<lambda>d a. 10 * a + (d - 48)) (lsd_digits n) 0 = n"
  by (induction n rule: lsd_digits.induct) (subst lsd_digits.simps, simp)

lemma read_decimal_decimal: "read_decimal (decimal n) = n"
  using lsd_digits_value [of n]
  by (simp add: read_decimal_def decimal_def foldl_conv_foldr)

lemma lsd_digits_length: "n < 10 ^ k \<Longrightarrow> length (lsd_digits n) \<le> k"
proof (induction k arbitrary: n)
  case 0
  then show ?case by (simp add: lsd_digits.simps)
next
  case (Suc k)
  then have "n div 10 < 10 ^ k" by (simp add: less_mult_imp_div_less mult.commute)
  with Suc.IH show ?case by (subst lsd_digits.simps) simp
qed

lemma decimal_length: "n < 10 ^ k \<Longrightarrow> 0 < k \<Longrightarrow> length (decimal n) \<le> k"
  using lsd_digits_length [of n k] by (auto simp: decimal_def)

lemma decimal_digits: "set (decimal n) \<subseteq> {48..57}"
proof -
  have "set (lsd_digits n) \<subseteq> {48..57}"
  proof (induction n rule: lsd_digits.induct)
    case (1 x)
    have "x mod 10 < 10" by simp
    then have "48 + x mod 10 \<in> {48..57}" by simp
    with 1 show ?case by (subst lsd_digits.simps) auto
  qed
  then show ?thesis by (simp add: decimal_def)
qed

text \<open>The decimal representation as a string, and what parsing makes of it.\<close>

definition show_nat :: "nat \<Rightarrow> string" where
  "show_nat n = map char_of (decimal n)"

lemma parse_digits_value:
  assumes "\<forall>c \<in> set cs. is_ascii_digit c"
  shows "parse_digits limit acc cs = (let v = foldl (\<lambda>a d. 10 * a + (d - 48)) acc (map of_char cs)
    in if v \<le> limit \<or> cs = [] then Some v else None)"
  using assms
proof (induction cs arbitrary: acc)
  case (Cons c cs)
  have mono: "a \<le> foldl (\<lambda>a d. 10 * a + (d - 48)) a ds" for a :: nat and ds
  proof (induction ds arbitrary: a)
    case (Cons d ds)
    have "a \<le> 10 * a + (d - 48)" by simp
    then show ?case using Cons [of "10 * a + (d - 48)"] by simp
  qed simp
  show ?case
    using Cons mono [of "10 * acc + (of_char c - 48)" "map of_char cs"]
    by (auto simp: Let_def mult.commute not_le intro: le_trans)
qed simp

lemma decimal_chars: "map of_char (show_nat n) = decimal n" "\<forall>c \<in> set (show_nat n). is_ascii_digit c" "show_nat n \<noteq> []"
proof -
  have codes: "of_char (char_of d :: char) = d" if "d \<in> set (decimal n)" for d
    using decimal_digits [of n] that by (auto simp: of_char_mod_256)
  then show "map of_char (show_nat n) = decimal n"
    by (simp add: show_nat_def map_idI)
  show "\<forall>c \<in> set (show_nat n). is_ascii_digit c"
    using codes decimal_digits [of n] by (auto simp: show_nat_def is_ascii_digit_def Let_def)
  have "decimal n \<noteq> []" by (subst decimal_def) (subst lsd_digits.simps, simp)
  then show "show_nat n \<noteq> []" by (simp add: show_nat_def)
qed

lemma parse_show_nat: "parse_digits limit 0 (show_nat n) = (if n \<le> limit then Some n else None)"
  using parse_digits_value [OF decimal_chars(2), of limit 0 n] decimal_chars(1,3) [of n] read_decimal_decimal [of n]
  by (simp add: read_decimal_def Let_def)

end
