(* ===== verification/Escrow_Index.thy ===== *)
theory Escrow_Index
  imports Escrow_Registry Rust_Text
begin

text \<open>
  The indexes and counters the contract keeps beside the matches (contracts/escrow/src/lib.rs):
  the match lists by state and by bracket with their getters, the set of active matches of a
  player with its cap, the player tiers, the platform and player statistics, and the validation
  of game ids and evidence hashes. The locale \<open>id_index\<close> is the contract of a sorted list of
  match ids; its client lemma is that moving an id from one list to another keeps every list
  exact.
\<close>

section \<open>Constants\<close>

definition MAX_GAME_ID_LEN :: u32 where "MAX_GAME_ID_LEN = 64"
definition LICHESS_GAME_ID_LEN :: u32 where "LICHESS_GAME_ID_LEN = 8"
definition LICHESS_GAME_ID_LEN_EXTENDED :: u32 where "LICHESS_GAME_ID_LEN_EXTENDED = 12"
definition CHESS_COM_GAME_ID_MIN_LEN :: u32 where "CHESS_COM_GAME_ID_MIN_LEN = 7"
definition CHESS_COM_GAME_ID_MAX_LEN :: u32 where "CHESS_COM_GAME_ID_MAX_LEN = 12"
definition SILVER_MIN_COMPLETED_MATCHES :: u32 where "SILVER_MIN_COMPLETED_MATCHES = 3"
definition GOLD_MIN_COMPLETED_MATCHES :: u32 where "GOLD_MIN_COMPLETED_MATCHES = 6"
definition PLATINUM_MIN_COMPLETED_MATCHES :: u32 where "PLATINUM_MIN_COMPLETED_MATCHES = 10"
definition BRONZE_MIN_STAKE :: i128 where "BRONZE_MIN_STAKE = 1"
definition BRONZE_MAX_STAKE :: i128 where "BRONZE_MAX_STAKE = 100"
definition SILVER_MIN_STAKE :: i128 where "SILVER_MIN_STAKE = 101"
definition SILVER_MAX_STAKE :: i128 where "SILVER_MAX_STAKE = 500"
definition GOLD_MIN_STAKE :: i128 where "GOLD_MIN_STAKE = 501"
definition GOLD_MAX_STAKE :: i128 where "GOLD_MAX_STAKE = 1000"
definition PLATINUM_MIN_STAKE :: i128 where "PLATINUM_MIN_STAKE = 1001"
definition MAX_ACTIVE_MATCHES_PER_PLAYER :: u32 where "MAX_ACTIVE_MATCHES_PER_PLAYER = 1000"
definition MAX_UNBOUNDED_MATCH_RESULTS :: u32 where "MAX_UNBOUNDED_MATCH_RESULTS = 10000"

lemmas index_consts =
  MAX_GAME_ID_LEN_def LICHESS_GAME_ID_LEN_def LICHESS_GAME_ID_LEN_EXTENDED_def
  CHESS_COM_GAME_ID_MIN_LEN_def CHESS_COM_GAME_ID_MAX_LEN_def

lemmas tier_consts =
  SILVER_MIN_COMPLETED_MATCHES_def GOLD_MIN_COMPLETED_MATCHES_def
  PLATINUM_MIN_COMPLETED_MATCHES_def BRONZE_MIN_STAKE_def BRONZE_MAX_STAKE_def
  SILVER_MIN_STAKE_def SILVER_MAX_STAKE_def GOLD_MIN_STAKE_def GOLD_MAX_STAKE_def
  PLATINUM_MIN_STAKE_def

section \<open>Validation of strings\<close>

definition is_valid_evidence_hash :: "string \<Rightarrow> bool" where
  "is_valid_evidence_hash evidence_hash \<longleftrightarrow>
     (if length evidence_hash \<noteq> 64 then False
      else list_all is_ascii_hexdigit evidence_hash \<and>
           list_ex (\<lambda>byte. byte \<noteq> CHR ''0'') evidence_hash)"

definition validate_game_id_format :: "string \<Rightarrow> platform \<Rightarrow> ('w, unit) act" where
  "validate_game_id_format game_id platform =
     (let len = length game_id in
      bnd (reject_if (len = 0 \<or> len > MAX_GAME_ID_LEN) InvalidGameId) (\<lambda>_.
      case platform of
        Lichess \<Rightarrow> reject_if
          ((len \<noteq> LICHESS_GAME_ID_LEN \<and> len \<noteq> LICHESS_GAME_ID_LEN_EXTENDED) \<or>
           \<not> list_all is_ascii_alphanumeric game_id) InvalidGameId
      | ChessDotCom \<Rightarrow> reject_if
          (\<not> (CHESS_COM_GAME_ID_MIN_LEN \<le> len \<and> len \<le> CHESS_COM_GAME_ID_MAX_LEN) \<or>
           \<not> list_all is_ascii_digit game_id) InvalidGameId))"

section \<open>Match indexes\<close>

datatype match_index_key = BracketMatches u64 | MatchesByState match_state

definition get_index :: "match_index_key \<Rightarrow> 'w escrow \<Rightarrow> u64 list option" where
  "get_index key s = (case key of
     BracketMatches b \<Rightarrow> p_bracket_matches (pers s) b
   | MatchesByState st \<Rightarrow> p_matches_by_state (pers s) st)"

definition set_index :: "match_index_key \<Rightarrow> u64 list option \<Rightarrow> ('w, unit) act" where
  "set_index key ids = upd_pers (\<lambda>p. case key of
     BracketMatches b \<Rightarrow> p\<lparr>p_bracket_matches := (p_bracket_matches p)(b := ids)\<rparr>
   | MatchesByState st \<Rightarrow> p\<lparr>p_matches_by_state := (p_matches_by_state p)(st := ids)\<rparr>)"

text \<open>The insertion loop, with its \<^verbatim>\<open>inserted\<close> flag.\<close>

fun insert_loop :: "u64 \<Rightarrow> bool \<Rightarrow> u64 list \<Rightarrow> u64 list" where
  "insert_loop match_id inserted [] = (if \<not> inserted then [match_id] else [])"
| "insert_loop match_id inserted (indexed_id # rest) =
     (if \<not> inserted \<and> match_id < indexed_id
      then match_id # indexed_id # insert_loop match_id True rest
      else indexed_id # insert_loop match_id inserted rest)"

definition insert_id :: "u64 \<Rightarrow> u64 list \<Rightarrow> u64 list" where
  "insert_id match_id match_ids =
     (if list_ex (\<lambda>indexed_id. indexed_id = match_id) match_ids then match_ids
      else insert_loop match_id False match_ids)"

definition add_match_to_index :: "match_index_key \<Rightarrow> u64 \<Rightarrow> ('w, unit) act" where
  "add_match_to_index key match_id =
     bnd (gets (\<lambda>s. unwrap_or (get_index key s) [])) (\<lambda>match_ids.
     if list_ex (\<lambda>indexed_id. indexed_id = match_id) match_ids then ret ()
     else set_index key (Some (insert_id match_id match_ids)))"

definition remove_id :: "u64 \<Rightarrow> u64 list \<Rightarrow> u64 list" where
  "remove_id match_id match_ids = filter (\<lambda>indexed_id. indexed_id \<noteq> match_id) match_ids"

definition remove_match_from_index :: "match_index_key \<Rightarrow> u64 \<Rightarrow> ('w, unit) act" where
  "remove_match_from_index key match_id =
     bnd (gets (\<lambda>s. unwrap_or (get_index key s) [])) (\<lambda>match_ids.
     let remaining_ids = remove_id match_id match_ids in
     set_index key (if remaining_ids = [] then None else Some remaining_ids))"

text \<open>\<^verbatim>\<open>set_match_state\<close> mutates the record it is given; here it returns it.\<close>

definition set_match_state :: "match_rec \<Rightarrow> match_state \<Rightarrow> ('w, match_rec) act" where
  "set_match_state m state =
     (if m_state m = state then ret m
      else bnd (remove_match_from_index (MatchesByState (m_state m)) (m_id m)) (\<lambda>_.
           bnd (add_match_to_index (MatchesByState state) (m_id m)) (\<lambda>_.
           ret (m\<lparr>m_state := state\<rparr>))))"

section \<open>Getters over the indexes\<close>

definition pick_in_state :: "match_state \<Rightarrow> 'w escrow \<Rightarrow> u64 \<Rightarrow> match_rec option" where
  "pick_in_state state s match_id =
     (case p_match (pers s) match_id of
        Some m \<Rightarrow> if m_state m = state then Some m else None
      | None \<Rightarrow> None)"

definition collect_matches_by_state :: "match_state \<Rightarrow> ('w, match_rec list) act" where
  "collect_matches_by_state state =
     bnd (gets (\<lambda>s. unwrap_or (p_matches_by_state (pers s) state) [])) (\<lambda>match_ids.
     bnd (gets (\<lambda>s. List.map_filter (pick_in_state state s)
                      (take MAX_UNBOUNDED_MATCH_RESULTS match_ids))) (\<lambda>matches.
     bnd (only_if (length match_ids > MAX_UNBOUNDED_MATCH_RESULTS)
           (publish ''match'' ''truncated'' [VState state, VNat MAX_UNBOUNDED_MATCH_RESULTS])) (\<lambda>_.
     ret matches)))"

definition collect_matches_by_state_paginated ::
    "match_state \<Rightarrow> u32 \<Rightarrow> u32 \<Rightarrow> 'w escrow \<Rightarrow> match_rec list" where
  "collect_matches_by_state_paginated state offset limit s =
     (if limit = 0 then []
      else let match_ids = unwrap_or (p_matches_by_state (pers s) state) [];
               start = min offset (length match_ids);
               stop = min (saturating_add_u32 start limit) (length match_ids)
           in List.map_filter (\<lambda>index. pick_in_state state s (match_ids ! index)) [start..<stop])"

definition get_bracket_matches :: "u64 \<Rightarrow> 'w escrow \<Rightarrow> match_rec list" where
  "get_bracket_matches bracket_id s =
     List.map_filter (\<lambda>match_id. case p_match (pers s) match_id of
         Some m \<Rightarrow> if m_bracket_id m = Some bracket_id then Some m else None
       | None \<Rightarrow> None)
     (unwrap_or (get_index (BracketMatches bracket_id) s) [])"

definition get_match_count :: "'w escrow \<Rightarrow> u64" where
  "get_match_count s = unwrap_or (i_match_count (inst s)) 0"

definition get_player_matches :: "address \<Rightarrow> 'w escrow \<Rightarrow> u64 list" where
  "get_player_matches player s =
     take MAX_UNBOUNDED_MATCH_RESULTS (unwrap_or (p_player_matches (pers s) player) [])"

text \<open>The page loop over the match ids of a player.\<close>

fun player_page :: "u32 \<Rightarrow> u32 \<Rightarrow> u32 \<Rightarrow> u64 list \<Rightarrow> u64 list \<Rightarrow> u64 list" where
  "player_page offset limit skipped page [] = page"
| "player_page offset limit skipped page (x # xs) =
     (if skipped < offset then player_page offset limit (saturating_add_u32 skipped 1) page xs
      else if length (page @ [x]) \<ge> limit then page @ [x]
      else player_page offset limit skipped (page @ [x]) xs)"

definition get_player_matches_paginated :: "address \<Rightarrow> u32 \<Rightarrow> u32 \<Rightarrow> 'w escrow \<Rightarrow> u64 list" where
  "get_player_matches_paginated player offset limit s =
     (if limit = 0 then []
      else player_page offset limit 0 [] (unwrap_or (p_player_matches (pers s) player) []))"

text \<open>The history loop: newest first over candidate ids, terminal matches only.\<close>

fun history_page ::
    "(u64 \<Rightarrow> match_rec option) \<Rightarrow> u32 \<Rightarrow> u32 \<Rightarrow> u32 \<Rightarrow> u32 \<Rightarrow> match_rec list \<Rightarrow> u64 list \<Rightarrow> match_rec list" where
  "history_page get limit offset skipped added acc [] = acc"
| "history_page get limit offset skipped added acc (i # is) =
     (case get i of
        None \<Rightarrow> history_page get limit offset skipped added acc is
      | Some m \<Rightarrow>
          if m_state m \<noteq> Completed \<and> m_state m \<noteq> Cancelled
          then history_page get limit offset skipped added acc is
          else if skipped < offset
          then history_page get limit offset (saturating_add_u32 skipped 1) added acc is
          else if saturating_add_u32 added 1 \<ge> limit then acc @ [m]
          else history_page get limit offset skipped (saturating_add_u32 added 1) (acc @ [m]) is)"

definition get_match_history :: "address option \<Rightarrow> u32 \<Rightarrow> u32 \<Rightarrow> 'w escrow \<Rightarrow> match_rec list" where
  "get_match_history player limit offset s =
     (if limit = 0 then []
      else case player of
        Some p \<Rightarrow> history_page (p_match (pers s)) limit offset 0 0 []
                   (rev (unwrap_or (p_player_matches (pers s) p) []))
      | None \<Rightarrow> history_page (p_match (pers s)) limit offset 0 0 []
                   (rev [0..<unwrap_or (i_match_count (inst s)) 0]))"

section \<open>Tiers\<close>

definition completed_match_count :: "address \<Rightarrow> 'w escrow \<Rightarrow> u32" where
  "completed_match_count player s = unwrap_or (p_player_completed_match_count (pers s) player) 0"

definition record_completed_match :: "address \<Rightarrow> ('w, unit) act" where
  "record_completed_match player =
     upd_pers (\<lambda>p. p\<lparr>p_player_completed_match_count := (p_player_completed_match_count p)(player \<mapsto>
       saturating_add_u32 (unwrap_or (p_player_completed_match_count p player) 0) 1)\<rparr>)"

definition tier_for_completed_matches :: "u32 \<Rightarrow> player_tier" where
  "tier_for_completed_matches completed_matches =
     (if completed_matches \<ge> PLATINUM_MIN_COMPLETED_MATCHES then Platinum
      else if completed_matches \<ge> GOLD_MIN_COMPLETED_MATCHES then Gold
      else if completed_matches \<ge> SILVER_MIN_COMPLETED_MATCHES then Silver
      else Bronze)"

fun min_tier_stake :: "player_tier \<Rightarrow> i128" where
  "min_tier_stake Bronze = BRONZE_MIN_STAKE"
| "min_tier_stake Silver = SILVER_MIN_STAKE"
| "min_tier_stake Gold = GOLD_MIN_STAKE"
| "min_tier_stake Platinum = PLATINUM_MIN_STAKE"

fun max_tier_stake :: "player_tier \<Rightarrow> i128" where
  "max_tier_stake Bronze = BRONZE_MAX_STAKE"
| "max_tier_stake Silver = SILVER_MAX_STAKE"
| "max_tier_stake Gold = GOLD_MAX_STAKE"
| "max_tier_stake Platinum = i128_max"

definition tier_from_match_count :: "address \<Rightarrow> 'w escrow \<Rightarrow> player_tier" where
  "tier_from_match_count player s = tier_for_completed_matches (completed_match_count player s)"

definition require_player_tier_for_stake :: "address \<Rightarrow> i128 \<Rightarrow> ('w, unit) act" where
  "require_player_tier_for_stake player stake_amount =
     bnd (gets (\<lambda>s. tier_for_completed_matches (completed_match_count player s))) (\<lambda>tier.
     reject_if (stake_amount < min_tier_stake tier \<or> stake_amount > max_tier_stake tier)
       TierStakeNotAllowed)"

section \<open>Active matches\<close>

definition add_active_match :: "address \<Rightarrow> u64 \<Rightarrow> ('w, unit) act" where
  "add_active_match player match_id =
     bnd (gets (\<lambda>s. unwrap_or (p_player_active_match_count (pers s) player) 0)) (\<lambda>count. seqs [
       reject_if (count \<ge> MAX_ACTIVE_MATCHES_PER_PLAYER) TooManyActiveMatches,
       upd_pers (\<lambda>p. p\<lparr>p_active_match := (p_active_match p)(player := (p_active_match p player)(match_id \<mapsto> True))\<rparr>),
       upd_pers (\<lambda>p. p\<lparr>p_player_active_match_count := (p_player_active_match_count p)(player \<mapsto> count + 1)\<rparr>)])"

definition remove_active_match_indexed :: "address \<Rightarrow> u64 \<Rightarrow> ('w, unit) act" where
  "remove_active_match_indexed player match_id =
     bnd (gets (\<lambda>s. p_active_match (pers s) player match_id \<noteq> None)) (\<lambda>has_key.
     only_if has_key (
       bnd (upd_pers (\<lambda>p. p\<lparr>p_active_match := (p_active_match p)(player := (p_active_match p player)(match_id := None))\<rparr>)) (\<lambda>_.
       bnd (gets (\<lambda>s. unwrap_or (p_player_active_match_count (pers s) player) 0)) (\<lambda>count.
       only_if (count > 0)
         (upd_pers (\<lambda>p. p\<lparr>p_player_active_match_count := (p_player_active_match_count p)(player \<mapsto> count - 1)\<rparr>))))))"

section \<open>Statistics\<close>

definition no_platform_stats :: platform_stats where
  "no_platform_stats = \<lparr>st_total_matches = 0, st_total_volume = 0, st_total_payouts = 0\<rparr>"

definition get_platform_stats :: "platform \<Rightarrow> 'w escrow \<Rightarrow> platform_stats option" where
  "get_platform_stats platform s = p_platform_stats (pers s) platform"

definition get_global_platform_stats :: "'w escrow \<Rightarrow> platform_stats" where
  "get_global_platform_stats s = unwrap_or (p_stats (pers s)) no_platform_stats"

definition stats_match_created :: "i128 \<Rightarrow> platform_stats \<Rightarrow> platform_stats" where
  "stats_match_created stake_amount st =
     st\<lparr>st_total_matches := saturating_add_u64 (st_total_matches st) 1,
        st_total_volume := saturating_add (st_total_volume st) stake_amount\<rparr>"

definition record_platform_match_created :: "i128 \<Rightarrow> platform \<Rightarrow> ('w, unit) act" where
  "record_platform_match_created stake_amount platform = seqs [
     upd_pers (\<lambda>p. p\<lparr>p_stats :=
       Some (stats_match_created stake_amount (unwrap_or (p_stats p) no_platform_stats))\<rparr>),
     upd_pers (\<lambda>p. p\<lparr>p_platform_stats := (p_platform_stats p)(platform \<mapsto>
       stats_match_created stake_amount (unwrap_or (p_platform_stats p platform) no_platform_stats))\<rparr>)]"

definition stats_payout :: "platform_stats \<Rightarrow> platform_stats" where
  "stats_payout st = st\<lparr>st_total_payouts := saturating_add_u64 (st_total_payouts st) 1\<rparr>"

definition record_platform_payout :: "platform \<Rightarrow> ('w, unit) act" where
  "record_platform_payout platform = seqs [
     upd_pers (\<lambda>p. p\<lparr>p_stats := Some (stats_payout (unwrap_or (p_stats p) no_platform_stats))\<rparr>),
     upd_pers (\<lambda>p. p\<lparr>p_platform_stats := (p_platform_stats p)(platform \<mapsto>
       stats_payout (unwrap_or (p_platform_stats p platform) no_platform_stats))\<rparr>)]"

definition no_player_stats :: player_stats where
  "no_player_stats = \<lparr>pl_total_matches = 0, pl_wins = 0, pl_losses = 0, pl_draws = 0,
     pl_total_volume_staked = 0\<rparr>"

definition get_player_stats :: "address \<Rightarrow> 'w escrow \<Rightarrow> player_stats" where
  "get_player_stats player s = unwrap_or (p_player_stats (pers s) player) no_player_stats"

definition stats_result :: "winner \<Rightarrow> i128 \<Rightarrow> bool \<Rightarrow> player_stats \<Rightarrow> player_stats" where
  "stats_result winner stake_amount is_player1 st =
     (let st = st\<lparr>pl_total_matches := saturating_add_u64 (pl_total_matches st) 1,
                  pl_total_volume_staked := saturating_add (pl_total_volume_staked st) stake_amount\<rparr>;
          win = st\<lparr>pl_wins := saturating_add_u64 (pl_wins st) 1\<rparr>;
          loss = st\<lparr>pl_losses := saturating_add_u64 (pl_losses st) 1\<rparr>
      in case winner of
           Player1 \<Rightarrow> if is_player1 then win else loss
         | Player2 \<Rightarrow> if is_player1 then loss else win
         | Draw \<Rightarrow> st\<lparr>pl_draws := saturating_add_u64 (pl_draws st) 1\<rparr>
         | NoWinner \<Rightarrow> st)"

definition update_player_stats :: "address \<Rightarrow> winner \<Rightarrow> i128 \<Rightarrow> bool \<Rightarrow> ('w, unit) act" where
  "update_player_stats player winner stake_amount is_player1 =
     upd_pers (\<lambda>p. p\<lparr>p_player_stats := (p_player_stats p)(player \<mapsto>
       stats_result winner stake_amount is_player1 (unwrap_or (p_player_stats p player) no_player_stats))\<rparr>)"

section \<open>Sorted id lists\<close>

text \<open>The contract of one index entry: a strictly ascending list of ids with insertion and
  removal. \<open>exact\<close> says that a family of such lists is the inverse of a classification of the
  ids.\<close>

locale id_index =
  fixes add :: "'i::linorder \<Rightarrow> 'i list \<Rightarrow> 'i list"
    and remove :: "'i \<Rightarrow> 'i list \<Rightarrow> 'i list"
  assumes add_set: "set (add i xs) = insert i (set xs)"
    and add_sorted: "sorted_wrt (<) xs \<Longrightarrow> sorted_wrt (<) (add i xs)"
    and remove_set: "set (remove i xs) = set xs - {i}"
    and remove_sorted: "sorted_wrt (<) xs \<Longrightarrow> sorted_wrt (<) (remove i xs)"
begin

definition exact :: "('k \<Rightarrow> 'i list) \<Rightarrow> ('i \<Rightarrow> 'k option) \<Rightarrow> bool" where
  "exact idx cls \<longleftrightarrow> (\<forall>k. sorted_wrt (<) (idx k) \<and> (\<forall>i. i \<in> set (idx k) \<longleftrightarrow> cls i = Some k))"

lemma exact_fresh:
  "exact idx cls \<Longrightarrow> cls i = None \<Longrightarrow> exact (idx(k := add i (idx k))) (cls(i \<mapsto> k))"
  by (auto simp: exact_def add_set add_sorted)

lemma exact_move:
  assumes "exact idx cls" "cls i = Some k" "k \<noteq> k'"
  shows "exact (idx(k := remove i (idx k), k' := add i (idx k'))) (cls(i \<mapsto> k'))"
  using assms by (auto simp: exact_def add_set add_sorted remove_set remove_sorted)

lemma exact_enumerates: "exact idx cls \<Longrightarrow> set (idx k) = {i. cls i = Some k}"
  by (auto simp: exact_def)

lemma exact_distinct: "exact idx cls \<Longrightarrow> distinct (idx k)"
  by (simp add: exact_def strict_sorted_iff)

end

lemma insert_loop_done: "insert_loop i True xs = xs"
  by (induction xs) auto

lemma insert_loop_insort: "i \<notin> set xs \<Longrightarrow> sorted_wrt (<) xs \<Longrightarrow> insert_loop i False xs = insort i xs"
  by (induction xs) (auto simp: insert_loop_done)

lemma set_insert_loop: "set (insert_loop i b xs) = (if b then set xs else insert i (set xs))"
  by (induction i b xs rule: insert_loop.induct) auto

lemma insert_id_insort:
  "sorted_wrt (<) xs \<Longrightarrow> insert_id i xs = (if i \<in> set xs then xs else insort i xs)"
  by (auto simp: insert_id_def list_ex_iff insert_loop_insort)

interpretation match_ids: id_index insert_id remove_id
proof
  fix i :: u64 and xs
  show "set (insert_id i xs) = insert i (set xs)"
    by (auto simp: insert_id_def set_insert_loop list_ex_iff)
  show "sorted_wrt (<) (insert_id i xs)" if "sorted_wrt (<) xs"
    using that by (simp add: insert_id_insort strict_sorted_iff sorted_insort distinct_insort)
  show "set (remove_id i xs) = set xs - {i}" by (auto simp: remove_id_def)
  show "sorted_wrt (<) (remove_id i xs)" if "sorted_wrt (<) xs"
    using that by (simp add: remove_id_def sorted_wrt_filter)
qed

section \<open>The state index\<close>

definition ids_in_state :: "(match_state \<Rightarrow> u64 list option) \<Rightarrow> match_state \<Rightarrow> u64 list" where
  "ids_in_state f st = unwrap_or (f st) []"

definition state_of :: "(u64 \<Rightarrow> match_rec option) \<Rightarrow> u64 \<Rightarrow> match_state option" where
  "state_of ms i = map_option m_state (ms i)"

text \<open>Every list of \<^verbatim>\<open>MatchesByState\<close> holds, in ascending order, exactly the ids whose
  stored match is in that state, and a match is stored under its own id.\<close>

definition index_inv :: "'w escrow \<Rightarrow> bool" where
  "index_inv s \<longleftrightarrow>
     match_ids.exact (ids_in_state (p_matches_by_state (pers s))) (state_of (p_match (pers s))) \<and>
     (\<forall>i m. p_match (pers s) i = Some m \<longrightarrow> m_id m = i)"

definition index_add :: "match_state \<Rightarrow> u64 \<Rightarrow> (match_state \<Rightarrow> u64 list option) \<Rightarrow> (match_state \<Rightarrow> u64 list option)" where
  "index_add st i f = (if i \<in> set (ids_in_state f st) then f else f(st \<mapsto> insert_id i (ids_in_state f st)))"

definition index_remove :: "match_state \<Rightarrow> u64 \<Rightarrow> (match_state \<Rightarrow> u64 list option) \<Rightarrow> (match_state \<Rightarrow> u64 list option)" where
  "index_remove st i f = (let r = remove_id i (ids_in_state f st) in f(st := if r = [] then None else Some r))"

lemma insert_id_member: "i \<in> set xs \<Longrightarrow> insert_id i xs = xs"
  by (auto simp: insert_id_def list_ex_iff)

lemma ids_index_add: "ids_in_state (index_add st i f) = (ids_in_state f)(st := insert_id i (ids_in_state f st))"
  by (rule ext) (auto simp: index_add_def insert_id_member ids_in_state_def)

lemma ids_index_remove: "ids_in_state (index_remove st i f) = (ids_in_state f)(st := remove_id i (ids_in_state f st))"
  by (rule ext) (auto simp: index_remove_def ids_in_state_def Let_def)

lemma wp_add_to_state_index [wp_simps]:
  "wp (add_match_to_index (MatchesByState st) i) Q E T s =
     Q () (s\<lparr>pers := (pers s)\<lparr>p_matches_by_state := index_add st i (p_matches_by_state (pers s))\<rparr>\<rparr>)"
  by (auto simp: add_match_to_index_def wp_simps set_index_def get_index_def index_add_def
      ids_in_state_def list_ex_iff)

lemma wp_remove_from_state_index [wp_simps]:
  "wp (remove_match_from_index (MatchesByState st) i) Q E T s =
     Q () (s\<lparr>pers := (pers s)\<lparr>p_matches_by_state := index_remove st i (p_matches_by_state (pers s))\<rparr>\<rparr>)"
  by (simp add: remove_match_from_index_def wp_simps set_index_def get_index_def index_remove_def
      ids_in_state_def Let_def)

lemma wp_add_to_bracket_index [wp_simps]:
  "wp (add_match_to_index (BracketMatches b) i) Q E T s =
     (let xs = unwrap_or (p_bracket_matches (pers s) b) [] in
      Q () (if i \<in> set xs then s
            else s\<lparr>pers := (pers s)\<lparr>p_bracket_matches := (p_bracket_matches (pers s))(b \<mapsto> insert_id i xs)\<rparr>\<rparr>))"
  by (auto simp: add_match_to_index_def wp_simps set_index_def get_index_def list_ex_iff Let_def)

text \<open>The index after \<^verbatim>\<open>set_match_state\<close> on a match in state \<open>a\<close>.\<close>

definition index_move ::
    "match_state \<Rightarrow> match_state \<Rightarrow> u64 \<Rightarrow> (match_state \<Rightarrow> u64 list option) \<Rightarrow> (match_state \<Rightarrow> u64 list option)" where
  "index_move a b i f = (if a = b then f else index_add b i (index_remove a i f))"

lemma wp_set_match_state [wp_simps]:
  "wp (set_match_state m st) Q E T s =
     Q (m\<lparr>m_state := st\<rparr>) (s\<lparr>pers := (pers s)\<lparr>p_matches_by_state :=
        index_move (m_state m) st (m_id m) (p_matches_by_state (pers s))\<rparr>\<rparr>)"
  by (auto simp: set_match_state_def wp_simps index_move_def)

text \<open>A match moved in the index and stored with the new state keeps the index exact; a new
  match added under its state as well; a match stored with its state unchanged trivially.\<close>

lemma index_inv_move:
  assumes "index_inv s" "p_match (pers s) i = Some m"
    and "p_matches_by_state (pers s') = index_move (m_state m) st i (p_matches_by_state (pers s))"
    and "p_match (pers s') = (p_match (pers s))(i \<mapsto> m')" "m_state m' = st" "m_id m' = m_id m"
  shows "index_inv s'"
proof -
  have cls: "state_of (p_match (pers s')) = (state_of (p_match (pers s)))(i \<mapsto> st)"
    using assms(4,5) by (auto simp: state_of_def)
  have st: "state_of (p_match (pers s)) i = Some (m_state m)" using assms(2) by (simp add: state_of_def)
  have "match_ids.exact (ids_in_state (p_matches_by_state (pers s'))) (state_of (p_match (pers s')))"
  proof (cases "m_state m = st")
    case True
    then show ?thesis using assms(1,3) cls st by (simp add: index_inv_def index_move_def fun_upd_idem)
  next
    case False
    then show ?thesis
      using match_ids.exact_move [of _ "state_of (p_match (pers s))" i "m_state m" st] assms(1,3) st
      by (simp add: cls index_inv_def index_move_def ids_index_add ids_index_remove)
  qed
  with assms show ?thesis by (auto simp: index_inv_def)
qed

lemma index_inv_fresh:
  assumes "index_inv s" "p_match (pers s) i = None"
    and "p_matches_by_state (pers s') = index_add (m_state m) i (p_matches_by_state (pers s))"
    and "p_match (pers s') = (p_match (pers s))(i \<mapsto> m)" "m_id m = i"
  shows "index_inv s'"
proof -
  have "state_of (p_match (pers s')) = (state_of (p_match (pers s)))(i \<mapsto> m_state m)"
    using assms(4) by (auto simp: state_of_def)
  moreover have "state_of (p_match (pers s)) i = None" using assms(2) by (simp add: state_of_def)
  ultimately show ?thesis
    using assms match_ids.exact_fresh [of _ "state_of (p_match (pers s))" i "m_state m"]
    by (auto simp: index_inv_def ids_index_add)
qed

lemma index_inv_frame:
  "index_inv s \<Longrightarrow> p_match (pers s') = p_match (pers s) \<Longrightarrow>
     p_matches_by_state (pers s') = p_matches_by_state (pers s) \<Longrightarrow> index_inv s'"
  by (simp add: index_inv_def)

lemma index_inv_deployed: "index_inv (deployed w)"
  by (simp add: index_inv_def match_ids.exact_def ids_in_state_def state_of_def deployed_def
      empty_persistent_def)

section \<open>The getters enumerate exactly\<close>

lemma map_filter_pick:
  "(\<And>i. i \<in> set xs \<Longrightarrow> f i = Some (g i)) \<Longrightarrow> List.map_filter f xs = map g xs"
  by (induction xs) (auto simp: List.map_filter_simps)

text \<open>Under the invariant no index entry is skipped: a page is the corresponding slice of the
  matches in that state, in ascending order of their ids.\<close>

lemma paginated_slice:
  assumes "index_inv s" "length (ids_in_state (p_matches_by_state (pers s)) st) \<le> u32_max"
  shows "collect_matches_by_state_paginated st offset limit s =
    map (\<lambda>i. the (p_match (pers s) i)) (take limit (drop offset (ids_in_state (p_matches_by_state (pers s)) st)))"
proof -
  let ?ids = "ids_in_state (p_matches_by_state (pers s)) st"
  have pick: "pick_in_state st s i = Some (the (p_match (pers s) i))" if "i \<in> set ?ids" for i
    using assms(1) that by (auto simp: index_inv_def match_ids.exact_def state_of_def pick_in_state_def)
  define start stop where "start = min offset (length ?ids)"
    and "stop = min (saturating_add_u32 start limit) (length ?ids)"
  have "collect_matches_by_state_paginated st offset limit s =
      List.map_filter (pick_in_state st s) (map (\<lambda>k. ?ids ! k) [start..<stop])" if "limit \<noteq> 0"
    using that unfolding collect_matches_by_state_paginated_def ids_in_state_def [symmetric] Let_def
    by (simp add: start_def stop_def List.map_filter_def comp_def filter_map)
  moreover have "map (\<lambda>k. ?ids ! k) [start..<stop] = take limit (drop offset ?ids)"
    using assms(2) by (auto simp: map_nth_range start_def stop_def saturating_add_u32_def min_def)
  moreover have "List.map_filter (pick_in_state st s) (take limit (drop offset ?ids)) =
      map (\<lambda>i. the (p_match (pers s) i)) (take limit (drop offset ?ids))"
    by (intro map_filter_pick pick) (meson in_set_takeD in_set_dropD)
  ultimately show ?thesis
    by (cases "limit = 0") (simp_all add: collect_matches_by_state_paginated_def)
qed

lemma player_page_slice:
  "offset \<le> u32_max \<Longrightarrow> skipped \<le> offset \<Longrightarrow> length page < limit \<Longrightarrow>
     (skipped < offset \<Longrightarrow> page = []) \<Longrightarrow>
     player_page offset limit skipped page xs =
       page @ take (limit - length page) (drop (offset - skipped) xs)"
proof (induction xs arbitrary: skipped page)
  case (Cons x xs)
  show ?case
  proof (cases "skipped < offset")
    case True
    then have "saturating_add_u32 skipped 1 = skipped + 1"
      using Cons.prems(1) by (simp add: saturating_add_u32_def)
    with True Cons show ?thesis by (simp add: Suc_diff_Suc [symmetric])
  next
    case False
    with Cons.prems have "offset - skipped = 0" "limit - length page = Suc (limit - Suc (length page))"
      by auto
    with False Cons show ?thesis by auto
  qed
qed simp

lemma get_player_matches_paginated_slice:
  "offset \<le> u32_max \<Longrightarrow> get_player_matches_paginated player offset limit s =
     take limit (drop offset (unwrap_or (p_player_matches (pers s) player) []))"
  by (simp add: get_player_matches_paginated_def player_page_slice)

definition terminal_match :: "(u64 \<Rightarrow> match_rec option) \<Rightarrow> u64 \<Rightarrow> match_rec option" where
  "terminal_match get i = (case get i of None \<Rightarrow> None
     | Some m \<Rightarrow> if m_state m \<noteq> Completed \<and> m_state m \<noteq> Cancelled then None else Some m)"

lemma history_page_slice:
  "offset \<le> u32_max \<Longrightarrow> limit \<le> u32_max \<Longrightarrow> skipped \<le> offset \<Longrightarrow> added < limit \<Longrightarrow>
     (skipped < offset \<Longrightarrow> added = 0) \<Longrightarrow>
     history_page get limit offset skipped added acc ids =
       acc @ take (limit - added) (drop (offset - skipped) (List.map_filter (terminal_match get) ids))"
proof (induction ids arbitrary: skipped added acc)
  case (Cons i ids)
  show ?case
  proof (cases "terminal_match get i")
    case None
    with Cons show ?thesis
      by (auto simp: terminal_match_def List.map_filter_simps split: option.splits if_splits)
  next
    case (Some m)
    then have get: "get i = Some m" "\<not> (m_state m \<noteq> Completed \<and> m_state m \<noteq> Cancelled)"
      by (auto simp: terminal_match_def split: option.splits if_splits)
    have sat: "skipped < offset \<Longrightarrow> saturating_add_u32 skipped 1 = skipped + 1"
      "saturating_add_u32 added 1 = added + 1"
      using Cons.prems by (auto simp: saturating_add_u32_def)
    show ?thesis
    proof (cases "skipped < offset")
      case True
      then have "offset - skipped = Suc (offset - Suc skipped)" by simp
      with True Some get sat Cons.prems Cons.IH [of "skipped + 1" added acc] show ?thesis
        by (auto simp: List.map_filter_simps)
    next
      case False
      with Cons.prems have "offset - skipped = 0" "limit - added = Suc (limit - Suc added)" by auto
      with False Some get sat Cons show ?thesis by (auto simp: List.map_filter_simps)
    qed
  qed
qed (simp add: List.map_filter_simps)

section \<open>Tiers\<close>

definition stake_allowed :: "player_tier \<Rightarrow> i128 \<Rightarrow> bool" where
  "stake_allowed tier stake \<longleftrightarrow> min_tier_stake tier \<le> stake \<and> stake \<le> max_tier_stake tier"

lemma wp_require_player_tier [wp_simps]:
  "wp (require_player_tier_for_stake p stake) Q E T s =
     ((\<not> stake_allowed (tier_from_match_count p s) stake \<longrightarrow> E TierStakeNotAllowed s) \<and>
      (stake_allowed (tier_from_match_count p s) stake \<longrightarrow> Q () s))"
  by (auto simp: require_player_tier_for_stake_def tier_from_match_count_def stake_allowed_def wp_simps)

text \<open>The stake ranges of the tiers are disjoint and cover the positive amounts.\<close>

lemma tier_ranges_disjoint:
  assumes "stake_allowed a x" "stake_allowed b x"
  shows "a = b"
  using assms by (cases a; cases b) (auto simp: tier_consts i128_max_def stake_allowed_def)

lemma tier_ranges_cover:
  assumes "1 \<le> x" "x \<le> i128_max"
  shows "\<exists>a. stake_allowed a x"
proof -
  consider "x \<le> 100" | "101 \<le> x" "x \<le> 500" | "501 \<le> x" "x \<le> 1000" | "1001 \<le> x" by linarith
  then show ?thesis
  proof cases
    case 1 with assms show ?thesis by (intro exI [of _ Bronze]) (simp add: tier_consts stake_allowed_def)
  next
    case 2 then show ?thesis by (intro exI [of _ Silver]) (simp add: tier_consts stake_allowed_def)
  next
    case 3 then show ?thesis by (intro exI [of _ Gold]) (simp add: tier_consts stake_allowed_def)
  next
    case 4 with assms show ?thesis by (intro exI [of _ Platinum]) (simp add: tier_consts stake_allowed_def)
  qed
qed

end
