(* ===== verification/Escrow_Snapshots.thy ===== *)
theory Escrow_Snapshots
  imports Escrow_Index
begin

text \<open>
  Balance snapshots (contracts/escrow/src/lib.rs): the ring buffer of snapshots of a match, the
  ring buffer of aggregate balances of a player, the commitment to the amounts and the redacted
  views. Both buffers satisfy the locale \<open>ring_buffer\<close>: relative to the full history of what
  was recorded, the slots hold the last \<open>cap\<close> entries. The point query over the player buffer
  is shown to answer as the full history would, or to say that it cannot.

  \<^verbatim>\<open>try_invoke_contract(token, "symbol")\<close> is the environment's \<open>token_symbol\<close>, a
  read of the world with \<open>None\<close> for every failure.
\<close>

definition MAX_SNAPSHOTS_PER_MATCH :: u32 where "MAX_SNAPSHOTS_PER_MATCH = 8"
definition MAX_PLAYER_SNAPSHOTS :: u32 where "MAX_PLAYER_SNAPSHOTS = 32"

section \<open>Balances\<close>

definition depositor_count :: "match_rec \<Rightarrow> i128" where
  "depositor_count m = (if m_player1_deposited m then 1 else 0) + (if m_player2_deposited m then 1 else 0)"

text \<open>\<open>None\<close> is the overflow panic of the multiplication.\<close>

definition escrow_balance_of :: "match_rec \<Rightarrow> i128 option" where
  "escrow_balance_of m =
     (if m_state m = Completed \<or> m_state m = Cancelled then Some 0
      else to_i128 (depositor_count m * m_stake_amount m))"

definition player_escrow_balance :: "address \<Rightarrow> 'w escrow \<Rightarrow> i128" where
  "player_escrow_balance player s = unwrap_or (p_escrow_balance (pers s) player) 0"

definition update_player_escrow_balance :: "address \<Rightarrow> i128 \<Rightarrow> ('w, unit) act" where
  "update_player_escrow_balance player delta =
     upd_pers (\<lambda>p. p\<lparr>p_escrow_balance := (p_escrow_balance p)(player \<mapsto>
       saturating_add (unwrap_or (p_escrow_balance p player) 0) delta)\<rparr>)"

section \<open>Match snapshots\<close>

definition fetch_token_symbol :: "'w env \<Rightarrow> address \<Rightarrow> ('w, string) act" where
  "fetch_token_symbol env token =
     bnd (gets (\<lambda>s. p_token_symbol (pers s) token)) (\<lambda>cached.
     case cached of Some c \<Rightarrow> ret c
     | None \<Rightarrow>
        bnd (gets (\<lambda>s. unwrap_or (token_symbol env token (world s)) [])) (\<lambda>symbol.
        bnd (only_if (length symbol > 0)
              (upd_pers (\<lambda>p. p\<lparr>p_token_symbol := (p_token_symbol p)(token \<mapsto> symbol)\<rparr>))) (\<lambda>_.
        ret symbol)))"

text \<open>\<^verbatim>\<open>i128::to_be_bytes\<close>: sixteen bytes of the two's complement, most significant
  first.\<close>

definition to_be_bytes :: "i128 \<Rightarrow> bytes" where
  "to_be_bytes x = map (\<lambda>k. nat (x div 256 ^ (15 - k) mod 256)) [0..<16]"

definition compute_commitment :: "'w env \<Rightarrow> i128 \<Rightarrow> i128 \<Rightarrow> bytes \<Rightarrow> bytes" where
  "compute_commitment env stake_amount escrow_balance nonce =
     sha256 env (to_be_bytes stake_amount @ to_be_bytes escrow_balance @ nonce)"

definition prng_gen32 :: "'w env \<Rightarrow> ('w, bytes) act" where
  "prng_gen32 env =
     bnd (gets (\<lambda>s. prng_gen env (prng_draws s))) (\<lambda>nonce.
     bnd (modify (\<lambda>s. s\<lparr>prng_draws := prng_draws s + 1\<rparr>)) (\<lambda>_. ret nonce))"

definition record_snapshot :: "'w env \<Rightarrow> match_rec \<Rightarrow> snapshot_reason \<Rightarrow> ('w, unit) act" where
  "record_snapshot env m reason =
     bnd (fetch_token_symbol env (m_token m)) (\<lambda>token_symbol.
     bnd (or_trap (escrow_balance_of m)) (\<lambda>escrow_balance.
     bnd (gets (\<lambda>s. unwrap_or (p_snapshot_count (pers s) (m_id m)) 0)) (\<lambda>index.
     let slot = index mod MAX_SNAPSHOTS_PER_MATCH in
     bnd (gets (\<lambda>s. unwrap_or (map_option bs_index (p_snapshot (pers s) (m_id m) slot))
                      (saturating_sub index MAX_SNAPSHOTS_PER_MATCH))) (\<lambda>overwritten_index.
     bnd (only_if (index \<ge> MAX_SNAPSHOTS_PER_MATCH)
           (publish ''match'' ''snap_ovr'' [VNat (m_id m), VNat overwritten_index, VNat index])) (\<lambda>_.
     bnd (prng_gen32 env) (\<lambda>nonce.
     let commitment = compute_commitment env (m_stake_amount m) escrow_balance nonce;
         snapshot = \<lparr>bs_match_id = m_id m, bs_index = index, bs_reason = reason,
           bs_ledger = ledger_sequence env, bs_token = m_token m, bs_token_symbol = token_symbol,
           bs_stake_amount = m_stake_amount m, bs_escrow_balance = escrow_balance,
           bs_player1_deposited = m_player1_deposited m, bs_player2_deposited = m_player2_deposited m,
           bs_nonce = nonce, bs_commitment = commitment\<rparr> in
     seqs [
       upd_pers (\<lambda>p. p\<lparr>p_snapshot := (p_snapshot p)(m_id m := (p_snapshot p (m_id m))(slot \<mapsto> snapshot))\<rparr>),
       upd_pers (\<lambda>p. p\<lparr>p_snapshot_count := (p_snapshot_count p)(m_id m \<mapsto> saturating_add_u32 index 1)\<rparr>),
       publish ''match'' ''snapshot'' [VNat (m_id m), VNat index, VBytes commitment]]))))))"

text \<open>\<open>Ok True\<close> for the admin, \<open>Ok False\<close> for a player of the match.\<close>

definition authorize_snapshot_query :: "'w env \<Rightarrow> address \<Rightarrow> match_rec \<Rightarrow> ('w, bool) act" where
  "authorize_snapshot_query env caller m =
     bnd (require_auth env caller) (\<lambda>_.
     bnd load_admin (\<lambda>admin.
     if caller = admin then ret True
     else if caller = m_player1 m \<or> caller = m_player2 m then ret False
     else fail Unauthorized))"

definition redact_snapshot :: "balance_snapshot \<Rightarrow> balance_snapshot" where
  "redact_snapshot snapshot =
     snapshot\<lparr>bs_stake_amount := 0, bs_escrow_balance := 0, bs_player1_deposited := False,
       bs_player2_deposited := False, bs_nonce := replicate 32 0\<rparr>"

definition get_balance_snapshots :: "'w env \<Rightarrow> address \<Rightarrow> u64 \<Rightarrow> ('w, balance_snapshot list) act" where
  "get_balance_snapshots env caller match_id =
     bnd (load_match match_id) (\<lambda>m.
     bnd (authorize_snapshot_query env caller m) (\<lambda>full_access.
     bnd (gets (\<lambda>s. unwrap_or (p_snapshot_count (pers s) match_id) 0)) (\<lambda>count.
     let available = min count MAX_SNAPSHOTS_PER_MATCH; start = saturating_sub count available in
     gets (\<lambda>s. List.map_filter (\<lambda>i.
         map_option (\<lambda>snapshot. if full_access then snapshot else redact_snapshot snapshot)
           (p_snapshot (pers s) match_id (i mod MAX_SNAPSHOTS_PER_MATCH))) [start..<count]))))"

definition get_latest_snapshot :: "'w env \<Rightarrow> address \<Rightarrow> u64 \<Rightarrow> ('w, balance_snapshot) act" where
  "get_latest_snapshot env caller match_id =
     bnd (load_match match_id) (\<lambda>m.
     bnd (authorize_snapshot_query env caller m) (\<lambda>full_access.
     bnd (gets (\<lambda>s. unwrap_or (p_snapshot_count (pers s) match_id) 0)) (\<lambda>count.
     bnd (reject_if (count = 0) SnapshotNotFound) (\<lambda>_.
     let slot = (count - 1) mod MAX_SNAPSHOTS_PER_MATCH in
     bnd (gets (\<lambda>s. p_snapshot (pers s) match_id slot)) (\<lambda>found.
     bnd (ok_or found SnapshotNotFound) (\<lambda>snapshot.
     ret (if full_access then snapshot else redact_snapshot snapshot)))))))"

section \<open>Player snapshots\<close>

definition player_snapshot_entry :: "'w env \<Rightarrow> address \<Rightarrow> 'w escrow \<Rightarrow> player_balance_snapshot" where
  "player_snapshot_entry env player s =
     \<lparr>ps_player = player, ps_index = unwrap_or (p_player_balance_snapshot_count (pers s) player) 0,
      ps_ledger = ledger_sequence env, ps_balance = player_escrow_balance player s\<rparr>"

definition record_player_snapshot :: "'w env \<Rightarrow> address \<Rightarrow> ('w, unit) act" where
  "record_player_snapshot env player =
     bnd (gets (player_escrow_balance player)) (\<lambda>balance.
     bnd (gets (\<lambda>s. unwrap_or (p_player_balance_snapshot_count (pers s) player) 0)) (\<lambda>index.
     let slot = index mod MAX_PLAYER_SNAPSHOTS in
     bnd (gets (player_snapshot_entry env player)) (\<lambda>snapshot. seqs [
       upd_pers (\<lambda>p. p\<lparr>p_player_balance_snapshot := (p_player_balance_snapshot p)(player :=
         (p_player_balance_snapshot p player)(slot \<mapsto> snapshot))\<rparr>),
       upd_pers (\<lambda>p. p\<lparr>p_player_balance_snapshot_count :=
         (p_player_balance_snapshot_count p)(player \<mapsto> saturating_add_u64 index 1)\<rparr>),
       publish ''player'' ''snapshot'' [VAddr player, VNat index, VInt balance]])))"

text \<open>The \<^verbatim>\<open>while cursor > start\<close> loop, newest first.\<close>

function scan_balance ::
    "(nat \<Rightarrow> player_balance_snapshot option) \<Rightarrow> nat \<Rightarrow> u64 \<Rightarrow> u64 \<Rightarrow> u64 \<Rightarrow> i128 option" where
  "scan_balance slots cap timestamp start cursor =
     (if cursor > start then
        let cursor' = cursor - 1 in
        (case slots (cursor' mod cap) of
           Some snap \<Rightarrow>
             if ps_index snap \<noteq> cursor' then scan_balance slots cap timestamp start cursor'
             else if ps_ledger snap \<le> timestamp then Some (ps_balance snap)
             else scan_balance slots cap timestamp start cursor'
         | None \<Rightarrow> scan_balance slots cap timestamp start cursor')
      else None)"
  by pat_completeness auto
termination by (relation "measure (\<lambda>(_, _, _, _, cursor). cursor)") auto

declare scan_balance.simps [simp del]

definition get_balance_at_timestamp :: "address \<Rightarrow> u64 \<Rightarrow> 'w escrow \<Rightarrow> balance_at_timestamp" where
  "get_balance_at_timestamp player timestamp s =
     (let count = unwrap_or (p_player_balance_snapshot_count (pers s) player) 0 in
      if count = 0 then NoHistory
      else let cap = MAX_PLAYER_SNAPSHOTS; available = min count cap;
               start = saturating_sub count available
           in case scan_balance (p_player_balance_snapshot (pers s) player) cap timestamp start count of
                Some balance \<Rightarrow> Known balance
              | None \<Rightarrow> if start > 0 then Pruned else NoHistory)"

text \<open>The page loop, with its \<^verbatim>\<open>added\<close> counter.\<close>

fun snaps_page ::
    "(nat \<Rightarrow> player_balance_snapshot option) \<Rightarrow> nat \<Rightarrow> u64 \<Rightarrow> u64 \<Rightarrow> nat list \<Rightarrow> player_balance_snapshot list" where
  "snaps_page slots cap limit added [] = []"
| "snaps_page slots cap limit added (i # is) =
     (if added \<ge> limit then []
      else case slots (i mod cap) of
        Some snap \<Rightarrow> if ps_index snap = i
          then snap # snaps_page slots cap limit (saturating_add_u64 added 1) is
          else snaps_page slots cap limit added is
      | None \<Rightarrow> snaps_page slots cap limit added is)"

definition get_balance_snaps_paginated ::
    "address \<Rightarrow> u64 \<Rightarrow> u64 \<Rightarrow> 'w escrow \<Rightarrow> player_balance_snapshot list" where
  "get_balance_snaps_paginated player start limit s =
     (let count = unwrap_or (p_player_balance_snapshot_count (pers s) player) 0 in
      if count = 0 \<or> limit = 0 then []
      else let cap = MAX_PLAYER_SNAPSHOTS; available = min count cap;
               effective_start = saturating_add_u64 (saturating_sub count available) start;
               stop = min count (saturating_add_u64 effective_start limit)
           in snaps_page (p_player_balance_snapshot (pers s) player) cap limit 0 [effective_start..<stop])"

section \<open>Ring buffers\<close>

text \<open>\<open>push x\<close> is the recording operation, \<open>entry x s\<close> what it records in state
  \<open>s\<close>. \<open>retains s hist\<close> relates a state to the full history: the slots hold its last
  \<open>cap\<close> entries, each under its index.\<close>

locale ring_buffer =
  fixes cap :: nat and limit :: nat
    and slots :: "'s \<Rightarrow> nat \<Rightarrow> 'e option"
    and count :: "'s \<Rightarrow> nat"
    and index :: "'e \<Rightarrow> nat"
    and push :: "'x \<Rightarrow> ('s, 'er, unit) action"
    and "entry" :: "'x \<Rightarrow> 's \<Rightarrow> 'e"
  assumes cap_pos: "0 < cap"
    and push_slots: "push x s = (Ok (), s') \<Longrightarrow> slots s' = (slots s)(count s mod cap \<mapsto> entry x s)"
    and push_count: "push x s = (Ok (), s') \<Longrightarrow> count s' = min limit (count s + 1)"
    and entry_index: "index (entry x s) = count s"
begin

definition retains :: "'s \<Rightarrow> 'e list \<Rightarrow> bool" where
  "retains s hist \<longleftrightarrow> count s = length hist \<and> (\<forall>i < length hist. index (hist ! i) = i) \<and>
     (\<forall>i < length hist. length hist \<le> i + cap \<longrightarrow> slots s (i mod cap) = Some (hist ! i))"

lemma retains_empty: "count s = 0 \<Longrightarrow> retains s []"
  by (simp add: retains_def)

lemma mod_window:
  assumes "i < n" "n < i + cap"
  shows "i mod cap \<noteq> n mod cap"
proof
  assume "i mod cap = n mod cap"
  then have "cap dvd n - i" using assms(1) mod_eq_dvd_iff_nat [of i n cap] by simp
  with assms show False by (auto dest: dvd_imp_le)
qed

lemma retains_push:
  assumes "retains s hist" "push x s = (Ok (), s')" "length hist < limit"
  shows "retains s' (hist @ [entry x s])"
proof -
  have slots: "slots s' = (slots s)(length hist mod cap \<mapsto> entry x s)"
    and c: "count s' = Suc (length hist)"
    using push_slots [OF assms(2)] push_count [OF assms(2)] assms(1,3) by (simp_all add: retains_def)
  have "slots s' (i mod cap) = Some ((hist @ [entry x s]) ! i)"
    if "i < Suc (length hist)" "Suc (length hist) \<le> i + cap" for i
  proof (cases "i = length hist")
    case False
    with that have i: "i < length hist" "length hist < i + cap" by auto
    then show ?thesis
      using assms(1) mod_window [OF i] by (simp add: slots retains_def nth_append)
  qed (simp add: slots)
  with c show ?thesis
    using assms(1) entry_index [of x s] by (auto simp: retains_def nth_append less_Suc_eq)
qed

text \<open>The retained window, oldest first.\<close>

lemma retains_window:
  assumes "retains s hist"
  shows "List.map_filter (\<lambda>i. map_option f (slots s (i mod cap))) [count s - min (count s) cap..<count s]
    = map f (drop (length hist - cap) hist)"
proof -
  let ?n = "length hist"
  have n: "count s = ?n" using assms by (simp add: retains_def)
  have "map_option f (slots s (i mod cap)) = Some (f (hist ! i))" if "i \<in> set [?n - min ?n cap..<?n]" for i
    using that assms by (auto simp: retains_def min_def split: if_splits)
  then have "List.map_filter (\<lambda>i. map_option f (slots s (i mod cap))) [?n - min ?n cap..<?n]
      = map (\<lambda>i. f (hist ! i)) [?n - min ?n cap..<?n]"
    by (intro map_filter_pick) auto
  also have "\<dots> = map f (map (\<lambda>i. hist ! i) [?n - min ?n cap..<?n])" by simp
  also have "\<dots> = map f (drop (?n - cap) hist)"
    by (subst map_nth_range) (auto simp: min_def)
  finally show ?thesis by (simp add: n)
qed

lemma retains_latest:
  "retains s hist \<Longrightarrow> hist \<noteq> [] \<Longrightarrow> slots s ((count s - 1) mod cap) = Some (last hist)"
  using cap_pos by (auto simp: retains_def last_conv_nth)

end

definition match_snapshot_entry ::
    "u64 \<Rightarrow> 'w env \<times> match_rec \<times> snapshot_reason \<Rightarrow> 'w escrow \<Rightarrow> balance_snapshot" where
  "match_snapshot_entry match_id = (\<lambda>(env, m, reason) s.
     let index = unwrap_or (p_snapshot_count (pers s) match_id) 0;
         balance = the (escrow_balance_of m); nonce = prng_gen env (prng_draws s)
     in \<lparr>bs_match_id = match_id, bs_index = index, bs_reason = reason,
         bs_ledger = ledger_sequence env, bs_token = m_token m,
         bs_token_symbol = (case p_token_symbol (pers s) (m_token m) of Some c \<Rightarrow> c
            | None \<Rightarrow> unwrap_or (token_symbol env (m_token m) (world s)) []),
         bs_stake_amount = m_stake_amount m, bs_escrow_balance = balance,
         bs_player1_deposited = m_player1_deposited m, bs_player2_deposited = m_player2_deposited m,
         bs_nonce = nonce,
         bs_commitment = compute_commitment env (m_stake_amount m) balance nonce\<rparr>)"

lemma escrow_balance_of_id [simp]: "escrow_balance_of (m\<lparr>m_id := i\<rparr>) = escrow_balance_of m"
  by (simp add: escrow_balance_of_def depositor_count_def)

interpretation match_ring: ring_buffer MAX_SNAPSHOTS_PER_MATCH u32_max
    "\<lambda>s. p_snapshot (pers s) match_id" "\<lambda>s. unwrap_or (p_snapshot_count (pers s) match_id) 0" bs_index
    "\<lambda>(env, m, reason). record_snapshot env (m\<lparr>m_id := match_id\<rparr>) reason"
    "match_snapshot_entry match_id" for match_id
  by unfold_locales
    (auto simp: MAX_SNAPSHOTS_PER_MATCH_def record_snapshot_def fetch_token_symbol_def prng_gen32_def
      match_snapshot_entry_def saturating_add_u32_def
      run_simps Let_def split: option.splits if_splits)

interpretation player_ring: ring_buffer MAX_PLAYER_SNAPSHOTS u64_max
    "\<lambda>s. p_player_balance_snapshot (pers s) player"
    "\<lambda>s. unwrap_or (p_player_balance_snapshot_count (pers s) player) 0" ps_index
    "\<lambda>env. record_player_snapshot env player" "\<lambda>env. player_snapshot_entry env player" for player
  by unfold_locales
    (auto simp: MAX_PLAYER_SNAPSHOTS_def record_player_snapshot_def player_snapshot_entry_def
      saturating_add_u64_def run_simps Let_def)

section \<open>Reading the buffers\<close>

text \<open>What the full history answers: the balance of the last entry at or before the time.\<close>

definition balance_in_history :: "player_balance_snapshot list \<Rightarrow> u64 \<Rightarrow> i128 option" where
  "balance_in_history hist timestamp =
     (let old = filter (\<lambda>e. ps_ledger e \<le> timestamp) hist
      in if old = [] then None else Some (ps_balance (last old)))"

lemma scan_balance_window:
  assumes "player_ring.retains player s hist" "length hist \<le> start + MAX_PLAYER_SNAPSHOTS"
    and "start \<le> c" "c \<le> length hist"
  shows "scan_balance (p_player_balance_snapshot (pers s) player) MAX_PLAYER_SNAPSHOTS ts start c =
    balance_in_history (drop start (take c hist)) ts"
  using assms(3,4)
proof (induction c)
  case 0
  then show ?case by (simp add: scan_balance.simps balance_in_history_def)
next
  case (Suc c)
  show ?case
  proof (cases "start = Suc c")
    case False
    with Suc have le: "start \<le> c" "c < length hist" by auto
    then have slot: "p_player_balance_snapshot (pers s) player (c mod MAX_PLAYER_SNAPSHOTS) = Some (hist ! c)"
      "ps_index (hist ! c) = c"
      using assms(1,2) by (auto simp: player_ring.retains_def)
    have "drop start (take (Suc c) hist) = drop start (take c hist) @ [hist ! c]"
      using le by (simp add: take_Suc_conv_app_nth)
    with le slot Suc.IH show ?thesis
      by (subst scan_balance.simps) (auto simp: balance_in_history_def Let_def)
  qed (simp add: scan_balance.simps balance_in_history_def)
qed

lemma balance_in_history_drop:
  "balance_in_history (drop n hist) ts = Some b \<Longrightarrow> balance_in_history hist ts = Some b"
proof -
  assume d: "balance_in_history (drop n hist) ts = Some b"
  let ?P = "\<lambda>e. ps_ledger e \<le> ts"
  have "filter ?P hist = filter ?P (take n hist) @ filter ?P (drop n hist)"
    by (metis append_take_drop_id filter_append)
  with d show ?thesis by (auto simp: balance_in_history_def Let_def split: if_splits)
qed

lemma get_balance_at_timestamp_window:
  assumes "player_ring.retains player s hist"
  shows "get_balance_at_timestamp player ts s =
    (case balance_in_history (drop (length hist - MAX_PLAYER_SNAPSHOTS) hist) ts of
       Some b \<Rightarrow> Known b
     | None \<Rightarrow> if length hist > MAX_PLAYER_SNAPSHOTS then Pruned else NoHistory)"
proof -
  have n: "unwrap_or (p_player_balance_snapshot_count (pers s) player) 0 = length hist"
    using assms by (simp add: player_ring.retains_def)
  have start: "length hist - min (length hist) MAX_PLAYER_SNAPSHOTS = length hist - MAX_PLAYER_SNAPSHOTS"
    by (simp add: min_def)
  show ?thesis
    using scan_balance_window [OF assms, of "length hist - MAX_PLAYER_SNAPSHOTS" "length hist" ts]
    by (auto simp: get_balance_at_timestamp_def n start Let_def balance_in_history_def
        split: option.split)
qed

text \<open>The commitment binds the amounts: its preimage determines them.\<close>

lemma digits_determine:
  fixes x y :: int
  assumes "\<And>j. j < n \<Longrightarrow> x div 256 ^ j mod 256 = y div 256 ^ j mod 256"
  shows "x mod 256 ^ n = y mod 256 ^ n"
  using assms
proof (induction n)
  case (Suc n)
  then have "x mod 256 ^ n = y mod 256 ^ n" "x div 256 ^ n mod 256 = y div 256 ^ n mod 256" by auto
  then show ?case
    using zmod_zmult2_eq [of 256 x "256 ^ n"] zmod_zmult2_eq [of 256 y "256 ^ n"]
    by (simp add: mult.commute)
qed simp

lemma to_be_bytes_inject:
  assumes "to_be_bytes x = to_be_bytes y" "in_i128 x" "in_i128 y"
  shows "x = y"
proof -
  have "x div 256 ^ j mod 256 = y div 256 ^ j mod 256" if "j < 16" for j
  proof -
    have "to_be_bytes x ! (15 - j) = to_be_bytes y ! (15 - j)" by (simp add: assms(1))
    with that show ?thesis by (simp add: to_be_bytes_def nat_eq_iff)
  qed
  then have "x mod 256 ^ 16 = y mod 256 ^ 16" by (rule digits_determine)
  then have "(256 :: int) ^ 16 dvd x - y" by (simp add: mod_eq_dvd_iff)
  moreover have "\<bar>x - y\<bar> < 256 ^ 16"
    using assms(2,3) by (simp add: in_i128_def i128_min_def i128_max_def abs_if)
  ultimately show ?thesis using zdvd_not_zless [of "\<bar>x - y\<bar>" "256 ^ 16"] by fastforce
qed

lemma length_to_be_bytes [simp]: "length (to_be_bytes x) = 16"
  by (simp add: to_be_bytes_def)

section \<open>Effects of the recording helpers\<close>

text \<open>Recording a snapshot panics only on the overflow of the balance, and none of the helpers
  touches anything but its own entries.\<close>

lemma wp_record_snapshot [wp_simps]:
  "wp (record_snapshot env m r) Q E T s =
     ((escrow_balance_of m = None \<longrightarrow> T) \<and>
      (\<forall>b. escrow_balance_of m = Some b \<longrightarrow> Q () (after (record_snapshot env m r) s)))"
proof -
  have "verdict (record_snapshot env m r) s = (if escrow_balance_of m = None then Trap else Ok ())"
    by (auto simp: verdict_def record_snapshot_def fetch_token_symbol_def prng_gen32_def run_simps
        Let_def split: option.splits)
  then show ?thesis by (cases "escrow_balance_of m") (simp_all add: wp_after)
qed

lemma wp_record_player_snapshot [wp_simps]:
  "wp (record_player_snapshot env p) Q E T s = Q () (after (record_player_snapshot env p) s)"
proof -
  have "verdict (record_player_snapshot env p) s = Ok ()"
    by (simp add: verdict_def record_player_snapshot_def run_simps Let_def)
  then show ?thesis by (simp add: wp_after)
qed

lemma wp_remove_active [wp_simps]:
  "wp (remove_active_match_indexed p i) Q E T s = Q () (after (remove_active_match_indexed p i) s)"
proof -
  have "verdict (remove_active_match_indexed p i) s = Ok ()"
    by (simp add: verdict_def remove_active_match_indexed_def run_simps)
  then show ?thesis by (simp add: wp_after)
qed

lemma record_snapshot_frame [simp]:
  "inst (after (record_snapshot env m r) s) = inst s"
  "world (after (record_snapshot env m r) s) = world s"
  "t_deposit_in_progress (after (record_snapshot env m r) s) = t_deposit_in_progress s"
  "current_wasm (after (record_snapshot env m r) s) = current_wasm s"
  "p_match (pers (after (record_snapshot env m r) s)) = p_match (pers s)"
  "p_matches_by_state (pers (after (record_snapshot env m r) s)) = p_matches_by_state (pers s)"
  "p_escrow_balance (pers (after (record_snapshot env m r) s)) = p_escrow_balance (pers s)"
  "p_game_id (pers (after (record_snapshot env m r) s)) = p_game_id (pers s)"
  "p_player_matches (pers (after (record_snapshot env m r) s)) = p_player_matches (pers s)"
  "p_pending_winner (pers (after (record_snapshot env m r) s)) = p_pending_winner (pers s)"
  "p_result_deadline (pers (after (record_snapshot env m r) s)) = p_result_deadline (pers s)"
  "p_dispute (pers (after (record_snapshot env m r) s)) = p_dispute (pers s)"
  "p_match_dispute (pers (after (record_snapshot env m r) s)) = p_match_dispute (pers s)"
  "p_player_completed_match_count (pers (after (record_snapshot env m r) s)) = p_player_completed_match_count (pers s)"
  "p_fee_tiers (pers (after (record_snapshot env m r) s)) = p_fee_tiers (pers s)"
  "p_oracle_deadlock (pers (after (record_snapshot env m r) s)) = p_oracle_deadlock (pers s)"
  "p_stats (pers (after (record_snapshot env m r) s)) = p_stats (pers s)"
  "p_player_stats (pers (after (record_snapshot env m r) s)) = p_player_stats (pers s)"
  "p_bracket_organizer (pers (after (record_snapshot env m r) s)) = p_bracket_organizer (pers s)"
  "p_dispute_vote (pers (after (record_snapshot env m r) s)) = p_dispute_vote (pers s)"
  "p_oracle_vote (pers (after (record_snapshot env m r) s)) = p_oracle_vote (pers s)"
  "p_player_preferred_token (pers (after (record_snapshot env m r) s)) = p_player_preferred_token (pers s)"
  "p_active_match (pers (after (record_snapshot env m r) s)) = p_active_match (pers s)"
  "p_player_active_match_count (pers (after (record_snapshot env m r) s)) = p_player_active_match_count (pers s)"
  "p_player_balance_snapshot (pers (after (record_snapshot env m r) s)) = p_player_balance_snapshot (pers s)"
  "p_player_balance_snapshot_count (pers (after (record_snapshot env m r) s)) = p_player_balance_snapshot_count (pers s)"
  by (auto simp: record_snapshot_def fetch_token_symbol_def prng_gen32_def intro!: frame_after frame_rules)

lemma record_player_snapshot_frame [simp]:
  "inst (after (record_player_snapshot env p) s) = inst s"
  "world (after (record_player_snapshot env p) s) = world s"
  "t_deposit_in_progress (after (record_player_snapshot env p) s) = t_deposit_in_progress s"
  "current_wasm (after (record_player_snapshot env p) s) = current_wasm s"
  "p_match (pers (after (record_player_snapshot env p) s)) = p_match (pers s)"
  "p_matches_by_state (pers (after (record_player_snapshot env p) s)) = p_matches_by_state (pers s)"
  "p_escrow_balance (pers (after (record_player_snapshot env p) s)) = p_escrow_balance (pers s)"
  "p_game_id (pers (after (record_player_snapshot env p) s)) = p_game_id (pers s)"
  "p_player_matches (pers (after (record_player_snapshot env p) s)) = p_player_matches (pers s)"
  "p_pending_winner (pers (after (record_player_snapshot env p) s)) = p_pending_winner (pers s)"
  "p_result_deadline (pers (after (record_player_snapshot env p) s)) = p_result_deadline (pers s)"
  "p_dispute (pers (after (record_player_snapshot env p) s)) = p_dispute (pers s)"
  "p_match_dispute (pers (after (record_player_snapshot env p) s)) = p_match_dispute (pers s)"
  "p_player_completed_match_count (pers (after (record_player_snapshot env p) s)) = p_player_completed_match_count (pers s)"
  "p_fee_tiers (pers (after (record_player_snapshot env p) s)) = p_fee_tiers (pers s)"
  "p_oracle_deadlock (pers (after (record_player_snapshot env p) s)) = p_oracle_deadlock (pers s)"
  "p_stats (pers (after (record_player_snapshot env p) s)) = p_stats (pers s)"
  "p_player_stats (pers (after (record_player_snapshot env p) s)) = p_player_stats (pers s)"
  "p_bracket_organizer (pers (after (record_player_snapshot env p) s)) = p_bracket_organizer (pers s)"
  "p_dispute_vote (pers (after (record_player_snapshot env p) s)) = p_dispute_vote (pers s)"
  "p_oracle_vote (pers (after (record_player_snapshot env p) s)) = p_oracle_vote (pers s)"
  "p_player_preferred_token (pers (after (record_player_snapshot env p) s)) = p_player_preferred_token (pers s)"
  "p_active_match (pers (after (record_player_snapshot env p) s)) = p_active_match (pers s)"
  "p_player_active_match_count (pers (after (record_player_snapshot env p) s)) = p_player_active_match_count (pers s)"
  "p_snapshot (pers (after (record_player_snapshot env p) s)) = p_snapshot (pers s)"
  "p_snapshot_count (pers (after (record_player_snapshot env p) s)) = p_snapshot_count (pers s)"
  by (auto simp: record_player_snapshot_def intro!: frame_after frame_rules)

lemma remove_active_frame [simp]:
  "inst (after (remove_active_match_indexed p i) s) = inst s"
  "world (after (remove_active_match_indexed p i) s) = world s"
  "t_deposit_in_progress (after (remove_active_match_indexed p i) s) = t_deposit_in_progress s"
  "current_wasm (after (remove_active_match_indexed p i) s) = current_wasm s"
  "p_match (pers (after (remove_active_match_indexed p i) s)) = p_match (pers s)"
  "p_matches_by_state (pers (after (remove_active_match_indexed p i) s)) = p_matches_by_state (pers s)"
  "p_escrow_balance (pers (after (remove_active_match_indexed p i) s)) = p_escrow_balance (pers s)"
  "p_game_id (pers (after (remove_active_match_indexed p i) s)) = p_game_id (pers s)"
  "p_player_matches (pers (after (remove_active_match_indexed p i) s)) = p_player_matches (pers s)"
  "p_pending_winner (pers (after (remove_active_match_indexed p i) s)) = p_pending_winner (pers s)"
  "p_result_deadline (pers (after (remove_active_match_indexed p i) s)) = p_result_deadline (pers s)"
  "p_dispute (pers (after (remove_active_match_indexed p i) s)) = p_dispute (pers s)"
  "p_match_dispute (pers (after (remove_active_match_indexed p i) s)) = p_match_dispute (pers s)"
  "p_player_completed_match_count (pers (after (remove_active_match_indexed p i) s)) = p_player_completed_match_count (pers s)"
  "p_fee_tiers (pers (after (remove_active_match_indexed p i) s)) = p_fee_tiers (pers s)"
  "p_oracle_deadlock (pers (after (remove_active_match_indexed p i) s)) = p_oracle_deadlock (pers s)"
  "p_stats (pers (after (remove_active_match_indexed p i) s)) = p_stats (pers s)"
  "p_player_stats (pers (after (remove_active_match_indexed p i) s)) = p_player_stats (pers s)"
  "p_bracket_organizer (pers (after (remove_active_match_indexed p i) s)) = p_bracket_organizer (pers s)"
  "p_dispute_vote (pers (after (remove_active_match_indexed p i) s)) = p_dispute_vote (pers s)"
  "p_oracle_vote (pers (after (remove_active_match_indexed p i) s)) = p_oracle_vote (pers s)"
  "p_player_preferred_token (pers (after (remove_active_match_indexed p i) s)) = p_player_preferred_token (pers s)"
  "p_snapshot (pers (after (remove_active_match_indexed p i) s)) = p_snapshot (pers s)"
  "p_snapshot_count (pers (after (remove_active_match_indexed p i) s)) = p_snapshot_count (pers s)"
  "p_player_balance_snapshot (pers (after (remove_active_match_indexed p i) s)) = p_player_balance_snapshot (pers s)"
  "p_player_balance_snapshot_count (pers (after (remove_active_match_indexed p i) s)) = p_player_balance_snapshot_count (pers s)"
  by (auto simp: remove_active_match_indexed_def intro!: frame_after frame_rules)

lemmas recording_defs [wp_simps] =
  update_player_escrow_balance_def record_completed_match_def record_platform_match_created_def
  record_platform_payout_def update_player_stats_def

end
