(* ===== verification/Escrow_Governance.thy ===== *)
theory Escrow_Governance
  imports Escrow_Snapshots
begin

text \<open>
  Who may do what, and how that changes (contracts/escrow/src/lib.rs): the two-step admin
  handover, the oracle address with its temporary and permanent rotation, and the upgrade of the
  contract code with its review period, confirmation and version counter.
\<close>

definition UPGRADE_REVIEW_PERIOD_LEDGERS :: u32 where "UPGRADE_REVIEW_PERIOD_LEDGERS = 120960"

section \<open>Admin handover\<close>

definition get_admin :: "('w, address) act" where
  "get_admin = load_admin"

definition propose_admin :: "'w env \<Rightarrow> address \<Rightarrow> ('w, unit) act" where
  "propose_admin env new_admin = admin_only env (\<lambda>admin. seqs [
     reject_if (new_admin = current_contract_address env) InvalidAddress,
     reject_if (new_admin = admin) InvalidAddress,
     upd_inst (\<lambda>i. i\<lparr>i_pending_admin := Some \<lparr>pa_proposer = admin, pa_pending_admin = new_admin\<rparr>\<rparr>),
     publish ''admin'' ''propose'' [VAddr new_admin]])"

definition accept_admin :: "'w env \<Rightarrow> ('w, unit) act" where
  "accept_admin env =
     bnd (gets (\<lambda>s. i_pending_admin (inst s))) (\<lambda>pending.
     bnd (ok_or pending Unauthorized) (\<lambda>proposal.
     bnd (require_auth env (pa_pending_admin proposal)) (\<lambda>_.
     bnd load_admin (\<lambda>current_admin. seqs [
       reject_if (current_admin \<noteq> pa_proposer proposal) Unauthorized,
       upd_inst (\<lambda>i. i\<lparr>i_admin := Some (pa_pending_admin proposal)\<rparr>),
       upd_inst (\<lambda>i. i\<lparr>i_pending_admin := None\<rparr>),
       publish ''admin'' ''xfer'' [VAddr (pa_pending_admin proposal)]]))))"

definition cancel_admin_proposal :: "'w env \<Rightarrow> ('w, unit) act" where
  "cancel_admin_proposal env = admin_only env (\<lambda>admin.
     bnd (gets (\<lambda>s. i_pending_admin (inst s))) (\<lambda>pending.
     bnd (ok_or pending Unauthorized) (\<lambda>_. seqs [
       upd_inst (\<lambda>i. i\<lparr>i_pending_admin := None\<rparr>),
       publish ''admin'' ''prop_cxl'' [VAddr admin]])))"

definition transfer_admin :: "'w env \<Rightarrow> address \<Rightarrow> address \<Rightarrow> ('w, unit) act" where
  "transfer_admin env new_admin caller =
     bnd (require_auth env caller) (\<lambda>_.
     bnd (reject_if (new_admin = current_contract_address env) InvalidAddress) (\<lambda>_.
     bnd load_admin (\<lambda>admin. seqs [
       reject_if (caller \<noteq> admin) Unauthorized,
       propose_admin env new_admin])))"

section \<open>Oracle address and rotation\<close>

definition get_rotation_state :: "'w escrow \<Rightarrow> oracle_rotation_state" where
  "get_rotation_state s = unwrap_or (i_oracle_rotation (inst s)) rotation_default"

definition save_rotation_state :: "oracle_rotation_state \<Rightarrow> ('w, unit) act" where
  "save_rotation_state state =
     upd_inst (\<lambda>i. i\<lparr>i_oracle_rotation := (if rotation_is_empty state then None else Some state)\<rparr>)"

definition load_oracle :: "('w, address) act" where
  "load_oracle = bnd (gets (\<lambda>s. i_oracle (inst s))) (\<lambda>oracle. ok_or oracle Unauthorized)"

definition effective_oracle :: "'w env \<Rightarrow> ('w, address) act" where
  "effective_oracle env =
     bnd load_oracle (\<lambda>base_oracle.
     bnd (gets get_rotation_state) (\<lambda>state.
     case rotation_temp state of
       Some rot \<Rightarrow>
         if ledger_timestamp env < tr_expiry rot \<and> tr_old_oracle rot = base_oracle
         then ret (tr_temp_oracle rot)
         else bnd (save_rotation_state (rotation_set_temp None state)) (\<lambda>_. ret base_oracle)
     | None \<Rightarrow> ret base_oracle))"

definition get_oracle :: "'w env \<Rightarrow> ('w, address) act" where
  "get_oracle env = effective_oracle env"

definition get_oracle_address :: "('w, address) act" where
  "get_oracle_address = load_oracle"

definition get_oracle_rotation_state :: "'w escrow \<Rightarrow> oracle_rotation_state option" where
  "get_oracle_rotation_state s =
     (let state = get_rotation_state s in if rotation_is_empty state then None else Some state)"

definition update_oracle :: "'w env \<Rightarrow> address \<Rightarrow> ('w, unit) act" where
  "update_oracle env new_oracle = admin_only env (\<lambda>_.
     bnd (reject_if (new_oracle = current_contract_address env) InvalidAddress) (\<lambda>_.
     bnd load_oracle (\<lambda>old_oracle.
     bnd (upd_inst (\<lambda>i. i\<lparr>i_oracle := Some new_oracle\<rparr>)) (\<lambda>_.
     bnd (gets get_rotation_state) (\<lambda>rotation_state. seqs [
       save_rotation_state (rotation_set_pending None (rotation_set_temp None rotation_state)),
       publish ''admin'' ''oracle_up'' [VAddr old_oracle, VAddr new_oracle]])))))"

definition MIN_DURATION_SECONDS :: u64 where "MIN_DURATION_SECONDS = 3600"
definition MAX_DURATION_SECONDS :: u64 where "MAX_DURATION_SECONDS = 2592000"

definition rotate_oracle_temporary :: "'w env \<Rightarrow> address \<Rightarrow> address \<Rightarrow> u64 \<Rightarrow> ('w, unit) act" where
  "rotate_oracle_temporary env old_oracle new_oracle duration_seconds = admin_only env (\<lambda>_.
     bnd (reject_if (duration_seconds < MIN_DURATION_SECONDS \<or>
                     duration_seconds > MAX_DURATION_SECONDS) InvalidAmount) (\<lambda>_.
     bnd (reject_if (new_oracle = current_contract_address env) InvalidAddress) (\<lambda>_.
     bnd (effective_oracle env) (\<lambda>current.
     bnd (reject_if (old_oracle \<noteq> current) Unauthorized) (\<lambda>_.
     let expiry = saturating_add_u64 (ledger_timestamp env) duration_seconds;
         temp = \<lparr>tr_old_oracle = old_oracle, tr_temp_oracle = new_oracle, tr_expiry = expiry\<rparr> in
     bnd (gets get_rotation_state) (\<lambda>rotation_state. seqs [
       save_rotation_state (rotation_set_temp (Some temp) rotation_state),
       publish ''admin'' ''rot_temp'' [VAddr old_oracle, VAddr new_oracle, VNat duration_seconds]]))))))"

definition finalize_temp_oracle_rotation :: "'w env \<Rightarrow> ('w, unit) act" where
  "finalize_temp_oracle_rotation env =
     bnd (gets get_rotation_state) (\<lambda>rotation_state.
     bnd (ok_or (rotation_temp rotation_state) InvalidState) (\<lambda>temp.
     bnd (reject_if (ledger_timestamp env < tr_expiry temp) InvalidState) (\<lambda>_.
     bnd load_oracle (\<lambda>restored_oracle. seqs [
       save_rotation_state (rotation_set_temp None rotation_state),
       publish ''admin'' ''rot_rest'' [VAddr (tr_temp_oracle temp), VAddr restored_oracle]]))))"

definition propose_oracle_rotation :: "'w env \<Rightarrow> address \<Rightarrow> address \<Rightarrow> ('w, unit) act" where
  "propose_oracle_rotation env old_oracle new_oracle = admin_only env (\<lambda>_.
     bnd (reject_if (new_oracle = current_contract_address env) InvalidAddress) (\<lambda>_.
     bnd load_oracle (\<lambda>current.
     bnd (reject_if (old_oracle \<noteq> current) Unauthorized) (\<lambda>_.
     bnd (gets get_rotation_state) (\<lambda>rotation_state. seqs [
       save_rotation_state (rotation_set_pending
         (Some \<lparr>por_old_oracle = old_oracle, por_new_oracle = new_oracle\<rparr>) rotation_state),
       publish ''admin'' ''rot_prop'' [VAddr old_oracle, VAddr new_oracle]])))))"

definition rotate_oracle_permanent :: "'w env \<Rightarrow> address \<Rightarrow> address \<Rightarrow> ('w, unit) act" where
  "rotate_oracle_permanent env old_oracle new_oracle = admin_only env (\<lambda>_.
     bnd (gets (\<lambda>s. rotation_pending (get_rotation_state s))) (\<lambda>pending.
     bnd (ok_or pending InvalidState) (\<lambda>proposal.
     bnd (reject_if (por_old_oracle proposal \<noteq> old_oracle \<or>
                     por_new_oracle proposal \<noteq> new_oracle) InvalidState) (\<lambda>_.
     bnd load_oracle (\<lambda>current. seqs [
       reject_if (por_old_oracle proposal \<noteq> current) Unauthorized,
       upd_inst (\<lambda>i. i\<lparr>i_oracle := Some new_oracle\<rparr>),
       upd_inst (\<lambda>i. i\<lparr>i_oracle_rotation := None\<rparr>),
       publish ''admin'' ''oracle_up'' [VAddr old_oracle, VAddr new_oracle]])))))"

section \<open>Ratings\<close>

definition register_player_rating ::
    "'w env \<Rightarrow> address \<Rightarrow> address \<Rightarrow> platform \<Rightarrow> string \<Rightarrow> u32 \<Rightarrow> ('w, unit) act" where
  "register_player_rating env caller player platform username rating =
     bnd load_oracle (\<lambda>oracle. seqs [
       require_auth env caller,
       reject_if (caller \<noteq> oracle) Unauthorized,
       upd_pers (\<lambda>p. p\<lparr>p_rating := (p_rating p)(player := (p_rating p player)(platform \<mapsto>
         \<lparr>pr_username = username, pr_rating = rating, pr_recorded_ledger = ledger_sequence env\<rparr>))\<rparr>),
       publish ''rating'' ''registered'' [VAddr player, VPlatform platform, VNat rating]])"

definition get_player_rating :: "address \<Rightarrow> platform \<Rightarrow> 'w escrow \<Rightarrow> player_rating option" where
  "get_player_rating player platform s = p_rating (pers s) player platform"

section \<open>Upgrade and migration\<close>

definition get_version :: "'w escrow \<Rightarrow> u32" where
  "get_version s = unwrap_or (i_contract_version (inst s)) CONTRACT_VERSION"

text \<open>\<^verbatim>\<open>write_u32_decimal\<close> writes into a buffer of 20 bytes; a write past its end panics
  (\<open>None\<close>). The loop stores the digits of \<open>x\<close> least significant first.\<close>

function write_digits :: "nat list \<Rightarrow> nat \<Rightarrow> nat \<Rightarrow> (nat list \<times> nat) option" where
  "write_digits buf start x =
     (if x > 0 then
        (if start < length buf
         then write_digits (buf[start := 48 + x mod 10]) (start + 1) (x div 10)
         else None)
      else Some (buf, start))"
  by pat_completeness auto
termination by (relation "measure (\<lambda>(_, _, x). x)") auto

declare write_digits.simps [simp del]

definition reverse_range :: "nat list \<Rightarrow> nat \<Rightarrow> nat \<Rightarrow> nat list" where
  "reverse_range buf i j = take i buf @ rev (take (j - i) (drop i buf)) @ drop j buf"

definition put_byte :: "nat list \<Rightarrow> nat \<Rightarrow> nat \<Rightarrow> nat list option" where
  "put_byte buf pos b = (if pos < length buf then Some (buf[pos := b]) else None)"

definition write_u32_decimal :: "nat list \<Rightarrow> nat \<Rightarrow> u32 \<Rightarrow> (nat list \<times> nat) option" where
  "write_u32_decimal buf pos n =
     (if n = 0 then map_option (\<lambda>b. (b, pos + 1)) (put_byte buf pos 48)
      else case write_digits buf pos n of
             None \<Rightarrow> None
           | Some (buf', start) \<Rightarrow> Some (reverse_range buf' pos start, start))"

definition get_contract_version :: "'w escrow \<Rightarrow> bytes option" where
  "get_contract_version s =
     (let version = get_version s; major = version div 1000000;
          minor = (version mod 1000000) div 1000; patch = version mod 1000 in
      Option.bind (write_u32_decimal (replicate 20 0) 0 major) (\<lambda>(buf, pos).
      Option.bind (put_byte buf pos 46) (\<lambda>buf.
      Option.bind (write_u32_decimal buf (pos + 1) minor) (\<lambda>(buf, pos).
      Option.bind (put_byte buf pos 46) (\<lambda>buf.
      Option.bind (write_u32_decimal buf (pos + 1) patch) (\<lambda>(buf, pos).
      Some (take pos buf)))))))"

definition schedule_upgrade :: "'w env \<Rightarrow> bytes \<Rightarrow> ('w, unit) act" where
  "schedule_upgrade env new_wasm_hash = admin_only env (\<lambda>_.
     bnd (gets (\<lambda>s. i_upgrade_scheduled_at (inst s) \<noteq> None)) (\<lambda>scheduled. seqs [
       reject_if scheduled UpgradeAlreadyScheduled,
       upd_inst (\<lambda>i. i\<lparr>i_upgrade_scheduled_at := Some (ledger_sequence env)\<rparr>),
       upd_inst (\<lambda>i. i\<lparr>i_pending_upgrade_hash := Some new_wasm_hash\<rparr>),
       publish ''upgrade'' ''sched'' [VBytes new_wasm_hash, VNat (ledger_sequence env)]]))"

definition cancel_upgrade :: "'w env \<Rightarrow> ('w, unit) act" where
  "cancel_upgrade env = admin_only env (\<lambda>_.
     bnd (gets (\<lambda>s. i_upgrade_scheduled_at (inst s) \<noteq> None)) (\<lambda>scheduled. seqs [
       reject_if (\<not> scheduled) UpgradeNotScheduled,
       upd_inst (\<lambda>i. i\<lparr>i_upgrade_scheduled_at := None, i_pending_upgrade_hash := None,
                       i_confirmed_by := None\<rparr>),
       publish ''upgrade'' ''cancel'' []]))"

definition confirm_upgrade :: "'w env \<Rightarrow> address \<Rightarrow> ('w, unit) act" where
  "confirm_upgrade env upgrader =
     bnd (require_auth env upgrader) (\<lambda>_.
     bnd (gets (\<lambda>s. i_upgrade_scheduled_at (inst s) \<noteq> None)) (\<lambda>scheduled. seqs [
       reject_if (\<not> scheduled) UpgradeNotScheduled,
       upd_inst (\<lambda>i. i\<lparr>i_confirmed_by := Some upgrader\<rparr>),
       publish ''upgrade'' ''confirm'' [VAddr upgrader]]))"

definition execute_upgrade :: "'w env \<Rightarrow> ('w, unit) act" where
  "execute_upgrade env = admin_only env (\<lambda>_.
     bnd (gets is_contract_paused) (\<lambda>paused.
     bnd (reject_if (\<not> paused) InvalidPauseState) (\<lambda>_.
     bnd (gets (\<lambda>s. i_upgrade_scheduled_at (inst s))) (\<lambda>scheduled.
     bnd (ok_or scheduled UpgradeNotScheduled) (\<lambda>scheduled_at.
     bnd (reject_if (ledger_sequence env <
                     saturating_add_u32 scheduled_at UPGRADE_REVIEW_PERIOD_LEDGERS)
           UpgradeReviewPeriodNotElapsed) (\<lambda>_.
     bnd (gets (\<lambda>s. i_confirmed_by (inst s) \<noteq> None)) (\<lambda>confirmed.
     bnd (reject_if (\<not> confirmed) UpgradeNotConfirmed) (\<lambda>_.
     bnd (gets (\<lambda>s. i_pending_upgrade_hash (inst s))) (\<lambda>hash.
     bnd (ok_or hash UpgradeNotScheduled) (\<lambda>new_wasm_hash. seqs [
       upd_inst (\<lambda>i. i\<lparr>i_upgrade_scheduled_at := None, i_pending_upgrade_hash := None,
                       i_confirmed_by := None\<rparr>),
       modify (\<lambda>s. s\<lparr>current_wasm := Some new_wasm_hash\<rparr>),
       publish ''upgrade'' ''exec'' [VBytes new_wasm_hash]]))))))))))"

definition apply_migrations :: "u32 \<Rightarrow> u32 \<Rightarrow> ('w, unit) act" where
  "apply_migrations from to =
     bnd (gets (\<lambda>s. i_dispute_period (inst s) \<noteq> None)) (\<lambda>has_period.
     only_if (from < 1001 \<and> to \<ge> 1001 \<and> \<not> has_period)
       (upd_inst (\<lambda>i. i\<lparr>i_dispute_period := Some 0\<rparr>)))"

definition migrate_state :: "'w env \<Rightarrow> u32 \<Rightarrow> ('w, unit) act" where
  "migrate_state env target_version = admin_only env (\<lambda>_.
     bnd (gets get_version) (\<lambda>current. seqs [
       reject_if (target_version \<le> current) InvalidVersion,
       apply_migrations current target_version,
       upd_inst (\<lambda>i. i\<lparr>i_contract_version := Some target_version\<rparr>),
       publish ''upgrade'' ''migrated'' [VNat current, VNat target_version]]))"

definition validate_state :: "('w, unit) act" where
  "validate_state =
     bnd (gets inst) (\<lambda>i. seqs [
       reject_if (i_oracle i = None) NotInitialized,
       reject_if (i_admin i = None) Unauthorized,
       reject_if (i_match_count i = None) NotInitialized,
       reject_if (i_contract_version i = None) NotInitialized])"

section \<open>The effective oracle\<close>

lemma wp_load_oracle [wp_simps]:
  "wp load_oracle Q E T s =
     ((i_oracle (inst s) = None \<longrightarrow> E Unauthorized s) \<and> (\<forall>a. i_oracle (inst s) = Some a \<longrightarrow> Q a s))"
  by (simp add: load_oracle_def wp_simps)

lemma wp_save_rotation_state [wp_simps]:
  "wp (save_rotation_state r) Q E T s =
     Q () (s\<lparr>inst := (inst s)\<lparr>i_oracle_rotation := if rotation_is_empty r then None else Some r\<rparr>\<rparr>)"
  by (simp add: save_rotation_state_def wp_simps)

lemmas oracle_run_defs [run_simps] = load_oracle_def save_rotation_state_def

text \<open>The rotation that is in force: recorded, not expired, and made from the base oracle.\<close>

definition active_rotation :: "'w env \<Rightarrow> 'w escrow \<Rightarrow> temp_oracle_rotation option" where
  "active_rotation env s =
     (case rotation_temp (get_rotation_state s) of
        Some rot \<Rightarrow> if ledger_timestamp env < tr_expiry rot \<and> i_oracle (inst s) = Some (tr_old_oracle rot)
                   then Some rot else None
      | None \<Rightarrow> None)"

lemma effective_oracle_result:
  assumes "i_oracle (inst s) = Some base"
  shows "verdict (effective_oracle env) s =
    Ok (case active_rotation env s of Some rot \<Rightarrow> tr_temp_oracle rot | None \<Rightarrow> base)"
  using assms
  by (auto simp: verdict_def effective_oracle_def active_rotation_def run_simps split: option.splits)

lemma effective_oracle_frame [frame_rules]:
  "(\<And>s r. f (s\<lparr>inst := (inst s)\<lparr>i_oracle_rotation := r\<rparr>\<rparr>) = f s) \<Longrightarrow> frame f (effective_oracle env)"
  by (auto simp: effective_oracle_def load_oracle_def save_rotation_state_def intro!: frame_rules)

lemma save_read_rotation:
  "rotation_wf r \<Longrightarrow> rotation_temp (unwrap_or (if rotation_is_empty r then None else Some r) rotation_default)
     = rotation_temp r"
  "rotation_wf r \<Longrightarrow> rotation_pending (unwrap_or (if rotation_is_empty r then None else Some r) rotation_default)
     = rotation_pending r"
  by (auto simp: rotation_is_empty_iff) (simp_all add: rotation_default_def rotation_temp_def rotation_pending_def)

text \<open>The two halves of the stored rotation are well formed; every writer keeps this.\<close>

definition rotation_inv :: "'w escrow \<Rightarrow> bool" where
  "rotation_inv s \<longleftrightarrow> rotation_wf (get_rotation_state s)"

lemma rotation_inv_saved:
  "rotation_wf r \<Longrightarrow> rotation_wf (unwrap_or (if rotation_is_empty r then None else Some r) rotation_default)"
  by simp

lemma rotation_steps:
  assumes "rotation_inv s"
  shows "wp (effective_oracle env) (\<lambda>_. rotation_inv) (\<lambda>_. rotation_inv) True s"
    and "wp (update_oracle env a) (\<lambda>_. rotation_inv) (\<lambda>_ _. True) True s"
    and "wp (rotate_oracle_temporary env a b d) (\<lambda>_. rotation_inv) (\<lambda>_ _. True) True s"
    and "wp (finalize_temp_oracle_rotation env) (\<lambda>_. rotation_inv) (\<lambda>_ _. True) True s"
    and "wp (propose_oracle_rotation env a b) (\<lambda>_. rotation_inv) (\<lambda>_ _. True) True s"
    and "wp (rotate_oracle_permanent env a b) (\<lambda>_. rotation_inv) (\<lambda>_ _. True) True s"
  using assms
  by (auto simp: effective_oracle_def update_oracle_def rotate_oracle_temporary_def
      finalize_temp_oracle_rotation_def propose_oracle_rotation_def rotate_oracle_permanent_def
      wp_simps rotation_inv_def get_rotation_state_def Let_def split: option.split)

section \<open>The version string\<close>

definition overwrite :: "nat list \<Rightarrow> nat \<Rightarrow> nat list \<Rightarrow> nat list" where
  "overwrite buf pos xs = take pos buf @ xs @ drop (pos + length xs) buf"

lemma length_overwrite: "pos + length xs \<le> length buf \<Longrightarrow> length (overwrite buf pos xs) = length buf"
  by (simp add: overwrite_def)

lemma write_digits_overwrite:
  "pos + length (lsd_digits x) \<le> length buf \<Longrightarrow>
     write_digits buf pos x = Some (overwrite buf pos (lsd_digits x), pos + length (lsd_digits x))"
proof (induction buf pos x rule: write_digits.induct)
  case (1 buf start x)
  show ?case
  proof (cases "x > 0")
    case True
    then have d: "lsd_digits x = (48 + x mod 10) # lsd_digits (x div 10)" by (simp add: lsd_digits.simps)
    with 1 True have "write_digits buf start x =
        Some (overwrite (buf[start := 48 + x mod 10]) (start + 1) (lsd_digits (x div 10)),
          start + 1 + length (lsd_digits (x div 10)))"
      by (subst write_digits.simps) simp
    moreover have "overwrite (buf[start := 48 + x mod 10]) (start + 1) (lsd_digits (x div 10)) =
        overwrite buf start (lsd_digits x)"
      using 1(2) by (simp add: d overwrite_def take_Suc_conv_app_nth)
    ultimately show ?thesis by (simp add: d)
  next
    case False
    then show ?thesis by (simp add: write_digits.simps lsd_digits.simps overwrite_def)
  qed
qed

lemma write_u32_decimal_overwrite:
  assumes "pos + length (decimal n) \<le> length buf"
  shows "write_u32_decimal buf pos n = Some (overwrite buf pos (decimal n), pos + length (decimal n))"
proof (cases "n = 0")
  case True
  with assms show ?thesis
    by (simp add: write_u32_decimal_def decimal_def put_byte_def overwrite_def upd_conv_take_nth_drop)
next
  case False
  with assms have "write_digits buf pos n = Some (overwrite buf pos (lsd_digits n), pos + length (lsd_digits n))"
    by (intro write_digits_overwrite) (simp add: decimal_def)
  with False assms show ?thesis
    by (simp add: write_u32_decimal_def decimal_def reverse_range_def overwrite_def)
qed

lemma overwrite_twice:
  "overwrite (overwrite buf 0 xs) (length xs) ys = overwrite buf 0 (xs @ ys)"
  by (simp add: overwrite_def add.commute)

lemma put_byte_overwrite:
  "length xs < length buf \<Longrightarrow>
     put_byte (overwrite buf 0 xs) (length xs) b = Some (overwrite buf 0 (xs @ [b]))"
  by (simp add: put_byte_def overwrite_def list_update_append Cons_nth_drop_Suc [symmetric])

lemma write_u32_decimal_append:
  "length xs + length (decimal n) \<le> length buf \<Longrightarrow>
     write_u32_decimal (overwrite buf 0 xs) (length xs) n =
       Some (overwrite buf 0 (xs @ decimal n), length (xs @ decimal n))"
  by (subst write_u32_decimal_overwrite) (simp_all add: length_overwrite overwrite_twice)

definition version_text :: "nat \<Rightarrow> nat \<Rightarrow> nat \<Rightarrow> nat list" where
  "version_text a b c = decimal a @ [46] @ decimal b @ [46] @ decimal c"

lemma get_contract_version_text:
  assumes "get_version s \<le> u32_max"
  shows "get_contract_version s =
    Some (version_text (get_version s div 1000000) (get_version s mod 1000000 div 1000) (get_version s mod 1000))"
proof -
  let ?v = "get_version s" and ?buf = "replicate 20 (0 :: nat)"
  define a b c where "a = decimal (?v div 1000000)" and "b = decimal (?v mod 1000000 div 1000)"
    and "c = decimal (?v mod 1000)"
  have v: "?v \<le> 4294967295" using assms by (simp add: u32_max_def)
  have "?v div 1000000 < 10 ^ 4" "?v mod 1000000 div 1000 < 10 ^ 3" "?v mod 1000 < 10 ^ 3"
    using v by simp_all
  then have len: "length a \<le> 4" "length b \<le> 3" "length c \<le> 3"
    unfolding a_def b_def c_def by (intro decimal_length; simp)+
  have w1: "write_u32_decimal ?buf 0 (?v div 1000000) = Some (overwrite ?buf 0 a, length a)"
    using len by (subst write_u32_decimal_overwrite) (simp_all add: a_def)
  have w2: "write_u32_decimal (overwrite ?buf 0 (a @ [46])) (length a + 1) (?v mod 1000000 div 1000) =
      Some (overwrite ?buf 0 (a @ [46] @ b), length (a @ [46] @ b))"
    using write_u32_decimal_append [of "a @ [46]" "?v mod 1000000 div 1000" ?buf] len
    by (simp add: b_def)
  have w3: "write_u32_decimal (overwrite ?buf 0 (a @ [46] @ b @ [46])) (length (a @ [46] @ b) + 1) (?v mod 1000) =
      Some (overwrite ?buf 0 (a @ [46] @ b @ [46] @ c), length (a @ [46] @ b @ [46] @ c))"
    using write_u32_decimal_append [of "a @ [46] @ b @ [46]" "?v mod 1000" ?buf] len
    by (simp add: c_def)
  have p1: "put_byte (overwrite ?buf 0 a) (length a) 46 = Some (overwrite ?buf 0 (a @ [46]))"
    using len by (intro put_byte_overwrite) simp
  have p2: "put_byte (overwrite ?buf 0 (a @ [46] @ b)) (length (a @ [46] @ b)) 46 =
      Some (overwrite ?buf 0 (a @ [46] @ b @ [46]))"
    using put_byte_overwrite [of "a @ [46] @ b" ?buf 46] len by simp
  have "get_contract_version s = Some (take (length (a @ [46] @ b @ [46] @ c))
      (overwrite ?buf 0 (a @ [46] @ b @ [46] @ c)))"
    by (simp only: get_contract_version_def Let_def w1 p1 w2 p2 w3 Option.bind.simps prod.case)
  then show ?thesis by (simp add: overwrite_def version_text_def a_def b_def c_def)
qed

text \<open>The text determines the version: a dot is not a digit.\<close>

lemma split_at_dot:
  fixes xs ys xs' ys' :: "nat list"
  assumes "xs @ [46] @ ys = xs' @ [46] @ ys'" "46 \<notin> set xs" "46 \<notin> set xs'"
  shows "xs = xs' \<and> ys = ys'"
proof -
  have tw: "takeWhile (\<lambda>c. c \<noteq> 46) (zs @ [46] @ ws) = zs" if "46 \<notin> set zs" for zs ws :: "nat list"
    using that by (induction zs) auto
  have "xs = takeWhile (\<lambda>c. c \<noteq> 46) (xs @ [46] @ ys)" by (simp only: tw [OF assms(2)])
  also have "\<dots> = xs'" by (simp only: assms(1) tw [OF assms(3)])
  finally show ?thesis using assms(1) by simp
qed

lemma decimal_no_dot: "46 \<notin> set (decimal n)"
  using decimal_digits [of n] by auto

lemma decimal_inject: "decimal m = decimal n \<longleftrightarrow> m = n"
  by (metis read_decimal_decimal)

lemma version_text_inject:
  "version_text a b c = version_text a' b' c' \<longleftrightarrow> a = a' \<and> b = b' \<and> c = c'"
  unfolding version_text_def
  by (metis split_at_dot decimal_no_dot decimal_inject)

end
