(* ===== verification/Escrow_Lifecycle.thy ===== *)
theory Escrow_Lifecycle
  imports Escrow_Governance
begin

text \<open>
  The life of a match (contracts/escrow/src/lib.rs): creation in its variants, deposits, the
  settlement by the oracle, the batch entry points, cancellation, pause and resume, expiry,
  rollback by mutual consent, heartbeats and the recovery paths of the admin. Each entry point is
  one definition with the guards in the order of the code.

  The struct literals of the source leave out two fields of \<^verbatim>\<open>Match\<close>
  (\<^verbatim>\<open>paused_at_ledger\<close>, \<^verbatim>\<open>vesting_override_seconds\<close>) that no other code of the
  contract writes; they are \<open>None\<close> here. \<^verbatim>\<open>catch_unwind\<close> in
  \<^verbatim>\<open>admin_recover_match\<close> cannot catch a failed host call in a build with
  \<^verbatim>\<open>panic = "abort"\<close>, so a failing transfer traps there as everywhere else.
\<close>

definition ROLLBACK_WINDOW_SECONDS :: u64 where "ROLLBACK_WINDOW_SECONDS = 86400"
definition MAX_PAUSE_DURATION_LEDGERS :: u32 where "MAX_PAUSE_DURATION_LEDGERS = 17280"
definition ADMIN_STALL_WINDOW_SECONDS :: u64 where "ADMIN_STALL_WINDOW_SECONDS = 604800"
definition MAX_BULK_EXPIRE_SIZE :: nat where "MAX_BULK_EXPIRE_SIZE = 100"

lemmas lifecycle_consts =
  ROLLBACK_WINDOW_SECONDS_def MAX_PAUSE_DURATION_LEDGERS_def ADMIN_STALL_WINDOW_SECONDS_def
  MAX_BULK_EXPIRE_SIZE_def

section \<open>Creation\<close>

record match_params =
  mp_player1 :: address
  mp_player2 :: address
  mp_stake_amount :: i128
  mp_token :: address
  mp_token_b :: "address option"
  mp_conversion_rate :: "i128 option"
  mp_game_id :: string
  mp_platform :: platform
  mp_referrer :: "address option"
  mp_bracket_id :: "u64 option"
  mp_round :: "u32 option"

text \<open>The guards of \<^verbatim>\<open>create_match_internal\<close> up to the check of the game id.\<close>

definition create_match_guards :: "'w env \<Rightarrow> match_params \<Rightarrow> ('w, unit) act" where
  "create_match_guards env params =
     bnd (require_auth env (mp_player1 params)) (\<lambda>_.
     bnd (case mp_bracket_id params of
            Some bracket_id \<Rightarrow>
              bnd (gets (\<lambda>s. p_bracket_organizer (pers s) bracket_id)) (\<lambda>found.
              bnd (ok_or found Unauthorized) (\<lambda>organizer. require_auth env organizer))
          | None \<Rightarrow> ret ()) (\<lambda>_.
     bnd (gets (\<lambda>s. s)) (\<lambda>s. seqs [
       reject_if (is_contract_paused s) ContractPaused,
       require_player_not_frozen (mp_player1 params),
       require_player_not_frozen (mp_player2 params),
       reject_if (is_token_blacklisted (mp_token params) s \<or>
                  (case mp_token_b params of Some t \<Rightarrow> is_token_blacklisted t s | None \<Rightarrow> False))
         TokenNotAllowed,
       reject_if (is_allowlist_enforced s \<and>
                  (\<not> is_token_allowed (mp_token params) s \<or>
                   (case mp_token_b params of Some t \<Rightarrow> \<not> is_token_allowed t s | None \<Rightarrow> False)))
         TokenNotAllowed,
       reject_if (sc_stablecoin_only_mode (pc_stakes (get_config env s)) \<and>
                  (\<not> check_is_stablecoin (mp_token params) s \<or>
                   (case mp_token_b params of Some t \<Rightarrow> \<not> check_is_stablecoin t s | None \<Rightarrow> False)))
         NotStablecoin,
       reject_if (mp_stake_amount params < sc_minimum_stake (pc_stakes (get_config env s)) \<or>
                  (case mp_conversion_rate params of Some rate \<Rightarrow> rate \<le> 0 | None \<Rightarrow> False))
         InvalidAmount,
       reject_if (case sc_maximum_stake (pc_stakes (get_config env s)) of
                    Some max_stake \<Rightarrow> mp_stake_amount params > max_stake | None \<Rightarrow> False)
         InvalidAmount,
       reject_if (case mp_referrer params of
                    Some r \<Rightarrow> r = mp_player1 params \<or> r = mp_player2 params \<or>
                              r = current_contract_address env
                  | None \<Rightarrow> False)
         InvalidAddress,
       require_player_tier_for_stake (mp_player1 params) (mp_stake_amount params),
       require_player_tier_for_stake (mp_player2 params) (mp_stake_amount params),
       validate_game_id_format (mp_game_id params) (mp_platform params),
       reject_if (mp_player1 params = mp_player2 params \<or>
                  mp_player2 params = current_contract_address env) InvalidPlayers,
       reject_if ((mp_token_b params \<noteq> None) \<noteq> (mp_conversion_rate params \<noteq> None)) InvalidAmount,
       reject_if (p_game_id (pers s) (mp_game_id params) \<noteq> None) DuplicateGameId])))"

text \<open>The comparison of the proposed conversion rate with the oracle's: within five percent.\<close>

definition check_conversion_rate :: "'w env \<Rightarrow> match_params \<Rightarrow> ('w, u32 option) act" where
  "check_conversion_rate env params =
     (case (mp_token_b params, mp_conversion_rate params) of
        (Some token_b, Some rate) \<Rightarrow>
          bnd load_oracle (\<lambda>oracle_address.
          bnd (gets (\<lambda>s. oracle_get_rate env oracle_address (mp_token params) token_b (world s))) (\<lambda>answer.
          bnd (or_trap answer) (\<lambda>oracle_rate.
          bnd (ok_or (checked_mul rate 100) Overflow) (\<lambda>rate_100.
          bnd (ok_or (checked_mul oracle_rate 95) Overflow) (\<lambda>oracle_lower.
          bnd (ok_or (checked_mul oracle_rate 105) Overflow) (\<lambda>oracle_upper.
          bnd (reject_if (rate_100 < oracle_lower \<or> rate_100 > oracle_upper)
                 ConversionRateOutOfBounds) (\<lambda>_.
          ret (Some (ledger_sequence env)))))))))
      | _ \<Rightarrow> ret None)"

definition new_match :: "'w env \<Rightarrow> match_params \<Rightarrow> u64 \<Rightarrow> u32 option \<Rightarrow> match_rec" where
  "new_match env params match_id rate_ledger = \<lparr>
     m_id = match_id, m_player1 = mp_player1 params, m_player2 = mp_player2 params,
     m_stake_amount = mp_stake_amount params, m_token = mp_token params,
     m_game_id = mp_game_id params, m_platform = mp_platform params, m_state = Pending,
     m_player1_deposited = False, m_player2_deposited = False,
     m_created_ledger = ledger_sequence env, m_completed_ledger = None, m_winner = NoWinner,
     m_vested_at = None, m_player1_claimed = False, m_player2_claimed = False,
     m_conversion_rate = mp_conversion_rate params, m_token_b = mp_token_b params,
     m_conversion_rate_ledger = rate_ledger, m_paused_ledger = None, m_paused_at_ledger = None,
     m_total_pause_duration = 0, m_referrer = mp_referrer params,
     m_last_heartbeat = ledger_timestamp env, m_bracket_id = mp_bracket_id params,
     m_activated_at = None, m_rollback_vote_player1 = False, m_rollback_vote_player2 = False,
     m_round = mp_round params, m_vesting_override_seconds = None\<rparr>"

definition append_player_match :: "address \<Rightarrow> u64 \<Rightarrow> ('w, unit) act" where
  "append_player_match player match_id =
     upd_pers (\<lambda>p. p\<lparr>p_player_matches := (p_player_matches p)(player \<mapsto>
       unwrap_or (p_player_matches p player) [] @ [match_id])\<rparr>)"

definition create_match_internal :: "'w env \<Rightarrow> match_params \<Rightarrow> ('w, u64) act" where
  "create_match_internal env params =
     bnd (create_match_guards env params) (\<lambda>_.
     bnd (gets (\<lambda>s. unwrap_or (i_match_count (inst s)) 0)) (\<lambda>id.
     bnd (gets (\<lambda>s. p_match (pers s) id \<noteq> None)) (\<lambda>taken.
     bnd (reject_if taken AlreadyExists) (\<lambda>_.
     bnd (ok_or (checked_add_u64 id 1) Overflow) (\<lambda>next_id.
     bnd (check_conversion_rate env params) (\<lambda>conversion_rate_ledger.
     let m = new_match env params id conversion_rate_ledger in
     bnd (seqs [
       store_match id m,
       add_match_to_index (MatchesByState Pending) id,
       (case m_bracket_id m of Some b \<Rightarrow> add_match_to_index (BracketMatches b) id | None \<Rightarrow> ret ()),
       upd_inst (\<lambda>i. i\<lparr>i_match_count := Some next_id\<rparr>),
       upd_pers (\<lambda>p. p\<lparr>p_game_id := (p_game_id p)(m_game_id m \<mapsto> True)\<rparr>),
       append_player_match (m_player1 m) id,
       append_player_match (m_player2 m) id,
       record_snapshot env m SnapCreated,
       record_platform_match_created (m_stake_amount m) (m_platform m),
       (case m_bracket_id m of
          Some b \<Rightarrow> publish ''match'' ''bracket_created''
            [VNat id, VNat b, VNat (unwrap_or (m_round m) 0), VAddr (m_player1 m),
             VAddr (m_player2 m), VInt (m_stake_amount m)]
        | None \<Rightarrow> (case m_referrer m of
            Some r \<Rightarrow> publish ''match'' ''created''
              [VNat id, VAddr (m_player1 m), VAddr (m_player2 m), VInt (m_stake_amount m), VAddr r]
          | None \<Rightarrow> publish ''match'' ''created''
              [VNat id, VAddr (m_player1 m), VAddr (m_player2 m), VInt (m_stake_amount m)]))])
     (\<lambda>_. ret id)))))))"

definition create_match ::
    "'w env \<Rightarrow> address \<Rightarrow> address \<Rightarrow> i128 \<Rightarrow> address \<Rightarrow> string \<Rightarrow> platform \<Rightarrow> ('w, u64) act" where
  "create_match env player1 player2 stake_amount token game_id platform =
     create_match_internal env \<lparr>mp_player1 = player1, mp_player2 = player2,
       mp_stake_amount = stake_amount, mp_token = token, mp_token_b = None,
       mp_conversion_rate = None, mp_game_id = game_id, mp_platform = platform,
       mp_referrer = None, mp_bracket_id = None, mp_round = None\<rparr>"

definition register_bracket :: "'w env \<Rightarrow> address \<Rightarrow> u64 \<Rightarrow> address \<Rightarrow> ('w, unit) act" where
  "register_bracket env admin bracket_id organizer =
     bnd (caller_is_admin env admin) (\<lambda>_.
     bnd (gets (\<lambda>s. p_bracket_organizer (pers s) bracket_id \<noteq> None)) (\<lambda>taken. seqs [
       reject_if taken AlreadyExists,
       upd_pers (\<lambda>p. p\<lparr>p_bracket_organizer := (p_bracket_organizer p)(bracket_id \<mapsto> organizer)\<rparr>),
       publish ''match'' ''bracket_registered'' [VNat bracket_id, VAddr organizer]]))"

definition create_match_tournament ::
    "'w env \<Rightarrow> u64 \<Rightarrow> u32 \<Rightarrow> address \<Rightarrow> address \<Rightarrow> i128 \<Rightarrow> address \<Rightarrow> string \<Rightarrow> platform \<Rightarrow> ('w, u64) act" where
  "create_match_tournament env bracket_id round player1 player2 stake_amount token game_id platform =
     create_match_internal env \<lparr>mp_player1 = player1, mp_player2 = player2,
       mp_stake_amount = stake_amount, mp_token = token, mp_token_b = None,
       mp_conversion_rate = None, mp_game_id = game_id, mp_platform = platform,
       mp_referrer = None, mp_bracket_id = Some bracket_id, mp_round = Some round\<rparr>"

definition create_match_with_conversion ::
    "'w env \<Rightarrow> address \<Rightarrow> address \<Rightarrow> i128 \<Rightarrow> address \<Rightarrow> address \<Rightarrow> i128 \<Rightarrow> string \<Rightarrow> platform \<Rightarrow> ('w, u64) act" where
  "create_match_with_conversion env player1 player2 stake_amount token_a token_b rate game_id platform =
     create_match_internal env \<lparr>mp_player1 = player1, mp_player2 = player2,
       mp_stake_amount = stake_amount, mp_token = token_a, mp_token_b = Some token_b,
       mp_conversion_rate = Some rate, mp_game_id = game_id, mp_platform = platform,
       mp_referrer = None, mp_bracket_id = None, mp_round = None\<rparr>"

definition create_match_with_referrer ::
    "'w env \<Rightarrow> address \<Rightarrow> address \<Rightarrow> i128 \<Rightarrow> address \<Rightarrow> string \<Rightarrow> platform \<Rightarrow> address \<Rightarrow> ('w, u64) act" where
  "create_match_with_referrer env player1 player2 stake_amount token game_id platform referrer =
     create_match_internal env \<lparr>mp_player1 = player1, mp_player2 = player2,
       mp_stake_amount = stake_amount, mp_token = token, mp_token_b = None,
       mp_conversion_rate = None, mp_game_id = game_id, mp_platform = platform,
       mp_referrer = Some referrer, mp_bracket_id = None, mp_round = None\<rparr>"

section \<open>Deposit\<close>

definition set_deposit_guard :: "u64 \<Rightarrow> bool option \<Rightarrow> ('w, unit) act" where
  "set_deposit_guard match_id v =
     modify (\<lambda>s. s\<lparr>t_deposit_in_progress := (t_deposit_in_progress s)(match_id := v)\<rparr>)"

text \<open>\<^verbatim>\<open>if c { temporary().remove(guard); return Err(e) }\<close>\<close>

definition reject_clearing_guard :: "u64 \<Rightarrow> bool \<Rightarrow> error \<Rightarrow> ('w, unit) act" where
  "reject_clearing_guard match_id c e =
     only_if c (bnd (set_deposit_guard match_id None) (\<lambda>_. fail e))"

text \<open>\<^verbatim>\<open>if let Err(e) = add_active_match(..) { temporary().remove(guard); return Err(e) }\<close>\<close>

definition add_active_or_clear :: "address \<Rightarrow> u64 \<Rightarrow> ('w, unit) act" where
  "add_active_or_clear player match_id =
     bnd (catch_err (add_active_match player match_id)) (\<lambda>outcome.
     case outcome of
       Some e \<Rightarrow> bnd (set_deposit_guard match_id None) (\<lambda>_. fail e)
     | None \<Rightarrow> ret ())"

definition deposit :: "'w env \<Rightarrow> u64 \<Rightarrow> address \<Rightarrow> ('w, unit) act" where
  "deposit env match_id player =
     bnd (require_auth env player) (\<lambda>_.
     bnd (gets is_contract_paused) (\<lambda>paused.
     bnd (reject_if paused ContractPaused) (\<lambda>_.
     bnd (require_player_not_frozen player) (\<lambda>_.
     bnd (gets (\<lambda>s. unwrap_or (t_deposit_in_progress s match_id) False)) (\<lambda>in_progress.
     bnd (reject_if in_progress InvalidState) (\<lambda>_.
     bnd (set_deposit_guard match_id (Some True)) (\<lambda>_.
     bnd (load_match match_id) (\<lambda>m.
     let is_p1 = (player = m_player1 m); is_p2 = (player = m_player2 m) in
     bnd (seqs [
       reject_clearing_guard match_id (m_player1_deposited m \<and> m_player2_deposited m) AlreadyFunded,
       reject_clearing_guard match_id (m_state m \<noteq> Pending) InvalidState,
       reject_clearing_guard match_id (\<not> is_p1 \<and> \<not> is_p2) Unauthorized,
       reject_clearing_guard match_id (is_p1 \<and> m_player1_deposited m) AlreadyFunded,
       reject_clearing_guard match_id (is_p2 \<and> m_player2_deposited m) AlreadyFunded,
       require_player_tier_for_stake player (m_stake_amount m),
       transfer env (m_token m) player (current_contract_address env) (m_stake_amount m)]) (\<lambda>_.
     let m = (if is_p1 then m\<lparr>m_player1_deposited := True\<rparr> else m\<lparr>m_player2_deposited := True\<rparr>) in
     bnd (update_player_escrow_balance player (m_stake_amount m)) (\<lambda>_.
     let m = m\<lparr>m_last_heartbeat := ledger_timestamp env\<rparr> in
     bnd (if m_player1_deposited m \<and> m_player2_deposited m then
            bnd (set_match_state m Active) (\<lambda>m.
            let m = m\<lparr>m_activated_at := Some (ledger_timestamp env)\<rparr> in
            bnd (seqs [
              publish ''match'' ''deposit'' [VNat match_id, VAddr player, VStateOpt (Some (m_state m))],
              publish ''match'' ''activated'' [VNat match_id],
              add_active_or_clear (m_player1 m) match_id,
              add_active_or_clear (m_player2 m) match_id]) (\<lambda>_. ret m))
          else bnd (publish ''match'' ''deposit'' [VNat match_id, VAddr player, VStateOpt None]) (\<lambda>_. ret m)) (\<lambda>m.
     seqs [
       store_match match_id m,
       record_snapshot env m SnapDeposit,
       record_player_snapshot env player,
       set_deposit_guard match_id None,
       publish ''escrow'' ''deposit'' [VNat match_id, VAddr player, VInt (m_stake_amount m)]])))))))))))"

definition deposit_batch :: "'w env \<Rightarrow> (u64 \<times> address) list \<Rightarrow> ('w, error option list) act" where
  "deposit_batch env entries =
     bnd (gets is_contract_paused) (\<lambda>paused.
     bnd (reject_if paused ContractPaused) (\<lambda>_.
     collect (\<lambda>(match_id, player). catch_err (deposit env match_id player)) entries))"

section \<open>Settlement\<close>

definition settle_result :: "'w env \<Rightarrow> u64 \<Rightarrow> winner \<Rightarrow> nat option \<Rightarrow> ('w, unit) act" where
  "settle_result env match_id winner confidence =
     bnd (reject_if (winner = NoWinner) InvalidState) (\<lambda>_.
     bnd (load_match match_id) (\<lambda>m.
     bnd (seqs [
       reject_if (m_state m = Pending \<or> \<not> m_player1_deposited m \<or> \<not> m_player2_deposited m) NotFunded,
       reject_if (m_state m \<noteq> Active \<and> m_state m \<noteq> Paused) InvalidState,
       remove_active_match_indexed (m_player1 m) match_id,
       remove_active_match_indexed (m_player2 m) match_id]) (\<lambda>_.
     bnd (set_match_state m Completed) (\<lambda>m.
     let m = m\<lparr>m_winner := winner, m_vested_at := Some (ledger_timestamp env)\<rparr> in
     bnd (seqs [
       record_completed_match (m_player1 m),
       record_completed_match (m_player2 m),
       record_platform_payout (m_platform m),
       update_player_stats (m_player1 m) winner (m_stake_amount m) True,
       update_player_stats (m_player2 m) winner (m_stake_amount m) False,
       store_match match_id m]) (\<lambda>_.
     bnd (gets get_dispute_period) (\<lambda>dispute_period.
     if dispute_period = 0 then
       let m = m\<lparr>m_completed_ledger := Some (ledger_sequence env)\<rparr> in
       bnd (seqs [
         store_match match_id m,
         update_player_escrow_balance (m_player1 m) (- m_stake_amount m),
         update_player_escrow_balance (m_player2 m) (- m_stake_amount m),
         record_snapshot env m SnapCompleted,
         record_player_snapshot env (m_player1 m),
         record_player_snapshot env (m_player2 m)]) (\<lambda>_.
       bnd (if winner = NoWinner then ret 0 else ok_or (checked_mul (m_stake_amount m) 2) Overflow) (\<lambda>payout_amount.
       publish ''match'' ''completed'' [VNat match_id, VWinner winner, VInt payout_amount]))
     else
       bnd (ok_or (checked_add_u32 (ledger_sequence env) dispute_period) Overflow) (\<lambda>deadline.
       bnd (set_match_state m PendingResult) (\<lambda>m. seqs [
         store_match match_id m,
         upd_pers (\<lambda>p. p\<lparr>p_pending_winner := (p_pending_winner p)(match_id \<mapsto> winner)\<rparr>),
         upd_pers (\<lambda>p. p\<lparr>p_result_deadline := (p_result_deadline p)(match_id \<mapsto> deadline)\<rparr>),
         record_snapshot env m SnapResultSubmitted,
         publish ''match'' ''pending_result'' [VNat match_id, VWinner winner, VNat deadline]]))))))))"

definition submit_result :: "'w env \<Rightarrow> u64 \<Rightarrow> winner \<Rightarrow> address \<Rightarrow> nat option \<Rightarrow> ('w, unit) act" where
  "submit_result env match_id winner oracle confidence =
     bnd (gets is_contract_paused) (\<lambda>paused.
     bnd (reject_if paused ContractPaused) (\<lambda>_.
     bnd (require_auth env oracle) (\<lambda>_.
     bnd (effective_oracle env) (\<lambda>stored_oracle. seqs [
       reject_if (oracle \<noteq> stored_oracle) Unauthorized,
       settle_result env match_id winner confidence]))))"

definition submit_draw :: "'w env \<Rightarrow> u64 \<Rightarrow> address \<Rightarrow> nat option \<Rightarrow> ('w, unit) act" where
  "submit_draw env match_id oracle confidence =
     bnd (gets is_contract_paused) (\<lambda>paused.
     bnd (reject_if paused ContractPaused) (\<lambda>_.
     bnd (require_auth env oracle) (\<lambda>_.
     bnd (effective_oracle env) (\<lambda>stored_oracle. seqs [
       reject_if (oracle \<noteq> stored_oracle) Unauthorized,
       settle_result env match_id Draw confidence]))))"

definition submit_result_with_oracle_record ::
    "'w env \<Rightarrow> u64 \<Rightarrow> winner \<Rightarrow> string \<Rightarrow> address \<Rightarrow> ('w, unit) act" where
  "submit_result_with_oracle_record env match_id winner game_id oracle = seqs [
     submit_result env match_id winner oracle None,
     upd_pers (\<lambda>p. p\<lparr>p_oracle_record := (p_oracle_record p)(match_id \<mapsto> game_id)\<rparr>)]"

definition submit_result_batch ::
    "'w env \<Rightarrow> (u64 \<times> winner) list \<Rightarrow> address \<Rightarrow> ('w, error option list) act" where
  "submit_result_batch env results caller =
     bnd (gets is_contract_paused) (\<lambda>paused.
     bnd (reject_if paused ContractPaused) (\<lambda>_.
     bnd load_oracle (\<lambda>oracle.
     bnd (reject_if (caller \<noteq> oracle) Unauthorized) (\<lambda>_.
     bnd (require_auth env caller) (\<lambda>_.
     collect (\<lambda>(match_id, winner).
       bnd (gets (\<lambda>s. case p_match (pers s) match_id of
                      Some m \<Rightarrow> m_state m = Completed \<or> m_state m = PendingResult
                    | None \<Rightarrow> False)) (\<lambda>already_settled.
       catch_err (if already_settled then fail OracleAlreadyConfirmed
                  else settle_result env match_id winner None))) results)))))"

section \<open>Cancellation, pause, expiry\<close>

definition is_multi_token :: "match_rec \<Rightarrow> bool" where
  "is_multi_token m \<longleftrightarrow> m_token_b m \<noteq> None \<and> (case m_conversion_rate m of Some r \<Rightarrow> r > 0 | None \<Rightarrow> False)"

text \<open>The stake of player 2 in the second token; in a single-token match the stake itself.\<close>

definition stake_in_token_b :: "match_rec \<Rightarrow> ('w, i128) act" where
  "stake_in_token_b m =
     (if is_multi_token m then
        bnd (ok_or (checked_mul (m_stake_amount m) (unwrap_or (m_conversion_rate m) 0)) Overflow) (\<lambda>x.
        ok_or (checked_div x 10000000) Overflow)
      else ret (m_stake_amount m))"

definition token_b_of :: "match_rec \<Rightarrow> address" where
  "token_b_of m = unwrap_or (m_token_b m) (m_token m)"

text \<open>The amount by which the counter of player 2 is lowered; overflow counts as zero here.\<close>

definition counter_amount_p2 :: "match_rec \<Rightarrow> i128" where
  "counter_amount_p2 m =
     (if is_multi_token m then
        unwrap_or (checked_div (unwrap_or (checked_mul (m_stake_amount m)
          (unwrap_or (m_conversion_rate m) 0)) 0) 10000000) 0
      else m_stake_amount m)"

definition cancellation_fee :: "protocol_config \<Rightarrow> i128 \<Rightarrow> ('w, i128) act" where
  "cancellation_fee config amount =
     (if fc_cancellation_fee_basis_points (pc_fees config) > 0 then
        bnd (ok_or (checked_mul amount (int (fc_cancellation_fee_basis_points (pc_fees config)))) Overflow) (\<lambda>x.
        ret (x sdiv 10000))
      else ret 0)"

definition lower_counters :: "match_rec \<Rightarrow> ('w, unit) act" where
  "lower_counters m = seqs [
     only_if (m_player1_deposited m) (update_player_escrow_balance (m_player1 m) (- m_stake_amount m)),
     only_if (m_player2_deposited m) (update_player_escrow_balance (m_player2 m) (- counter_amount_p2 m))]"

definition snapshot_depositors :: "'w env \<Rightarrow> match_rec \<Rightarrow> ('w, unit) act" where
  "snapshot_depositors env m = seqs [
     only_if (m_player1_deposited m) (record_player_snapshot env (m_player1 m)),
     only_if (m_player2_deposited m) (record_player_snapshot env (m_player2 m))]"

text \<open>The refunds of a cancellation: each depositor gets the stake less the fee, the treasury
  the fee.\<close>

definition refund_less_fee :: "'w env \<Rightarrow> protocol_config \<Rightarrow> match_rec \<Rightarrow> ('w, unit) act" where
  "refund_less_fee env config m =
     (let self = current_contract_address env in
     bnd (cancellation_fee config (m_stake_amount m)) (\<lambda>fee_amount.
     bnd (ok_or (checked_sub (m_stake_amount m) fee_amount) Overflow) (\<lambda>refund_amount.
     bnd (only_if (m_player1_deposited m) (seqs [
       transfer env (m_token m) self (m_player1 m) refund_amount,
       only_if (fee_amount > 0) (transfer env (m_token m) self (pc_treasury config) fee_amount)])) (\<lambda>_.
     only_if (m_player2_deposited m) (
       bnd (stake_in_token_b m) (\<lambda>amount_b.
       bnd (cancellation_fee config amount_b) (\<lambda>fee_amount_b.
       bnd (ok_or (checked_sub amount_b fee_amount_b) Overflow) (\<lambda>refund_amount_b. seqs [
         transfer env (token_b_of m) self (m_player2 m) refund_amount_b,
         only_if (fee_amount_b > 0)
           (transfer env (token_b_of m) self (pc_treasury config) fee_amount_b)]))))))))"

definition cancel_match :: "'w env \<Rightarrow> u64 \<Rightarrow> address \<Rightarrow> ('w, unit) act" where
  "cancel_match env match_id caller =
     bnd (gets is_contract_paused) (\<lambda>paused.
     bnd (reject_if paused ContractPaused) (\<lambda>_.
     bnd (load_match match_id) (\<lambda>m.
     bnd (seqs [
       reject_if (m_state m \<noteq> Pending) InvalidState,
       reject_if (caller \<noteq> m_player1 m \<and> caller \<noteq> m_player2 m) Unauthorized,
       require_auth env caller]) (\<lambda>_.
     bnd (gets (get_config env)) (\<lambda>config.
     bnd (refund_less_fee env config m) (\<lambda>_.
     bnd (set_match_state m Cancelled) (\<lambda>m.
     let m = m\<lparr>m_completed_ledger := Some (ledger_sequence env)\<rparr> in
     seqs [
       store_match match_id m,
       lower_counters m,
       record_snapshot env m SnapCancelled,
       snapshot_depositors env m,
       publish ''match'' ''cancelled'' [VNat match_id]])))))))"

definition pause_match :: "'w env \<Rightarrow> u64 \<Rightarrow> address \<Rightarrow> ('w, unit) act" where
  "pause_match env match_id caller =
     bnd (require_auth env caller) (\<lambda>_.
     bnd (load_match match_id) (\<lambda>m.
     bnd (seqs [
       reject_if (m_state m \<noteq> Active) InvalidPauseState,
       reject_if (caller \<noteq> m_player1 m \<and> caller \<noteq> m_player2 m) Unauthorized,
       reject_if (m_total_pause_duration m \<ge> MAX_PAUSE_DURATION_LEDGERS) InvalidPauseState]) (\<lambda>_.
     bnd (set_match_state m Paused) (\<lambda>m.
     let m = m\<lparr>m_paused_ledger := Some (ledger_sequence env)\<rparr> in
     seqs [
       store_match match_id m,
       record_snapshot env m SnapPaused,
       publish ''match'' ''paused'' [VNat match_id]]))))"

definition resume_match :: "'w env \<Rightarrow> u64 \<Rightarrow> address \<Rightarrow> ('w, unit) act" where
  "resume_match env match_id caller =
     bnd (require_auth env caller) (\<lambda>_.
     bnd (load_match match_id) (\<lambda>m.
     bnd (seqs [
       reject_if (m_state m \<noteq> Paused) InvalidState,
       reject_if (caller \<noteq> m_player1 m \<and> caller \<noteq> m_player2 m) Unauthorized]) (\<lambda>_.
     let m = (case m_paused_ledger m of
                Some paused_at \<Rightarrow>
                  m\<lparr>m_total_pause_duration := saturating_add_u32 (m_total_pause_duration m)
                     (saturating_sub (ledger_sequence env) paused_at)\<rparr>
              | None \<Rightarrow> m) in
     bnd (set_match_state m Active) (\<lambda>m.
     let m = m\<lparr>m_paused_ledger := None\<rparr> in
     seqs [
       store_match match_id m,
       record_snapshot env m SnapResumed,
       publish ''match'' ''resumed'' [VNat match_id]]))))"

text \<open>The refund of the deposited stakes that expiry, recovery and rollback share.\<close>

definition refund_stakes :: "'w env \<Rightarrow> match_rec \<Rightarrow> ('w, unit) act" where
  "refund_stakes env m = seqs [
     only_if (m_player1_deposited m)
       (transfer env (m_token m) (current_contract_address env) (m_player1 m) (m_stake_amount m)),
     only_if (m_player2_deposited m)
       (bnd (stake_in_token_b m) (\<lambda>amount_b.
        transfer env (token_b_of m) (current_contract_address env) (m_player2 m) amount_b))]"

definition expire_match :: "'w env \<Rightarrow> u64 \<Rightarrow> ('w, unit) act" where
  "expire_match env match_id =
     bnd (load_match match_id) (\<lambda>m.
     bnd (reject_if (m_state m \<noteq> Pending) InvalidState) (\<lambda>_.
     bnd (gets (current_match_timeout env)) (\<lambda>t.
     bnd (or_trap t) (\<lambda>timeout.
     bnd (reject_if (saturating_sub (ledger_sequence env) (m_created_ledger m) < timeout) MatchNotExpired) (\<lambda>_.
     bnd (gets (\<lambda>s. is_token_blacklisted (m_token m) s \<or>
                     (is_multi_token m \<and> is_token_blacklisted (token_b_of m) s))) (\<lambda>blacklisted.
     bnd (reject_if blacklisted TokenNotAllowed) (\<lambda>_.
     bnd (refund_stakes env m) (\<lambda>_.
     bnd (set_match_state m Cancelled) (\<lambda>m.
     let m = m\<lparr>m_completed_ledger := Some (ledger_sequence env)\<rparr> in
     seqs [
       store_match match_id m,
       lower_counters m,
       record_snapshot env m SnapCancelled,
       snapshot_depositors env m,
       publish ''match'' ''expired'' [VNat match_id]])))))))))"

definition admin_recover_match :: "'w env \<Rightarrow> u64 \<Rightarrow> ('w, unit) act" where
  "admin_recover_match env match_id = admin_only env (\<lambda>admin.
     bnd (load_match match_id) (\<lambda>m.
     bnd (reject_if (m_state m \<noteq> Pending) InvalidState) (\<lambda>_.
     bnd (gets (current_match_timeout env)) (\<lambda>t.
     bnd (or_trap t) (\<lambda>timeout.
     bnd (reject_if (saturating_sub (ledger_sequence env) (m_created_ledger m) < timeout)
            RecoveryTimelockNotElapsed) (\<lambda>_.
     bnd (refund_stakes env m) (\<lambda>_.
     bnd (set_match_state m Cancelled) (\<lambda>m.
     let m = m\<lparr>m_completed_ledger := Some (ledger_sequence env)\<rparr> in
     seqs [
       store_match match_id m,
       record_snapshot env m SnapCancelled,
       snapshot_depositors env m,
       publish ''admin'' ''match_recovered'' [VNat match_id, VAddr admin]]))))))))"

definition bulk_expire_matches :: "'w env \<Rightarrow> u64 list \<Rightarrow> ('w, u64 list) act" where
  "bulk_expire_matches env match_ids =
     bnd (gets (\<lambda>s. i_admin (inst s))) (\<lambda>stored.
     case stored of
       None \<Rightarrow> ret []
     | Some admin \<Rightarrow>
         bnd (require_auth env admin) (\<lambda>_.
         let bounded_ids = (if length match_ids > MAX_BULK_EXPIRE_SIZE
                            then take MAX_BULK_EXPIRE_SIZE match_ids else match_ids) in
         bnd (collect (\<lambda>match_id.
                bnd (catch_err (expire_match env match_id)) (\<lambda>outcome.
                ret (if outcome = None then [match_id] else []))) bounded_ids) (\<lambda>results.
         ret (concat results))))"

section \<open>Rollback, heartbeat, stall\<close>

definition dispute_and_rollback_match :: "'w env \<Rightarrow> u64 \<Rightarrow> address \<Rightarrow> string \<Rightarrow> ('w, unit) act" where
  "dispute_and_rollback_match env match_id disputer reason =
     bnd (reject_if (reason = [] \<or> length reason > MAX_REASON_LEN) InvalidEvidenceHash) (\<lambda>_.
     bnd (require_auth env disputer) (\<lambda>_.
     bnd (load_match match_id) (\<lambda>m.
     let is_p1 = (disputer = m_player1 m); is_p2 = (disputer = m_player2 m) in
     bnd (seqs [
       reject_if (\<not> is_p1 \<and> \<not> is_p2) Unauthorized,
       reject_if (m_state m = PendingResult \<or> m_state m = Completed) InvalidState,
       reject_if (m_state m \<noteq> Active) InvalidState,
       reject_if (saturating_sub (ledger_timestamp env) (m_last_heartbeat m) > ROLLBACK_WINDOW_SECONDS)
         VotingPeriodElapsed]) (\<lambda>_.
     let m = (if is_p1 then m\<lparr>m_rollback_vote_player1 := True\<rparr> else m\<lparr>m_rollback_vote_player2 := True\<rparr>) in
     bnd (store_match match_id m) (\<lambda>_.
     if \<not> m_rollback_vote_player1 m \<or> \<not> m_rollback_vote_player2 m then
       publish ''match'' ''rb_vote'' [VNat match_id, VAddr disputer]
     else
       bnd (seqs [
         remove_active_match_indexed (m_player1 m) match_id,
         remove_active_match_indexed (m_player2 m) match_id,
         refund_stakes env m]) (\<lambda>_.
       bnd (set_match_state m Cancelled) (\<lambda>m.
       let m = m\<lparr>m_completed_ledger := Some (ledger_sequence env)\<rparr> in
       seqs [
         store_match match_id m,
         record_snapshot env m SnapCancelled,
         snapshot_depositors env m,
         publish ''match'' ''rollback'' [VNat match_id, VAddr disputer, VStr reason]])))))))"

definition heartbeat_match :: "'w env \<Rightarrow> u64 \<Rightarrow> address \<Rightarrow> ('w, unit) act" where
  "heartbeat_match env match_id player =
     bnd (require_auth env player) (\<lambda>_.
     bnd (load_match match_id) (\<lambda>m.
     let now = ledger_timestamp env in
     seqs [
       reject_if (player \<noteq> m_player1 m \<and> player \<noteq> m_player2 m) Unauthorized,
       reject_if (m_state m = Completed \<or> m_state m = Cancelled) InvalidState,
       reject_if (m_state m \<noteq> Active) InvalidState,
       store_match match_id (m\<lparr>m_last_heartbeat := now\<rparr>),
       publish ''match'' ''heartbeat'' [VNat match_id, VAddr player, VNat now]]))"

definition update_heartbeat :: "'w env \<Rightarrow> u64 \<Rightarrow> address \<Rightarrow> ('w, unit) act" where
  "update_heartbeat env match_id caller = heartbeat_match env match_id caller"

text \<open>The pot of a stall resolution: both stakes, player 2's converted in a multi-token match.\<close>

definition stalled_pot :: "match_rec \<Rightarrow> ('w, i128) act" where
  "stalled_pot m =
     (if is_multi_token m then
        bnd (stake_in_token_b m) (\<lambda>p2_amount. ok_or (checked_add (m_stake_amount m) p2_amount) Overflow)
      else ok_or (checked_mul (m_stake_amount m) 2) Overflow)"

definition pay_stalled :: "'w env \<Rightarrow> match_rec \<Rightarrow> winner \<Rightarrow> ('w, unit) act" where
  "pay_stalled env m resolution =
     (let self = current_contract_address env in
      case resolution of
        Player1 \<Rightarrow> bnd (stalled_pot m) (\<lambda>total_pot.
          transfer env (m_token m) self (m_player1 m) total_pot)
      | Player2 \<Rightarrow> bnd (stalled_pot m) (\<lambda>total_pot.
          transfer env (token_b_of m) self (m_player2 m) total_pot)
      | Draw \<Rightarrow> seqs [
          transfer env (m_token m) self (m_player1 m) (m_stake_amount m),
          bnd (stake_in_token_b m) (\<lambda>amount_b.
            transfer env (token_b_of m) self (m_player2 m) amount_b)]
      | NoWinner \<Rightarrow> fail InvalidAmount)"

definition admin_resolve_stalled_match :: "'w env \<Rightarrow> u64 \<Rightarrow> address \<Rightarrow> winner \<Rightarrow> ('w, unit) act" where
  "admin_resolve_stalled_match env match_id caller resolution =
     bnd (caller_is_admin env caller) (\<lambda>_.
     bnd (reject_if (resolution = NoWinner) InvalidAmount) (\<lambda>_.
     bnd (load_match match_id) (\<lambda>m.
     let now = ledger_timestamp env;
         reference_ts = unwrap_or (m_activated_at m) (m_last_heartbeat m);
         elapsed = saturating_sub now reference_ts;
         is_stalled = (m_state m = Paused \<or>
           (m_state m = Active \<and> elapsed > MAX_PAUSE_DURATION_LEDGERS * SECONDS_PER_LEDGER)) in
     bnd (seqs [
       reject_if (\<not> is_stalled) InvalidState,
       reject_if (\<not> m_player1_deposited m \<or> \<not> m_player2_deposited m) NotFunded,
       reject_if (elapsed \<le> ADMIN_STALL_WINDOW_SECONDS) MatchNotExpired,
       remove_active_match_indexed (m_player1 m) match_id,
       remove_active_match_indexed (m_player2 m) match_id,
       pay_stalled env m resolution]) (\<lambda>_.
     bnd (set_match_state m Completed) (\<lambda>m.
     let m = m\<lparr>m_winner := resolution, m_completed_ledger := Some (ledger_sequence env)\<rparr> in
     seqs [
       store_match match_id m,
       record_snapshot env m SnapCompleted,
       record_player_snapshot env (m_player1 m),
       record_player_snapshot env (m_player2 m),
       only_if (resolution \<noteq> Draw) (seqs [
         record_completed_match (m_player1 m), record_completed_match (m_player2 m)]),
       publish ''match'' ''adm_stall'' [VNat match_id, VWinner resolution],
       publish ''match'' ''cancelled'' [VNat match_id]])))))"

text \<open>Not called by any entry point of the contract.\<close>

definition pause_duration_exceeded :: "'w env \<Rightarrow> match_rec \<Rightarrow> bool" where
  "pause_duration_exceeded env m =
     (if m_state m \<noteq> Paused then False
      else case m_paused_ledger m of
             Some started \<Rightarrow> saturating_sub (ledger_sequence env) started > MAX_PAUSE_DURATION_LEDGERS
           | None \<Rightarrow> False)"

section \<open>Effects of the helpers\<close>

text \<open>The payments move tokens and touch nothing else of the state; the counters and player
  snapshots touch their own entries.\<close>

lemma payment_frames [frame_rules]:
  assumes "\<And>s w. f (s\<lparr>world := w\<rparr>) = f s"
  shows "frame f (refund_less_fee env config m)" "frame f (refund_stakes env m)"
    "frame f (pay_stalled env m resolution)" "frame f (stake_in_token_b m)" "frame f (stalled_pot m)"
  using assms
  by (auto simp: refund_less_fee_def refund_stakes_def pay_stalled_def stalled_pot_def
      stake_in_token_b_def cancellation_fee_def intro!: frame_rules split: winner.split)

lemma bookkeeping_frames [frame_rules]:
  "(\<And>s b. f (s\<lparr>pers := (pers s)\<lparr>p_escrow_balance := b\<rparr>\<rparr>) = f s) \<Longrightarrow> frame f (lower_counters m)"
  "frame f (record_player_snapshot env (m_player1 m)) \<Longrightarrow> frame f (record_player_snapshot env (m_player2 m)) \<Longrightarrow>
     frame f (snapshot_depositors env m)"
  by (auto simp: lower_counters_def snapshot_depositors_def update_player_escrow_balance_def
      intro!: frame_rules)

lemma payment_after [simp]:
  "pers (after (refund_less_fee env config m) s) = pers s"
  "inst (after (refund_less_fee env config m) s) = inst s"
  "pers (after (refund_stakes env m) s) = pers s"
  "inst (after (refund_stakes env m) s) = inst s"
  "pers (after (pay_stalled env m w) s) = pers s"
  "inst (after (pay_stalled env m w) s) = inst s"
  by (auto intro!: frame_after frame_rules)

lemmas wp_payments [wp_simps] =
  wp_after [of "refund_less_fee env config m" for env config m]
  wp_after [of "refund_stakes env m" for env m]
  wp_after [of "pay_stalled env m w" for env m w]

lemma wp_lower_counters [wp_simps]:
  "wp (lower_counters m) Q E T s = Q () (after (lower_counters m) s)"
proof -
  have "verdict (lower_counters m) s = Ok ()"
    by (simp add: verdict_def lower_counters_def update_player_escrow_balance_def run_simps)
  then show ?thesis by (simp add: wp_after)
qed

lemma wp_snapshot_depositors [wp_simps]:
  "wp (snapshot_depositors env m) Q E T s = Q () (after (snapshot_depositors env m) s)"
proof -
  have "wp (snapshot_depositors env m) (\<lambda>_ _. True) (\<lambda>_ _. False) False s"
    by (simp add: snapshot_depositors_def wp_simps)
  then have "verdict (snapshot_depositors env m) s = Ok ()"
    by (cases "verdict (snapshot_depositors env m) s") (auto simp: wp_after)
  then show ?thesis by (simp add: wp_after)
qed

lemma lower_counters_frame [simp]:
  "inst (after (lower_counters m) s) = inst s"
  "world (after (lower_counters m) s) = world s"
  "t_deposit_in_progress (after (lower_counters m) s) = t_deposit_in_progress s"
  "current_wasm (after (lower_counters m) s) = current_wasm s"
  "p_match (pers (after (lower_counters m) s)) = p_match (pers s)"
  "p_matches_by_state (pers (after (lower_counters m) s)) = p_matches_by_state (pers s)"
  "p_game_id (pers (after (lower_counters m) s)) = p_game_id (pers s)"
  "p_player_matches (pers (after (lower_counters m) s)) = p_player_matches (pers s)"
  "p_pending_winner (pers (after (lower_counters m) s)) = p_pending_winner (pers s)"
  "p_result_deadline (pers (after (lower_counters m) s)) = p_result_deadline (pers s)"
  "p_dispute (pers (after (lower_counters m) s)) = p_dispute (pers s)"
  "p_match_dispute (pers (after (lower_counters m) s)) = p_match_dispute (pers s)"
  "p_player_completed_match_count (pers (after (lower_counters m) s)) = p_player_completed_match_count (pers s)"
  "p_fee_tiers (pers (after (lower_counters m) s)) = p_fee_tiers (pers s)"
  "p_oracle_deadlock (pers (after (lower_counters m) s)) = p_oracle_deadlock (pers s)"
  "p_bracket_organizer (pers (after (lower_counters m) s)) = p_bracket_organizer (pers s)"
  "p_dispute_vote (pers (after (lower_counters m) s)) = p_dispute_vote (pers s)"
  "p_oracle_vote (pers (after (lower_counters m) s)) = p_oracle_vote (pers s)"
  "p_player_preferred_token (pers (after (lower_counters m) s)) = p_player_preferred_token (pers s)"
  "p_active_match (pers (after (lower_counters m) s)) = p_active_match (pers s)"
  "p_player_active_match_count (pers (after (lower_counters m) s)) = p_player_active_match_count (pers s)"
  "p_snapshot (pers (after (lower_counters m) s)) = p_snapshot (pers s)"
  "p_snapshot_count (pers (after (lower_counters m) s)) = p_snapshot_count (pers s)"
  by (auto intro!: frame_after frame_rules)

lemma snapshot_depositors_frame [simp]:
  "inst (after (snapshot_depositors env m) s) = inst s"
  "world (after (snapshot_depositors env m) s) = world s"
  "t_deposit_in_progress (after (snapshot_depositors env m) s) = t_deposit_in_progress s"
  "current_wasm (after (snapshot_depositors env m) s) = current_wasm s"
  "p_match (pers (after (snapshot_depositors env m) s)) = p_match (pers s)"
  "p_matches_by_state (pers (after (snapshot_depositors env m) s)) = p_matches_by_state (pers s)"
  "p_game_id (pers (after (snapshot_depositors env m) s)) = p_game_id (pers s)"
  "p_player_matches (pers (after (snapshot_depositors env m) s)) = p_player_matches (pers s)"
  "p_pending_winner (pers (after (snapshot_depositors env m) s)) = p_pending_winner (pers s)"
  "p_result_deadline (pers (after (snapshot_depositors env m) s)) = p_result_deadline (pers s)"
  "p_dispute (pers (after (snapshot_depositors env m) s)) = p_dispute (pers s)"
  "p_match_dispute (pers (after (snapshot_depositors env m) s)) = p_match_dispute (pers s)"
  "p_player_completed_match_count (pers (after (snapshot_depositors env m) s)) = p_player_completed_match_count (pers s)"
  "p_fee_tiers (pers (after (snapshot_depositors env m) s)) = p_fee_tiers (pers s)"
  "p_oracle_deadlock (pers (after (snapshot_depositors env m) s)) = p_oracle_deadlock (pers s)"
  "p_bracket_organizer (pers (after (snapshot_depositors env m) s)) = p_bracket_organizer (pers s)"
  "p_dispute_vote (pers (after (snapshot_depositors env m) s)) = p_dispute_vote (pers s)"
  "p_oracle_vote (pers (after (snapshot_depositors env m) s)) = p_oracle_vote (pers s)"
  "p_player_preferred_token (pers (after (snapshot_depositors env m) s)) = p_player_preferred_token (pers s)"
  "p_active_match (pers (after (snapshot_depositors env m) s)) = p_active_match (pers s)"
  "p_player_active_match_count (pers (after (snapshot_depositors env m) s)) = p_player_active_match_count (pers s)"
  "p_escrow_balance (pers (after (snapshot_depositors env m) s)) = p_escrow_balance (pers s)"
  by (auto simp: record_player_snapshot_def intro!: frame_after frame_rules)

end
