(* ===== verification/Escrow_Disputes.thy ===== *)
theory Escrow_Disputes
  imports Escrow_Lifecycle
begin

text \<open>
  What happens after the oracle's result (contracts/escrow/src/lib.rs): the payout of a delayed
  result, disputes with their bond, votes, quorum and resolution, and the claim of a vested
  payout with its fees. A token amount owed in the second token of a match is bought from the
  oracle contract (\<open>oracle_swap\<close>), a parameter of the environment.
\<close>

definition VOTING_PERIOD_LEDGERS :: u32 where "VOTING_PERIOD_LEDGERS = 17280"
definition MAX_RATE_AGE :: u32 where "MAX_RATE_AGE = 1000"

section \<open>Payout\<close>

definition oracle_swap ::
    "'w env \<Rightarrow> address \<Rightarrow> address \<Rightarrow> i128 \<Rightarrow> i128 \<Rightarrow> address \<Rightarrow> ('w, unit) act" where
  "oracle_swap env token_in token_out amount_in min_amount_out recipient =
     bnd load_oracle (\<lambda>oracle_address.
     bnd (gets (\<lambda>s. oracle_swap_call env oracle_address (current_contract_address env) token_in token_out
                      amount_in min_amount_out recipient (world s))) (\<lambda>r.
     bnd (or_trap r) (\<lambda>w. modify (\<lambda>s. s\<lparr>world := w\<rparr>))))"

text \<open>The age check of a conversion rate, in \<^verbatim>\<open>execute_payout\<close> and in
  \<^verbatim>\<open>claim_vested_payout\<close>.\<close>

definition rate_is_stale :: "'w env \<Rightarrow> match_rec \<Rightarrow> bool" where
  "rate_is_stale env m \<longleftrightarrow>
     is_multi_token m \<and>
     (case m_conversion_rate_ledger m of
        Some rate_ledger \<Rightarrow> saturating_sub (ledger_sequence env) rate_ledger > MAX_RATE_AGE
      | None \<Rightarrow> False)"

definition converted :: "match_rec \<Rightarrow> i128 \<Rightarrow> ('w, i128) act" where
  "converted m amount =
     bnd (ok_or (m_conversion_rate m) InvalidState) (\<lambda>rate.
     bnd (ok_or (checked_mul amount rate) Overflow) (\<lambda>x.
     ok_or (checked_div x 10000000) Overflow))"

definition execute_payout :: "'w env \<Rightarrow> match_rec \<Rightarrow> winner \<Rightarrow> ('w, unit) act" where
  "execute_payout env m winner =
     (let self = current_contract_address env in
      bnd (reject_if (rate_is_stale env m) ConversionRateStalePriceSource) (\<lambda>_.
      case winner of
        Player1 \<Rightarrow>
          bnd (ok_or (checked_mul (m_stake_amount m) 2) Overflow) (\<lambda>pot.
          transfer env (m_token m) self (m_player1 m) pot)
      | Player2 \<Rightarrow>
          if is_multi_token m then
            bnd (ok_or (m_token_b m) InvalidState) (\<lambda>token_b.
            bnd (ok_or (checked_mul (m_stake_amount m) 2) Overflow) (\<lambda>pot.
            bnd (converted m pot) (\<lambda>amount_b.
            oracle_swap env (m_token m) token_b pot amount_b (m_player2 m))))
          else
            bnd (ok_or (checked_mul (m_stake_amount m) 2) Overflow) (\<lambda>pot.
            transfer env (m_token m) self (m_player2 m) pot)
      | Draw \<Rightarrow>
          bnd (transfer env (m_token m) self (m_player1 m) (m_stake_amount m)) (\<lambda>_.
          if is_multi_token m then
            bnd (ok_or (m_token_b m) InvalidState) (\<lambda>token_b.
            bnd (converted m (m_stake_amount m)) (\<lambda>amount_b.
            oracle_swap env (m_token m) token_b (m_stake_amount m) amount_b (m_player2 m)))
          else transfer env (m_token m) self (m_player2 m) (m_stake_amount m))
      | NoWinner \<Rightarrow> fail InvalidState))"

definition finalize_match :: "'w env \<Rightarrow> u64 \<Rightarrow> ('w, unit) act" where
  "finalize_match env match_id =
     bnd (load_match match_id) (\<lambda>m.
     bnd (reject_if (m_state m \<noteq> PendingResult) MatchNotInPendingResult) (\<lambda>_.
     bnd (gets (\<lambda>s. p_result_deadline (pers s) match_id)) (\<lambda>d.
     bnd (ok_or d PendingResultNotFound) (\<lambda>deadline.
     bnd (reject_if (ledger_sequence env < deadline) DisputePeriodNotElapsed) (\<lambda>_.
     bnd (gets (\<lambda>s. p_match_dispute (pers s) match_id \<noteq> None)) (\<lambda>disputed.
     bnd (reject_if disputed DisputeAlreadyRaised) (\<lambda>_.
     bnd (gets (\<lambda>s. p_pending_winner (pers s) match_id)) (\<lambda>w.
     bnd (ok_or w PendingResultNotFound) (\<lambda>winner.
     bnd (seqs [
       execute_payout env m winner,
       remove_active_match_indexed (m_player1 m) match_id,
       remove_active_match_indexed (m_player2 m) match_id,
       update_player_escrow_balance (m_player1 m) (- m_stake_amount m),
       update_player_escrow_balance (m_player2 m) (- m_stake_amount m)]) (\<lambda>_.
     bnd (set_match_state m Completed) (\<lambda>m.
     let m = m\<lparr>m_completed_ledger := Some (ledger_sequence env)\<rparr> in
     seqs [
       record_completed_match (m_player1 m),
       record_completed_match (m_player2 m),
       record_platform_payout (m_platform m),
       store_match match_id m,
       record_snapshot env m SnapFinalized,
       record_player_snapshot env (m_player1 m),
       record_player_snapshot env (m_player2 m),
       publish ''match'' ''finalized'' [VNat match_id, VWinner winner]])))))))))))"

section \<open>Disputes\<close>

definition dispute_oracle_result :: "'w env \<Rightarrow> u64 \<Rightarrow> address \<Rightarrow> string \<Rightarrow> ('w, u64) act" where
  "dispute_oracle_result env match_id disputer evidence_hash =
     bnd (require_auth env disputer) (\<lambda>_.
     bnd (load_match match_id) (\<lambda>m.
     bnd (seqs [
       reject_if (m_state m \<noteq> PendingResult) MatchNotInPendingResult,
       reject_if (disputer \<noteq> m_player1 m \<and> disputer \<noteq> m_player2 m) Unauthorized]) (\<lambda>_.
     bnd (gets (\<lambda>s. p_result_deadline (pers s) match_id)) (\<lambda>d.
     bnd (ok_or d PendingResultNotFound) (\<lambda>deadline.
     bnd (reject_if (ledger_sequence env \<ge> deadline) DisputePeriodNotElapsed) (\<lambda>_.
     bnd (reject_if (\<not> is_valid_evidence_hash evidence_hash) InvalidEvidenceHash) (\<lambda>_.
     bnd (gets (\<lambda>s. p_match_dispute (pers s) match_id \<noteq> None)) (\<lambda>disputed.
     bnd (reject_if disputed DisputeAlreadyRaised) (\<lambda>_.
     bnd (gets (dispute_bond_basis_points_for env (m_stake_amount m))) (\<lambda>bond_basis_points.
     bnd (ok_or (checked_mul (m_stake_amount m) (int bond_basis_points)) Overflow) (\<lambda>x.
     bnd (ok_or (checked_div x 10000) Overflow) (\<lambda>y.
     let dispute_bond = max y 1 in
     bnd (reject_if (dispute_bond \<le> 0) InsufficientBond) (\<lambda>_.
     bnd (transfer env (m_token m) disputer (current_contract_address env) dispute_bond) (\<lambda>_.
     bnd (gets (\<lambda>s. unwrap_or (i_dispute_count (inst s)) 0)) (\<lambda>dispute_id.
     bnd (ok_or (checked_add_u32 (ledger_sequence env) VOTING_PERIOD_LEDGERS) Overflow) (\<lambda>voting_deadline.
     bnd (gets (\<lambda>s. token_balance env (m_token m) (current_contract_address env) (world s))) (\<lambda>b.
     bnd (or_trap b) (\<lambda>snapshot_total_weight.
     bnd (gets get_quorum_basis_points) (\<lambda>quorum_basis_points.
     bnd (ok_or (checked_mul snapshot_total_weight (int quorum_basis_points)) Overflow) (\<lambda>q.
     bnd (ok_or (checked_div q 10000) Overflow) (\<lambda>quorum_threshold.
     let dispute = \<lparr>d_id = dispute_id, d_match_id = match_id, d_disputer = disputer,
           d_created_ledger = ledger_sequence env, d_voting_deadline = voting_deadline,
           d_state = DisputeActive, d_evidence_hash = evidence_hash, d_uphold_votes = 0,
           d_overturn_votes = 0, d_yes_votes = 0, d_no_votes = 0, d_dispute_bond = dispute_bond,
           d_snapshot_ledger = ledger_sequence env, d_snapshot_total_weight = snapshot_total_weight,
           d_quorum_threshold = quorum_threshold\<rparr> in
     bnd (upd_pers (\<lambda>p. p\<lparr>p_dispute := (p_dispute p)(dispute_id \<mapsto> dispute)\<rparr>)) (\<lambda>_.
     bnd (upd_pers (\<lambda>p. p\<lparr>p_match_dispute := (p_match_dispute p)(match_id \<mapsto> dispute_id)\<rparr>)) (\<lambda>_.
     bnd load_oracle (\<lambda>oracle.
     bnd (upd_pers (\<lambda>p. p\<lparr>p_dispute_oracle := (p_dispute_oracle p)(dispute_id \<mapsto> oracle)\<rparr>)) (\<lambda>_.
     bnd (ok_or (checked_add_u64 dispute_id 1) Overflow) (\<lambda>next_id.
     bnd (upd_inst (\<lambda>i. i\<lparr>i_dispute_count := Some next_id\<rparr>)) (\<lambda>_.
     bnd (publish ''dispute'' ''created'' [VNat dispute_id, VNat match_id, VAddr disputer,
            VStr evidence_hash, VInt dispute_bond]) (\<lambda>_.
     ret dispute_id))))))))))))))))))))))))))))"

text \<open>The loop over the retained balance snapshots of a voter, newest first. The outer test on
  the dispute's ledger is implied by the inner one and kept as written.\<close>

fun find_vote_weight ::
    "(nat \<Rightarrow> player_balance_snapshot option) \<Rightarrow> u64 \<Rightarrow> u32 \<Rightarrow> u32 \<Rightarrow> nat list \<Rightarrow> i128 option" where
  "find_vote_weight slots count snapshot_ledger min_acquisition_ledger [] = None"
| "find_vote_weight slots count snapshot_ledger min_acquisition_ledger (i # is) =
     (let idx = saturating_sub count (i + 1); slot = idx mod MAX_PLAYER_SNAPSHOTS in
      case slots slot of
        Some snap \<Rightarrow>
          if ps_ledger snap \<le> snapshot_ledger then
            if ps_ledger snap \<le> min_acquisition_ledger then Some (ps_balance snap)
            else find_vote_weight slots count snapshot_ledger min_acquisition_ledger is
          else find_vote_weight slots count snapshot_ledger min_acquisition_ledger is
      | None \<Rightarrow> find_vote_weight slots count snapshot_ledger min_acquisition_ledger is)"

definition historical_weight :: "address \<Rightarrow> dispute_rec \<Rightarrow> 'w escrow \<Rightarrow> i128 option" where
  "historical_weight voter dispute s =
     (case p_player_balance_snapshot_count (pers s) voter of
        None \<Rightarrow> None
      | Some count \<Rightarrow>
          find_vote_weight (p_player_balance_snapshot (pers s) voter) count (d_snapshot_ledger dispute)
            (saturating_sub (d_snapshot_ledger dispute) (get_minimum_hold_duration s))
            [0..<min count MAX_PLAYER_SNAPSHOTS])"

definition load_dispute :: "u64 \<Rightarrow> ('w, dispute_rec) act" where
  "load_dispute dispute_id =
     bnd (gets (\<lambda>s. p_dispute (pers s) dispute_id)) (\<lambda>d. ok_or d DisputeNotFound)"

definition store_dispute :: "u64 \<Rightarrow> dispute_rec \<Rightarrow> ('w, unit) act" where
  "store_dispute dispute_id d = upd_pers (\<lambda>p. p\<lparr>p_dispute := (p_dispute p)(dispute_id \<mapsto> d)\<rparr>)"

definition vote_on_dispute :: "'w env \<Rightarrow> u64 \<Rightarrow> address \<Rightarrow> bool \<Rightarrow> ('w, unit) act" where
  "vote_on_dispute env dispute_id voter vote =
     bnd (require_auth env voter) (\<lambda>_.
     bnd (load_dispute dispute_id) (\<lambda>dispute.
     bnd (seqs [
       reject_if (d_state dispute \<noteq> DisputeActive) DisputeAlreadyResolved,
       reject_if (ledger_sequence env \<ge> d_voting_deadline dispute) VotingPeriodElapsed]) (\<lambda>_.
     bnd (gets (\<lambda>s. p_dispute_vote (pers s) dispute_id voter \<noteq> None)) (\<lambda>voted.
     bnd (reject_if voted AlreadyVoted) (\<lambda>_.
     bnd (load_match (d_match_id dispute)) (\<lambda>m.
     bnd (gets (historical_weight voter dispute)) (\<lambda>weight.
     case weight of
       None \<Rightarrow>
         bnd (gets (\<lambda>s. token_balance env (m_token m) voter (world s))) (\<lambda>b.
         bnd (or_trap b) (\<lambda>current_balance. seqs [
           reject_if (current_balance \<le> 0) NotStaker,
           fail InsufficientHoldingDuration]))
     | Some snapshot_weight \<Rightarrow> seqs [
         reject_if (snapshot_weight \<le> 0) NotStaker,
         upd_pers (\<lambda>p. p\<lparr>p_dispute_vote_weight := (p_dispute_vote_weight p)(dispute_id :=
           (p_dispute_vote_weight p dispute_id)(voter \<mapsto> snapshot_weight))\<rparr>),
         upd_pers (\<lambda>p. p\<lparr>p_dispute_vote := (p_dispute_vote p)(dispute_id :=
           (p_dispute_vote p dispute_id)(voter \<mapsto> vote))\<rparr>),
         store_dispute dispute_id
           (if vote then dispute\<lparr>d_yes_votes := saturating_add (d_yes_votes dispute) snapshot_weight\<rparr>
            else dispute\<lparr>d_no_votes := saturating_add (d_no_votes dispute) snapshot_weight\<rparr>),
         publish ''dispute'' ''voted'' [VNat dispute_id, VAddr voter, VBool vote, VInt snapshot_weight]])))))))"

definition resolve_dispute_by_vote :: "'w env \<Rightarrow> u64 \<Rightarrow> ('w, unit) act" where
  "resolve_dispute_by_vote env dispute_id =
     bnd (load_dispute dispute_id) (\<lambda>dispute.
     bnd (seqs [
       reject_if (d_state dispute \<noteq> DisputeActive) DisputeAlreadyResolved,
       reject_if (ledger_sequence env < d_voting_deadline dispute) VotingPeriodNotElapsed]) (\<lambda>_.
     let match_id = d_match_id dispute in
     bnd (load_match match_id) (\<lambda>m.
     bnd (reject_if (m_state m \<noteq> PendingResult) MatchNotInPendingResult) (\<lambda>_.
     bnd (gets (\<lambda>s. p_pending_winner (pers s) match_id)) (\<lambda>w.
     bnd (ok_or w PendingResultNotFound) (\<lambda>pending_winner.
     let total_votes = saturating_add (d_yes_votes dispute) (d_no_votes dispute) in
     bnd (reject_if (total_votes < d_quorum_threshold dispute) QuorumNotMet) (\<lambda>_.
     let overturned = (d_yes_votes dispute > d_no_votes dispute);
         dispute = dispute\<lparr>d_state := (if overturned then ResolvedOverturned else ResolvedUpheld)\<rparr>;
         winner = (if overturned then Draw else pending_winner);
         self = current_contract_address env in
     bnd (seqs [
       execute_payout env m winner,
       remove_active_match_indexed (m_player1 m) match_id,
       remove_active_match_indexed (m_player2 m) match_id]) (\<lambda>_.
     bnd (if d_state dispute = ResolvedOverturned then
            transfer env (m_token m) self (d_disputer dispute) (d_dispute_bond dispute)
          else
            bnd (gets (get_config env)) (\<lambda>protocol_config.
            transfer env (m_token m) self (pc_treasury protocol_config) (d_dispute_bond dispute))) (\<lambda>_.
     bnd (set_match_state m Completed) (\<lambda>m.
     let m = m\<lparr>m_completed_ledger := Some (ledger_sequence env)\<rparr> in
     seqs [
       record_completed_match (m_player1 m),
       record_completed_match (m_player2 m),
       record_platform_payout (m_platform m),
       store_match match_id m,
       store_dispute dispute_id dispute,
       record_snapshot env m SnapFinalized,
       publish ''dispute'' ''resolved'' [VNat dispute_id, VNat match_id,
         VDisputeState (d_state dispute), VWinner winner, VInt total_votes,
         VInt (d_quorum_threshold dispute)]]))))))))))"

definition mark_dispute_for_oracle_slash :: "'w env \<Rightarrow> u64 \<Rightarrow> i128 \<Rightarrow> ('w, unit) act" where
  "mark_dispute_for_oracle_slash env dispute_id slash_amount = admin_only env (\<lambda>_.
     bnd (load_dispute dispute_id) (\<lambda>dispute.
     bnd (seqs [
       reject_if (d_state dispute \<noteq> ResolvedOverturned) InvalidState,
       reject_if (slash_amount \<le> 0 \<or> slash_amount > d_dispute_bond dispute) InvalidAmount]) (\<lambda>_.
     bnd (gets (\<lambda>s. p_dispute_oracle (pers s) dispute_id)) (\<lambda>found.
     bnd (ok_or found Unauthorized) (\<lambda>oracle.
     publish ''dispute'' ''oracle_slash_signal'' [VNat dispute_id, VAddr oracle, VInt slash_amount])))))"

definition get_dispute :: "u64 \<Rightarrow> ('w, dispute_rec) act" where
  "get_dispute dispute_id = load_dispute dispute_id"

definition get_match_dispute_id :: "u64 \<Rightarrow> ('w, u64) act" where
  "get_match_dispute_id match_id =
     bnd (gets (\<lambda>s. p_match_dispute (pers s) match_id)) (\<lambda>d. ok_or d DisputeNotFound)"

definition get_dispute_details :: "u64 \<Rightarrow> ('w, dispute_rec) act" where
  "get_dispute_details match_id = bnd (get_match_dispute_id match_id) get_dispute"

definition get_dispute_by_match :: "u64 \<Rightarrow> 'w escrow \<Rightarrow> dispute_rec option" where
  "get_dispute_by_match match_id s =
     Option.bind (p_match_dispute (pers s) match_id) (p_dispute (pers s))"

section \<open>Claims\<close>

text \<open>The payout of the winner: the pot less the referral fee and the protocol fee, in the stake
  token or swapped. Both players' branches of the source are this code with their address.\<close>

definition pay_winner ::
    "'w env \<Rightarrow> protocol_config \<Rightarrow> match_rec \<Rightarrow> bool \<Rightarrow> address \<Rightarrow> ('w, i128) act" where
  "pay_winner env config m use_swap player =
     (let self = current_contract_address env in
      bnd (ok_or (checked_mul (m_stake_amount m) 2) Overflow) (\<lambda>pot.
      bnd (compute_referral_fee env m pot) (\<lambda>referral_fee.
      bnd (compute_protocol_fee env pot) (\<lambda>protocol_fee.
      bnd (ok_or (checked_sub pot referral_fee) Overflow) (\<lambda>x.
      bnd (ok_or (checked_sub x protocol_fee) Overflow) (\<lambda>net_payout.
      bnd (if use_swap then
             bnd (or_trap (m_conversion_rate m)) (\<lambda>rate.
             bnd (ok_or (checked_mul net_payout rate) Overflow) (\<lambda>y.
             bnd (ok_or (checked_div y 10000000) Overflow) (\<lambda>swap_amount.
             bnd (or_trap (m_token_b m)) (\<lambda>swap_token.
             bnd (oracle_swap env (m_token m) swap_token net_payout swap_amount player) (\<lambda>_.
             ret swap_amount)))))
           else
             bnd (transfer env (m_token m) self player net_payout) (\<lambda>_. ret net_payout)) (\<lambda>amount_claimed.
      bnd (only_if (referral_fee > 0)
            (bnd (ok_or (m_referrer m) InvalidState) (\<lambda>referrer.
             transfer env (m_token m) self referrer referral_fee))) (\<lambda>_.
      bnd (only_if (protocol_fee > 0)
            (transfer env (m_token m) self (fc_fee_recipient (pc_fees config)) protocol_fee)) (\<lambda>_.
      ret amount_claimed)))))))))"

definition claim_vested_payout :: "'w env \<Rightarrow> u64 \<Rightarrow> address \<Rightarrow> ('w, unit) act" where
  "claim_vested_payout env match_id player =
     (let self = current_contract_address env in
     bnd (require_auth env player) (\<lambda>_.
     bnd (load_match match_id) (\<lambda>m.
     bnd (reject_if (m_state m \<noteq> Completed) InvalidState) (\<lambda>_.
     bnd (ok_or (m_vested_at m) InvalidState) (\<lambda>vested_at.
     bnd (gets (get_config env)) (\<lambda>config.
     bnd (ok_or (checked_add_u64 vested_at (tc_vesting_duration_seconds (pc_timeouts config))) Overflow) (\<lambda>unlock.
     let is_p1 = (player = m_player1 m); is_p2 = (player = m_player2 m); winner = m_winner m in
     bnd (seqs [
       reject_if (ledger_timestamp env < unlock) VestingNotExpired,
       reject_if (\<not> is_p1 \<and> \<not> is_p2) Unauthorized,
       reject_if (winner = NoWinner) InvalidState,
       reject_if (rate_is_stale env m) ConversionRateStalePriceSource]) (\<lambda>_.
     bnd (gets (\<lambda>s. p_player_preferred_token (pers s) player)) (\<lambda>preferred_token.
     let use_swap = (case preferred_token of
           Some pt \<Rightarrow> pt \<noteq> m_token m \<and> m_token_b m = Some pt \<and>
             (case m_conversion_rate m of Some r \<Rightarrow> r > 0 | None \<Rightarrow> False)
         | None \<Rightarrow> False) in
     bnd (if is_p1 then
            bnd (reject_if (m_player1_claimed m) AlreadyClaimed) (\<lambda>_.
            bnd (case winner of
                   Player1 \<Rightarrow> pay_winner env config m use_swap (m_player1 m)
                 | Draw \<Rightarrow> bnd (transfer env (m_token m) self (m_player1 m) (m_stake_amount m)) (\<lambda>_.
                            ret (m_stake_amount m))
                 | Player2 \<Rightarrow> fail Unauthorized
                 | NoWinner \<Rightarrow> fail InvalidState) (\<lambda>amount_claimed.
            ret (m\<lparr>m_player1_claimed := True\<rparr>, amount_claimed)))
          else
            bnd (reject_if (m_player2_claimed m) AlreadyClaimed) (\<lambda>_.
            bnd (case winner of
                   Player2 \<Rightarrow> pay_winner env config m use_swap (m_player2 m)
                 | Draw \<Rightarrow> bnd (transfer env (m_token m) self (m_player2 m) (m_stake_amount m)) (\<lambda>_.
                            ret (m_stake_amount m))
                 | Player1 \<Rightarrow> fail Unauthorized
                 | NoWinner \<Rightarrow> fail InvalidState) (\<lambda>amount_claimed.
            ret (m\<lparr>m_player2_claimed := True\<rparr>, amount_claimed)))) (\<lambda>(m, amount_claimed).
     seqs [
       store_match match_id m,
       record_player_snapshot env player,
       publish ''match'' ''claim'' [VNat match_id, VAddr player, VInt amount_claimed,
         VAddr (if use_swap then token_b_of m else m_token m)]]))))))))))"

section \<open>Views of one match\<close>

definition get_match :: "u64 \<Rightarrow> ('w, match_rec) act" where
  "get_match match_id = load_match match_id"

definition is_funded :: "u64 \<Rightarrow> ('w, bool) act" where
  "is_funded match_id = bnd (load_match match_id) (\<lambda>m. ret (m_player1_deposited m \<and> m_player2_deposited m))"

definition get_depositor_count :: "u64 \<Rightarrow> ('w, i128) act" where
  "get_depositor_count match_id = bnd (load_match match_id) (\<lambda>m. ret (depositor_count m))"

definition get_escrow_balance :: "u64 \<Rightarrow> ('w, i128) act" where
  "get_escrow_balance match_id = bnd (load_match match_id) (\<lambda>m. or_trap (escrow_balance_of m))"

definition is_currently_escrowed :: "u64 \<Rightarrow> ('w, bool) act" where
  "is_currently_escrowed match_id =
     bnd (load_match match_id) (\<lambda>m.
     let funded = m_player1_deposited m \<and> m_player2_deposited m;
         terminal = (m_state m = Completed \<or> m_state m = Cancelled) in
     ret (funded \<and> \<not> terminal))"

section \<open>Effects of the payouts\<close>

lemma payout_frames [frame_rules]:
  assumes "\<And>s w. f (s\<lparr>world := w\<rparr>) = f s"
  shows "frame f (oracle_swap env a b x y p)" "frame f (execute_payout env m w)"
    "frame f (pay_winner env config m u p)" "frame f (compute_referral_fee env m pot)"
    "frame f (compute_protocol_fee env pot)"
  using assms
  by (auto simp: oracle_swap_def execute_payout_def converted_def pay_winner_def load_oracle_def
      compute_referral_fee_def compute_protocol_fee_def Let_def intro!: frame_rules)

lemma payout_after [simp]:
  "pers (after (execute_payout env m w) s) = pers s"
  "inst (after (execute_payout env m w) s) = inst s"
  "pers (after (pay_winner env config m u p) s) = pers s"
  "inst (after (pay_winner env config m u p) s) = inst s"
  by (auto intro!: frame_after frame_rules)

lemmas wp_payouts [wp_simps] =
  wp_after [of "execute_payout env m w" for env m w]
  wp_after [of "pay_winner env config m u p" for env config m u p]

lemma wp_load_dispute [wp_simps]:
  "wp (load_dispute i) Q E T s =
     ((p_dispute (pers s) i = None \<longrightarrow> E DisputeNotFound s) \<and>
      (\<forall>d. p_dispute (pers s) i = Some d \<longrightarrow> Q d s))"
  by (simp add: load_dispute_def wp_simps)

lemma wp_store_dispute [wp_simps]:
  "wp (store_dispute i d) Q E T s =
     Q () (s\<lparr>pers := (pers s)\<lparr>p_dispute := (p_dispute (pers s))(i \<mapsto> d)\<rparr>\<rparr>)"
  by (simp add: store_dispute_def wp_simps)

lemmas dispute_run_defs [run_simps] = load_dispute_def store_dispute_def

end
