(* ===== verification/Escrow_Consensus.thy ===== *)
theory Escrow_Consensus
  imports Escrow_Disputes
begin

text \<open>
  Results by several oracles (contracts/escrow/src/lib.rs): the list of approved oracles, the
  required number of confirmations, the votes of a match, the deadlock flag and its resolution by
  the admin.
\<close>

section \<open>The oracle set\<close>

definition get_approved_oracles :: "'w escrow \<Rightarrow> address list" where
  "get_approved_oracles s = unwrap_or (i_approved_oracles (inst s)) []"

definition get_required_confirmations :: "'w escrow \<Rightarrow> u32" where
  "get_required_confirmations s = unwrap_or (i_required_oracle_confirmations (inst s)) 2"

definition add_approved_oracle :: "'w env \<Rightarrow> address \<Rightarrow> ('w, unit) act" where
  "add_approved_oracle env oracle = admin_only env (\<lambda>_.
     bnd (reject_if (oracle = current_contract_address env) InvalidAddress) (\<lambda>_.
     bnd (gets get_approved_oracles) (\<lambda>oracles. seqs [
       only_if (\<not> list_ex (\<lambda>o'. o' = oracle) oracles)
         (upd_inst (\<lambda>i. i\<lparr>i_approved_oracles := Some (oracles @ [oracle])\<rparr>)),
       publish ''admin'' ''ora_add'' [VAddr oracle]])))"

definition remove_approved_oracle :: "'w env \<Rightarrow> address \<Rightarrow> ('w, unit) act" where
  "remove_approved_oracle env oracle = admin_only env (\<lambda>_.
     bnd (gets get_approved_oracles) (\<lambda>oracles.
     bnd (gets get_required_confirmations) (\<lambda>required.
     let remaining_count = saturating_sub (length oracles) 1 in seqs [
       reject_if (required > remaining_count) InvalidAmount,
       upd_inst (\<lambda>i. i\<lparr>i_approved_oracles := Some (filter (\<lambda>o'. o' \<noteq> oracle) oracles)\<rparr>),
       publish ''admin'' ''ora_rm'' [VAddr oracle]])))"

definition set_required_confirmations :: "'w env \<Rightarrow> u32 \<Rightarrow> ('w, unit) act" where
  "set_required_confirmations env count = admin_only env (\<lambda>_.
     bnd (gets get_approved_oracles) (\<lambda>approved_oracles. seqs [
       reject_if (count = 0 \<or> count > length approved_oracles) InvalidAmount,
       upd_inst (\<lambda>i. i\<lparr>i_required_oracle_confirmations := Some count\<rparr>),
       publish ''admin'' ''req_conf'' [VNat count]]))"

section \<open>Votes and deadlock\<close>

definition mark_oracle_deadlock :: "u64 \<Rightarrow> u32 \<Rightarrow> u32 \<Rightarrow> ('w, unit) act" where
  "mark_oracle_deadlock match_id current_confirmations required = seqs [
     upd_pers (\<lambda>p. p\<lparr>p_oracle_deadlock := (p_oracle_deadlock p)(match_id \<mapsto> True)\<rparr>),
     publish ''match'' ''ora_dead'' [VNat match_id, VNat current_confirmations, VNat required]]"

definition check_oracle_deadlock :: "u64 \<Rightarrow> u32 \<Rightarrow> u32 \<Rightarrow> ('w, unit) act" where
  "check_oracle_deadlock match_id current_confirmations required =
     bnd (gets get_approved_oracles) (\<lambda>oracles.
     let oracle_count = length oracles in
     if required > oracle_count then mark_oracle_deadlock match_id current_confirmations required
     else
       let remaining_possible = saturating_sub oracle_count current_confirmations;
           max_possible_confirmations = saturating_add_u32 current_confirmations remaining_possible in
       only_if (max_possible_confirmations < required)
         (mark_oracle_deadlock match_id current_confirmations required))"

definition submit_result_consensus :: "'w env \<Rightarrow> u64 \<Rightarrow> winner \<Rightarrow> address \<Rightarrow> ('w, unit) act" where
  "submit_result_consensus env match_id winner oracle_address =
     bnd (gets is_contract_paused) (\<lambda>paused.
     bnd (reject_if paused ContractPaused) (\<lambda>_.
     bnd (require_auth env oracle_address) (\<lambda>_.
     bnd (gets get_approved_oracles) (\<lambda>oracles.
     bnd (reject_if (\<not> list_ex (\<lambda>o'. o' = oracle_address) oracles) NotAnOracle) (\<lambda>_.
     bnd (load_match match_id) (\<lambda>m.
     bnd (seqs [
       reject_if (m_state m \<noteq> Active) InvalidState,
       reject_if (\<not> m_player1_deposited m \<or> \<not> m_player2_deposited m) NotFunded]) (\<lambda>_.
     bnd (gets (\<lambda>s. p_oracle_vote (pers s) match_id oracle_address \<noteq> None)) (\<lambda>voted.
     bnd (reject_if voted OracleAlreadyConfirmed) (\<lambda>_.
     bnd (gets (\<lambda>s. unwrap_or (p_oracle_confirmations (pers s) match_id) 0)) (\<lambda>existing_confirmations.
     bnd (if existing_confirmations > 0 then
            bnd (gets (\<lambda>s. p_consensus_leading_winner (pers s) match_id)) (\<lambda>w.
            bnd (ok_or w ConflictingResult) (\<lambda>existing_winner.
            only_if (existing_winner \<noteq> winner) (
              bnd (gets get_required_confirmations) (\<lambda>required. seqs [
                mark_oracle_deadlock match_id existing_confirmations required,
                fail ConflictingResult]))))
          else upd_pers (\<lambda>p. p\<lparr>p_consensus_leading_winner :=
            (p_consensus_leading_winner p)(match_id \<mapsto> winner)\<rparr>)) (\<lambda>_.
     bnd (upd_pers (\<lambda>p. p\<lparr>p_oracle_vote := (p_oracle_vote p)(match_id :=
            (p_oracle_vote p match_id)(oracle_address \<mapsto> winner))\<rparr>)) (\<lambda>_.
     bnd (ok_or (checked_add_u32 existing_confirmations 1) Overflow) (\<lambda>new_confirmations.
     bnd (upd_pers (\<lambda>p. p\<lparr>p_oracle_confirmations :=
            (p_oracle_confirmations p)(match_id \<mapsto> new_confirmations)\<rparr>)) (\<lambda>_.
     bnd (publish ''match'' ''ora_vote'' [VNat match_id, VAddr oracle_address, VNat new_confirmations]) (\<lambda>_.
     bnd (gets get_required_confirmations) (\<lambda>required.
     if new_confirmations \<ge> required then settle_result env match_id winner None
     else check_oracle_deadlock match_id new_confirmations required))))))))))))))))"

definition get_oracle_confirmations :: "u64 \<Rightarrow> 'w escrow \<Rightarrow> u32" where
  "get_oracle_confirmations match_id s = unwrap_or (p_oracle_confirmations (pers s) match_id) 0"

definition is_oracle_deadlocked :: "u64 \<Rightarrow> 'w escrow \<Rightarrow> bool" where
  "is_oracle_deadlocked match_id s = unwrap_or (p_oracle_deadlock (pers s) match_id) False"

definition resolve_oracle_deadlock :: "'w env \<Rightarrow> u64 \<Rightarrow> winner \<Rightarrow> ('w, unit) act" where
  "resolve_oracle_deadlock env match_id winner = admin_only env (\<lambda>_.
     bnd (load_match match_id) (\<lambda>m.
     bnd (reject_if (m_state m \<noteq> Active) InvalidState) (\<lambda>_.
     bnd (gets (is_oracle_deadlocked match_id)) (\<lambda>deadlocked. seqs [
       reject_if (\<not> deadlocked) InvalidState,
       settle_result env match_id winner None,
       publish ''match'' ''ora_adm'' [VNat match_id, VWinner winner]]))))"

end
