(* ===== verification/Escrow_Progress.thy ===== *)
theory Escrow_Progress
  imports Escrow_Consensus
begin

text \<open>
  How a stored match evolves. \<open>match_step\<close> is what one entry point may do to one match: the
  terms it was created with never change, deposit and claim flags are only ever set, the state
  follows an edge of the lifecycle, and the record stays well formed (\<open>match_wf\<close>).
  \<open>moves\<close> lifts this to the contract state, together with the exactness of the state index.
  Each entry point that writes matches has its lemma here.
\<close>

section \<open>One match\<close>

definition same_terms :: "match_rec \<Rightarrow> match_rec \<Rightarrow> bool" where
  "same_terms m m' \<longleftrightarrow>
     m_id m' = m_id m \<and> m_player1 m' = m_player1 m \<and> m_player2 m' = m_player2 m \<and>
     m_stake_amount m' = m_stake_amount m \<and> m_token m' = m_token m \<and> m_token_b m' = m_token_b m \<and>
     m_conversion_rate m' = m_conversion_rate m \<and>
     m_conversion_rate_ledger m' = m_conversion_rate_ledger m \<and>
     m_game_id m' = m_game_id m \<and> m_platform m' = m_platform m \<and>
     m_created_ledger m' = m_created_ledger m \<and> m_referrer m' = m_referrer m \<and>
     m_bracket_id m' = m_bracket_id m \<and> m_round m' = m_round m"

fun edge :: "match_state \<Rightarrow> match_state \<Rightarrow> bool" where
  "edge Pending Active = True"
| "edge Pending Cancelled = True"
| "edge Active Paused = True"
| "edge Active PendingResult = True"
| "edge Active Completed = True"
| "edge Active Cancelled = True"
| "edge Paused Active = True"
| "edge Paused PendingResult = True"
| "edge Paused Completed = True"
| "edge PendingResult Completed = True"
| "edge _ _ = False"

definition match_wf :: "match_rec \<Rightarrow> bool" where
  "match_wf m \<longleftrightarrow>
     1 \<le> m_stake_amount m \<and> m_player1 m \<noteq> m_player2 m \<and>
     (m_state m = Pending \<longrightarrow> \<not> (m_player1_deposited m \<and> m_player2_deposited m) \<and> m_winner m = NoWinner) \<and>
     (m_state m \<in> {Active, Paused, PendingResult, Completed} \<longrightarrow>
        m_player1_deposited m \<and> m_player2_deposited m \<and> in_i128 (2 * m_stake_amount m)) \<and>
     (m_state m \<in> {Pending, Active, Paused} \<longrightarrow> m_vested_at m = None) \<and>
     (m_state m \<in> {PendingResult, Completed} \<longrightarrow> m_winner m \<noteq> NoWinner) \<and>
     (m_player1_claimed m \<or> m_player2_claimed m \<longrightarrow> m_state m = Completed \<and> m_vested_at m \<noteq> None)"

definition match_step :: "match_rec \<Rightarrow> match_rec \<Rightarrow> bool" where
  "match_step m m' \<longleftrightarrow> same_terms m m' \<and> (m_state m' = m_state m \<or> edge (m_state m) (m_state m')) \<and>
     (m_player1_deposited m \<longrightarrow> m_player1_deposited m') \<and>
     (m_player2_deposited m \<longrightarrow> m_player2_deposited m') \<and>
     (m_player1_claimed m \<longrightarrow> m_player1_claimed m') \<and>
     (m_player2_claimed m \<longrightarrow> m_player2_claimed m') \<and>
     (match_wf m \<longrightarrow> match_wf m')"

lemmas match_step_defs = match_step_def same_terms_def match_wf_def


lemma match_step_refl [simp]: "match_step m m"
  by (simp add: match_step_def same_terms_def)

section \<open>The stored matches\<close>

text \<open>Match \<open>i\<close> took a step, all others are as before, and an exact state index stays
  exact.\<close>

definition moves :: "u64 \<Rightarrow> 'w escrow \<Rightarrow> 'w escrow \<Rightarrow> bool" where
  "moves i s s' \<longleftrightarrow>
     (case (p_match (pers s) i, p_match (pers s') i) of
        (Some m, Some m') \<Rightarrow> match_step m m' | _ \<Rightarrow> False) \<and>
     p_match (pers s') = (p_match (pers s))(i := p_match (pers s') i) \<and>
     (index_inv s \<longrightarrow> index_inv s')"

definition keeps_matches :: "'w escrow \<Rightarrow> 'w escrow \<Rightarrow> bool" where
  "keeps_matches s s' \<longleftrightarrow>
     p_match (pers s') = p_match (pers s) \<and> p_matches_by_state (pers s') = p_matches_by_state (pers s)"

lemma index_move_same [simp]: "index_move a a i f = f"
  by (simp add: index_move_def)

text \<open>The two shapes in which the entry points leave a match: one move in the index, or the two
  moves of a delayed settlement.\<close>

lemma moves_stored [simp]:
  assumes "p_match (pers s) i = Some m" "p_match (pers s') = (p_match (pers s))(i \<mapsto> m')"
    and "p_matches_by_state (pers s') = index_move (m_state m) (m_state m') (m_id m) (p_matches_by_state (pers s))"
  shows "moves i s s' = match_step m m'"
proof -
  have "index_inv s'" if "match_step m m'" "index_inv s"
  proof (rule index_inv_move)
    show "p_matches_by_state (pers s') = index_move (m_state m) (m_state m') i (p_matches_by_state (pers s))"
      using that(2) assms(1,3) by (simp add: index_inv_def)
    show "m_id m' = m_id m" using that(1) by (simp add: match_step_def same_terms_def)
  qed (use that assms in auto)
  with assms show ?thesis by (auto simp: moves_def)
qed

lemma moves_stored_twice [simp]:
  assumes "p_match (pers s) i = Some m" "p_match (pers s') = (p_match (pers s))(i \<mapsto> m')"
    and "p_matches_by_state (pers s') = index_move b (m_state m') (m_id m)
           (index_move (m_state m) b (m_id m) (p_matches_by_state (pers s)))"
  shows "moves i s s' = match_step m m'"
proof -
  have "index_inv s'" if "match_step m m'" "index_inv s"
  proof (rule index_inv_move)
    let ?s1 = "s\<lparr>pers := (pers s)\<lparr>p_match := (p_match (pers s))(i \<mapsto> m\<lparr>m_state := b\<rparr>),
      p_matches_by_state := index_move (m_state m) b i (p_matches_by_state (pers s))\<rparr>\<rparr>"
    show "index_inv ?s1"
      by (rule index_inv_move [where st = b and m' = "m\<lparr>m_state := b\<rparr>", OF that(2) assms(1)]) simp_all
    show "p_matches_by_state (pers s') =
        index_move (m_state (m\<lparr>m_state := b\<rparr>)) (m_state m') i (p_matches_by_state (pers ?s1))"
      using that(2) assms(1,3) by (simp add: index_inv_def)
    show "m_id m' = m_id (m\<lparr>m_state := b\<rparr>)" using that(1) by (simp add: match_step_def same_terms_def)
  qed (use that assms in auto)
  with assms show ?thesis by (auto simp: moves_def)
qed

lemma keeps_matches_same [simp]: "keeps_matches s s"
  by (simp add: keeps_matches_def)

section \<open>The entry points of the lifecycle\<close>

lemma add_active_frame [frame_rules]:
  assumes "\<And>s a c. f (s\<lparr>pers := (pers s)\<lparr>p_active_match := a\<rparr>\<rparr>) = f s"
    and "\<And>s c. f (s\<lparr>pers := (pers s)\<lparr>p_player_active_match_count := c\<rparr>\<rparr>) = f s"
    and "\<And>s g. f (s\<lparr>t_deposit_in_progress := g\<rparr>) = f s"
  shows "frame f (add_active_or_clear p i)"
  using assms
  by (auto simp: add_active_or_clear_def add_active_match_def set_deposit_guard_def intro!: frame_rules)

lemma add_active_after [simp]:
  "p_match (pers (after (add_active_or_clear p i) s)) = p_match (pers s)"
  "p_matches_by_state (pers (after (add_active_or_clear p i) s)) = p_matches_by_state (pers s)"
  "p_escrow_balance (pers (after (add_active_or_clear p i) s)) = p_escrow_balance (pers s)"
  "inst (after (add_active_or_clear p i) s) = inst s"
  "world (after (add_active_or_clear p i) s) = world s"
  by (auto intro!: frame_after frame_rules)

lemmas wp_add_active [wp_simps] = wp_after [of "add_active_or_clear p i" for p i]

lemmas deposit_wp = deposit_def reject_clearing_guard_def set_deposit_guard_def

lemma deposit_step:
  "wp (deposit env i player) (\<lambda>_. moves i s) (\<lambda>_ s'. p_match (pers s') = p_match (pers s)) True s"
  by (auto simp: deposit_wp wp_simps Let_def match_step_defs escrow_balance_of_def depositor_count_def)

lemma settle_result_step:
  "wp (settle_result env i w c) (\<lambda>_. moves i s) (\<lambda>_ s'. moves i s s' \<or> keeps_matches s s') True s"
  apply (simp add: settle_result_def wp_simps Let_def)
  apply (auto simp: match_step_defs)
  done

lemma cancel_match_step:
  "wp (cancel_match env i caller) (\<lambda>_. moves i s) (\<lambda>_. keeps_matches s) True s"
  by (simp add: cancel_match_def wp_simps Let_def match_step_defs keeps_matches_def)

lemma pause_match_step:
  "wp (pause_match env i caller) (\<lambda>_. moves i s) (\<lambda>_. keeps_matches s) True s"
  by (simp add: pause_match_def wp_simps Let_def match_step_defs)

lemma resume_match_step:
  "wp (resume_match env i caller) (\<lambda>_. moves i s) (\<lambda>_. keeps_matches s) True s"
  by (simp add: resume_match_def wp_simps Let_def match_step_defs split: option.split)

lemma expire_match_step:
  "wp (expire_match env i) (\<lambda>_. moves i s) (\<lambda>_. keeps_matches s) True s"
  by (simp add: expire_match_def wp_simps Let_def match_step_defs keeps_matches_def)

lemma admin_recover_match_step:
  "wp (admin_recover_match env i) (\<lambda>_. moves i s) (\<lambda>_. keeps_matches s) True s"
  by (simp add: admin_recover_match_def wp_simps Let_def match_step_defs keeps_matches_def)

lemma rollback_step:
  "wp (dispute_and_rollback_match env i d r) (\<lambda>_. moves i s) (\<lambda>_ s'. moves i s s' \<or> keeps_matches s s') True s"
  apply (simp add: dispute_and_rollback_match_def wp_simps Let_def keeps_matches_def)
  apply (auto simp: match_step_defs)
  done

lemma heartbeat_match_step:
  "wp (heartbeat_match env i p) (\<lambda>_. moves i s) (\<lambda>_. keeps_matches s) True s"
  by (simp add: heartbeat_match_def wp_simps Let_def match_step_defs)

lemma stalled_step:
  "wp (admin_resolve_stalled_match env i c w) (\<lambda>_. moves i s) (\<lambda>_. keeps_matches s) True s"
  apply (simp add: admin_resolve_stalled_match_def wp_simps Let_def keeps_matches_def)
  apply (auto simp: match_step_defs)
  done

lemma finalize_match_step:
  "wp (finalize_match env i) (\<lambda>_. moves i s) (\<lambda>_. keeps_matches s) True s"
  by (simp add: finalize_match_def wp_simps Let_def match_step_defs keeps_matches_def)

lemma resolve_dispute_step:
  "wp (resolve_dispute_by_vote env d)
     (\<lambda>_ s'. \<exists>dr. p_dispute (pers s) d = Some dr \<and> moves (d_match_id dr) s s') (\<lambda>_. keeps_matches s) True s"
  by (simp add: resolve_dispute_by_vote_def wp_simps Let_def match_step_defs keeps_matches_def)

lemma claim_step:
  "wp (claim_vested_payout env i p) (\<lambda>_. moves i s) (\<lambda>_. keeps_matches s) True s"
  apply (simp add: claim_vested_payout_def wp_simps Let_def keeps_matches_def)
  apply (auto simp: match_step_defs)
  done

section \<open>Creation\<close>

text \<open>What the guards of a creation establish; they write nothing.\<close>

lemma create_match_guards_pure [simp]: "after (create_match_guards env params) s = s"
proof -
  have "frame (\<lambda>s. s) (create_match_guards env params)"
    by (auto simp: create_match_guards_def require_player_not_frozen_def require_player_tier_for_stake_def
        validate_game_id_format_def Let_def intro!: frame_rules)
  then show ?thesis by (rule frame_after)
qed

lemma create_match_guards_ok:
  "verdict (create_match_guards env params) s = Ok () \<longrightarrow>
     authorized env (mp_player1 params) \<and> \<not> is_contract_paused s \<and>
     \<not> is_player_frozen (mp_player1 params) s \<and> \<not> is_player_frozen (mp_player2 params) s \<and>
     sc_minimum_stake (pc_stakes (get_config env s)) \<le> mp_stake_amount params \<and>
     stake_allowed (tier_from_match_count (mp_player1 params) s) (mp_stake_amount params) \<and>
     stake_allowed (tier_from_match_count (mp_player2 params) s) (mp_stake_amount params) \<and>
     mp_player1 params \<noteq> mp_player2 params \<and> p_game_id (pers s) (mp_game_id params) = None"
  (is "_ \<longrightarrow> ?P")
proof -
  have "wp (create_match_guards env params) (\<lambda>_ _. ?P) (\<lambda>_ _. True) True s"
    by (auto simp: create_match_guards_def wp_simps wp_after [of "validate_game_id_format g p" for g p])
  then show ?thesis by (auto simp: wp_after)
qed

lemma check_conversion_rate_pure [simp]: "after (check_conversion_rate env params) s = s"
proof -
  have "frame (\<lambda>s. s) (check_conversion_rate env params)"
    by (auto simp: check_conversion_rate_def load_oracle_def intro!: frame_rules split: option.split)
  then show ?thesis by (rule frame_after)
qed

lemmas wp_create_parts [wp_simps] =
  wp_after [of "create_match_guards env params" for env params]
  wp_after [of "check_conversion_rate env params" for env params]

text \<open>A creation stores one new, pending, undeposited match under the next id.\<close>

definition created :: "u64 \<Rightarrow> 'w escrow \<Rightarrow> 'w escrow \<Rightarrow> bool" where
  "created i s s' \<longleftrightarrow>
     i = get_match_count s \<and> i_match_count (inst s') = Some (i + 1) \<and> p_match (pers s) i = None \<and>
     (case p_match (pers s') i of
        Some m \<Rightarrow> m_id m = i \<and> m_state m = Pending \<and> \<not> m_player1_deposited m \<and> \<not> m_player2_deposited m \<and>
          (config_inv s \<longrightarrow> match_wf m)
      | None \<Rightarrow> False) \<and>
     p_match (pers s') = (p_match (pers s))(i := p_match (pers s') i) \<and>
     (index_inv s \<longrightarrow> index_inv s')"

lemma new_match_fields [simp]:
  "m_id (new_match env params i r) = i" "m_state (new_match env params i r) = Pending"
  "m_player1_deposited (new_match env params i r) = False"
  "m_player2_deposited (new_match env params i r) = False"
  "m_token_b (new_match env params i r) = mp_token_b params"
  "m_token (new_match env params i r) = mp_token params"
  by (simp_all add: new_match_def)

lemma created_stored [simp]:
  assumes "p_match (pers s) i = None" "p_match (pers s') = (p_match (pers s))(i \<mapsto> new_match env params i r)"
    and "p_matches_by_state (pers s') = index_add Pending i (p_matches_by_state (pers s))"
  shows "created i s s' \<longleftrightarrow> i = get_match_count s \<and> i_match_count (inst s') = Some (i + 1) \<and>
    (config_inv s \<longrightarrow> match_wf (new_match env params i r))"
proof -
  have "index_inv s'" if "index_inv s"
    by (rule index_inv_fresh [where m = "new_match env params i r", OF that assms(1)])
      (use assms in simp_all)
  with assms show ?thesis by (auto simp: created_def)
qed

lemma new_match_wf:
  assumes "config_inv s" "verdict (create_match_guards env params) s = Ok ()"
  shows "match_wf (new_match env params i r)"
proof -
  have "1 \<le> sc_minimum_stake (pc_stakes (get_config env s))"
    using config_ok_get_config [OF assms(1), of env] by (simp add: config_ok_def)
  with create_match_guards_ok assms(2) show ?thesis
    by (fastforce simp: match_wf_def new_match_def)
qed

lemma create_match_step:
  "wp (create_match_internal env params) (\<lambda>i. created i s) (\<lambda>_. keeps_matches s) True s"
  by (simp add: create_match_internal_def wp_simps Let_def append_player_match_def get_match_count_def
      checked_add_u64_def new_match_wf split: option.split)

end
