(* ===== verification/Escrow_Contract.thy ===== *)
theory Escrow_Contract
  imports Escrow_Progress
begin

text \<open>
  The contract as a whole. A \<open>call\<close> names an entry point that can change state, in five
  groups; \<open>exec\<close> dispatches a call to its definition, and \<open>invoke (exec env c)\<close> is a transaction:
  the host commits on \<open>Ok\<close> and rolls back otherwise. The frame of every entry point with
  respect to the parts of the state it does not own is derived here, and from it what any
  transaction can do to the matches, the configuration, the admin and the code.
\<close>

section \<open>Dispatch\<close>

text \<open>Initialization, pause and parameters.\<close>

datatype config_call =
    Initialize address address
  | PauseAll address
  | UnpauseAll address
  | SetProtocolConfig protocol_config
  | SetReferralShareBps u32
  | SetMinimumStake i128
  | SetMaximumStake "i128 option"
  | SetMatchTimeout u64
  | SetDisputePeriod u32
  | SetDisputeBondBasisPoints u32
  | SetMinimumHoldDuration u32
  | SetQuorumBasisPoints u32
  | SetPreferredPayoutToken address "address option"
  | SetFeeTiers "fee_tier list"

text \<open>Registries.\<close>

datatype registry_call =
    AddAllowedToken address
  | RemoveAllowedToken address
  | AddStablecoinIssuer address
  | RemoveStablecoinIssuer address
  | AddTokenToBlacklist address string
  | RemoveTokenFromBlacklist address
  | AdminFreezePlayer address string
  | AdminUnfreezePlayer address
  | AddApprovedOracle address
  | RemoveApprovedOracle address
  | SetRequiredConfirmations u32
  | RegisterBracket address u64 address
  | RegisterPlayerRating address address platform string u32

text \<open>Admin, oracle and code.\<close>

datatype governance_call =
    ProposeAdmin address
  | AcceptAdmin
  | CancelAdminProposal
  | TransferAdmin address address
  | GetOracle
  | UpdateOracle address
  | RotateOracleTemporary address address u64
  | FinalizeTempOracleRotation
  | ProposeOracleRotation address address
  | RotateOraclePermanent address address
  | ScheduleUpgrade bytes
  | CancelUpgrade
  | ConfirmUpgrade address
  | ExecuteUpgrade
  | MigrateState u32

text \<open>The life of a match.\<close>

datatype match_call =
    CreateMatch address address i128 address string platform
  | CreateMatchTournament u64 u32 address address i128 address string platform
  | CreateMatchWithConversion address address i128 address address i128 string platform
  | CreateMatchWithReferrer address address i128 address string platform address
  | Deposit u64 address
  | DepositBatch "(u64 \<times> address) list"
  | CancelMatch u64 address
  | PauseMatch u64 address
  | ResumeMatch u64 address
  | ExpireMatch u64
  | AdminRecoverMatch u64
  | BulkExpireMatches "u64 list"
  | DisputeAndRollbackMatch u64 address string
  | UpdateHeartbeat u64 address
  | AdminResolveStalledMatch u64 address winner

text \<open>Results, disputes and claims.\<close>

datatype result_call =
    SubmitResult u64 winner address "nat option"
  | SubmitDraw u64 address "nat option"
  | SubmitResultWithOracleRecord u64 winner string address
  | SubmitResultBatch "(u64 \<times> winner) list" address
  | SubmitResultConsensus u64 winner address
  | ResolveOracleDeadlock u64 winner
  | FinalizeMatch u64
  | DisputeOracleResult u64 address string
  | VoteOnDispute u64 address bool
  | ResolveDisputeByVote u64
  | MarkDisputeForOracleSlash u64 i128
  | ClaimVestedPayout u64 address

datatype call =
    OnConfig config_call
  | OnRegistry registry_call
  | OnGovernance governance_call
  | OnMatch match_call
  | OnResult result_call

definition discard :: "('w, 'a) act \<Rightarrow> ('w, unit) act" where
  "discard m = bnd m (\<lambda>_. ret ())"

lemma wp_discard [wp_simps]: "wp (discard m) Q E T s = wp m (\<lambda>_. Q ()) E T s"
  by (simp add: discard_def wp_bnd wp_ret [abs_def])

lemma frame_discard [frame_rules]: "frame f m \<Longrightarrow> frame f (discard m)"
  by (auto simp: discard_def intro!: frame_rules)

primrec exec_config :: "'w env \<Rightarrow> config_call \<Rightarrow> ('w, unit) act" where
  "exec_config env (Initialize oracle admin) = initialize env oracle admin"
| "exec_config env (PauseAll caller) = pause env caller"
| "exec_config env (UnpauseAll caller) = unpause env caller"
| "exec_config env (SetProtocolConfig config) = set_protocol_config env config"
| "exec_config env (SetReferralShareBps n) = set_referral_share_bps env n"
| "exec_config env (SetMinimumStake a) = set_minimum_stake env a"
| "exec_config env (SetMaximumStake a) = set_maximum_stake env a"
| "exec_config env (SetMatchTimeout n) = set_match_timeout env n"
| "exec_config env (SetDisputePeriod n) = set_dispute_period env n"
| "exec_config env (SetDisputeBondBasisPoints n) = set_dispute_bond_basis_points env n"
| "exec_config env (SetMinimumHoldDuration n) = set_minimum_hold_duration env n"
| "exec_config env (SetQuorumBasisPoints n) = set_quorum_basis_points env n"
| "exec_config env (SetPreferredPayoutToken p t) = set_preferred_payout_token env p t"
| "exec_config env (SetFeeTiers ts) = set_fee_tiers env ts"

primrec exec_registry :: "'w env \<Rightarrow> registry_call \<Rightarrow> ('w, unit) act" where
  "exec_registry env (AddAllowedToken t) = add_allowed_token env t"
| "exec_registry env (RemoveAllowedToken t) = remove_allowed_token env t"
| "exec_registry env (AddStablecoinIssuer a) = add_stablecoin_issuer env a"
| "exec_registry env (RemoveStablecoinIssuer a) = remove_stablecoin_issuer env a"
| "exec_registry env (AddTokenToBlacklist t r) = add_token_to_blacklist env t r"
| "exec_registry env (RemoveTokenFromBlacklist t) = remove_token_from_blacklist env t"
| "exec_registry env (AdminFreezePlayer p r) = admin_freeze_player env p r"
| "exec_registry env (AdminUnfreezePlayer p) = admin_unfreeze_player env p"
| "exec_registry env (AddApprovedOracle a) = add_approved_oracle env a"
| "exec_registry env (RemoveApprovedOracle a) = remove_approved_oracle env a"
| "exec_registry env (SetRequiredConfirmations n) = set_required_confirmations env n"
| "exec_registry env (RegisterBracket a b o') = register_bracket env a b o'"
| "exec_registry env (RegisterPlayerRating caller p pl u r) = register_player_rating env caller p pl u r"

primrec exec_governance :: "'w env \<Rightarrow> governance_call \<Rightarrow> ('w, unit) act" where
  "exec_governance env (ProposeAdmin a) = propose_admin env a"
| "exec_governance env AcceptAdmin = accept_admin env"
| "exec_governance env CancelAdminProposal = cancel_admin_proposal env"
| "exec_governance env (TransferAdmin a caller) = transfer_admin env a caller"
| "exec_governance env GetOracle = discard (get_oracle env)"
| "exec_governance env (UpdateOracle a) = update_oracle env a"
| "exec_governance env (RotateOracleTemporary a b d) = rotate_oracle_temporary env a b d"
| "exec_governance env FinalizeTempOracleRotation = finalize_temp_oracle_rotation env"
| "exec_governance env (ProposeOracleRotation a b) = propose_oracle_rotation env a b"
| "exec_governance env (RotateOraclePermanent a b) = rotate_oracle_permanent env a b"
| "exec_governance env (ScheduleUpgrade h) = schedule_upgrade env h"
| "exec_governance env CancelUpgrade = cancel_upgrade env"
| "exec_governance env (ConfirmUpgrade a) = confirm_upgrade env a"
| "exec_governance env ExecuteUpgrade = execute_upgrade env"
| "exec_governance env (MigrateState v) = migrate_state env v"

primrec exec_match :: "'w env \<Rightarrow> match_call \<Rightarrow> ('w, unit) act" where
  "exec_match env (CreateMatch p1 p2 st t g pl) = discard (create_match env p1 p2 st t g pl)"
| "exec_match env (CreateMatchTournament b r p1 p2 st t g pl) =
     discard (create_match_tournament env b r p1 p2 st t g pl)"
| "exec_match env (CreateMatchWithConversion p1 p2 st ta tb rate g pl) =
     discard (create_match_with_conversion env p1 p2 st ta tb rate g pl)"
| "exec_match env (CreateMatchWithReferrer p1 p2 st t g pl r) =
     discard (create_match_with_referrer env p1 p2 st t g pl r)"
| "exec_match env (Deposit i p) = deposit env i p"
| "exec_match env (DepositBatch es) = discard (deposit_batch env es)"
| "exec_match env (CancelMatch i caller) = cancel_match env i caller"
| "exec_match env (PauseMatch i caller) = pause_match env i caller"
| "exec_match env (ResumeMatch i caller) = resume_match env i caller"
| "exec_match env (ExpireMatch i) = expire_match env i"
| "exec_match env (AdminRecoverMatch i) = admin_recover_match env i"
| "exec_match env (BulkExpireMatches is) = discard (bulk_expire_matches env is)"
| "exec_match env (DisputeAndRollbackMatch i d r) = dispute_and_rollback_match env i d r"
| "exec_match env (UpdateHeartbeat i p) = update_heartbeat env i p"
| "exec_match env (AdminResolveStalledMatch i caller w) = admin_resolve_stalled_match env i caller w"

primrec exec_result :: "'w env \<Rightarrow> result_call \<Rightarrow> ('w, unit) act" where
  "exec_result env (SubmitResult i w o' c) = submit_result env i w o' c"
| "exec_result env (SubmitDraw i o' c) = submit_draw env i o' c"
| "exec_result env (SubmitResultWithOracleRecord i w g o') = submit_result_with_oracle_record env i w g o'"
| "exec_result env (SubmitResultBatch rs caller) = discard (submit_result_batch env rs caller)"
| "exec_result env (SubmitResultConsensus i w o') = submit_result_consensus env i w o'"
| "exec_result env (ResolveOracleDeadlock i w) = resolve_oracle_deadlock env i w"
| "exec_result env (FinalizeMatch i) = finalize_match env i"
| "exec_result env (DisputeOracleResult i d h) = discard (dispute_oracle_result env i d h)"
| "exec_result env (VoteOnDispute d v b) = vote_on_dispute env d v b"
| "exec_result env (ResolveDisputeByVote d) = resolve_dispute_by_vote env d"
| "exec_result env (MarkDisputeForOracleSlash d a) = mark_dispute_for_oracle_slash env d a"
| "exec_result env (ClaimVestedPayout i p) = claim_vested_payout env i p"

primrec exec :: "'w env \<Rightarrow> call \<Rightarrow> ('w, unit) act" where
  "exec env (OnConfig c) = exec_config env c"
| "exec env (OnRegistry c) = exec_registry env c"
| "exec env (OnGovernance c) = exec_governance env c"
| "exec env (OnMatch c) = exec_match env c"
| "exec env (OnResult c) = exec_result env c"

text \<open>The definitions, by what they write.\<close>

lemmas config_op_defs =
  initialize_def pause_def unpause_def set_protocol_config_def set_referral_share_bps_def
  set_minimum_stake_def set_maximum_stake_def set_match_timeout_def set_dispute_period_def
  set_dispute_bond_basis_points_def set_minimum_hold_duration_def set_quorum_basis_points_def
  set_preferred_payout_token_def set_fee_tiers_def admin_only_def caller_is_admin_def

lemmas registry_op_defs =
  add_allowed_token_def remove_allowed_token_def append_allowed_token_def
  remove_allowed_token_from_list_def set_allowed_token_list_def add_stablecoin_issuer_def
  remove_stablecoin_issuer_def add_token_to_blacklist_def remove_token_from_blacklist_def
  admin_freeze_player_def admin_unfreeze_player_def admin_only_def

lemmas governance_op_defs =
  propose_admin_def accept_admin_def cancel_admin_proposal_def transfer_admin_def get_oracle_def
  update_oracle_def rotate_oracle_temporary_def finalize_temp_oracle_rotation_def
  propose_oracle_rotation_def rotate_oracle_permanent_def load_oracle_def save_rotation_state_def
  register_player_rating_def schedule_upgrade_def cancel_upgrade_def confirm_upgrade_def
  execute_upgrade_def apply_migrations_def migrate_state_def effective_oracle_def admin_only_def
  register_bracket_def caller_is_admin_def

lemmas consensus_op_defs =
  add_approved_oracle_def remove_approved_oracle_def set_required_confirmations_def
  mark_oracle_deadlock_def check_oracle_deadlock_def submit_result_consensus_def
  resolve_oracle_deadlock_def admin_only_def

lemmas helper_op_defs =
  record_snapshot_def fetch_token_symbol_def prng_gen32_def record_player_snapshot_def
  remove_active_match_indexed_def update_player_escrow_balance_def record_completed_match_def
  record_platform_match_created_def record_platform_payout_def update_player_stats_def
  set_match_state_def add_match_to_index_def remove_match_from_index_def set_index_def
  require_player_not_frozen_def require_player_tier_for_stake_def validate_game_id_format_def
  append_player_match_def load_dispute_def store_dispute_def

lemmas lifecycle_op_defs =
  create_match_def create_match_tournament_def create_match_with_conversion_def
  create_match_with_referrer_def create_match_internal_def create_match_guards_def
  check_conversion_rate_def deposit_def set_deposit_guard_def reject_clearing_guard_def
  deposit_batch_def settle_result_def submit_result_def submit_draw_def
  submit_result_with_oracle_record_def submit_result_batch_def cancel_match_def pause_match_def
  resume_match_def expire_match_def admin_recover_match_def bulk_expire_matches_def
  dispute_and_rollback_match_def update_heartbeat_def heartbeat_match_def
  admin_resolve_stalled_match_def finalize_match_def dispute_oracle_result_def vote_on_dispute_def
  resolve_dispute_by_vote_def mark_dispute_for_oracle_slash_def claim_vested_payout_def

section \<open>Frames of the groups\<close>

text \<open>Matches and results leave the instance storage alone, up to the two counters and the
  clean-up of an expired oracle rotation, and the listings an admin maintains.\<close>

locale instance_part =
  fixes f :: "'w escrow \<Rightarrow> 'p"
  assumes f_pers [simp]: "\<And>s p. p_fee_tiers p = p_fee_tiers (pers s) \<Longrightarrow>
      p_allowed_tokens p = p_allowed_tokens (pers s) \<Longrightarrow>
      p_blacklisted_tokens p = p_blacklisted_tokens (pers s) \<Longrightarrow>
      p_frozen_players p = p_frozen_players (pers s) \<Longrightarrow> f (s\<lparr>pers := p\<rparr>) = f s"
    and f_world [simp]: "\<And>s w. f (s\<lparr>world := w\<rparr>) = f s"
    and f_events [simp]: "\<And>s e. f (s\<lparr>events := e\<rparr>) = f s"
    and f_prng [simp]: "\<And>s n. f (s\<lparr>prng_draws := n\<rparr>) = f s"
    and f_guard [simp]: "\<And>s g. f (s\<lparr>t_deposit_in_progress := g\<rparr>) = f s"
    and f_match_count [simp]: "\<And>s n. f (s\<lparr>inst := (inst s)\<lparr>i_match_count := n\<rparr>\<rparr>) = f s"
    and f_dispute_count [simp]: "\<And>s n. f (s\<lparr>inst := (inst s)\<lparr>i_dispute_count := n\<rparr>\<rparr>) = f s"
    and f_rotation [simp]: "\<And>s r. f (s\<lparr>inst := (inst s)\<lparr>i_oracle_rotation := r\<rparr>\<rparr>) = f s"
begin

lemma frame_exec_match: "frame f (exec_match env c)"
  by (cases c)
    (auto simp: lifecycle_op_defs helper_op_defs caller_is_admin_def admin_only_def load_oracle_def Let_def
      intro!: frame_rules split: prod.splits option.splits)

lemma frame_exec_result: "frame f (exec_result env c)"
  by (cases c)
    (auto simp: lifecycle_op_defs helper_op_defs consensus_op_defs load_oracle_def Let_def
      intro!: frame_rules split: prod.splits)

end

text \<open>Configuration, registries and governance leave the persistent storage alone, up to their
  own entries.\<close>

locale match_part =
  fixes f :: "'w escrow \<Rightarrow> 'p"
  assumes f_inst [simp]: "\<And>s i. f (s\<lparr>inst := i\<rparr>) = f s"
    and f_events [simp]: "\<And>s e. f (s\<lparr>events := e\<rparr>) = f s"
    and f_wasm [simp]: "\<And>s e. f (s\<lparr>current_wasm := e\<rparr>) = f s"
    and f_preferred [simp]: "\<And>s x. f (s\<lparr>pers := (pers s)\<lparr>p_player_preferred_token := x\<rparr>\<rparr>) = f s"
    and f_tiers [simp]: "\<And>s x. f (s\<lparr>pers := (pers s)\<lparr>p_fee_tiers := x\<rparr>\<rparr>) = f s"
    and f_allowed [simp]: "\<And>s x. f (s\<lparr>pers := (pers s)\<lparr>p_allowed_tokens := x\<rparr>\<rparr>) = f s"
    and f_blacklist [simp]: "\<And>s x. f (s\<lparr>pers := (pers s)\<lparr>p_blacklisted_tokens := x\<rparr>\<rparr>) = f s"
    and f_frozen [simp]: "\<And>s x. f (s\<lparr>pers := (pers s)\<lparr>p_frozen_players := x\<rparr>\<rparr>) = f s"
    and f_organizer [simp]: "\<And>s x. f (s\<lparr>pers := (pers s)\<lparr>p_bracket_organizer := x\<rparr>\<rparr>) = f s"
    and f_rating [simp]: "\<And>s x. f (s\<lparr>pers := (pers s)\<lparr>p_rating := x\<rparr>\<rparr>) = f s"
begin

lemma frame_exec_config: "frame f (exec_config env c)"
  by (cases c) (auto simp: config_op_defs Let_def intro!: frame_rules)

lemma frame_exec_registry: "frame f (exec_registry env c)"
  by (cases c)
    (auto simp: registry_op_defs consensus_op_defs register_bracket_def register_player_rating_def
      caller_is_admin_def load_oracle_def Let_def intro!: frame_rules)

lemma frame_exec_governance: "frame f (exec_governance env c)"
  by (cases c) (auto simp: governance_op_defs Let_def intro!: frame_rules)

end

interpretation admin_part: instance_part "\<lambda>s. i_admin (inst s)" by unfold_locales simp_all
interpretation proposal_part: instance_part "\<lambda>s. i_pending_admin (inst s)" by unfold_locales simp_all
interpretation oracle_part: instance_part "\<lambda>s. i_oracle (inst s)" by unfold_locales simp_all
interpretation code_part: instance_part current_wasm by unfold_locales simp_all
interpretation parameter_part: instance_part "\<lambda>s. (i_protocol_config (inst s),
    i_referral_share_basis_points (inst s), i_dispute_bond_basis_points (inst s), i_quorum_basis_points (inst s),
    i_dispute_period (inst s))"
  by unfold_locales simp_all

interpretation stored_matches: match_part "\<lambda>s. (p_match (pers s), p_matches_by_state (pers s))"
  by unfold_locales simp_all
interpretation stored_disputes: match_part "\<lambda>s. (p_dispute (pers s), p_match_dispute (pers s))"
  by unfold_locales simp_all
interpretation token_world: match_part world by unfold_locales simp_all

end
