(* ===== verification/Escrow_Frames.thy ===== *)
theory Escrow_Frames
  imports Escrow_Contract
begin

text \<open>
  Which entry points leave which parts of the state alone: the listings an admin maintains, the
  match counter, the admin and the installed code, and the configuration.
\<close>

interpretation registry_part: instance_part "\<lambda>s. (i_allowed_token (inst s), i_allowed_token_count (inst s),
    i_allowlist_enforced (inst s), i_blacklisted_token (inst s), i_frozen_player (inst s))"
  by unfold_locales simp_all

text \<open>The listings and schedules that only an admin writes.\<close>

abbreviation listings :: "'w escrow \<Rightarrow> _" where
  "listings s \<equiv> (p_fee_tiers (pers s), p_allowed_tokens (pers s), p_blacklisted_tokens (pers s),
     p_frozen_players (pers s))"

interpretation listing_part: instance_part listings by unfold_locales simp_all

section \<open>The number of matches\<close>

text \<open>Only a creation advances the match counter; \<^verbatim>\<open>initialize\<close> sets it.\<close>

abbreviation match_counter :: "'w escrow \<Rightarrow> u64 option" where
  "match_counter s \<equiv> i_match_count (inst s)"

lemma counter_frame_config: "(\<And>a b. c \<noteq> Initialize a b) \<Longrightarrow> frame match_counter (exec_config env c)"
  by (cases c) (auto simp: config_op_defs Let_def intro!: frame_rules)

lemma counter_frame_registry: "frame match_counter (exec_registry env c)"
  by (cases c)
    (auto simp: registry_op_defs consensus_op_defs register_bracket_def register_player_rating_def
      caller_is_admin_def load_oracle_def Let_def intro!: frame_rules)

lemma counter_frame_governance: "frame match_counter (exec_governance env c)"
  by (cases c) (auto simp: governance_op_defs Let_def intro!: frame_rules)

fun is_creation :: "match_call \<Rightarrow> bool" where
  "is_creation (CreateMatch _ _ _ _ _ _) = True"
| "is_creation (CreateMatchTournament _ _ _ _ _ _ _ _) = True"
| "is_creation (CreateMatchWithConversion _ _ _ _ _ _ _ _) = True"
| "is_creation (CreateMatchWithReferrer _ _ _ _ _ _ _) = True"
| "is_creation _ = False"

lemma counter_frame_match: "\<not> is_creation c \<Longrightarrow> frame match_counter (exec_match env c)"
  by (cases c)
    (auto simp: lifecycle_op_defs helper_op_defs caller_is_admin_def admin_only_def Let_def
      intro!: frame_rules split: prod.splits option.splits)

lemma counter_frame_result: "frame match_counter (exec_result env c)"
  by (cases c)
    (auto simp: lifecycle_op_defs helper_op_defs consensus_op_defs load_oracle_def Let_def
      intro!: frame_rules split: prod.splits)

section \<open>The admin and the code\<close>

lemma admin_frame_config: "(\<And>a b. c \<noteq> Initialize a b) \<Longrightarrow> frame (\<lambda>s. i_admin (inst s)) (exec_config env c)"
  by (cases c) (auto simp: config_op_defs Let_def intro!: frame_rules)

lemma admin_frame_registry: "frame (\<lambda>s. (i_admin (inst s), i_pending_admin (inst s), current_wasm s, i_oracle (inst s))) (exec_registry env c)"
  by (cases c)
    (auto simp: registry_op_defs consensus_op_defs register_bracket_def register_player_rating_def
      caller_is_admin_def load_oracle_def Let_def intro!: frame_rules)

lemma proposal_frame_config: "frame (\<lambda>s. (i_pending_admin (inst s), current_wasm s)) (exec_config env c)"
  by (cases c) (auto simp: config_op_defs Let_def intro!: frame_rules)

lemma admin_frame_governance: "c \<noteq> AcceptAdmin \<Longrightarrow> frame (\<lambda>s. i_admin (inst s)) (exec_governance env c)"
  by (cases c) (auto simp: governance_op_defs Let_def intro!: frame_rules)

lemma code_frame_governance: "c \<noteq> ExecuteUpgrade \<Longrightarrow> frame current_wasm (exec_governance env c)"
  by (cases c) (auto simp: governance_op_defs Let_def intro!: frame_rules)

section \<open>The configuration\<close>

abbreviation parameters :: "'w escrow \<Rightarrow> _" where
  "parameters s \<equiv> (i_protocol_config (inst s), i_referral_share_basis_points (inst s),
     i_dispute_bond_basis_points (inst s), i_quorum_basis_points (inst s), p_fee_tiers (pers s))"

lemma parameters_frame_registry: "frame parameters (exec_registry env c)"
  by (cases c)
    (auto simp: registry_op_defs consensus_op_defs register_bracket_def register_player_rating_def
      caller_is_admin_def load_oracle_def Let_def intro!: frame_rules)

lemma parameters_frame_governance: "frame parameters (exec_governance env c)"
  by (cases c) (auto simp: governance_op_defs Let_def intro!: frame_rules)

lemma config_inv_parameters: "config_inv s \<Longrightarrow> parameters s' = parameters s \<Longrightarrow> config_inv s'"
  by (rule config_inv_frame) auto

end
