(* ===== verification/Escrow_Safety.thy ===== *)
theory Escrow_Safety
  imports Escrow_Frames
begin

text \<open>
  What any transaction can do to the stored matches. The locale \<open>match_order\<close> lifts a
  preorder that every single step of a match respects to all entry points, batches included; it is
  interpreted on the evolution of the matches, on the set of match ids and on the exactness of the
  state index. A creation is the one entry point that is not a step.
\<close>

section \<open>From steps to transactions\<close>

locale match_order = state_order R
  for R :: "'w escrow \<Rightarrow> 'w escrow \<Rightarrow> bool" +
  assumes order_moves: "moves i s s' \<Longrightarrow> R s s'"
    and order_keeps: "keeps_matches s s' \<Longrightarrow> R s s'"
begin

lemma untouched_obeys: "frame (\<lambda>s. (p_match (pers s), p_matches_by_state (pers s))) m \<Longrightarrow> obeys m"
  by (rule obeys_frame) (auto intro: order_keeps simp: keeps_matches_def)

lemma lifecycle_obeys:
  "obeys (settle_result env i w c)"
  "obeys (cancel_match env i caller)"
  "obeys (pause_match env i caller)"
  "obeys (resume_match env i caller)"
  "obeys (expire_match env i)"
  "obeys (admin_recover_match env i)"
  "obeys (dispute_and_rollback_match env i d r)"
  "obeys (heartbeat_match env i p)"
  "obeys (admin_resolve_stalled_match env i caller w)"
  "obeys (finalize_match env i)"
  "obeys (resolve_dispute_by_vote env dd)"
  "obeys (claim_vested_payout env i p)"
  unfolding obeys_def
  by (auto intro: order_moves order_keeps
      intro!: wp_mono [OF settle_result_step] wp_mono [OF cancel_match_step]
      wp_mono [OF pause_match_step] wp_mono [OF resume_match_step]
      wp_mono [OF expire_match_step] wp_mono [OF admin_recover_match_step] wp_mono [OF rollback_step]
      wp_mono [OF heartbeat_match_step] wp_mono [OF stalled_step] wp_mono [OF finalize_match_step]
      wp_mono [OF resolve_dispute_step] wp_mono [OF claim_step])

lemma batch_obeys:
  "obeys (submit_result_batch env rs caller)"
  "obeys (bulk_expire_matches env is)"
  by (auto simp: submit_result_batch_def bulk_expire_matches_def load_oracle_def Let_def
      require_auth_def split: option.split intro!: obeys_rules lifecycle_obeys)

text \<open>The preambles of the oracle's entry points read and clean up the rotation state only.\<close>

lemma preamble_obeys:
  "obeys (effective_oracle env)" "obeys (require_auth env a)" "obeys load_admin" "obeys (load_match i)"
  "obeys (mark_oracle_deadlock i x y)" "obeys (check_oracle_deadlock i x y)" "obeys (publish topic name vals)"
  by (auto simp: consensus_op_defs Let_def intro!: untouched_obeys frame_rules)

lemma upd_pers_obeys:
  "(\<And>p. p_match (h p) = p_match p) \<Longrightarrow> (\<And>p. p_matches_by_state (h p) = p_matches_by_state p) \<Longrightarrow>
     obeys (upd_pers h)"
  by (auto intro!: untouched_obeys frame_rules)

lemma oracle_obeys:
  "obeys (submit_result env i w a c)"
  "obeys (submit_draw env i a c)"
  "obeys (submit_result_with_oracle_record env i w g a)"
  "obeys (resolve_oracle_deadlock env i w)"
  "obeys (submit_result_consensus env i w a)"
  by (auto simp: submit_result_def submit_draw_def submit_result_with_oracle_record_def
      resolve_oracle_deadlock_def admin_only_def submit_result_consensus_def
      intro!: obeys_rules preamble_obeys upd_pers_obeys lifecycle_obeys)

lemma dispute_obeys:
  "obeys (dispute_oracle_result env i d h)" "obeys (vote_on_dispute env i v b)"
  "obeys (mark_dispute_for_oracle_slash env i a)"
  by (auto simp: dispute_oracle_result_def vote_on_dispute_def mark_dispute_for_oracle_slash_def
      admin_only_def load_dispute_def store_dispute_def load_oracle_def Let_def
      intro!: untouched_obeys frame_rules)

lemma result_obeys: "obeys (exec_result env c)"
  by (cases c)
    (auto simp: discard_def intro!: obeys_rules lifecycle_obeys batch_obeys oracle_obeys dispute_obeys)

lemma match_obeys:
  "\<not> is_creation c \<Longrightarrow> (\<And>i p. c \<noteq> Deposit i p) \<Longrightarrow> (\<And>es. c \<noteq> DepositBatch es) \<Longrightarrow> obeys (exec_match env c)"
  by (cases c)
    (auto simp: discard_def update_heartbeat_def intro!: obeys_rules lifecycle_obeys batch_obeys)

lemma admin_obeys:
  "obeys (exec_config env cc)" "obeys (exec_registry env rc)" "obeys (exec_governance env gc)"
  by (auto intro!: untouched_obeys stored_matches.frame_exec_config stored_matches.frame_exec_registry
      stored_matches.frame_exec_governance)

text \<open>A transaction that is neither a creation nor a batch of deposits. A single deposit that
  fails is rolled back by the host; in a batch its writes stay.\<close>

lemma transaction_order:
  assumes "exec env c s = (Ok (), s')" "\<And>mc. c = OnMatch mc \<Longrightarrow> \<not> is_creation mc"
    and "\<And>es. c \<noteq> OnMatch (DepositBatch es)"
  shows "R s s'"
proof (cases "\<exists>i p. c = OnMatch (Deposit i p)")
  case True
  then obtain i p where "c = OnMatch (Deposit i p)" by blast
  with assms(1) have "moves i s s'" by (auto intro: wp_okD [OF deposit_step])
  then show ?thesis by (rule order_moves)
next
  case False
  then have "obeys (exec env c)"
    using assms(2,3) by (cases c) (auto intro!: admin_obeys result_obeys match_obeys)
  then show ?thesis using assms(1) by (rule obeys_run)
qed

end

text \<open>An order that looks at the stored matches only also covers the batch of deposits.\<close>

locale record_order = match_order +
  assumes order_records: "p_match (pers s') = p_match (pers s) \<Longrightarrow> R s s'"
begin

lemma deposit_obeys: "obeys (deposit env i p)"
  unfolding obeys_def
  by (auto intro: order_moves order_records intro!: wp_mono [OF deposit_step])

lemma deposit_batch_obeys: "obeys (deposit_batch env es)"
  by (auto simp: deposit_batch_def Let_def split: option.split intro!: obeys_rules deposit_obeys)

lemma step_transaction:
  assumes "exec env c s = (Ok (), s')" "\<And>mc. c = OnMatch mc \<Longrightarrow> \<not> is_creation mc"
  shows "R s s'"
proof (cases "\<exists>es. c = OnMatch (DepositBatch es)")
  case True
  then have "obeys (exec env c)" by (auto simp: discard_def intro!: obeys_rules deposit_batch_obeys)
  then show ?thesis using assms(1) by (rule obeys_run)
qed (use assms in \<open>auto intro: transaction_order\<close>)

end

lemma creation:
  assumes "exec env (OnMatch mc) s = (Ok (), s')" "is_creation mc"
  obtains i where "created i s s'"
proof -
  have "wp (exec env (OnMatch mc)) (\<lambda>_ s'. \<exists>i. created i s s') (\<lambda>_ _. True) True s"
    using assms(2)
    by (cases mc)
      (auto simp: create_match_def create_match_tournament_def create_match_with_conversion_def
        create_match_with_referrer_def wp_simps intro!: wp_mono [OF create_match_step])
  with assms(1) that show ?thesis by (blast dest: wp_okD)
qed

section \<open>The orders\<close>

definition evolves :: "'w escrow \<Rightarrow> 'w escrow \<Rightarrow> bool" where
  "evolves s s' \<longleftrightarrow> (\<forall>i m. p_match (pers s) i = Some m \<longrightarrow>
     (\<exists>m'. p_match (pers s') i = Some m' \<and> match_step\<^sup>*\<^sup>* m m'))"

definition same_ids :: "'w escrow \<Rightarrow> 'w escrow \<Rightarrow> bool" where
  "same_ids s s' \<longleftrightarrow> dom (p_match (pers s')) = dom (p_match (pers s))"

definition keeps_index :: "'w escrow \<Rightarrow> 'w escrow \<Rightarrow> bool" where
  "keeps_index s s' \<longleftrightarrow> (index_inv s \<longrightarrow> index_inv s')"

lemma movesE:
  assumes "moves i s s'"
  obtains m m' where "p_match (pers s) i = Some m" "match_step m m'"
    "p_match (pers s') = (p_match (pers s))(i \<mapsto> m')"
proof -
  from assms obtain m m' where "p_match (pers s) i = Some m" "p_match (pers s') i = Some m'" "match_step m m'"
    by (auto simp: moves_def split: option.splits)
  with assms that show ?thesis by (auto simp: moves_def)
qed

interpretation evolution: record_order evolves
proof
  show "evolves s s" for s :: "'w escrow" by (simp add: evolves_def)
  show "evolves s s''" if "evolves s s'" "evolves s' s''" for s s' s'' :: "'w escrow"
    using that unfolding evolves_def by (meson rtranclp_trans)
  show "evolves s s'" if "moves i s s'" for i and s s' :: "'w escrow"
    using that by (rule movesE) (auto simp: evolves_def intro: r_into_rtranclp)
qed (simp_all add: evolves_def keeps_matches_def)

interpretation population: record_order same_ids
proof
  show "same_ids s s'" if "moves i s s'" for i and s s' :: "'w escrow"
    using that by (rule movesE) (auto simp: same_ids_def)
qed (simp_all add: same_ids_def keeps_matches_def)

interpretation indexing: match_order keeps_index
  by unfold_locales (auto simp: keeps_index_def moves_def keeps_matches_def intro: index_inv_frame)

lemma created_evolves: "created i s s' \<Longrightarrow> evolves s s'"
  unfolding created_def evolves_def
  by (metis (no_types, lifting) fun_upd_other option.distinct(1) rtranclp.rtrancl_refl)

lemma exec_evolves: "exec env c s = (Ok (), s') \<Longrightarrow> evolves s s'"
  by (metis created_evolves creation evolution.step_transaction)

lemma exec_keeps_index:
  assumes "exec env c s = (Ok (), s')" "\<And>es. c \<noteq> OnMatch (DepositBatch es)" "index_inv s"
  shows "index_inv s'"
proof (cases "\<exists>mc. c = OnMatch mc \<and> is_creation mc")
  case True
  with assms(1,3) show ?thesis by (auto elim!: creation simp: created_def)
next
  case False
  with assms(1,2) have "keeps_index s s'" by (intro indexing.transaction_order) auto
  with assms(3) show ?thesis by (simp add: keeps_index_def)
qed

section \<open>What a path of steps keeps\<close>

lemma match_path:
  assumes "match_step\<^sup>*\<^sup>* m m'"
  shows "same_terms m m'" "edge\<^sup>*\<^sup>* (m_state m) (m_state m')" "match_wf m \<longrightarrow> match_wf m'"
    "m_player1_deposited m \<longrightarrow> m_player1_deposited m'" "m_player2_deposited m \<longrightarrow> m_player2_deposited m'"
    "m_player1_claimed m \<longrightarrow> m_player1_claimed m'" "m_player2_claimed m \<longrightarrow> m_player2_claimed m'"
  using assms
proof (induction rule: rtranclp_induct)
  case base
  { case 1 then show ?case by (simp add: same_terms_def)
  next case 2 then show ?case by simp
  next case 3 then show ?case by simp
  next case 4 then show ?case by simp
  next case 5 then show ?case by simp
  next case 6 then show ?case by simp
  next case 7 then show ?case by simp }
next
  case (step y z)
  { case 1 from step show ?case by (simp add: match_step_def same_terms_def)
  next case 2 from step show ?case
      by (auto simp: match_step_def intro: rtranclp.rtrancl_into_rtrancl)
  next case 3 from step show ?case by (simp add: match_step_def)
  next case 4 from step show ?case by (simp add: match_step_def)
  next case 5 from step show ?case by (simp add: match_step_def)
  next case 6 from step show ?case by (simp add: match_step_def)
  next case 7 from step show ?case by (simp add: match_step_def) }
qed

lemma edge_terminal: "edge a b \<Longrightarrow> a \<noteq> Completed \<and> a \<noteq> Cancelled \<and> b \<noteq> Pending"
  by (cases "(a, b)" rule: edge.cases) auto

lemma path_from_terminal: "edge\<^sup>*\<^sup>* a b \<Longrightarrow> a = Completed \<or> a = Cancelled \<Longrightarrow> b = a"
  by (induction rule: rtranclp_induct) (auto dest: edge_terminal)

end
