(* ===== verification/Escrow_Invariants.thy ===== *)
theory Escrow_Invariants
  imports Escrow_Safety
begin

text \<open>
  Reachable states of an initialised contract, and the invariant they all satisfy. A state is
  reachable by a deployment followed by any number of transactions, in any environment each, and
  any activity of other contracts on the token world in between.
\<close>

section \<open>Reachability\<close>

inductive reachable :: "'w escrow \<Rightarrow> bool" where
  deployment: "invoke (initialize env oracle admin) (deployed w) = (Ok (), s) \<Longrightarrow> reachable s"
| transaction: "reachable s \<Longrightarrow> invoke (exec env c) s = (r, s') \<Longrightarrow> reachable s'"
| elsewhere: "reachable s \<Longrightarrow> reachable (s\<lparr>world := w\<rparr>)"

text \<open>An invariant that holds after initialisation, that every committed call keeps and that does
  not read the token world holds in every reachable state.\<close>

lemma reachable_invariant:
  assumes "reachable s"
    and "\<And>env oracle admin w s. initialize env oracle admin (deployed w) = (Ok (), s) \<Longrightarrow> I s"
    and "\<And>env c s s'. I s \<Longrightarrow> exec env c s = (Ok (), s') \<Longrightarrow> I s'"
    and "\<And>s w. I s \<Longrightarrow> I (s\<lparr>world := w\<rparr>)"
  shows "I s"
  using assms(1)
proof induction
  case (transaction s env c r s')
  from transaction.hyps(2) transaction.IH show ?case
    by (cases rule: invoke_cases) (auto intro: assms(3))
qed (auto simp: invoke_ok intro: assms(2,4))

section \<open>The invariant\<close>

definition matches_inv :: "'w escrow \<Rightarrow> bool" where
  "matches_inv s \<longleftrightarrow> (\<forall>i m. p_match (pers s) i = Some m \<longrightarrow>
     match_wf m \<and> m_id m = i \<and> i < get_match_count s)"

definition registries_inv :: "'w escrow \<Rightarrow> bool" where
  "registries_inv s \<longleftrightarrow> allowlist_inv s \<and>
     distinct (get_blacklist s) \<and> set (get_blacklist s) = {t. is_token_blacklisted t s} \<and>
     distinct (unwrap_or (p_frozen_players (pers s)) []) \<and>
     set (unwrap_or (p_frozen_players (pers s)) []) = {p. is_player_frozen p s}"

definition contract_inv :: "'w escrow \<Rightarrow> bool" where
  "contract_inv s \<longleftrightarrow> i_oracle (inst s) \<noteq> None \<and> i_admin (inst s) \<noteq> None \<and>
     config_inv s \<and> registries_inv s \<and> matches_inv s"

subsection \<open>Oracle and admin stay set\<close>

definition stays_installed :: "'w escrow \<Rightarrow> 'w escrow \<Rightarrow> bool" where
  "stays_installed s s' \<longleftrightarrow> (i_oracle (inst s) \<noteq> None \<longrightarrow> i_oracle (inst s') \<noteq> None) \<and>
     (i_admin (inst s) \<noteq> None \<longrightarrow> i_admin (inst s') \<noteq> None)"

lemma governance_installed:
  "wp (exec_governance env c) (\<lambda>_. stays_installed s) (\<lambda>_ _. True) True s"
  by (cases c) (simp_all add: governance_op_defs wp_simps Let_def stays_installed_def)

lemma config_installed:
  "wp (exec_config env c) (\<lambda>_. stays_installed s) (\<lambda>_ _. True) True s"
  by (cases c) (simp_all add: config_op_defs wp_simps Let_def stays_installed_def)

lemma frame_run: "frame f m \<Longrightarrow> m s = (r, s') \<Longrightarrow> f s' = f s"
  by (auto simp: frame_def dest: spec [of _ s])

lemma exec_installed:
  assumes "exec env c s = (Ok (), s')"
  shows "stays_installed s s'"
proof (cases c)
  case (OnRegistry rc)
  with assms show ?thesis
    using frame_run [OF admin_frame_registry] by (fastforce simp: stays_installed_def)
next
  case (OnMatch mc)
  with assms show ?thesis
    using frame_run [OF admin_part.frame_exec_match] frame_run [OF oracle_part.frame_exec_match]
    by (fastforce simp: stays_installed_def)
next
  case (OnResult rc)
  with assms show ?thesis
    using frame_run [OF admin_part.frame_exec_result] frame_run [OF oracle_part.frame_exec_result]
    by (fastforce simp: stays_installed_def)
qed (use assms wp_okD [OF config_installed] wp_okD [OF governance_installed] in fastforce)+

subsection \<open>The configuration\<close>

lemma config_calls_config:
  "config_inv s \<Longrightarrow> wp (exec_config env c) (\<lambda>_. config_inv) (\<lambda>_ _. True) True s"
proof (cases c)
  case (PauseAll a)
  then show "config_inv s \<Longrightarrow> ?thesis"
    by (auto simp: config_op_defs wp_simps intro: config_inv_frame)
next
  case (UnpauseAll a)
  then show "config_inv s \<Longrightarrow> ?thesis"
    by (auto simp: config_op_defs wp_simps intro: config_inv_frame)
next
  case (SetPreferredPayoutToken a t)
  then show "config_inv s \<Longrightarrow> ?thesis"
    by (auto simp: config_op_defs wp_simps intro: config_inv_frame)
qed (auto intro: config_steps)

lemma exec_config_inv:
  assumes "exec env c s = (Ok (), s')" "config_inv s"
  shows "config_inv s'"
proof (cases c)
  case (OnConfig cc)
  with assms show ?thesis using wp_okD [OF config_calls_config] by fastforce
next
  case (OnRegistry rc)
  with assms show ?thesis
    by (intro config_inv_parameters [OF assms(2)]) (auto dest!: frame_run [OF parameters_frame_registry])
next
  case (OnGovernance gc)
  with assms show ?thesis
    by (intro config_inv_parameters [OF assms(2)]) (auto dest!: frame_run [OF parameters_frame_governance])
next
  case (OnMatch mc)
  with assms show ?thesis
    using frame_run [OF parameter_part.frame_exec_match] frame_run [OF listing_part.frame_exec_match]
    by (intro config_inv_parameters [OF assms(2)]) fastforce
next
  case (OnResult rc)
  with assms show ?thesis
    using frame_run [OF parameter_part.frame_exec_result] frame_run [OF listing_part.frame_exec_result]
    by (intro config_inv_parameters [OF assms(2)]) fastforce
qed

subsection \<open>The matches\<close>

lemma counter_kept:
  assumes "exec env c s = (Ok (), s')" "i_oracle (inst s) \<noteq> None" "\<And>mc. c = OnMatch mc \<Longrightarrow> \<not> is_creation mc"
  shows "get_match_count s' = get_match_count s"
proof -
  have "match_counter s' = match_counter s"
  proof (cases c)
    case (OnConfig cc)
    have "cc \<noteq> Initialize a b" for a b
      using assms(1,2) OnConfig by (auto simp: initialize_def run_simps)
    with OnConfig assms(1) show ?thesis by (auto dest!: frame_run [OF counter_frame_config, rotated])
  qed (use assms in \<open>auto dest: frame_run [OF counter_frame_registry] frame_run [OF counter_frame_governance]
      frame_run [OF counter_frame_match] frame_run [OF counter_frame_result]\<close>)
  then show ?thesis by (simp add: get_match_count_def)
qed

lemma matches_inv_step:
  assumes "matches_inv s" "config_inv s" "exec env c s = (Ok (), s')" "i_oracle (inst s) \<noteq> None"
  shows "matches_inv s'"
proof (cases "\<exists>mc. c = OnMatch mc \<and> is_creation mc")
  case True
  with assms(3) obtain i where "created i s s'" by (auto elim!: creation)
  then obtain m where m: "p_match (pers s') = (p_match (pers s))(i \<mapsto> m)" "match_wf m" "m_id m = i"
      "get_match_count s' = i + 1" "i = get_match_count s"
    using assms(2) by (auto simp: created_def get_match_count_def split: option.splits)
  with assms(1) show ?thesis by (auto simp: matches_inv_def split: if_splits intro: less_SucI)
next
  case False
  have "p_match (pers s') i = Some m' \<Longrightarrow> match_wf m' \<and> m_id m' = i \<and> i < get_match_count s'" for i m'
  proof -
    assume i: "p_match (pers s') i = Some m'"
    have "same_ids s s'" using False assms(3) by (auto intro: population.step_transaction)
    with i obtain m where m: "p_match (pers s) i = Some m" by (auto simp: same_ids_def)
    with i exec_evolves [OF assms(3)] have path: "match_step\<^sup>*\<^sup>* m m'"
      by (fastforce simp: evolves_def)
    have "get_match_count s' = get_match_count s" using False assms by (auto intro: counter_kept)
    with m match_path [OF path] assms(1) show ?thesis by (auto simp: matches_inv_def same_terms_def)
  qed
  then show ?thesis by (simp add: matches_inv_def)
qed

subsection \<open>The registries\<close>

abbreviation allow_fields :: "'w escrow \<Rightarrow> _" where
  "allow_fields s \<equiv> (i_allowed_token (inst s), i_allowed_token_count (inst s), i_allowlist_enforced (inst s),
     p_allowed_tokens (pers s))"

abbreviation black_fields :: "'w escrow \<Rightarrow> _" where
  "black_fields s \<equiv> (i_blacklisted_token (inst s), p_blacklisted_tokens (pers s))"

abbreviation frozen_fields :: "'w escrow \<Rightarrow> _" where
  "frozen_fields s \<equiv> (i_frozen_player (inst s), p_frozen_players (pers s))"

abbreviation registry_fields :: "'w escrow \<Rightarrow> _" where
  "registry_fields s \<equiv> (allow_fields s, black_fields s, frozen_fields s)"

lemma registries_inv_alt:
  "registries_inv s \<longleftrightarrow> allowlist_inv s \<and> blacklist.consistent s \<and> freeze.consistent s"
  by (auto simp: registries_inv_def blacklist.consistent_def freeze.consistent_def
      is_token_blacklisted_def is_player_frozen_def)

lemma registry_same:
  "allow_fields s' = allow_fields s \<Longrightarrow> allowlist_inv s' = allowlist_inv s"
  "black_fields s' = black_fields s \<Longrightarrow> blacklist.consistent s' = blacklist.consistent s"
  "frozen_fields s' = frozen_fields s \<Longrightarrow> freeze.consistent s' = freeze.consistent s"
  by (simp_all add: allowlist_inv_def get_allowed_token_list_def is_allowlist_enforced_def
      get_blacklist_def blacklist.consistent_def freeze.consistent_def)

text \<open>Each registry has its own two operations; nothing else writes it.\<close>

lemma frame_registry_ops:
  "frame (\<lambda>s. (black_fields s, frozen_fields s)) (add_allowed_token env t)"
  "frame (\<lambda>s. (black_fields s, frozen_fields s)) (remove_allowed_token env t)"
  "frame (\<lambda>s. (allow_fields s, frozen_fields s)) (add_token_to_blacklist env t r)"
  "frame (\<lambda>s. (allow_fields s, frozen_fields s)) (remove_token_from_blacklist env t)"
  "frame (\<lambda>s. (allow_fields s, black_fields s)) (admin_freeze_player env p r)"
  "frame (\<lambda>s. (allow_fields s, black_fields s)) (admin_unfreeze_player env p)"
  by (auto simp: registry_op_defs Let_def intro!: frame_rules)

lemma frame_other_registry_calls:
  "frame registry_fields (add_stablecoin_issuer env a)"
  "frame registry_fields (remove_stablecoin_issuer env a)"
  "frame registry_fields (add_approved_oracle env a)"
  "frame registry_fields (remove_approved_oracle env a)"
  "frame registry_fields (set_required_confirmations env n)"
  "frame registry_fields (register_bracket env a b c)"
  "frame registry_fields (register_player_rating env a p pl u n)"
  by (auto simp: registry_op_defs consensus_op_defs register_bracket_def register_player_rating_def
      caller_is_admin_def load_oracle_def Let_def intro!: frame_rules)

lemma registry_calls_inv:
  assumes "registries_inv s" "exec_registry env c s = (Ok (), s')"
  shows "registries_inv s'"
proof -
  have inv: "allowlist_inv s" "blacklist.consistent s" "freeze.consistent s"
    using assms(1) by (simp_all add: registries_inv_alt)
  note same = registry_same [of s' s]
  show ?thesis
  proof (cases c)
    case (AddAllowedToken t)
    with assms(2) have run: "add_allowed_token env t s = (Ok (), s')" by simp
    show ?thesis
      using frame_run [OF frame_registry_ops(1) run] wp_okD [OF add_allowed_token_inv [OF inv(1)] run] inv
      by (simp add: registries_inv_alt same(2,3))
  next
    case (RemoveAllowedToken t)
    with assms(2) have run: "remove_allowed_token env t s = (Ok (), s')" by simp
    show ?thesis
      using frame_run [OF frame_registry_ops(2) run] wp_okD [OF remove_allowed_token_inv [OF inv(1)] run] inv
      by (simp add: registries_inv_alt same(2,3))
  next
    case (AddTokenToBlacklist t r)
    with assms(2) have run: "add_token_to_blacklist env t r s = (Ok (), s')" by simp
    show ?thesis
      using frame_run [OF frame_registry_ops(3) run] blacklist.add_consistent [OF inv(2) run] inv
      by (simp add: registries_inv_alt same(1,3))
  next
    case (RemoveTokenFromBlacklist t)
    with assms(2) have run: "remove_token_from_blacklist env t s = (Ok (), s')" by simp
    show ?thesis
      using frame_run [OF frame_registry_ops(4) run] blacklist.remove_consistent [OF inv(2) run] inv
      by (simp add: registries_inv_alt same(1,3))
  next
    case (AdminFreezePlayer p r)
    with assms(2) have run: "admin_freeze_player env p r s = (Ok (), s')" by simp
    show ?thesis
      using frame_run [OF frame_registry_ops(5) run] freeze.add_consistent [OF inv(3) run] inv
      by (simp add: registries_inv_alt same(1,2))
  next
    case (AdminUnfreezePlayer p)
    with assms(2) have run: "admin_unfreeze_player env p s = (Ok (), s')" by simp
    show ?thesis
      using frame_run [OF frame_registry_ops(6) run] freeze.remove_consistent [OF inv(3) run] inv
      by (simp add: registries_inv_alt same(1,2))
  qed (use assms(2) same inv in
      \<open>auto simp: registries_inv_alt dest!: frame_other_registry_calls [THEN frame_run]\<close>)
qed

lemma registry_frame_config:
  "(\<And>a b. c \<noteq> Initialize a b) \<Longrightarrow> frame registry_fields (exec_config env c)"
  by (cases c) (auto simp: config_op_defs Let_def intro!: frame_rules)

lemma registry_frame_governance: "frame registry_fields (exec_governance env c)"
  by (cases c) (auto simp: governance_op_defs Let_def intro!: frame_rules)

lemma registries_inv_step:
  assumes "registries_inv s" "exec env c s = (Ok (), s')" "i_oracle (inst s) \<noteq> None"
  shows "registries_inv s'"
proof (cases "\<exists>rc. c = OnRegistry rc")
  case True
  with assms show ?thesis by (auto intro: registry_calls_inv)
next
  case False
  have "registry_fields s' = registry_fields s"
  proof (cases c)
    case (OnConfig cc)
    have "cc \<noteq> Initialize a b" for a b
      using assms OnConfig by (auto simp: initialize_def run_simps)
    with OnConfig assms(2) show ?thesis by (auto dest!: frame_run [OF registry_frame_config, rotated])
  next
    case (OnGovernance gc)
    with assms(2) show ?thesis by (auto dest!: frame_run [OF registry_frame_governance])
  next
    case (OnMatch mc)
    with assms(2) show ?thesis
      using frame_run [OF registry_part.frame_exec_match] frame_run [OF listing_part.frame_exec_match] by fastforce
  next
    case (OnResult rc)
    with assms(2) show ?thesis
      using frame_run [OF registry_part.frame_exec_result] frame_run [OF listing_part.frame_exec_result] by fastforce
  qed (use False in auto)
  with assms(1) registry_same [of s' s] show ?thesis by (simp add: registries_inv_alt)
qed

section \<open>Every reachable state\<close>

lemma contract_inv_initialized:
  assumes "initialize env oracle admin (deployed w) = (Ok (), s)"
  shows "contract_inv s"
proof -
  have "config_inv s" using wp_okD [OF initialize_config [OF config_inv_deployed] assms] .
  moreover have "registries_inv s" "matches_inv s" "i_oracle (inst s) \<noteq> None" "i_admin (inst s) \<noteq> None"
    using assms
    by (auto simp: initialize_def run_simps deployed_def empty_instance_def empty_persistent_def
        registries_inv_def allowlist_inv_def get_allowed_token_list_def is_allowlist_enforced_def
        get_blacklist_def is_token_blacklisted_def is_player_frozen_def matches_inv_def split: if_splits)
  ultimately show ?thesis by (simp add: contract_inv_def)
qed

lemma contract_inv_step:
  assumes "contract_inv s" "exec env c s = (Ok (), s')"
  shows "contract_inv s'"
  using assms exec_installed [OF assms(2)] exec_config_inv [OF assms(2)]
    registries_inv_step [OF _ assms(2)] matches_inv_step [OF _ _ assms(2)]
  by (simp add: contract_inv_def stays_installed_def)

lemma contract_inv_world: "contract_inv s \<Longrightarrow> contract_inv (s\<lparr>world := w\<rparr>)"
  by (simp add: contract_inv_def config_inv_def config_getters registries_inv_alt registry_same [of "s\<lparr>world := w\<rparr>" s] matches_inv_def
      get_match_count_def)

lemma reachable_inv: "reachable s \<Longrightarrow> contract_inv s"
  by (erule reachable_invariant) (auto intro: contract_inv_initialized contract_inv_step contract_inv_world)

end
