(* ===== verification/Escrow_Samples.thy ===== *)
theory Escrow_Samples
  imports Escrow_Invariants
begin

text \<open>
  Concrete environments and states on which the properties are exercised: a ledger of balances as
  the token world, an initialised contract (oracle \<open>Address 1\<close>, admin \<open>Address 2\<close>) and
  a funded match between \<open>Address 3\<close> and \<open>Address 4\<close> over 50 units of token
  \<open>Address 9\<close>.
\<close>

definition sample_env :: "u32 \<Rightarrow> u64 \<Rightarrow> ledger env" where
  "sample_env seq now = ledger_env (Address 0) seq now (\<lambda>_. True)"

definition sample_ledger :: ledger where
  "sample_ledger = (\<lambda>t a. 1000)"

definition sample_state :: "ledger escrow" where
  "sample_state = after (initialize (sample_env 0 0) (Address 1) (Address 2)) (deployed sample_ledger)"

definition sample_match :: match_rec where
  "sample_match = \<lparr>m_id = 7, m_player1 = Address 3, m_player2 = Address 4, m_stake_amount = 50,
     m_token = Address 9, m_game_id = ''abcd1234'', m_platform = Lichess, m_state = Active,
     m_player1_deposited = True, m_player2_deposited = True, m_created_ledger = 100,
     m_completed_ledger = None, m_winner = NoWinner, m_vested_at = None, m_player1_claimed = False,
     m_player2_claimed = False, m_conversion_rate = None, m_token_b = None,
     m_conversion_rate_ledger = None, m_paused_ledger = None, m_paused_at_ledger = None,
     m_total_pause_duration = 0, m_referrer = None, m_last_heartbeat = 0, m_bracket_id = None,
     m_activated_at = Some 0, m_rollback_vote_player1 = False, m_rollback_vote_player2 = False,
     m_round = None, m_vesting_override_seconds = None\<rparr>"

definition with_match :: "match_rec \<Rightarrow> 'w escrow \<Rightarrow> 'w escrow" where
  "with_match m s = s\<lparr>pers := (pers s)\<lparr>p_match := (p_match (pers s))(m_id m \<mapsto> m),
     p_matches_by_state := (p_matches_by_state (pers s))(m_state m \<mapsto> [m_id m])\<rparr>\<rparr>"

lemmas sample_defs = sample_env_def ledger_env_def sample_match_def with_match_def

text \<open>Evaluating a run: the primitive actions, the helpers and the limits.\<close>

lemmas eval_defs = run_simps sample_defs helper_op_defs Let_def empty_persistent_def
  escrow_balance_of_def depositor_count_def MAX_PAUSE_DURATION_LEDGERS_def MAX_SNAPSHOTS_PER_MATCH_def
  MAX_PLAYER_SNAPSHOTS_def checked_mul_def checked_add_def checked_sub_def to_i128_def in_i128_def i128_max_def i128_min_def

lemma sample_run: "initialize (sample_env 0 0) (Address 1) (Address 2) (deployed sample_ledger) = (Ok (), sample_state)"
  by (simp add: sample_state_def after_def initialize_def run_simps sample_env_def ledger_env_def
      deployed_def empty_instance_def)

lemma sample_reachable: "reachable sample_state"
  by (rule reachable.deployment [of "sample_env 0 0" "Address 1" "Address 2" sample_ledger])
    (unfold invoke_ok, rule sample_run)

lemma sample_fields [simp]:
  "i_oracle (inst sample_state) = Some (Address 1)" "i_admin (inst sample_state) = Some (Address 2)"
  "i_match_count (inst sample_state) = Some 0" "i_paused (inst sample_state) = Some False"
  "i_pending_admin (inst sample_state) = None" "current_wasm sample_state = None"
  "i_protocol_config (inst sample_state) = None" "i_oracle_rotation (inst sample_state) = None"
  "i_dispute_period (inst sample_state) = None" "world sample_state = sample_ledger"
  "i_frozen_player (inst sample_state) = Map.empty" "pers sample_state = empty_persistent"
  "t_deposit_in_progress sample_state = Map.empty"
  by (simp_all add: sample_state_def after_def initialize_def run_simps sample_env_def ledger_env_def
      deployed_def empty_instance_def)

lemma sample_index_inv: "index_inv (with_match sample_match sample_state)"
  by (auto simp: index_inv_def match_ids.exact_def ids_in_state_def state_of_def with_match_def
      sample_match_def empty_persistent_def)

end
