(* ===== verification/Escrow_Authority.thy ===== *)
theory Escrow_Authority
  imports Escrow_Samples
begin

text \<open>
  Who can change the admin and the code of the contract: the two-step handover and the upgrade
  timelock, as statements about any transaction.
\<close>

section \<open>Which calls reach the admin\<close>

lemma exec_admin_kept:
  assumes "exec env c s = (Ok (), s')" "i_oracle (inst s) \<noteq> None" "c \<noteq> OnGovernance AcceptAdmin"
  shows "i_admin (inst s') = i_admin (inst s)"
proof (cases c)
  case (OnConfig cc)
  have "cc \<noteq> Initialize a b" for a b using assms OnConfig by (auto simp: initialize_def run_simps)
  with OnConfig assms(1) show ?thesis by (auto dest!: frame_run [OF admin_frame_config, rotated])
next
  case (OnRegistry rc)
  with assms(1) show ?thesis by (auto dest!: frame_run [OF admin_frame_registry])
next
  case (OnGovernance gc)
  with assms(1,3) show ?thesis by (auto dest!: frame_run [OF admin_frame_governance, rotated])
next
  case (OnMatch mc)
  with assms(1) show ?thesis by (auto dest!: frame_run [OF admin_part.frame_exec_match])
next
  case (OnResult rc)
  with assms(1) show ?thesis by (auto dest!: frame_run [OF admin_part.frame_exec_result])
qed

lemma accept_admin_effect:
  "wp (accept_admin env) (\<lambda>_ s'. \<exists>p. i_pending_admin (inst s) = Some p \<and>
      authorized env (pa_pending_admin p) \<and> i_admin (inst s) = Some (pa_proposer p) \<and>
      i_admin (inst s') = Some (pa_pending_admin p) \<and> i_pending_admin (inst s') = None) (\<lambda>_ _. True) True s"
  by (auto simp: accept_admin_def wp_simps)

lemma proposal_frame_governance:
  "(\<And>a. c \<noteq> ProposeAdmin a) \<Longrightarrow> (\<And>a b. c \<noteq> TransferAdmin a b) \<Longrightarrow> c \<noteq> AcceptAdmin \<Longrightarrow>
     c \<noteq> CancelAdminProposal \<Longrightarrow> frame (\<lambda>s. i_pending_admin (inst s)) (exec_governance env c)"
  by (cases c) (auto simp: governance_op_defs Let_def intro!: frame_rules)

lemma governance_proposal:
  "wp (exec_governance env c) (\<lambda>_ s'. \<forall>p. i_pending_admin (inst s') = Some p \<longrightarrow>
      i_pending_admin (inst s) = Some p \<or>
      i_admin (inst s) = Some (pa_proposer p) \<and> authorized env (pa_proposer p)) (\<lambda>_ _. True) True s"
proof (cases "(\<exists>a. c = ProposeAdmin a) \<or> (\<exists>a b. c = TransferAdmin a b) \<or> c = AcceptAdmin \<or> c = CancelAdminProposal")
  case True
  then show ?thesis
    by (auto simp: propose_admin_def transfer_admin_def accept_admin_def cancel_admin_proposal_def
        admin_only_def caller_is_admin_def wp_simps)
next
  case False
  then have "frame (\<lambda>s. i_pending_admin (inst s)) (exec_governance env c)"
    by (intro proposal_frame_governance) auto
  then show ?thesis by (auto simp: wp_after dest: frame_after [where s = s])
qed

lemma exec_proposal:
  assumes "exec env c s = (Ok (), s')" "i_pending_admin (inst s') = Some p"
  shows "i_pending_admin (inst s) = Some p \<or> i_admin (inst s) = Some (pa_proposer p) \<and> authorized env (pa_proposer p)"
proof (cases c)
  case (OnConfig cc)
  with assms show ?thesis by (auto dest!: frame_run [OF proposal_frame_config])
next
  case (OnRegistry rc)
  with assms show ?thesis by (auto dest!: frame_run [OF admin_frame_registry])
next
  case (OnGovernance gc)
  with assms wp_okD [OF governance_proposal, of env gc s "()" s'] show ?thesis by simp
next
  case (OnMatch mc)
  with assms show ?thesis by (auto dest!: frame_run [OF proposal_part.frame_exec_match])
next
  case (OnResult rc)
  with assms show ?thesis by (auto dest!: frame_run [OF proposal_part.frame_exec_result])
qed

section \<open>Which calls reach the code\<close>

lemma exec_code_kept:
  assumes "exec env c s = (Ok (), s')" "c \<noteq> OnGovernance ExecuteUpgrade"
  shows "current_wasm s' = current_wasm s"
proof (cases c)
  case (OnConfig cc)
  with assms show ?thesis by (auto dest!: frame_run [OF proposal_frame_config])
next
  case (OnRegistry rc)
  with assms show ?thesis by (auto dest!: frame_run [OF admin_frame_registry])
next
  case (OnGovernance gc)
  with assms show ?thesis by (auto dest!: frame_run [OF code_frame_governance, rotated])
next
  case (OnMatch mc)
  with assms show ?thesis by (auto dest!: frame_run [OF code_part.frame_exec_match])
next
  case (OnResult rc)
  with assms show ?thesis by (auto dest!: frame_run [OF code_part.frame_exec_result])
qed

lemma execute_upgrade_effect:
  "wp (execute_upgrade env) (\<lambda>_ s'. \<exists>a at h by. i_admin (inst s) = Some a \<and> authorized env a \<and>
      is_contract_paused s \<and> i_upgrade_scheduled_at (inst s) = Some at \<and>
      min (at + UPGRADE_REVIEW_PERIOD_LEDGERS) u32_max \<le> ledger_sequence env \<and>
      i_confirmed_by (inst s) = Some by \<and> i_pending_upgrade_hash (inst s) = Some h \<and>
      current_wasm s' = Some h \<and> i_upgrade_scheduled_at (inst s') = None \<and> i_confirmed_by (inst s') = None)
     (\<lambda>_ _. True) True s"
  by (auto simp: execute_upgrade_def admin_only_def wp_simps saturating_add_u32_def)

section \<open>Properties\<close>


definition proposed_state :: "ledger escrow" where
  "proposed_state = sample_state\<lparr>inst := (inst sample_state)\<lparr>i_pending_admin :=
     Some \<lparr>pa_proposer = Address 2, pa_pending_admin = Address 5\<rparr>\<rparr>\<rparr>"


text \<open>C8. A pending admin proposal was made under the authority of the admin in office: after any
  transaction the pending proposal is the one there was, or its proposer is the admin in office and
  authorized the transaction.\<close>

theorem proposals_come_from_the_admin:
  assumes "invoke (exec env c) s = (r, s')" "i_pending_admin (inst s') = Some p"
  shows "i_pending_admin (inst s) = Some p \<or> i_admin (inst s) = Some (pa_proposer p) \<and> authorized env (pa_proposer p)"
  using assms(1)
proof (cases rule: invoke_cases)
  case (committed a)
  with assms(2) show ?thesis by (auto dest: exec_proposal)
next
  case rolled_back
  with assms(2) show ?thesis by simp
qed

theorem proposals_come_from_the_admin_witness:
  "i_pending_admin (inst (snd (invoke (exec (sample_env 10 50) (OnGovernance (ProposeAdmin (Address 5)))) sample_state)))
     = Some \<lparr>pa_proposer = Address 2, pa_pending_admin = Address 5\<rparr> \<and>
   authorized (sample_env 10 50) (Address 2)"
proof -
  let ?m = "invoke (exec (sample_env 10 50) (OnGovernance (ProposeAdmin (Address 5)))) sample_state"
  have run: "i_pending_admin (inst (snd ?m)) = Some \<lparr>pa_proposer = Address 2, pa_pending_admin = Address 5\<rparr>"
    by (simp add: run_simps propose_admin_def admin_only_def sample_env_def ledger_env_def)
  then show ?thesis
    using proposals_come_from_the_admin [of "sample_env 10 50" "OnGovernance (ProposeAdmin (Address 5))"
        sample_state "fst ?m" "snd ?m" "\<lparr>pa_proposer = Address 2, pa_pending_admin = Address 5\<rparr>"]
    by simp
qed

text \<open>C9. The code of the contract changes in one way only: the admin authorizes
  \<^verbatim>\<open>execute_upgrade\<close> while the contract is paused, an upgrade is scheduled and confirmed, and
  the review period has passed since it was scheduled (capped at the last ledger). The new code is
  the scheduled one, and the schedule and confirmation are consumed.\<close>

theorem code_changes_after_review:
  assumes "invoke (exec env c) s = (r, s')" "current_wasm s' \<noteq> current_wasm s"
  shows "c = OnGovernance ExecuteUpgrade \<and> (\<exists>a at h by. i_admin (inst s) = Some a \<and> authorized env a \<and>
      is_contract_paused s \<and> i_upgrade_scheduled_at (inst s) = Some at \<and>
      min (at + UPGRADE_REVIEW_PERIOD_LEDGERS) u32_max \<le> ledger_sequence env \<and>
      i_confirmed_by (inst s) = Some by \<and> i_pending_upgrade_hash (inst s) = Some h \<and>
      current_wasm s' = Some h \<and> i_upgrade_scheduled_at (inst s') = None \<and> i_confirmed_by (inst s') = None)"
  using assms(1)
proof (cases rule: invoke_cases)
  case (committed a)
  with assms(2) have "c = OnGovernance ExecuteUpgrade" using exec_code_kept [of env c s s'] by auto
  with committed show ?thesis using wp_okD [OF execute_upgrade_effect, of env s "()" s'] by auto
next
  case rolled_back
  with assms(2) show ?thesis by simp
qed

definition upgrading_state :: "ledger escrow" where
  "upgrading_state = sample_state\<lparr>inst := (inst sample_state)\<lparr>i_paused := Some True,
     i_upgrade_scheduled_at := Some 5, i_confirmed_by := Some (Address 6),
     i_pending_upgrade_hash := Some [1, 2, 3]\<rparr>\<rparr>"

theorem code_changes_after_review_witness:
  "current_wasm (snd (invoke (exec (sample_env 120965 0) (OnGovernance ExecuteUpgrade)) upgrading_state))
     = Some [1, 2, 3] \<and> is_contract_paused upgrading_state"
proof -
  let ?m = "invoke (exec (sample_env 120965 0) (OnGovernance ExecuteUpgrade)) upgrading_state"
  have run: "current_wasm (snd ?m) = Some [1, 2, 3]" "current_wasm upgrading_state = None"
    by (simp_all add: run_simps execute_upgrade_def admin_only_def upgrading_state_def sample_env_def
        ledger_env_def saturating_add_u32_def UPGRADE_REVIEW_PERIOD_LEDGERS_def u32_max_def)
  then show ?thesis
    using code_changes_after_review [of "sample_env 120965 0" "OnGovernance ExecuteUpgrade" upgrading_state
        "fst ?m" "snd ?m"]
    by auto
qed

end
