(* ===== verification/Escrow_Funds.thy ===== *)
theory Escrow_Funds
  imports Escrow_Authority
begin

text \<open>
  The money. \<open>owed\<close> is what the contract still has to pay for a match, \<open>liabilities\<close>
  the sum over all stored matches of one token. Every entry point either keeps the difference
  between the contract's token balance and its liabilities or widens it, as long as the matches are
  single-token and results take effect at once (no dispute period); the batches, with their caught
  errors, are included.
\<close>

section \<open>Liabilities\<close>

definition owed :: "match_rec \<Rightarrow> int" where
  "owed m = (case m_state m of
     Pending \<Rightarrow> depositor_count m * m_stake_amount m
   | Cancelled \<Rightarrow> 0
   | Completed \<Rightarrow>
       if m_vested_at m = None then 0
       else (case m_winner m of
          Player1 \<Rightarrow> if m_player1_claimed m then 0 else 2 * m_stake_amount m
        | Player2 \<Rightarrow> if m_player2_claimed m then 0 else 2 * m_stake_amount m
        | Draw \<Rightarrow> (if m_player1_claimed m then 0 else m_stake_amount m) +
                  (if m_player2_claimed m then 0 else m_stake_amount m)
        | NoWinner \<Rightarrow> 0)
   | _ \<Rightarrow> 2 * m_stake_amount m)"

definition owed_in :: "address \<Rightarrow> match_rec \<Rightarrow> int" where
  "owed_in t m = (if m_token m = t then owed m else 0)"

definition liabilities :: "address \<Rightarrow> 'w escrow \<Rightarrow> int" where
  "liabilities t s = (\<Sum>i \<in> dom (p_match (pers s)). owed_in t (the (p_match (pers s) i)))"

lemma owed_nonneg: "match_wf m \<Longrightarrow> 0 \<le> owed m"
  by (auto simp: owed_def match_wf_def depositor_count_def split: match_state.splits winner.splits)

lemma liabilities_update:
  assumes "finite (dom (p_match (pers s)))" "p_match (pers s) i = Some m"
    and "p_match (pers s') = (p_match (pers s))(i \<mapsto> m')"
  shows "liabilities t s' = liabilities t s - owed_in t m + owed_in t m'"
proof -
  have i: "i \<in> dom (p_match (pers s))" using assms(2) by auto
  then have "dom (p_match (pers s')) = insert i (dom (p_match (pers s)) - {i})" using assms(3) by auto
  moreover have "(\<Sum>j \<in> dom (p_match (pers s)) - {i}. owed_in t (the (p_match (pers s') j)))
      = (\<Sum>j \<in> dom (p_match (pers s)) - {i}. owed_in t (the (p_match (pers s) j)))"
    by (rule sum.cong) (use assms(3) in auto)
  moreover have "liabilities t s = owed_in t m + (\<Sum>j \<in> dom (p_match (pers s)) - {i}. owed_in t (the (p_match (pers s) j)))"
    using sum.remove [OF assms(1) i, of "\<lambda>j. owed_in t (the (p_match (pers s) j))"] assms(2) by (simp add: liabilities_def)
  ultimately show ?thesis using assms by (simp add: liabilities_def sum.insert_remove)
qed

lemma liabilities_create:
  assumes "finite (dom (p_match (pers s)))" "p_match (pers s) i = None"
    and "p_match (pers s') = (p_match (pers s))(i \<mapsto> m')"
  shows "liabilities t s' = liabilities t s + owed_in t m'"
proof -
  have i: "i \<notin> dom (p_match (pers s))" using assms(2) by auto
  have "(\<Sum>j \<in> dom (p_match (pers s)). owed_in t (the (p_match (pers s') j))) = liabilities t s"
    unfolding liabilities_def by (rule sum.cong) (use assms(3) i in auto)
  then show ?thesis using assms i by (simp add: liabilities_def)
qed

section \<open>The states considered\<close>

text \<open>Single-token matches, no pending results, results that take effect at once, and no negative
  cap on the protocol fee.\<close>

definition plain_match :: "match_rec \<Rightarrow> bool" where
  "plain_match m \<longleftrightarrow> match_wf m \<and> m_token_b m = None \<and> m_state m \<noteq> PendingResult"

definition plain_config :: "'w escrow \<Rightarrow> bool" where
  "plain_config s \<longleftrightarrow> config_inv s \<and> get_dispute_period s = 0 \<and>
     (\<forall>c cap. i_protocol_config (inst s) = Some c \<longrightarrow> fc_max_protocol_fee (pc_fees c) = Some cap \<longrightarrow> 0 \<le> cap)"

text \<open>Match \<open>i\<close> was rewritten and the balance moved at least with what is owed for it.\<close>

definition settles :: "('w \<Rightarrow> address \<Rightarrow> address \<Rightarrow> int) \<Rightarrow> address \<Rightarrow> address \<Rightarrow> u64 \<Rightarrow> 'w escrow \<Rightarrow> 'w escrow \<Rightarrow> bool" where
  "settles bal self t i s s' \<longleftrightarrow>
     (case (p_match (pers s) i, p_match (pers s') i) of
        (Some m, Some m') \<Rightarrow> plain_match m' \<and>
          owed_in t m' - owed_in t m \<le> bal (world s') t self - bal (world s) t self
      | _ \<Rightarrow> False) \<and>
     p_match (pers s') = (p_match (pers s))(i := p_match (pers s') i)"

definition untouched :: "('w \<Rightarrow> address \<Rightarrow> address \<Rightarrow> int) \<Rightarrow> address \<Rightarrow> address \<Rightarrow> 'w escrow \<Rightarrow> 'w escrow \<Rightarrow> bool" where
  "untouched bal self t s s' \<longleftrightarrow>
     p_match (pers s') = p_match (pers s) \<and> bal (world s) t self \<le> bal (world s') t self"

lemma settles_stored [simp]:
  assumes "p_match (pers s) i = Some m" "p_match (pers s') = (p_match (pers s))(i \<mapsto> m')"
  shows "settles bal self t i s s' \<longleftrightarrow> plain_match m' \<and>
    owed_in t m' - owed_in t m \<le> bal (world s') t self - bal (world s) t self"
  using assms by (simp add: settles_def)

section \<open>The payments\<close>

text \<open>What a payment takes from the contract at most. A recipient that is the contract itself only
  makes it less.\<close>

lemma transfer_out:
  assumes "sep41 env bal" "token_transfer env t' self b n w = Some w'"
  shows "bal w t self - (if t' = t then n else 0) \<le> bal w' t self" "0 \<le> n"
  using sep41D(1) [OF assms] sep41D(2) [OF assms, of t self] by auto

lemma refund_stakes_cost:
  assumes "sep41 env bal" "m_token_b m = None"
  shows "wp (refund_stakes env m)
     (\<lambda>_ s'. bal (world s) t (current_contract_address env) - (if m_token m = t then depositor_count m * m_stake_amount m else 0)
        \<le> bal (world s') t (current_contract_address env)) (\<lambda>_ _. False) True s"
  using assms(2)
  by (auto simp: refund_stakes_def wp_simps stake_in_token_b_def is_multi_token_def token_b_of_def depositor_count_def
      dest!: transfer_out(1) [OF assms(1), where t = t])

lemma cancellation_fee_bounds:
  assumes "config_ok config" "0 \<le> amount"
  shows "wp (cancellation_fee config amount) (\<lambda>fee s'. s' = s \<and> 0 \<le> fee \<and> fee \<le> amount) (\<lambda>_ s'. s' = s) False s"
proof -
  let ?c = "int (fc_cancellation_fee_basis_points (pc_fees config))"
  have "?c \<le> 10000" using assms(1) by (simp add: config_ok_def)
  then show ?thesis
    using bps_share_bounds [of amount ?c] bps_share_sdiv [of amount ?c] assms(2)
    by (auto simp: cancellation_fee_def wp_simps checked_mul_def to_i128_def)
qed


lemma refund_less_fee_cost:
  assumes "sep41 env bal" "m_token_b m = None" "config_ok config" "0 \<le> m_stake_amount m"
  shows "wp (refund_less_fee env config m)
     (\<lambda>_ s'. bal (world s) t (current_contract_address env) - (if m_token m = t then depositor_count m * m_stake_amount m else 0)
        \<le> bal (world s') t (current_contract_address env)) (\<lambda>_ _. True) True s"
proof -
  let ?fee = "if fc_cancellation_fee_basis_points (pc_fees config) > 0
    then (m_stake_amount m * int (fc_cancellation_fee_basis_points (pc_fees config))) sdiv 10000 else 0"
  have "0 \<le> ?fee"
    using bps_share_bounds [of "m_stake_amount m" "int (fc_cancellation_fee_basis_points (pc_fees config))"]
      bps_share_sdiv [of "m_stake_amount m" "int (fc_cancellation_fee_basis_points (pc_fees config))"] assms(3,4)
    by (auto simp: config_ok_def)
  then show ?thesis
    using assms(2)
    by (auto simp: refund_less_fee_def cancellation_fee_def wp_simps Let_def stake_in_token_b_def is_multi_token_def
        token_b_of_def depositor_count_def checked_sub_def checked_mul_def to_i128_def
        dest!: transfer_out(1) [OF assms(1), where t = t] split: if_splits)
qed

lemma fee_pure [simp]:
  "after (compute_referral_fee env m pot) s = s" "after (compute_protocol_fee env pot) s = s"
proof -
  have "frame (\<lambda>s. s) (compute_referral_fee env m pot)" "frame (\<lambda>s. s) (compute_protocol_fee env pot)"
    by (auto simp: compute_referral_fee_def compute_protocol_fee_def Let_def intro!: frame_rules)
  then show "after (compute_referral_fee env m pot) s = s" "after (compute_protocol_fee env pot) s = s"
    by (auto dest: frame_after)
qed

lemma plain_config_cap:
  "plain_config s \<Longrightarrow> fc_max_protocol_fee (pc_fees (get_config env s)) = Some cap \<Longrightarrow> 0 \<le> cap"
  by (auto simp: plain_config_def get_config_def Let_def split: option.splits)

lemma fees_nonneg:
  assumes "plain_config s" "0 \<le> pot"
  shows "verdict (compute_referral_fee env m pot) s = Ok r \<Longrightarrow> 0 \<le> r"
    and "verdict (compute_protocol_fee env pot) s = Ok p \<Longrightarrow> 0 \<le> p"
proof -
  assume "verdict (compute_referral_fee env m pot) s = Ok r"
  then have "compute_referral_fee env m pot s = (Ok r, s)"
    using fee_pure(1) [of env m pot s] by (simp add: after_def verdict_def prod_eq_iff)
  with assms show "0 \<le> r" by (auto simp: plain_config_def dest: compute_referral_fee_bounds)
next
  assume "verdict (compute_protocol_fee env pot) s = Ok p"
  then have "compute_protocol_fee env pot s = (Ok p, s)"
    using fee_pure(2) [of env pot s] by (simp add: after_def verdict_def prod_eq_iff)
  moreover have "0 \<le> pot * int b div 10000" for b
    using assms(2) by (simp add: pos_imp_zdiv_nonneg_iff)
  ultimately show "0 \<le> p"
    using compute_protocol_fee_value [OF assms(2), of env s p s] assms(2) plain_config_cap [OF assms(1), of env]
    by (auto split: option.splits if_splits)
qed

lemmas wp_fees [wp_simps] =
  wp_after [of "compute_referral_fee env m pot" for env m pot]
  wp_after [of "compute_protocol_fee env pot" for env pot]

lemma pay_winner_cost:
  assumes "sep41 env bal" "plain_config s" "0 \<le> m_stake_amount m"
  shows "wp (pay_winner env config m False player)
     (\<lambda>_ s'. bal (world s) t (current_contract_address env) - (if m_token m = t then 2 * m_stake_amount m else 0)
        \<le> bal (world s') t (current_contract_address env)) (\<lambda>_ _. True) True s"
  using fees_nonneg(1) [OF assms(2), of "m_stake_amount m * 2" env m]
    fees_nonneg(2) [OF assms(2), of "m_stake_amount m * 2" env] assms(3)
  by (simp add: pay_winner_def wp_simps Let_def checked_sub_def checked_mul_def to_i128_def)
    (auto dest!: transfer_out(1) [OF assms(1), where t = t] split: if_splits)

text \<open>The same, for the opaque forms in which the payments appear in the entry points.\<close>

lemmas payments_cost =
  refund_stakes_cost [unfolded wp_after] refund_less_fee_cost [unfolded wp_after]
  pay_winner_cost [unfolded wp_after]

section \<open>The entry points\<close>

definition plain_matches :: "'w escrow \<Rightarrow> bool" where
  "plain_matches s \<longleftrightarrow> (\<forall>i m. p_match (pers s) i = Some m \<longrightarrow> plain_match m)"

lemma plain_matchesD: "plain_matches s \<Longrightarrow> p_match (pers s) i = Some m \<Longrightarrow> plain_match m"
  by (simp add: plain_matches_def)

lemma transfer_in:
  assumes "sep41 env bal" "token_transfer env t' from self n w = Some w'" "from \<noteq> self"
  shows "bal w t self + (if t' = t then n else 0) = bal w' t self" "0 \<le> n"
  using sep41D(1) [OF assms(1,2)] sep41D(2) [OF assms(1,2), of t self] assms(3) by auto

text \<open>The four shapes a deposit stores: the first and the second deposit, by either player.\<close>

lemma deposited_match:
  assumes "plain_match m" "m_state m = Pending"
  shows "\<not> m_player1_deposited m \<Longrightarrow> \<not> m_player2_deposited m \<Longrightarrow>
      plain_match (m\<lparr>m_player1_deposited := True, m_last_heartbeat := x\<rparr>) \<and>
      owed_in t (m\<lparr>m_player1_deposited := True, m_last_heartbeat := x\<rparr>) = owed_in t m + (if m_token m = t then m_stake_amount m else 0)"
    and "\<not> m_player1_deposited m \<Longrightarrow> \<not> m_player2_deposited m \<Longrightarrow>
      plain_match (m\<lparr>m_player2_deposited := True, m_last_heartbeat := x\<rparr>) \<and>
      owed_in t (m\<lparr>m_player2_deposited := True, m_last_heartbeat := x\<rparr>) = owed_in t m + (if m_token m = t then m_stake_amount m else 0)"
    and "\<not> m_player1_deposited m \<Longrightarrow> m_player2_deposited m \<Longrightarrow> in_i128 (2 * m_stake_amount m) \<Longrightarrow>
      plain_match (m\<lparr>m_player1_deposited := True, m_last_heartbeat := x, m_state := Active, m_activated_at := y\<rparr>) \<and>
      owed_in t (m\<lparr>m_player1_deposited := True, m_last_heartbeat := x, m_state := Active, m_activated_at := y\<rparr>)
        = owed_in t m + (if m_token m = t then m_stake_amount m else 0)"
    and "m_player1_deposited m \<Longrightarrow> \<not> m_player2_deposited m \<Longrightarrow> in_i128 (2 * m_stake_amount m) \<Longrightarrow>
      plain_match (m\<lparr>m_player2_deposited := True, m_last_heartbeat := x, m_state := Active, m_activated_at := y\<rparr>) \<and>
      owed_in t (m\<lparr>m_player2_deposited := True, m_last_heartbeat := x, m_state := Active, m_activated_at := y\<rparr>)
        = owed_in t m + (if m_token m = t then m_stake_amount m else 0)"
  using assms by (auto simp: plain_match_def match_wf_def owed_in_def owed_def depositor_count_def)

lemma deposit_funds:
  assumes "sep41 env bal" "\<not> authorized env (current_contract_address env)" "plain_matches s"
  shows "wp (deposit env i p) (\<lambda>_. settles bal (current_contract_address env) t i s)
    (\<lambda>_. untouched bal (current_contract_address env) t s) True s"
proof -
  have paid: "bal w' t (current_contract_address env) = bal w t (current_contract_address env) + (if t' = t then n else 0)"
    if "token_transfer env t' q (current_contract_address env) n w = Some w'" "authorized env q" for t' q n w w'
  proof -
    have "q \<noteq> current_contract_address env" using that(2) assms(2) by metis
    from transfer_in(1) [OF assms(1) that(1) this, of t] show ?thesis by simp
  qed
  have pos: "0 \<le> m_stake_amount m" if "plain_match m" for m using that by (simp add: plain_match_def match_wf_def)
  show ?thesis
    using plain_matchesD [OF assms(3), of i]
    by (simp add: deposit_wp wp_simps Let_def untouched_def paid deposited_match pos escrow_balance_of_def
        depositor_count_def to_i128_def)
qed

lemma cancelled_match:
  assumes "plain_match m" "m_state m \<noteq> Completed"
  shows "plain_match (m\<lparr>m_state := Cancelled, m_completed_ledger := l\<rparr>)"
    and "owed_in t (m\<lparr>m_state := Cancelled, m_completed_ledger := l\<rparr>) = 0"
  using assms by (auto simp: plain_match_def match_wf_def owed_in_def owed_def)

lemma same_owed [simp]:
  "plain_match (m\<lparr>m_rollback_vote_player1 := b\<rparr>) = plain_match m"
  "plain_match (m\<lparr>m_rollback_vote_player2 := b\<rparr>) = plain_match m"
  "plain_match (m\<lparr>m_last_heartbeat := x\<rparr>) = plain_match m"
  "owed_in t (m\<lparr>m_rollback_vote_player1 := b\<rparr>) = owed_in t m"
  "owed_in t (m\<lparr>m_rollback_vote_player2 := b\<rparr>) = owed_in t m"
  "owed_in t (m\<lparr>m_last_heartbeat := x\<rparr>) = owed_in t m"
  by (auto simp: plain_match_def match_wf_def owed_in_def owed_def depositor_count_def
      split: match_state.split winner.split)

lemma depositors_owed:
  assumes "plain_match m" "m_state m \<in> {Pending, Active, Paused}"
  shows "(if m_token m = t then depositor_count m * m_stake_amount m else 0) = owed_in t m"
  using assms by (cases "m_state m") (simp_all add: plain_match_def match_wf_def owed_in_def owed_def depositor_count_def)

text \<open>A refund that returns costs what was owed.\<close>

lemma refund_stakes_covered:
  assumes "sep41 env bal" "plain_match m" "m_state m \<in> {Pending, Active, Paused}"
  shows "verdict (refund_stakes env m) s = Ok a \<Longrightarrow> owed_in t m' = owed_in t m \<Longrightarrow> world s = w \<Longrightarrow>
      - owed_in t m' \<le> bal (world (after (refund_stakes env m) s)) t (current_contract_address env)
                     - bal w t (current_contract_address env)"
    and "verdict (refund_stakes env m) s \<noteq> Err e"
  using payments_cost(1) [OF assms(1), of m s t] assms(2) depositors_owed [OF assms(2,3), of t]
  by (auto simp: plain_match_def)

lemma refund_less_fee_covered:
  assumes "sep41 env bal" "plain_match m" "m_state m = Pending" "config_ok config"
  shows "verdict (refund_less_fee env config m) s = Ok a \<Longrightarrow>
      - owed_in t m \<le> bal (world (after (refund_less_fee env config m) s)) t (current_contract_address env)
                     - bal (world s) t (current_contract_address env)"
  using payments_cost(2) [OF assms(1) _ assms(4), of m s t] assms(2,3) depositors_owed [OF assms(2), of t]
  by (auto simp: plain_match_def match_wf_def)

lemma expire_funds:
  assumes "sep41 env bal" "plain_matches s"
  shows "wp (expire_match env i) (\<lambda>_. settles bal (current_contract_address env) t i s)
    (\<lambda>_. untouched bal (current_contract_address env) t s) True s"
  using plain_matchesD [OF assms(2), of i]
  by (simp add: expire_match_def wp_simps Let_def untouched_def cancelled_match refund_stakes_covered [OF assms(1)])

lemma recover_funds:
  assumes "sep41 env bal" "plain_matches s"
  shows "wp (admin_recover_match env i) (\<lambda>_. settles bal (current_contract_address env) t i s) (\<lambda>_ _. True) True s"
  using plain_matchesD [OF assms(2), of i]
  by (simp add: admin_recover_match_def admin_only_def wp_simps Let_def cancelled_match refund_stakes_covered [OF assms(1)])

lemma cancel_funds:
  assumes "sep41 env bal" "plain_matches s" "config_inv s"
  shows "wp (cancel_match env i c) (\<lambda>_. settles bal (current_contract_address env) t i s) (\<lambda>_ _. True) True s"
  using plain_matchesD [OF assms(2), of i] config_ok_get_config [OF assms(3), of env]
  by (simp add: cancel_match_def wp_simps Let_def cancelled_match refund_less_fee_covered [OF assms(1)])

lemma rollback_funds:
  assumes "sep41 env bal" "plain_matches s"
  shows "wp (dispute_and_rollback_match env i d r) (\<lambda>_. settles bal (current_contract_address env) t i s) (\<lambda>_ _. True) True s"
  using plain_matchesD [OF assms(2), of i]
  apply (simp add: dispute_and_rollback_match_def wp_simps Let_def cancelled_match refund_stakes_covered [OF assms(1)])
  done

lemma running_match:
  assumes "plain_match m"
  shows "m_state m = Active \<Longrightarrow> plain_match (m\<lparr>m_state := Paused, m_paused_ledger := x\<rparr>) \<and>
      owed_in t (m\<lparr>m_state := Paused, m_paused_ledger := x\<rparr>) = owed_in t m"
    and "m_state m = Paused \<Longrightarrow> plain_match (m\<lparr>m_state := Active, m_paused_ledger := x\<rparr>) \<and>
      owed_in t (m\<lparr>m_state := Active, m_paused_ledger := x\<rparr>) = owed_in t m"
    and "m_state m = Paused \<Longrightarrow> plain_match (m\<lparr>m_total_pause_duration := d, m_state := Active, m_paused_ledger := x\<rparr>) \<and>
      owed_in t (m\<lparr>m_total_pause_duration := d, m_state := Active, m_paused_ledger := x\<rparr>) = owed_in t m"
  using assms by (auto simp: plain_match_def match_wf_def owed_in_def owed_def)

lemma running_funds:
  assumes "plain_matches s"
  shows "wp (heartbeat_match env i p) (\<lambda>_. settles bal self t i s) (\<lambda>_ _. True) True s"
    and "wp (pause_match env i p) (\<lambda>_. settles bal self t i s) (\<lambda>_ _. True) True s"
    and "wp (resume_match env i p) (\<lambda>_. settles bal self t i s) (\<lambda>_ _. True) True s"
  using plain_matchesD [OF assms, of i]
  by (simp_all add: heartbeat_match_def pause_match_def resume_match_def wp_simps Let_def running_match split: option.split)

lemma settled_match:
  assumes "plain_match m" "m_state m = Active \<or> m_state m = Paused" "w \<noteq> NoWinner"
  shows "plain_match (m\<lparr>m_state := Completed, m_winner := w, m_vested_at := Some v, m_completed_ledger := l\<rparr>)"
    and "owed_in t (m\<lparr>m_state := Completed, m_winner := w, m_vested_at := Some v, m_completed_ledger := l\<rparr>) = owed_in t m"
  using assms
  by (auto simp: plain_match_def match_wf_def owed_in_def owed_def split: winner.split)

lemma settle_result_funds:
  assumes "plain_matches s" "get_dispute_period s = 0"
  shows "wp (settle_result env i w c) (\<lambda>_. settles bal self t i s)
    (\<lambda>_ s'. settles bal self t i s s' \<or> untouched bal self t s s') True s"
  using plain_matchesD [OF assms(1), of i] assms(2)
  apply (simp add: settle_result_def wp_simps Let_def get_dispute_period_def settled_match untouched_def)
  done


lemma pay_stalled_cost:
  assumes "sep41 env bal" "m_token_b m = None"
  shows "wp (pay_stalled env m w)
     (\<lambda>_ s'. bal (world s) t (current_contract_address env) - (if m_token m = t then 2 * m_stake_amount m else 0)
        \<le> bal (world s') t (current_contract_address env)) (\<lambda>_ _. True) True s"
  using assms(2)
  by (cases w) (auto simp: pay_stalled_def stalled_pot_def wp_simps stake_in_token_b_def is_multi_token_def token_b_of_def
      Let_def checked_mul_def to_i128_def dest!: transfer_out(1) [OF assms(1), where t = t] split: if_splits)

lemma pay_stalled_covered:
  assumes "sep41 env bal" "plain_match m" "m_state m = Active \<or> m_state m = Paused"
  shows "verdict (pay_stalled env m w) s = Ok a \<Longrightarrow> world s = w0 \<Longrightarrow>
      - owed_in t m \<le> bal (world (after (pay_stalled env m w) s)) t (current_contract_address env)
                     - bal w0 t (current_contract_address env)"
  using pay_stalled_cost [unfolded wp_after, OF assms(1), of m w s t] assms(2,3)
  by (auto simp: plain_match_def owed_in_def owed_def)

lemma stalled_match:
  assumes "plain_match m" "m_state m = Active \<or> m_state m = Paused" "w \<noteq> NoWinner"
  shows "plain_match (m\<lparr>m_state := Completed, m_winner := w, m_completed_ledger := l\<rparr>)"
    and "owed_in t (m\<lparr>m_state := Completed, m_winner := w, m_completed_ledger := l\<rparr>) = 0"
  using assms by (auto simp: plain_match_def match_wf_def owed_in_def owed_def)

lemma stalled_funds:
  assumes "sep41 env bal" "plain_matches s"
  shows "wp (admin_resolve_stalled_match env i c w) (\<lambda>_. settles bal (current_contract_address env) t i s) (\<lambda>_ _. True) True s"
  using plain_matchesD [OF assms(2), of i]
  by (simp add: admin_resolve_stalled_match_def wp_simps Let_def stalled_match)
    (auto intro!: pay_stalled_covered [OF assms(1)])

lemma claimed_match:
  assumes "plain_match m" "m_state m = Completed" "m_vested_at m = Some v"
  shows "plain_match (m\<lparr>m_player1_claimed := True\<rparr>)" "plain_match (m\<lparr>m_player2_claimed := True\<rparr>)"
    and "\<not> m_player1_claimed m \<Longrightarrow> owed_in t (m\<lparr>m_player1_claimed := True\<rparr>) = owed_in t m - (if m_token m \<noteq> t then 0
      else if m_winner m = Player1 then 2 * m_stake_amount m else if m_winner m = Draw then m_stake_amount m else 0)"
    and "\<not> m_player2_claimed m \<Longrightarrow> owed_in t (m\<lparr>m_player2_claimed := True\<rparr>) = owed_in t m - (if m_token m \<noteq> t then 0
      else if m_winner m = Player2 then 2 * m_stake_amount m else if m_winner m = Draw then m_stake_amount m else 0)"
  using assms by (auto simp: plain_match_def match_wf_def owed_in_def owed_def split: winner.split)

lemma no_swap:
  "m_token_b m = None \<Longrightarrow> (case x of None \<Rightarrow> False | Some pt \<Rightarrow> pt \<noteq> m_token m \<and> m_token_b m = Some pt \<and>
     (case m_conversion_rate m of None \<Rightarrow> False | Some r \<Rightarrow> 0 < r)) = False"
  by (simp split: option.split)

lemma claim_funds:
  assumes "sep41 env bal" "plain_matches s" "plain_config s"
  shows "wp (claim_vested_payout env i p) (\<lambda>_. settles bal (current_contract_address env) t i s) (\<lambda>_ _. True) True s"
proof (cases "p_match (pers s) i")
  case None
  then show ?thesis by (simp add: claim_vested_payout_def wp_simps Let_def)
next
  case (Some m)
  then have m: "plain_match m" "m_token_b m = None" "0 \<le> m_stake_amount m"
    using plain_matchesD [OF assms(2) Some] by (simp_all add: plain_match_def match_wf_def)
  have won: "bal (world s) t (current_contract_address env) - (if m_token m = t then 2 * m_stake_amount m else 0)
      \<le> bal (world (after (pay_winner env config m False q) s)) t (current_contract_address env)"
    if "verdict (pay_winner env config m False q) s = Ok a" for config q a
    using payments_cost(3) [OF assms(1,3) m(3), of config q t] that by blast
  show ?thesis
    by (simp add: claim_vested_payout_def wp_simps Let_def Some no_swap m(2) claimed_match [OF m(1)])
      (auto dest!: won transfer_out(1) [OF assms(1), where t = t])
qed

end
