(* ===== verification/Escrow_Runs.thy ===== *)
theory Escrow_Runs
  imports Escrow_Samples
begin

text \<open>
  A concrete run: on the initialised contract of \<^verbatim>\<open>Escrow_Samples\<close>, \<open>Address 3\<close> opens
  a match against \<open>Address 4\<close> over 50 units and deposits. The contract itself signs nothing in
  these transactions.
\<close>

definition player_env :: "u32 \<Rightarrow> u64 \<Rightarrow> ledger env" where
  "player_env seq now = ledger_env (Address 0) seq now (\<lambda>a. a \<noteq> Address 0)"

lemma player_env_fields [simp]:
  "current_contract_address (player_env seq now) = Address 0" "ledger_sequence (player_env seq now) = seq"
  "ledger_timestamp (player_env seq now) = now" "authorized (player_env seq now) a = (a \<noteq> Address 0)"
  "token_transfer (player_env seq now) = ledger_transfer" "token_symbol (player_env seq now) = (\<lambda>_ _. None)"
  by (simp_all add: player_env_def ledger_env_def)

lemma sample_reads [simp]:
  "i_blacklisted_token (inst sample_state) = Map.empty" "is_token_blacklisted t sample_state = False"
  "is_allowlist_enforced sample_state = False"
  "sc_stablecoin_only_mode (pc_stakes (get_config env sample_state)) = False"
  "sc_minimum_stake (pc_stakes (get_config env sample_state)) = 1"
  "sc_maximum_stake (pc_stakes (get_config env sample_state)) = None"
  by (simp_all add: sample_state_def after_def initialize_def run_simps sample_env_def ledger_env_def
      deployed_def empty_instance_def is_token_blacklisted_def is_allowlist_enforced_def get_config_def Let_def config_consts)

definition sample_params :: match_params where
  "sample_params = \<lparr>mp_player1 = Address 3, mp_player2 = Address 4,
       mp_stake_amount = 50, mp_token = Address 9, mp_token_b = None,
       mp_conversion_rate = None, mp_game_id = ''abcd1234'', mp_platform = Lichess,
       mp_referrer = None, mp_bracket_id = None, mp_round = None\<rparr>"

lemma create_guards_pass: "create_match_guards (player_env 100 500) sample_params sample_state = (Ok (), sample_state)"
  by (simp add: create_match_guards_def sample_params_def eval_defs
    require_player_not_frozen_def require_player_tier_for_stake_def validate_game_id_format_def tier_consts index_consts
    completed_match_count_def tier_for_completed_matches_def is_ascii_alphanumeric_def)

lemma create_match_sample:
  "create_match e (Address 3) (Address 4) 50 (Address 9) ''abcd1234'' Lichess =
     create_match_internal e sample_params"
  by (simp add: create_match_def sample_params_def)

lemmas creation_eval_defs = sample_params_def eval_defs check_conversion_rate_def append_player_match_def
  new_match_def int_simps u64_max_def

definition created_state :: "ledger escrow" where
  "created_state = after (create_match_internal (player_env 100 500) sample_params) sample_state"

lemma created_run: "create_match_internal (player_env 100 500) sample_params sample_state = (Ok 0, created_state)"
  and created_match: "p_match (pers created_state) = [0 \<mapsto>
    sample_match\<lparr>m_id := 0, m_state := Pending, m_player1_deposited := False, m_player2_deposited := False,
      m_last_heartbeat := 500, m_activated_at := None\<rparr>]"
  by (simp_all add: created_state_def after_def create_match_internal_def create_guards_pass run_bnd)
    (simp_all add: creation_eval_defs)

lemma created_fields [simp]:
  "inst created_state = (inst sample_state)\<lparr>i_match_count := Some 1\<rparr>"
  "t_deposit_in_progress created_state = Map.empty"
  "world created_state = sample_ledger"
  "p_player_completed_match_count (pers created_state) = Map.empty"
  "p_token_symbol (pers created_state) = Map.empty"
  by (simp_all add: created_state_def after_def create_match_internal_def create_guards_pass run_bnd)
    (simp_all add: creation_eval_defs)

definition half_funded_state :: "ledger escrow" where
  "half_funded_state = after (deposit (player_env 101 505) 0 (Address 3)) created_state"

lemma half_funded_run: "deposit (player_env 101 505) 0 (Address 3) created_state = (Ok (), half_funded_state)"
  and half_funded_match: "p_match (pers half_funded_state) = [0 \<mapsto>
    sample_match\<lparr>m_id := 0, m_state := Pending, m_player1_deposited := True, m_player2_deposited := False,
      m_last_heartbeat := 505, m_activated_at := None\<rparr>]"
  and half_funded_inst: "inst half_funded_state = (inst sample_state)\<lparr>i_match_count := Some 1\<rparr>"
  and half_funded_world: "world half_funded_state = sample_ledger(Address 9 := (\<lambda>_. 1000)(Address 3 := 950, Address 0 := 1050))"
  by (simp_all add: half_funded_state_def after_def deposit_def created_match eval_defs require_player_not_frozen_def set_deposit_guard_def
    reject_clearing_guard_def require_player_tier_for_stake_def ledger_transfer_def int_simps sample_ledger_def tier_consts
    completed_match_count_def tier_for_completed_matches_def u64_max_def)

end
