(* ===== verification/Escrow_Solvency.thy ===== *)
theory Escrow_Solvency
  imports Escrow_Funds Escrow_Runs
begin

text \<open>
  Solvency: from the single entry points of \<open>Escrow_Funds\<close> to every transaction. The
  contract's balance of a token covers what it owes in that token in every state that transactions of
  the considered kind reach.
\<close>

section \<open>Transactions\<close>

text \<open>Between two states of the considered kind the surplus of the contract did not shrink.\<close>

definition considered :: "'w escrow \<Rightarrow> bool" where
  "considered s \<longleftrightarrow> finite (dom (p_match (pers s))) \<and> plain_matches s \<and> plain_config s"

definition surplus :: "('w \<Rightarrow> address \<Rightarrow> address \<Rightarrow> int) \<Rightarrow> address \<Rightarrow> address \<Rightarrow> 'w escrow \<Rightarrow> int" where
  "surplus bal self t s = bal (world s) t self - liabilities t s"

definition keeps_surplus :: "('w \<Rightarrow> address \<Rightarrow> address \<Rightarrow> int) \<Rightarrow> address \<Rightarrow> address \<Rightarrow> 'w escrow \<Rightarrow> 'w escrow \<Rightarrow> bool" where
  "keeps_surplus bal self t s s' \<longleftrightarrow>
     (considered s \<longrightarrow> considered s' \<and> surplus bal self t s \<le> surplus bal self t s')"

interpretation funds: state_order "keeps_surplus bal self t" for bal self t
  by unfold_locales (auto simp: keeps_surplus_def)

abbreviation fee_fields :: "'w escrow \<Rightarrow> _" where
  "fee_fields s \<equiv> (parameters s, i_dispute_period (inst s))"

lemma plain_config_same: "fee_fields s' = fee_fields s \<Longrightarrow> plain_config s' = plain_config s"
  by (simp add: plain_config_def config_inv_def config_getters)

lemma untouched_surplus:
  "untouched bal self t s s' \<Longrightarrow> plain_config s \<longrightarrow> plain_config s' \<Longrightarrow> keeps_surplus bal self t s s'"
  by (simp add: untouched_def keeps_surplus_def considered_def plain_matches_def surplus_def liabilities_def)

lemma settles_surplus:
  assumes "settles bal self t i s s'" "plain_config s \<longrightarrow> plain_config s'"
  shows "keeps_surplus bal self t s s'"
proof -
  from assms(1) obtain m m' where m: "p_match (pers s) i = Some m" "p_match (pers s') i = Some m'" "plain_match m'"
      and step: "owed_in t m' - owed_in t m \<le> bal (world s') t self - bal (world s) t self"
    by (auto simp: settles_def split: option.splits)
  from assms(1) m(2) have stored: "p_match (pers s') = (p_match (pers s))(i \<mapsto> m')" by (simp add: settles_def)
  show ?thesis
    unfolding keeps_surplus_def
  proof
    assume c: "considered s"
    then have "considered s'"
      using assms(2) m(3) stored by (auto simp: considered_def plain_matches_def)
    moreover have "liabilities t s' = liabilities t s - owed_in t m + owed_in t m'"
      using liabilities_update [OF _ m(1) stored] c by (simp add: considered_def)
    ultimately show "considered s' \<and> surplus bal self t s \<le> surplus bal self t s'"
      using step by (simp add: surplus_def)
  qed
qed

lemma created_surplus:
  assumes "created i s s'" "world s' = world s" "plain_config s \<longrightarrow> plain_config s'"
    and "\<And>m. p_match (pers s') i = Some m \<Longrightarrow> m_token_b m = None"
  shows "keeps_surplus bal self t s s'"
proof -
  from assms(1) obtain m where m: "p_match (pers s) i = None" "p_match (pers s') i = Some m"
      "p_match (pers s') = (p_match (pers s))(i \<mapsto> m)" "m_state m = Pending"
      "\<not> m_player1_deposited m" "\<not> m_player2_deposited m" "config_inv s \<longrightarrow> match_wf m"
    by (auto simp: created_def split: option.splits)
  have "owed_in t m = 0" using m by (simp add: owed_in_def owed_def depositor_count_def)
  moreover have "plain_match m" if "config_inv s" using that m assms(4) by (simp add: plain_match_def)
  ultimately have new: "owed_in t m = 0" "config_inv s \<Longrightarrow> plain_match m" by auto
  show ?thesis
    unfolding keeps_surplus_def
  proof
    assume c: "considered s"
    then have "plain_matches s'" "plain_config s'" "finite (dom (p_match (pers s')))"
      using new(2) assms(3) by (auto simp: considered_def plain_matches_def plain_config_def m(3))
    moreover have "liabilities t s' = liabilities t s"
      using liabilities_create [OF _ m(1) m(3), of t] c new(1) by (simp add: considered_def)
    ultimately show "considered s' \<and> surplus bal self t s \<le> surplus bal self t s'"
      using assms(2) by (simp add: considered_def surplus_def)
  qed
qed

text \<open>The fields the fees depend on are beyond the reach of matches and results.\<close>

lemma fee_fields_match: "exec_match env c s = (r, s') \<Longrightarrow> fee_fields s' = fee_fields s"
  using frame_run [OF parameter_part.frame_exec_match] frame_run [OF listing_part.frame_exec_match] by fastforce

lemma fee_fields_result: "exec_result env c s = (r, s') \<Longrightarrow> fee_fields s' = fee_fields s"
  using frame_run [OF parameter_part.frame_exec_result] frame_run [OF listing_part.frame_exec_result] by fastforce

lemma surplus_obeysI:
  assumes "\<And>s s' r. m s = (r, s') \<Longrightarrow> fee_fields s' = fee_fields s"
    and "\<And>s. considered s \<Longrightarrow> wp m (\<lambda>_ s'. settles bal self t i s s' \<or> untouched bal self t s s')
      (\<lambda>_ s'. settles bal self t i s s' \<or> untouched bal self t s s') True s"
  shows "funds.obeys bal self t m"
  unfolding funds.obeys_def
proof
  fix s
  obtain r s' where run: "m s = (r, s')" by fastforce
  have "keeps_surplus bal self t s s'" if "r \<noteq> Trap"
  proof (cases "considered s")
    case True
    from assms(2) [OF this] run that have "settles bal self t i s s' \<or> untouched bal self t s s'"
      by (cases r) (auto simp: wp_def)
    moreover have "plain_config s' = plain_config s" using plain_config_same assms(1) [OF run] by blast
    ultimately show ?thesis by (auto intro: settles_surplus untouched_surplus)
  next
    case False
    then show ?thesis by (simp add: keeps_surplus_def)
  qed
  with run show "wp m (\<lambda>_. keeps_surplus bal self t s) (\<lambda>_. keeps_surplus bal self t s) True s"
    by (cases r) (auto simp: wp_def)
qed

lemma batch_parts_obey:
  assumes "sep41 env bal" "\<not> authorized env (current_contract_address env)"
  defines "self \<equiv> current_contract_address env"
  shows "funds.obeys bal self t (deposit env i p)" "funds.obeys bal self t (expire_match env i)"
    "funds.obeys bal self t (settle_result env i w c)"
proof -
  show "funds.obeys bal self t (deposit env i p)"
    by (rule surplus_obeysI [where i = i])
      (use fee_fields_match [of env "Deposit i p"] in \<open>auto simp: self_def considered_def
        intro!: wp_mono [OF deposit_funds [OF assms(1,2), where t = t]]\<close>)
  show "funds.obeys bal self t (expire_match env i)"
    by (rule surplus_obeysI [where i = i])
      (use fee_fields_match [of env "ExpireMatch i"] in \<open>auto simp: self_def considered_def
        intro!: wp_mono [OF expire_funds [OF assms(1), where t = t]]\<close>)
  have "frame fee_fields (settle_result env i w c)"
    by (auto simp: settle_result_def helper_op_defs Let_def intro!: frame_rules)
  then show "funds.obeys bal self t (settle_result env i w c)"
    by (intro surplus_obeysI [where i = i])
      (auto simp: considered_def plain_config_def dest: frame_run
        intro!: wp_mono [OF settle_result_funds [where t = t]])
qed

lemma created_token_b:
  "wp (create_match_internal env params)
     (\<lambda>i s'. \<forall>m. p_match (pers s') i = Some m \<longrightarrow> m_token_b m = mp_token_b params) (\<lambda>_ _. True) True s"
  by (simp add: create_match_internal_def wp_simps Let_def append_player_match_def split: option.split)

lemma created_world: "frame world (create_match_internal env params)"
  by (auto simp: create_match_internal_def create_match_guards_def check_conversion_rate_def helper_op_defs load_oracle_def
      Let_def intro!: frame_rules split: option.split)

lemma creation_surplus:
  assumes "create_match_internal env params s = (Ok i, s')" "mp_token_b params = None" "fee_fields s' = fee_fields s"
  shows "keeps_surplus bal self t s s'"
proof (rule created_surplus)
  show "created i s s'" using wp_okD [OF create_match_step assms(1)] .
  show "world s' = world s" using frame_run [OF created_world assms(1)] .
  show "plain_config s \<longrightarrow> plain_config s'" using plain_config_same [OF assms(3)] by simp
  show "m_token_b m = None" if "p_match (pers s') i = Some m" for m
    using wp_okD [OF created_token_b assms(1)] that assms(2) by simp
qed

lemma ok_surplus:
  assumes "m s = (Ok a, s')" "considered s \<Longrightarrow> wp m (\<lambda>_. settles bal self t i s) (\<lambda>_ _. True) True s"
    and "fee_fields s' = fee_fields s"
  shows "keeps_surplus bal self t s s'"
proof (cases "considered s")
  case True
  from wp_okD [OF assms(2) [OF this] assms(1)] show ?thesis
    by (rule settles_surplus) (use plain_config_same [OF assms(3)] in simp)
qed (simp add: keeps_surplus_def)

lemma discard_ok: "discard m s = (Ok (), s') \<Longrightarrow> \<exists>a. m s = (Ok a, s')"
  by (auto simp: discard_def run_simps split: prod.splits outcome.splits)

fun single_token :: "match_call \<Rightarrow> bool" where
  "single_token (CreateMatchWithConversion _ _ _ _ _ _ _ _) = False"
| "single_token _ = True"

lemma single_token_creation:
  assumes "exec_match env c s = (Ok (), s')" "is_creation c" "single_token c"
  obtains params i where "mp_token_b params = None" "create_match_internal env params s = (Ok i, s')"
proof -
  have "\<exists>params i. mp_token_b params = None \<and> create_match_internal env params s = (Ok i, s')"
    using assms
    by (cases c)
      (force simp: create_match_def create_match_tournament_def create_match_with_referrer_def dest: discard_ok)+
  with that show ?thesis by blast
qed

lemma match_surplus:
  assumes "sep41 env bal" "\<not> authorized env (current_contract_address env)" "single_token c"
    and run: "exec_match env c s = (Ok (), s')"
  shows "keeps_surplus bal (current_contract_address env) t s s'"
proof (cases "is_creation c")
  case True
  with run assms(3) obtain params i where "mp_token_b params = None" "create_match_internal env params s = (Ok i, s')"
    using single_token_creation by blast
  then show ?thesis using creation_surplus fee_fields_match [OF run] by blast
next
  case False
  note obeys = batch_parts_obey [OF assms(1,2)]
  note fields = fee_fields_match [OF run]
  let ?self = "current_contract_address env"
  show ?thesis
  proof (cases c)
    case (Deposit i p)
    with run obeys(1) [of t i p] show ?thesis by (auto intro: funds.obeys_run)
  next
    case (DepositBatch es)
    have "funds.obeys bal ?self t (exec_match env (DepositBatch es))"
      by (auto simp: deposit_batch_def discard_def Let_def split: option.split intro!: funds.obeys_rules obeys)
    with run DepositBatch show ?thesis by (auto intro: funds.obeys_run)
  next
    case (BulkExpireMatches ids)
    have "funds.obeys bal ?self t (exec_match env (BulkExpireMatches ids))"
      by (auto simp: bulk_expire_matches_def discard_def require_auth_def Let_def split: option.split
          intro!: funds.obeys_rules obeys)
    with run BulkExpireMatches show ?thesis by (auto intro: funds.obeys_run)
  next
    case (ExpireMatch i)
    with run obeys(2) [of t i] show ?thesis by (auto intro: funds.obeys_run)
  next
    case (CancelMatch i caller)
    with run have "cancel_match env i caller s = (Ok (), s')" by simp
    then show ?thesis
      by (rule ok_surplus [where i = i, OF _ _ fields])
        (auto simp: considered_def plain_config_def intro!: cancel_funds [OF assms(1)])
  next
    case (AdminRecoverMatch i)
    with run have "admin_recover_match env i s = (Ok (), s')" by simp
    then show ?thesis
      by (rule ok_surplus [where i = i, OF _ _ fields])
        (auto simp: considered_def plain_config_def intro!: recover_funds [OF assms(1)])
  next
    case (DisputeAndRollbackMatch i d r)
    with run have "dispute_and_rollback_match env i d r s = (Ok (), s')" by simp
    then show ?thesis
      by (rule ok_surplus [where i = i, OF _ _ fields])
        (auto simp: considered_def plain_config_def intro!: rollback_funds [OF assms(1)])
  next
    case (AdminResolveStalledMatch i caller w)
    with run have "admin_resolve_stalled_match env i caller w s = (Ok (), s')" by simp
    then show ?thesis
      by (rule ok_surplus [where i = i, OF _ _ fields])
        (auto simp: considered_def plain_config_def intro!: stalled_funds [OF assms(1)])
  next
    case (PauseMatch i p)
    with run have "pause_match env i p s = (Ok (), s')" by simp
    then show ?thesis
      by (rule ok_surplus [where i = i, OF _ _ fields])
        (auto simp: considered_def plain_config_def intro!: running_funds)
  next
    case (ResumeMatch i p)
    with run have "resume_match env i p s = (Ok (), s')" by simp
    then show ?thesis
      by (rule ok_surplus [where i = i, OF _ _ fields])
        (auto simp: considered_def plain_config_def intro!: running_funds)
  next
    case (UpdateHeartbeat i p)
    with run have "heartbeat_match env i p s = (Ok (), s')" by (simp add: update_heartbeat_def)
    then show ?thesis
      by (rule ok_surplus [where i = i, OF _ _ fields])
        (auto simp: considered_def plain_config_def intro!: running_funds)
  qed (use False in auto)
qed

lemma same_fields_obey:
  "frame (\<lambda>s. (p_match (pers s), world s, fee_fields s)) m \<Longrightarrow> funds.obeys bal self t m"
proof (rule funds.obeys_frame, assumption)
  fix s s' :: "'a escrow"
  assume same: "(p_match (pers s'), world s', fee_fields s') = (p_match (pers s), world s, fee_fields s)"
  then have "plain_config s' = plain_config s" by (intro plain_config_same) simp
  with same show "keeps_surplus bal self t s s'" by (intro untouched_surplus) (simp_all add: untouched_def)
qed

lemma preambles_obey:
  "funds.obeys bal self t (effective_oracle env)" "funds.obeys bal self t (require_auth env a)"
  "funds.obeys bal self t load_admin" "funds.obeys bal self t (load_match i)"
  "funds.obeys bal self t (mark_oracle_deadlock i x y)" "funds.obeys bal self t (check_oracle_deadlock i x y)"
  "funds.obeys bal self t (publish topic name vals)"
  "funds.obeys bal self t (vote_on_dispute env d v b)"
  "funds.obeys bal self t (mark_dispute_for_oracle_slash env d amount)"
  by (auto simp: consensus_op_defs vote_on_dispute_def mark_dispute_for_oracle_slash_def store_dispute_def load_dispute_def
      Let_def intro!: same_fields_obey frame_rules)

lemma upd_pers_surplus:
  "(\<And>p. p_match (h p) = p_match p) \<Longrightarrow> (\<And>p. p_fee_tiers (h p) = p_fee_tiers p) \<Longrightarrow> funds.obeys bal self t (upd_pers h)"
  by (auto intro!: same_fields_obey frame_rules)

text \<open>Without a dispute period no result is ever pending, so the entry points of pending results
  do nothing.\<close>

lemma no_pending_result:
  assumes "plain_matches s"
  shows "wp (finalize_match env i) (\<lambda>_ _. False) (\<lambda>_ _. True) True s"
    and "wp (dispute_oracle_result env i d h) (\<lambda>_ _. False) (\<lambda>_ _. True) True s"
    and "wp (resolve_dispute_by_vote env dd) (\<lambda>_ _. False) (\<lambda>_ _. True) True s"
proof -
  have idle: "m_state m \<noteq> PendingResult" if "p_match (pers s) j = Some m" for j m
    using plain_matchesD [OF assms that] by (simp add: plain_match_def)
  show "wp (finalize_match env i) (\<lambda>_ _. False) (\<lambda>_ _. True) True s"
    by (simp add: finalize_match_def wp_bnd wp_load_match wp_reject_if idle)
  show "wp (dispute_oracle_result env i d h) (\<lambda>_ _. False) (\<lambda>_ _. True) True s"
    by (simp add: dispute_oracle_result_def wp_bnd wp_load_match wp_reject_if wp_require_auth wp_seqs_Cons idle
        del: seqs.simps)
  show "wp (resolve_dispute_by_vote env dd) (\<lambda>_ _. False) (\<lambda>_ _. True) True s"
    by (simp add: resolve_dispute_by_vote_def wp_bnd wp_load_dispute wp_load_match wp_reject_if wp_seqs_Cons
        wp_seqs_Nil Let_def idle del: seqs.simps)
qed

lemma settlement_obeys:
  assumes "sep41 env bal" "\<not> authorized env (current_contract_address env)"
  defines "self \<equiv> current_contract_address env"
  shows "funds.obeys bal self t (submit_result env i w a c)"
    and "funds.obeys bal self t (submit_draw env i a c)"
    and "funds.obeys bal self t (submit_result_with_oracle_record env i w g a)"
    and "funds.obeys bal self t (resolve_oracle_deadlock env i w)"
    and "funds.obeys bal self t (submit_result_consensus env i w a)"
    and "funds.obeys bal self t (submit_result_batch env rs a)"
  using batch_parts_obey(3) [OF assms(1,2)]
  by (auto simp: submit_result_def submit_draw_def submit_result_with_oracle_record_def submit_result_batch_def
      resolve_oracle_deadlock_def admin_only_def submit_result_consensus_def self_def load_oracle_def Let_def
      intro!: funds.obeys_rules preambles_obey upd_pers_surplus)

lemma result_surplus:
  assumes "sep41 env bal" "\<not> authorized env (current_contract_address env)"
    and run: "exec_result env c s = (Ok (), s')"
  shows "keeps_surplus bal (current_contract_address env) t s s'"
proof -
  let ?self = "current_contract_address env"
  note obeys = settlement_obeys [OF assms(1,2)]
  have stuck: "keeps_surplus bal ?self t s s'"
    if "m s = (Ok a, s')" "\<And>s. plain_matches s \<Longrightarrow> wp m (\<lambda>_ _. False) (\<lambda>_ _. True) True s"
    for m :: "('a escrow, error, 'b) action" and a
    using wp_okD [OF that(2) that(1)] by (auto simp: keeps_surplus_def considered_def)
  show ?thesis
  proof (cases c)
    case (FinalizeMatch i)
    with run show ?thesis by (auto intro: stuck no_pending_result)
  next
    case (DisputeOracleResult i d h)
    with run show ?thesis by (auto intro: stuck no_pending_result dest!: discard_ok)
  next
    case (ResolveDisputeByVote d)
    with run show ?thesis by (auto intro: stuck no_pending_result)
  next
    case (ClaimVestedPayout i p)
    with run have "claim_vested_payout env i p s = (Ok (), s')" by simp
    then show ?thesis
      by (rule ok_surplus [where i = i, OF _ _ fee_fields_result [OF run]])
        (auto simp: considered_def intro!: claim_funds [OF assms(1)])
  next
    case (SubmitResultBatch rs a)
    with run obtain xs where "submit_result_batch env rs a s = (Ok xs, s')" by (auto dest: discard_ok)
    then show ?thesis using obeys(6) by (auto intro: funds.obeys_run)
  qed (use run in \<open>auto intro: funds.obeys_run [OF obeys(1)] funds.obeys_run [OF obeys(2)] funds.obeys_run [OF obeys(3)]
      funds.obeys_run [OF obeys(4)] funds.obeys_run [OF obeys(5)] funds.obeys_run [OF preambles_obey(8)]
      funds.obeys_run [OF preambles_obey(9)]\<close>)
qed

text \<open>Configuration, registries and governance move no tokens and no matches. A configuration call
  is of the considered kind if it opens no dispute period and sets no negative fee cap.\<close>

fun plain_config_call :: "config_call \<Rightarrow> bool" where
  "plain_config_call (SetDisputePeriod n) = (n = 0)"
| "plain_config_call (SetProtocolConfig c) = (case fc_max_protocol_fee (pc_fees c) of None \<Rightarrow> True | Some cap \<Rightarrow> 0 \<le> cap)"
| "plain_config_call _ = True"

lemma plain_config_calls:
  assumes "plain_config s" "plain_config_call c"
  shows "wp (exec_config env c) (\<lambda>_. plain_config) (\<lambda>_ _. True) True s"
proof -
  have cap: "0 \<le> cap" if "fc_max_protocol_fee (pc_fees (get_config env s)) = Some cap" for cap
    using plain_config_cap [OF assms(1) that] .
  have old: "\<And>c cap. i_protocol_config (inst s) = Some c \<Longrightarrow> fc_max_protocol_fee (pc_fees c) = Some cap \<Longrightarrow> 0 \<le> cap"
    "unwrap_or (i_dispute_period (inst s)) 0 = 0"
    using assms(1) by (auto simp: plain_config_def get_dispute_period_def)
  have "wp (exec_config env c) (\<lambda>_ s'. unwrap_or (i_dispute_period (inst s')) 0 = 0 \<and>
      (\<forall>c cap. i_protocol_config (inst s') = Some c \<longrightarrow> fc_max_protocol_fee (pc_fees c) = Some cap \<longrightarrow> 0 \<le> cap))
      (\<lambda>_ _. True) True s"
    using old assms(2)
    by (cases c) (auto simp: config_op_defs wp_simps Let_def cap split: option.splits)
  moreover have "wp (exec_config env c) (\<lambda>_. config_inv) (\<lambda>_ _. True) True s"
    using assms(1) by (intro config_calls_config) (simp add: plain_config_def)
  ultimately show ?thesis by (auto simp: wp_after plain_config_def get_dispute_period_def)
qed

lemma registry_fee_fields: "frame fee_fields (exec_registry env c)"
  by (cases c)
    (auto simp: registry_op_defs consensus_op_defs register_bracket_def register_player_rating_def
      caller_is_admin_def load_oracle_def Let_def intro!: frame_rules)

lemma governance_period:
  "wp (exec_governance env c) (\<lambda>_ s'. get_dispute_period s' = get_dispute_period s) (\<lambda>_ _. True) True s"
  by (cases c) (auto simp: governance_op_defs wp_simps Let_def get_dispute_period_def)

lemma governance_plain:
  assumes "exec_governance env c s = (Ok (), s')" "plain_config s"
  shows "plain_config s'"
  using wp_okD [OF governance_period assms(1)] frame_run [OF parameters_frame_governance assms(1)] assms(2)
    config_inv_parameters [of s s']
  by (simp add: plain_config_def)

fun plain_call :: "call \<Rightarrow> bool" where
  "plain_call (OnConfig c) = plain_config_call c"
| "plain_call (OnMatch c) = single_token c"
| "plain_call _ = True"

lemma exec_surplus:
  assumes "sep41 env bal" "\<not> authorized env (current_contract_address env)" "plain_call c"
    and run: "exec env c s = (Ok (), s')"
  shows "keeps_surplus bal (current_contract_address env) t s s'"
proof (cases c)
  case (OnConfig cc)
  have "untouched bal (current_contract_address env) t s s'"
    using run OnConfig frame_run [OF stored_matches.frame_exec_config] frame_run [OF token_world.frame_exec_config]
    by (fastforce simp: untouched_def)
  moreover have "plain_config s \<longrightarrow> plain_config s'"
    using wp_okD [OF plain_config_calls] run OnConfig assms(3) by fastforce
  ultimately show ?thesis by (rule untouched_surplus)
next
  case (OnRegistry rc)
  have "untouched bal (current_contract_address env) t s s'"
    using run OnRegistry frame_run [OF stored_matches.frame_exec_registry] frame_run [OF token_world.frame_exec_registry]
    by (fastforce simp: untouched_def)
  moreover have "plain_config s' = plain_config s"
    using frame_run [OF registry_fee_fields] run OnRegistry by (intro plain_config_same) fastforce
  ultimately show ?thesis by (simp add: untouched_surplus)
next
  case (OnGovernance gc)
  have "untouched bal (current_contract_address env) t s s'"
    using run OnGovernance frame_run [OF stored_matches.frame_exec_governance] frame_run [OF token_world.frame_exec_governance]
    by (fastforce simp: untouched_def)
  moreover have "plain_config s \<longrightarrow> plain_config s'" using governance_plain [of env gc s s'] run OnGovernance by simp
  ultimately show ?thesis by (rule untouched_surplus)
qed (use assms in \<open>auto intro: match_surplus result_surplus\<close>)

section \<open>Runs\<close>

text \<open>The contract at \<open>self\<close> after a deployment and any number of transactions of the
  considered kind. The contract's address never authorizes a call of the contract to itself (the
  host forbids re-entry), the token contracts behave as SEP-41 demands, and in between anybody may
  move tokens, but not out of the contract.\<close>

inductive funded_run :: "('w \<Rightarrow> address \<Rightarrow> address \<Rightarrow> int) \<Rightarrow> address \<Rightarrow> 'w escrow \<Rightarrow> bool"
  for bal :: "'w \<Rightarrow> address \<Rightarrow> address \<Rightarrow> int" and self :: address where
  start: "initialize env oracle admin (deployed w) = (Ok (), s) \<Longrightarrow> (\<And>t. 0 \<le> bal w t self) \<Longrightarrow> funded_run bal self s"
| step: "funded_run bal self s \<Longrightarrow> invoke (exec env c) s = (r, s') \<Longrightarrow> current_contract_address env = self \<Longrightarrow>
     sep41 env bal \<Longrightarrow> \<not> authorized env self \<Longrightarrow> plain_call c \<Longrightarrow> funded_run bal self s'"
| elsewhere: "funded_run bal self s \<Longrightarrow> (\<And>t. bal (world s) t self \<le> bal w t self) \<Longrightarrow>
     funded_run bal self (s\<lparr>world := w\<rparr>)"

lemma initialized_considered:
  assumes "initialize env oracle admin (deployed w) = (Ok (), s)"
  shows "considered s" "liabilities t s = 0" "world s = w"
proof -
  have "config_inv s" using contract_inv_initialized [OF assms] by (simp add: contract_inv_def)
  moreover have "pers s = empty_persistent" "i_protocol_config (inst s) = None" "i_dispute_period (inst s) = None" "world s = w"
    using assms by (auto simp: initialize_def run_simps deployed_def empty_instance_def split: if_splits)
  ultimately show "considered s" "liabilities t s = 0" "world s = w"
    by (simp_all add: considered_def plain_matches_def plain_config_def get_dispute_period_def liabilities_def
        empty_persistent_def)
qed

lemma funded_run_covered:
  "funded_run bal self s \<Longrightarrow> considered s \<and> (\<forall>t. liabilities t s \<le> bal (world s) t self)"
proof (induction rule: funded_run.induct)
  case (start env ora adm w s)
  then show ?case using initialized_considered [OF start(1)] by simp
next
  case (step s env c r s')
  from step.hyps(2) show ?case
  proof (cases rule: invoke_cases)
    case (committed a)
    then have "keeps_surplus bal self t s s'" for t
      using exec_surplus [of env bal c s s' t] step.hyps by simp
    then have kept: "considered s'" "bal (world s) t self - liabilities t s \<le> bal (world s') t self - liabilities t s'" for t
      using step.IH by (simp_all add: keeps_surplus_def surplus_def)
    have "liabilities t s' \<le> bal (world s') t self" for t
      using kept(2) [of t] spec [OF conjunct2 [OF step.IH], of t] by linarith
    with kept(1) show ?thesis by simp
  next
    case rolled_back
    with step.IH show ?thesis by simp
  qed
next
  case (elsewhere s w)
  have "plain_config (s\<lparr>world := w\<rparr>) = plain_config s" by (rule plain_config_same) simp
  with elsewhere show ?case
    by (auto simp: considered_def plain_matches_def liabilities_def intro: order_trans)
qed

lemma owed_le_liabilities:
  assumes "considered s" "p_match (pers s) i = Some m"
  shows "owed m \<le> liabilities (m_token m) s"
proof -
  have "0 \<le> owed_in t m'" if "p_match (pers s) j = Some m'" for t j m'
    using that assms(1) by (auto simp: considered_def plain_matches_def plain_match_def owed_in_def intro: owed_nonneg)
  then have "owed_in (m_token m) (the (p_match (pers s) i)) \<le> liabilities (m_token m) s"
    unfolding liabilities_def using assms by (intro member_le_sum) (auto simp: considered_def)
  with assms(2) show ?thesis by (simp add: owed_in_def)
qed

section \<open>Properties\<close>

text \<open>C1. Solvency: after any number of transactions on single-token matches without a dispute
  period (and without a negative fee cap), batches with caught errors included, the contract holds
  of every token at least what it owes in it for all matches together: the deposited stakes of
  pending matches, the pots of running matches and the unclaimed payouts of completed ones.\<close>

theorem contract_stays_solvent:
  assumes "funded_run bal self s"
  shows "(\<Sum>i \<in> dom (p_match (pers s)). owed_in t (the (p_match (pers s) i))) \<le> bal (world s) t self"
  using funded_run_covered [OF assms] by (simp add: liabilities_def)

text \<open>The sample run is of the considered kind.\<close>

lemma half_funded: "funded_run (\<lambda>w. w) (Address 0) half_funded_state"
proof -
  have self: "\<not> authorized (player_env a b) (Address 0)" "sep41 (player_env a b) (\<lambda>w. w)" for a b
    by (simp_all add: player_env_def ledger_env_def sep41_ledger_env [unfolded ledger_env_def])
  have "funded_run (\<lambda>w. w) (Address 0) sample_state"
    using sample_run by (rule funded_run.start) (simp add: sample_ledger_def)
  then have "funded_run (\<lambda>w. w) (Address 0) created_state"
    by (rule funded_run.step [where env = "player_env 100 500" and c = "OnMatch (CreateMatch (Address 3) (Address 4) 50
        (Address 9) ''abcd1234'' Lichess)" and r = "Ok ()"])
      (simp_all add: self create_match_sample discard_def run_simps created_run)
  then show ?thesis
    by (rule funded_run.step [where env = "player_env 101 505" and c = "OnMatch (Deposit 0 (Address 3))" and r = "Ok ()"])
      (simp_all add: self run_simps half_funded_run)
qed

theorem contract_stays_solvent_witness:
  "funded_run (\<lambda>w. w) (Address 0) half_funded_state \<and> owed_in (Address 9) (the (p_match (pers half_funded_state) 0)) = 50 \<and>
   (\<Sum>i \<in> dom (p_match (pers half_funded_state)). owed_in (Address 9) (the (p_match (pers half_funded_state) i)))
     \<le> world half_funded_state (Address 9) (Address 0)"
  using half_funded contract_stays_solvent [OF half_funded, of "Address 9"]
  by (simp add: half_funded_match sample_match_def owed_in_def owed_def depositor_count_def)

text \<open>What an expiry needs of a token contract: a transfer out of the escrow that its balance
  covers does not fail.\<close>

definition pays_out :: "'w env \<Rightarrow> ('w \<Rightarrow> address \<Rightarrow> address \<Rightarrow> int) \<Rightarrow> bool" where
  "pays_out env bal \<longleftrightarrow> (\<forall>t to n w. 0 \<le> n \<longrightarrow> n \<le> bal w t (current_contract_address env) \<longrightarrow>
     token_transfer env t (current_contract_address env) to n w \<noteq> None)"

lemma refund_live:
  assumes "sep41 env bal" "pays_out env bal" "plain_match m" "m_state m = Pending"
    and "owed m \<le> bal (world s) (m_token m) (current_contract_address env)"
  shows "wp (refund_stakes env m) (\<lambda>_ s'. \<forall>a. a \<noteq> current_contract_address env \<longrightarrow>
      bal (world s') (m_token m) a = bal (world s) (m_token m) a +
        (if a = m_player1 m \<and> m_player1_deposited m \<or> a = m_player2 m \<and> m_player2_deposited m
         then m_stake_amount m else 0)) (\<lambda>_ _. False) False s"
proof -
  have m: "m_token_b m = None" "0 \<le> m_stake_amount m" "\<not> (m_player1_deposited m \<and> m_player2_deposited m)"
    using assms(3,4) by (auto simp: plain_match_def match_wf_def)
  have live: "\<exists>w. token_transfer env (m_token m) (current_contract_address env) to (m_stake_amount m) (world s) = Some w"
    if "m_player1_deposited m \<or> m_player2_deposited m" for to
    using assms(2,4,5) m that by (auto simp: pays_out_def owed_def depositor_count_def)
  show ?thesis
    using live m
    by (auto simp: refund_stakes_def wp_simps stake_in_token_b_def is_multi_token_def token_b_of_def
        sep41D(2) [OF assms(1)])
qed

lemma expire_live:
  assumes "sep41 env bal" "pays_out env bal" "considered s" "p_match (pers s) i = Some m" "m_state m = Pending"
    and "owed m \<le> bal (world s) (m_token m) (current_contract_address env)"
    and "current_match_timeout env s = Some timeout" "timeout \<le> ledger_sequence env - m_created_ledger m"
    and "\<not> is_token_blacklisted (m_token m) s"
  shows "wp (expire_match env i) (\<lambda>_ s'. map_option m_state (p_match (pers s') i) = Some Cancelled \<and>
      (\<forall>a. a \<noteq> current_contract_address env \<longrightarrow>
        bal (world s') (m_token m) a = bal (world s) (m_token m) a +
        (if a = m_player1 m \<and> m_player1_deposited m \<or> a = m_player2 m \<and> m_player2_deposited m
         then m_stake_amount m else 0))) (\<lambda>_ _. False) False s"
proof -
  have m: "plain_match m" "\<not> is_multi_token m"
    using assms(3,4) by (auto simp: considered_def plain_matches_def plain_match_def is_multi_token_def)
  have "verdict (refund_stakes env m) s = Ok ()"
    using refund_live [OF assms(1,2) m(1) assms(5,6)]
    by (cases "verdict (refund_stakes env m) s") (auto simp: wp_after)
  with refund_live [OF assms(1,2) m(1) assms(5,6)] show ?thesis
    using assms(4,5,7,8,9) m(2)
    by (simp add: expire_match_def wp_simps Let_def escrow_balance_of_def)
qed



end
