(* ===== verification/Escrow_Delays.thy ===== *)
theory Escrow_Delays
  imports Escrow_Solvency
begin

text \<open>
  Why solvency is stated for results that take effect at once: a result that waits for the end of a
  dispute period is paid by \<^verbatim>\<open>finalize_match\<close>, and the winner can claim it again.
\<close>

lemma delayed_settlement:
  assumes "p_match (pers s) i = Some m" "get_dispute_period s \<noteq> 0"
  shows "wp (settle_result env i w c) (\<lambda>_ s'. world s' = world s \<and> inst s' = inst s \<and>
     p_match (pers s') i = Some (m\<lparr>m_state := PendingResult, m_winner := w, m_vested_at := Some (ledger_timestamp env)\<rparr>) \<and>
     p_pending_winner (pers s') i = Some w) (\<lambda>_ _. True) True s"
  using assms by (simp add: settle_result_def wp_simps Let_def get_dispute_period_def)

text \<open>Money moved from the contract to a player.\<close>

definition pays_to :: "('w \<Rightarrow> address \<Rightarrow> address \<Rightarrow> int) \<Rightarrow> address \<Rightarrow> address \<Rightarrow> address \<Rightarrow> int \<Rightarrow> 'w \<Rightarrow> 'w \<Rightarrow> bool" where
  "pays_to bal self t p n w w' \<longleftrightarrow> (\<forall>t' a. bal w' t' a = bal w t' a
     - (if t' = t \<and> a = self then n else 0) + (if t' = t \<and> a = p then n else 0))"

lemma payout_moves:
  assumes "sep41 env bal" "m_token_b m = None"
  shows "wp (execute_payout env m Player1) (\<lambda>_ s'.
      pays_to bal (current_contract_address env) (m_token m) (m_player1 m) (2 * m_stake_amount m) (world s) (world s'))
    (\<lambda>_ _. True) True s"
  unfolding execute_payout_def
  by (simp add: wp_simps Let_def assms(2))
    (auto simp: pays_to_def checked_mul_def to_i128_def mult.commute sep41D(2) [OF assms(1)] split: if_splits)

lemma claim_moves:
  assumes "sep41 env bal" "m_referrer m = None" "fc_protocol_fee_bps (pc_fees (get_config env s)) = 0"
  shows "wp (pay_winner env config m False p) (\<lambda>_ s'.
      pays_to bal (current_contract_address env) (m_token m) p (2 * m_stake_amount m) (world s) (world s'))
    (\<lambda>_ _. True) True s"
  unfolding pay_winner_def
  by (simp add: wp_simps Let_def assms(2,3) compute_referral_fee_def compute_protocol_fee_def)
    (auto simp: pays_to_def checked_mul_def checked_sub_def to_i128_def mult.commute sep41D(2) [OF assms(1)] split: if_splits)

lemma finalize_pays:
  assumes "sep41 env bal" "p_match (pers s) i = Some m" "p_pending_winner (pers s) i = Some Player1" "m_token_b m = None"
  shows "wp (finalize_match env i) (\<lambda>_ s'. inst s' = inst s \<and>
     p_match (pers s') i = Some (m\<lparr>m_state := Completed, m_completed_ledger := Some (ledger_sequence env)\<rparr>) \<and>
     pays_to bal (current_contract_address env) (m_token m) (m_player1 m) (2 * m_stake_amount m) (world s) (world s'))
     (\<lambda>_ _. True) True s"
  using assms(2,3) payout_moves [OF assms(1,4), unfolded wp_after]
  by (simp add: finalize_match_def wp_simps Let_def)

lemma claim_pays:
  assumes "sep41 env bal" "p_match (pers s) i = Some m" "m_token_b m = None" "m_winner m = Player1" "m_referrer m = None"
    "fc_protocol_fee_bps (pc_fees (get_config env s)) = 0"
  shows "wp (claim_vested_payout env i (m_player1 m)) (\<lambda>_ s'.
     pays_to bal (current_contract_address env) (m_token m) (m_player1 m) (2 * m_stake_amount m) (world s) (world s'))
     (\<lambda>_ _. True) True s"
  using claim_moves [OF assms(1,5,6), unfolded wp_after]
  by (simp add: claim_vested_payout_def wp_simps Let_def assms(2-4) no_swap)

lemma delayed_submission:
  assumes "p_match (pers s) i = Some m" "get_dispute_period s \<noteq> 0"
  shows "wp (submit_result env i w oracle c) (\<lambda>_ s'. world s' = world s \<and>
     p_match (pers s') i = Some (m\<lparr>m_state := PendingResult, m_winner := w, m_vested_at := Some (ledger_timestamp env)\<rparr>) \<and>
     p_pending_winner (pers s') i = Some w) (\<lambda>_ _. True) True s"
proof -
  have "wp (effective_oracle env) (\<lambda>a s'. wp (seqs [reject_if (oracle \<noteq> a) Unauthorized, settle_result env i w c])
      (\<lambda>_ s'. world s' = world s \<and>
         p_match (pers s') i = Some (m\<lparr>m_state := PendingResult, m_winner := w, m_vested_at := Some (ledger_timestamp env)\<rparr>) \<and>
         p_pending_winner (pers s') i = Some w) (\<lambda>_ _. True) True s') (\<lambda>_ _. True) True s"
  proof (rule wp_frame [of "\<lambda>s. (pers s, world s, get_dispute_period s)"])
    show "frame (\<lambda>s. (pers s, world s, get_dispute_period s)) (effective_oracle env)"
      by (auto intro!: frame_rules simp: get_dispute_period_def)
    fix a s'
    assume "(pers s', world s', get_dispute_period s') = (pers s, world s, get_dispute_period s)"
    then show "wp (seqs [reject_if (oracle \<noteq> a) Unauthorized, settle_result env i w c])
      (\<lambda>_ s'. world s' = world s \<and>
         p_match (pers s') i = Some (m\<lparr>m_state := PendingResult, m_winner := w, m_vested_at := Some (ledger_timestamp env)\<rparr>) \<and>
         p_pending_winner (pers s') i = Some w) (\<lambda>_ _. True) True s'"
      using assms delayed_settlement [of s' i m env w c]
      by (auto simp: wp_seqs_Cons wp_reject_if wp_seqs_Nil simp del: seqs.simps elim: wp_mono)
  qed simp
  then show ?thesis by (simp add: submit_result_def wp_bnd wp_gets wp_reject_if wp_require_auth del: seqs.simps)
qed


text \<open>The run on the sample contract: a dispute period of ten ledgers and a funded match over 50 units.\<close>

definition delayed_state :: "ledger escrow" where
  "delayed_state = (with_match sample_match sample_state)\<lparr>inst := (inst sample_state)\<lparr>i_dispute_period := Some 10\<rparr>\<rparr>"

lemma delayed_fields:
  "p_match (pers delayed_state) = [7 \<mapsto> sample_match]" "get_dispute_period delayed_state = 10"
  "world delayed_state = sample_ledger" "i_paused (inst delayed_state) = Some False"
  "p_match_dispute (pers delayed_state) 7 = None" "inst delayed_state = (inst sample_state)\<lparr>i_dispute_period := Some 10\<rparr>"
  by (simp_all add: delayed_state_def with_match_def empty_persistent_def sample_match_def get_dispute_period_def)

lemma effective_delayed: "effective_oracle env delayed_state = (Ok (Address 1), delayed_state)"
  by (simp add: effective_oracle_def load_oracle_def run_simps delayed_state_def get_rotation_state_def
      rotation_default_def rotation_temp_def)

lemma submission_run:
  "\<exists>s'. submit_result (player_env 120 600) 7 Player1 (Address 1) None delayed_state = (Ok (), s') \<and> world s' = sample_ledger \<and>
     inst s' = inst delayed_state \<and> p_match_dispute (pers s') 7 = None \<and> p_pending_winner (pers s') 7 = Some Player1 \<and>
     p_result_deadline (pers s') 7 = Some 130 \<and>
     p_match (pers s') 7 = Some (sample_match\<lparr>m_state := PendingResult, m_winner := Player1, m_vested_at := Some 600\<rparr>)"
proof -
  have "wp (effective_oracle (player_env 120 600)) Q E T delayed_state = Q (Address 1) delayed_state" for Q E T
    by (simp add: wp_def effective_delayed)
  then have "wp (submit_result (player_env 120 600) 7 Player1 (Address 1) None) (\<lambda>_ s'. world s' = sample_ledger \<and>
     inst s' = inst delayed_state \<and> p_match_dispute (pers s') 7 = None \<and> p_pending_winner (pers s') 7 = Some Player1 \<and>
     p_result_deadline (pers s') 7 = Some 130 \<and>
     p_match (pers s') 7 = Some (sample_match\<lparr>m_state := PendingResult, m_winner := Player1, m_vested_at := Some 600\<rparr>))
     (\<lambda>_ _. False) False delayed_state"
    by (simp add: submit_result_def settle_result_def wp_simps Let_def delayed_fields sample_match_def get_dispute_period_def u32_max_def
      int_simps escrow_balance_of_def depositor_count_def to_i128_def in_i128_def i128_max_def i128_min_def)
  from wp_total [OF this] show ?thesis by auto
qed

lemma finalization_run:
  assumes "world s = sample_ledger" "inst s = inst delayed_state" "p_match_dispute (pers s) 7 = None"
    "p_pending_winner (pers s) 7 = Some Player1" "p_result_deadline (pers s) 7 = Some 130"
    "p_match (pers s) 7 = Some (sample_match\<lparr>m_state := PendingResult, m_winner := Player1, m_vested_at := Some 600\<rparr>)"
  shows "\<exists>s'. finalize_match (player_env 130 650) 7 s = (Ok (), s') \<and> inst s' = inst delayed_state \<and>
     world s' = sample_ledger(Address 9 := (\<lambda>_. 1000)(Address 3 := 1100, Address 0 := 900)) \<and>
     p_match (pers s') 7 = Some (sample_match\<lparr>m_state := Completed, m_winner := Player1, m_vested_at := Some 600,
       m_completed_ledger := Some 130\<rparr>)"
proof -
  have pay: "verdict (execute_payout (player_env 130 650) m Player1) s = Ok ()"
    "world (after (execute_payout (player_env 130 650) m Player1) s) =
      sample_ledger(Address 9 := (\<lambda>_. 1000)(Address 3 := 1100, Address 0 := 900))"
    if "m_stake_amount m = 50" "m_token m = Address 9" "m_player1 m = Address 3" "m_token_b m = None" for m
    using that assms(1)
    by (simp_all add: verdict_def after_def execute_payout_def Let_def run_simps checked_mul_def to_i128_def in_i128_def i128_max_def i128_min_def
        transfer_def ledger_transfer_def sample_ledger_def rate_is_stale_def is_multi_token_def fun_eq_iff)
  have "wp (finalize_match (player_env 130 650) 7) (\<lambda>_ s'. inst s' = inst delayed_state \<and>
     world s' = sample_ledger(Address 9 := (\<lambda>_. 1000)(Address 3 := 1100, Address 0 := 900)) \<and>
     p_match (pers s') 7 = Some (sample_match\<lparr>m_state := Completed, m_winner := Player1, m_vested_at := Some 600,
       m_completed_ledger := Some 130\<rparr>)) (\<lambda>_ _. False) False s"
    using assms(2-)
    by (simp add: finalize_match_def wp_simps Let_def pay sample_match_def int_simps
        escrow_balance_of_def depositor_count_def to_i128_def in_i128_def i128_max_def i128_min_def)
  from wp_total [OF this] show ?thesis by auto
qed

lemma claim_run:
  assumes "world s = sample_ledger(Address 9 := (\<lambda>_. 1000)(Address 3 := 1100, Address 0 := 900))" "inst s = inst delayed_state"
    "p_match (pers s) 7 = Some (sample_match\<lparr>m_state := Completed, m_winner := Player1, m_vested_at := Some 600,
       m_completed_ledger := Some 130\<rparr>)"
  shows "\<exists>s'. claim_vested_payout (player_env 140 300000) 7 (Address 3) s = (Ok (), s')"
    and "fc_protocol_fee_bps (pc_fees (get_config env s)) = 0"
proof -
  have config: "tc_vesting_duration_seconds (pc_timeouts (get_config env s)) = 259200"
    "fc_protocol_fee_bps (pc_fees (get_config env s)) = 0" for env
    by (simp_all add: get_config_def assms(2) delayed_fields Let_def config_consts)
  then show "fc_protocol_fee_bps (pc_fees (get_config env s)) = 0" by simp
  have pay: "verdict (pay_winner (player_env 140 300000) c m False (Address 3)) s = Ok 100"
    if "m_stake_amount m = 50" "m_token m = Address 9" "m_referrer m = None" for c m
    using that assms(1)
    by (simp add: verdict_def pay_winner_def Let_def run_simps checked_mul_def compute_referral_fee_def
        compute_protocol_fee_def config checked_sub_def to_i128_def in_i128_def i128_max_def i128_min_def transfer_def
        ledger_transfer_def sample_ledger_def)
  have "wp (claim_vested_payout (player_env 140 300000) 7 (Address 3)) (\<lambda>_ _. True) (\<lambda>_ _. False) False s"
    by (simp add: claim_vested_payout_def wp_simps Let_def assms(3) pay no_swap sample_match_def config int_simps u64_max_def
        rate_is_stale_def is_multi_token_def)
  from wp_total [OF this] show "\<exists>s'. claim_vested_payout (player_env 140 300000) 7 (Address 3) s = (Ok (), s')" by auto
qed


end
