(* ===== verification/Oracle_Types.thy ===== *)
theory Oracle_Types
  imports Soroban_Host
begin

text \<open>
  The data and the storage of the oracle contract: contracts/oracle/src/types.rs and errors.rs.
  Structs are records whose fields carry a prefix (\<open>rg_\<close> for
  \<^verbatim>\<open>OracleRegistration\<close>, \<open>ps_\<close> for \<^verbatim>\<open>PendingSlash\<close>, ...), enums are
  datatypes. A name that the escrow contract uses as well carries the suffix \<open>_oc\<close>
  (\<open>Player1_oc\<close> is \<^verbatim>\<open>Winner::Player1\<close> of the oracle contract).
  The storage has one field per variant of \<^verbatim>\<open>DataKey\<close>, in the storage class the code
  uses for it. Two names the source uses but does not declare are kept as the code uses them:
  \<^verbatim>\<open>DataKey::ApprovedOracles\<close> and \<^verbatim>\<open>Error::NoPendingAdmin\<close>.
  Time-to-live bookkeeping is not modelled.
\<close>

section \<open>Enumerations and errors\<close>

datatype winner_oc = Player1_oc | Player2_oc | Draw_oc

datatype platform_oc = Lichess_oc | ChessDotCom_oc

datatype error_oc =
    Unauthorized_oc | AlreadySubmitted | ResultNotFound | AlreadyInitialized_oc | ContractPaused_oc
  | InvalidGameId_oc | BatchTooLarge | BatchDuplicateEntry | RateLimitExceeded | InvalidRateLimit
  | InsufficientStake | NotRegisteredOracle | InvalidPauseState_oc | MatchDisputed
  | InvalidThreshold | MatchNotDisputed | OracleDeactivated | OracleNotSlow | InvalidAmount_oc
  | Overflow_oc | SlippageExceeded | StakeTokenMismatch | SlashNotFound
  | SlashGracePeriodNotElapsed | RateNotFound | InvalidRate | SlashAlreadyPending
  | InvalidConfidence | NoPendingAdmin

section \<open>Structs\<close>

record result_entry =
  re_game_id :: string
  re_platform :: platform_oc
  re_result :: winner_oc
  re_submitted_ledger :: u32
  re_submitter :: address
  re_confidence :: "nat option"

record batch_result_entry =
  be_match_id :: u64
  be_game_id :: string
  be_platform :: platform_oc
  be_result :: winner_oc
  be_confidence :: "nat option"

record oracle_registration =
  rg_oracle_address :: address
  rg_oracle_stake :: i128
  rg_token :: address

record oracle_metrics =
  om_last_response_time_ms :: u64
  om_avg_response_time_ms :: u64
  om_uptime_percentage :: u32
  om_total_submissions :: u32
  om_successful_submissions :: u32
  om_active :: bool

record oracle_vote_record =
  ov_game_id :: string
  ov_platform :: platform_oc
  ov_result :: winner_oc

record candidate_tally =
  ct_game_id :: string
  ct_platform :: platform_oc
  ct_result :: winner_oc
  ct_submitters :: "address list"

record consensus_state =
  cs_candidates :: "candidate_tally list"
  cs_disputed :: bool

record vote_tally =
  vt_remaining_eligible :: u32
  vt_eligibility_version :: u32

record rate_entry =
  rt_rate :: i128
  rt_updated_ledger :: u32

record pending_slash =
  ps_oracle_address :: address
  ps_match_id :: u64
  ps_slash_amount :: i128
  ps_token :: address
  ps_staged_ledger :: u32
  ps_eligible_ledger :: u32

record pending_admin_proposal_oc =
  pp_proposer :: address
  pp_pending_admin :: address

record oracle_submission_entry =
  se_match_id :: u64
  se_game_id :: string
  se_platform :: platform_oc
  se_result :: winner_oc
  se_submitted_ledger :: u32

record rate_limit_config =
  rl_hourly_limit :: u32
  rl_daily_limit :: u32

record rate_window =
  rw_window_start :: u64
  rw_current_count :: u32
  rw_previous_count :: u32

record rate_limit_status =
  rs_hourly_used :: u32
  rs_hourly_limit :: u32
  rs_hourly_remaining :: u32
  rs_daily_used :: u32
  rs_daily_limit :: u32
  rs_daily_remaining :: u32

section \<open>Storage\<close>

record oracle_instance =
  oi_admin :: "address option"
  oi_paused :: "bool option"
  oi_registration :: "address \<Rightarrow> oracle_registration option"
  oi_rate_limit :: "address \<Rightarrow> rate_limit_config option"
  oi_consensus_threshold :: "u32 option"
  oi_oracle_set :: "address list option"
  oi_eligibility_version :: "u32 option"
  oi_slashing_grace_period :: "u32 option"
  oi_pending_slash :: "address \<Rightarrow> u64 \<Rightarrow> pending_slash option"
  oi_pending_slash_list :: "address \<Rightarrow> u64 list option"
  oi_pending_admin :: "pending_admin_proposal_oc option"
  oi_treasury :: "address option"
  oi_sla_threshold :: "u64 option"
  oi_approved_oracles :: "address list option"

record oracle_persistent =
  op_result :: "u64 \<Rightarrow> result_entry option"
  op_hourly_window :: "address \<Rightarrow> rate_window option"
  op_daily_window :: "address \<Rightarrow> rate_window option"
  op_rate :: "address \<Rightarrow> address \<Rightarrow> rate_entry option"
  op_match_votes :: "u64 \<Rightarrow> consensus_state option"
  op_vote_tally :: "u64 \<Rightarrow> vote_tally option"
  op_vote :: "u64 \<Rightarrow> address \<Rightarrow> oracle_vote_record option"
  op_metrics :: "address \<Rightarrow> oracle_metrics option"
  op_cache :: "string \<Rightarrow> platform_oc \<Rightarrow> (winner_oc \<times> u64) option"
  op_submission_list :: "address \<Rightarrow> oracle_submission_entry list option"

datatype val_oc =
    OAddr address | ONat nat | OInt int | OStr string | OWinner winner_oc

record 'w oracle_state = "('w, val_oc) hosted" +
  oinst :: oracle_instance
  opers :: oracle_persistent

type_synonym ('w, 'a) oact = "('w oracle_state, error_oc, 'a) action"

definition upd_oinst :: "(oracle_instance \<Rightarrow> oracle_instance) \<Rightarrow> ('w, unit) oact" where
  "upd_oinst f = modify (\<lambda>s. s\<lparr>oinst := f (oinst s)\<rparr>)"

definition upd_opers :: "(oracle_persistent \<Rightarrow> oracle_persistent) \<Rightarrow> ('w, unit) oact" where
  "upd_opers f = modify (\<lambda>s. s\<lparr>opers := f (opers s)\<rparr>)"

text \<open>\<^verbatim>\<open>instance().get(&DataKey::Admin).ok_or(Error::Unauthorized)?\<close>, then
  \<^verbatim>\<open>admin.require_auth()\<close>: the opening of every admin-only function.\<close>

definition load_admin_oc :: "('w, address) oact" where
  "load_admin_oc = bnd (gets (\<lambda>s. oi_admin (oinst s))) (\<lambda>a. ok_or a Unauthorized_oc)"

definition auth_admin_oc :: "('w, 'h) host_scheme \<Rightarrow> ('w, address) oact" where
  "auth_admin_oc env = bnd load_admin_oc (\<lambda>admin. bnd (require_auth env admin) (\<lambda>_. ret admin))"

abbreviation is_paused_oc :: "'w oracle_state \<Rightarrow> bool" where
  "is_paused_oc s \<equiv> unwrap_or (oi_paused (oinst s)) False"

lemma wp_upd_oinst [wp_simps]: "wp (upd_oinst f) Q E T s = Q () (s\<lparr>oinst := f (oinst s)\<rparr>)"
  by (simp add: upd_oinst_def wp_simps)

lemma wp_upd_opers [wp_simps]: "wp (upd_opers f) Q E T s = Q () (s\<lparr>opers := f (opers s)\<rparr>)"
  by (simp add: upd_opers_def wp_simps)

lemma wp_load_admin_oc [wp_simps]:
  "wp load_admin_oc Q E T s =
     ((oi_admin (oinst s) = None \<longrightarrow> E Unauthorized_oc s) \<and> (\<forall>a. oi_admin (oinst s) = Some a \<longrightarrow> Q a s))"
  by (simp add: load_admin_oc_def wp_simps)

lemma wp_auth_admin_oc [wp_simps]:
  "wp (auth_admin_oc env) Q E T s =
     ((oi_admin (oinst s) = None \<longrightarrow> E Unauthorized_oc s) \<and>
      (\<forall>a. oi_admin (oinst s) = Some a \<longrightarrow> (authorized env a \<longrightarrow> Q a s) \<and> (\<not> authorized env a \<longrightarrow> T)))"
  by (simp add: auth_admin_oc_def wp_simps)

lemma frame_storage_oc [frame_rules]:
  "(\<And>s. f (s\<lparr>oinst := g (oinst s)\<rparr>) = f s) \<Longrightarrow> frame f (upd_oinst g)"
  "(\<And>s. f (s\<lparr>opers := h (opers s)\<rparr>) = f s) \<Longrightarrow> frame f (upd_opers h)"
  "frame f load_admin_oc" "frame f (auth_admin_oc env)"
  by (auto simp: upd_oinst_def upd_opers_def load_admin_oc_def auth_admin_oc_def intro!: frame_rules)

lemmas storage_oc_run_defs [run_simps] =
  upd_oinst_def upd_opers_def load_admin_oc_def auth_admin_oc_def

section \<open>The initial state\<close>

definition deployed_oc :: "'w \<Rightarrow> 'w oracle_state" where
  "deployed_oc w = \<lparr>world = w, events = [],
     oinst = \<lparr>oi_admin = None, oi_paused = None, oi_registration = Map.empty, oi_rate_limit = Map.empty,
       oi_consensus_threshold = None, oi_oracle_set = None, oi_eligibility_version = None,
       oi_slashing_grace_period = None, oi_pending_slash = (\<lambda>_. Map.empty),
       oi_pending_slash_list = Map.empty, oi_pending_admin = None, oi_treasury = None,
       oi_sla_threshold = None, oi_approved_oracles = None\<rparr>,
     opers = \<lparr>op_result = Map.empty, op_hourly_window = Map.empty, op_daily_window = Map.empty,
       op_rate = (\<lambda>_. Map.empty), op_match_votes = Map.empty, op_vote_tally = Map.empty,
       op_vote = (\<lambda>_. Map.empty), op_metrics = Map.empty, op_cache = (\<lambda>_. Map.empty),
       op_submission_list = Map.empty\<rparr>\<rparr>"

end
