(* ===== verification/Oracle_Limits.thy ===== *)
theory Oracle_Limits
  imports Oracle_Staking
begin

text \<open>
  The submission quotas and the response-time metrics of the oracle contract
  (contracts/oracle/src/lib.rs): the hourly and daily sliding-window counters with their alerts,
  the per-oracle limits, the metrics kept for each oracle and the deactivation of slow oracles.
\<close>

section \<open>Constants\<close>

definition SLA_MAX_RESPONSE_TIME_MS :: u64 where "SLA_MAX_RESPONSE_TIME_MS = 5000"
definition DEFAULT_HOURLY_LIMIT :: u32 where "DEFAULT_HOURLY_LIMIT = 100"
definition DEFAULT_DAILY_LIMIT :: u32 where "DEFAULT_DAILY_LIMIT = 1000"
definition HOURLY_WINDOW_SECS :: u64 where "HOURLY_WINDOW_SECS = 3600"
definition DAILY_WINDOW_SECS :: u64 where "DAILY_WINDOW_SECS = 86400"
definition RATE_LIMIT_ALERT_THRESHOLD_PCT :: u64 where "RATE_LIMIT_ALERT_THRESHOLD_PCT = 80"

lemmas limit_consts = SLA_MAX_RESPONSE_TIME_MS_def DEFAULT_HOURLY_LIMIT_def DEFAULT_DAILY_LIMIT_def
  HOURLY_WINDOW_SECS_def DAILY_WINDOW_SECS_def RATE_LIMIT_ALERT_THRESHOLD_PCT_def

section \<open>Limits\<close>

definition rate_limit_config_of :: "address \<Rightarrow> 'w oracle_state \<Rightarrow> rate_limit_config" where
  "rate_limit_config_of orc s = unwrap_or (oi_rate_limit (oinst s) orc)
     \<lparr>rl_hourly_limit = DEFAULT_HOURLY_LIMIT, rl_daily_limit = DEFAULT_DAILY_LIMIT\<rparr>"

definition get_oracle_rate_limits :: "address \<Rightarrow> 'w oracle_state \<Rightarrow> rate_limit_config" where
  "get_oracle_rate_limits orc s = rate_limit_config_of orc s"

definition set_oracle_rate_limits :: "('w, 'h) host_scheme \<Rightarrow> address \<Rightarrow> u32 \<Rightarrow> u32 \<Rightarrow> ('w, unit) oact" where
  "set_oracle_rate_limits env orc hourly_limit daily_limit =
     bnd (auth_admin_oc env) (\<lambda>_.
     let config = \<lparr>rl_hourly_limit = (if hourly_limit = 0 then DEFAULT_HOURLY_LIMIT else hourly_limit),
                   rl_daily_limit = (if daily_limit = 0 then DEFAULT_DAILY_LIMIT else daily_limit)\<rparr> in
     seqs [
       reject_if (hourly_limit \<noteq> 0 \<and> daily_limit \<noteq> 0 \<and> hourly_limit > daily_limit) InvalidRateLimit,
       upd_oinst (\<lambda>i. i\<lparr>oi_rate_limit := (oi_rate_limit i)(orc \<mapsto> config)\<rparr>),
       publish ''oracle'' ''ratelim''
         [OAddr orc, ONat (rl_hourly_limit config), ONat (rl_daily_limit config)]])"

section \<open>Sliding windows\<close>

text \<open>\<^verbatim>\<open>load_rate_window\<close> after its storage read: roll the counter forward when one
  or both windows have elapsed. The sum \<^verbatim>\<open>window_start + window_secs\<close> is at most
  \<open>now\<close> where it is evaluated.\<close>

definition load_rate_window :: "rate_window option \<Rightarrow> u64 \<Rightarrow> u64 \<Rightarrow> rate_window" where
  "load_rate_window stored now window_secs =
     (let window = unwrap_or stored \<lparr>rw_window_start = now, rw_current_count = 0, rw_previous_count = 0\<rparr>;
          elapsed = saturating_sub now (rw_window_start window)
      in if elapsed \<ge> window_secs * 2 then
           \<lparr>rw_window_start = now, rw_current_count = 0, rw_previous_count = 0\<rparr>
         else if elapsed \<ge> window_secs then
           \<lparr>rw_window_start = rw_window_start window + window_secs, rw_current_count = 0,
            rw_previous_count = rw_current_count window\<rparr>
         else window)"

definition estimated_window_count :: "u64 \<Rightarrow> rate_window \<Rightarrow> u64 \<Rightarrow> u32" where
  "estimated_window_count now window window_secs =
     (let elapsed_in_current = min (saturating_sub now (rw_window_start window)) window_secs;
          remaining = window_secs - elapsed_in_current;
          weighted_previous = (rw_previous_count window * remaining) div window_secs
      in saturating_add_u32 (rw_current_count window) (weighted_previous mod (u32_max + 1)))"

definition maybe_alert :: "address \<Rightarrow> string \<Rightarrow> u32 \<Rightarrow> u32 \<Rightarrow> ('w, unit) oact" where
  "maybe_alert orc window_label used limit =
     (if limit = 0 then ret ()
      else only_if (used * 100 \<ge> limit * RATE_LIMIT_ALERT_THRESHOLD_PCT)
        (publish ''oracle'' ''alert'' [OAddr orc, OStr window_label, ONat used, ONat limit]))"

definition check_oracle_rate_limit :: "('w, 'h) host_scheme \<Rightarrow> address \<Rightarrow> u32 \<Rightarrow> ('w, unit) oact" where
  "check_oracle_rate_limit env orc count =
     bnd (gets (rate_limit_config_of orc)) (\<lambda>config.
     let now = ledger_timestamp env in
     bnd (gets (\<lambda>s. load_rate_window (op_hourly_window (opers s) orc) now HOURLY_WINDOW_SECS)) (\<lambda>hourly_window.
     let hourly_used = estimated_window_count now hourly_window HOURLY_WINDOW_SECS in
     bnd (reject_if (saturating_add_u32 hourly_used count > rl_hourly_limit config) RateLimitExceeded) (\<lambda>_.
     bnd (gets (\<lambda>s. load_rate_window (op_daily_window (opers s) orc) now DAILY_WINDOW_SECS)) (\<lambda>daily_window.
     let daily_used = estimated_window_count now daily_window DAILY_WINDOW_SECS in
     bnd (reject_if (saturating_add_u32 daily_used count > rl_daily_limit config) RateLimitExceeded) (\<lambda>_.
     let hourly_window = hourly_window\<lparr>rw_current_count := saturating_add_u32 (rw_current_count hourly_window) count\<rparr>;
         daily_window = daily_window\<lparr>rw_current_count := saturating_add_u32 (rw_current_count daily_window) count\<rparr> in
     bnd (upd_opers (\<lambda>p. p\<lparr>op_hourly_window := (op_hourly_window p)(orc \<mapsto> hourly_window)\<rparr>)) (\<lambda>_.
     bnd (upd_opers (\<lambda>p. p\<lparr>op_daily_window := (op_daily_window p)(orc \<mapsto> daily_window)\<rparr>)) (\<lambda>_.
     bnd (or_trap (checked_add_u32 hourly_used count)) (\<lambda>hourly_total.
     bnd (maybe_alert orc ''hourly'' hourly_total (rl_hourly_limit config)) (\<lambda>_.
     bnd (or_trap (checked_add_u32 daily_used count)) (\<lambda>daily_total.
     maybe_alert orc ''daily'' daily_total (rl_daily_limit config)))))))))))"

definition get_oracle_rate_limit_status :: "('w, 'h) host_scheme \<Rightarrow> address \<Rightarrow> 'w oracle_state \<Rightarrow> rate_limit_status" where
  "get_oracle_rate_limit_status env orc s =
     (let config = rate_limit_config_of orc s;
          now = ledger_timestamp env;
          hourly_window = load_rate_window (op_hourly_window (opers s) orc) now HOURLY_WINDOW_SECS;
          hourly_used = estimated_window_count now hourly_window HOURLY_WINDOW_SECS;
          daily_window = load_rate_window (op_daily_window (opers s) orc) now DAILY_WINDOW_SECS;
          daily_used = estimated_window_count now daily_window DAILY_WINDOW_SECS
      in \<lparr>rs_hourly_used = hourly_used, rs_hourly_limit = rl_hourly_limit config,
          rs_hourly_remaining = saturating_sub (rl_hourly_limit config) hourly_used,
          rs_daily_used = daily_used, rs_daily_limit = rl_daily_limit config,
          rs_daily_remaining = saturating_sub (rl_daily_limit config) daily_used\<rparr>)"

section \<open>Metrics\<close>

definition no_metrics :: oracle_metrics where
  "no_metrics = \<lparr>om_last_response_time_ms = 0, om_avg_response_time_ms = 0, om_uptime_percentage = 100,
     om_total_submissions = 0, om_successful_submissions = 0, om_active = True\<rparr>"

definition get_oracle_metrics :: "address \<Rightarrow> 'w oracle_state \<Rightarrow> oracle_metrics" where
  "get_oracle_metrics oracle_address s = unwrap_or (op_metrics (opers s) oracle_address) no_metrics"

definition sla_threshold :: "'w oracle_state \<Rightarrow> u64" where
  "sla_threshold s = unwrap_or (oi_sla_threshold (oinst s)) SLA_MAX_RESPONSE_TIME_MS"

definition get_sla_threshold :: "'w oracle_state \<Rightarrow> u64" where
  "get_sla_threshold s = sla_threshold s"

definition set_sla_threshold :: "('w, 'h) host_scheme \<Rightarrow> u64 \<Rightarrow> ('w, unit) oact" where
  "set_sla_threshold env threshold_ms = bnd (auth_admin_oc env) (\<lambda>_. seqs [
     reject_if (threshold_ms = 0) InvalidThreshold,
     upd_oinst (\<lambda>i. i\<lparr>oi_sla_threshold := Some threshold_ms\<rparr>),
     publish ''oracle'' ''sla_thrsh'' [ONat threshold_ms]])"

definition deactivate_slow_oracle :: "('w, 'h) host_scheme \<Rightarrow> address \<Rightarrow> ('w, unit) oact" where
  "deactivate_slow_oracle env oracle_address =
     bnd (auth_admin_oc env) (\<lambda>_.
     bnd (gets (\<lambda>s. op_metrics (opers s) oracle_address)) (\<lambda>found.
     bnd (ok_or found ResultNotFound) (\<lambda>metrics.
     bnd (gets sla_threshold) (\<lambda>threshold. seqs [
       reject_if (om_avg_response_time_ms metrics \<le> threshold) OracleNotSlow,
       upd_opers (\<lambda>p. p\<lparr>op_metrics := (op_metrics p)(oracle_address \<mapsto> metrics\<lparr>om_active := False\<rparr>)\<rparr>),
       publish ''oracle'' ''deact'' [OAddr oracle_address]]))))"

text \<open>The new metrics after one submission. The sums are \<^verbatim>\<open>u128\<close>, wide enough for a
  \<^verbatim>\<open>u64\<close> times a \<^verbatim>\<open>u32\<close>; the cast back to \<^verbatim>\<open>u64\<close>
  truncates.\<close>

definition record_response :: "u64 \<Rightarrow> oracle_metrics \<Rightarrow> oracle_metrics" where
  "record_response response_time_ms metrics =
     (let new_total = saturating_add_u32 (om_total_submissions metrics) 1;
          prev_sum = om_avg_response_time_ms metrics * om_total_submissions metrics;
          new_sum = prev_sum + response_time_ms;
          successful = (if response_time_ms \<le> SLA_MAX_RESPONSE_TIME_MS
            then saturating_add_u32 (om_successful_submissions metrics) 1
            else om_successful_submissions metrics)
      in metrics\<lparr>om_last_response_time_ms := response_time_ms,
           om_avg_response_time_ms := (new_sum div new_total) mod (u64_max + 1),
           om_total_submissions := new_total,
           om_successful_submissions := successful,
           om_uptime_percentage := ((successful * 100) div new_total) mod (u32_max + 1)\<rparr>)"

definition update_oracle_metrics :: "address \<Rightarrow> u64 \<Rightarrow> ('w, unit) oact" where
  "update_oracle_metrics orc response_time_ms =
     bnd (gets (get_oracle_metrics orc)) (\<lambda>metrics.
     bnd (reject_if (\<not> om_active metrics) OracleDeactivated) (\<lambda>_.
     upd_opers (\<lambda>p. p\<lparr>op_metrics := (op_metrics p)(orc \<mapsto> record_response response_time_ms metrics)\<rparr>)))"

end
