(* ===== verification/Oracle_Results.thy ===== *)
theory Oracle_Results
  imports Oracle_Limits
begin

text \<open>
  Results and exchange rates of the oracle contract (contracts/oracle/src/lib.rs): the result of a
  match submitted by the admin, singly and in an atomic batch, its deletion, the cache of results by
  game, the submission history of an oracle, and the exchange rates with the swap that uses them.
\<close>

section \<open>Constants\<close>

definition MAX_BATCH_SIZE :: u32 where "MAX_BATCH_SIZE = 100"
definition DEFAULT_CACHE_TTL_SECS :: u64 where "DEFAULT_CACHE_TTL_SECS = 3600"
definition MAX_RATE_AGE_LEDGERS :: u32 where "MAX_RATE_AGE_LEDGERS = 17280"

lemmas result_consts = MAX_BATCH_SIZE_def DEFAULT_CACHE_TTL_SECS_def MAX_RATE_AGE_LEDGERS_def

section \<open>Results\<close>

definition set_result :: "u64 \<Rightarrow> result_entry option \<Rightarrow> ('w, unit) oact" where
  "set_result match_id r = upd_opers (\<lambda>p. p\<lparr>op_result := (op_result p)(match_id := r)\<rparr>)"

definition set_cache :: "string \<Rightarrow> platform_oc \<Rightarrow> (winner_oc \<times> u64) option \<Rightarrow> ('w, unit) oact" where
  "set_cache game_id platform v =
     upd_opers (\<lambda>p. p\<lparr>op_cache := (op_cache p)(game_id := (op_cache p game_id)(platform := v))\<rparr>)"

definition cache_expiry :: "('w, 'h) host_scheme \<Rightarrow> u64" where
  "cache_expiry env = saturating_add_u64 (ledger_timestamp env) DEFAULT_CACHE_TTL_SECS"

definition append_oracle_submission ::
    "('w, 'h) host_scheme \<Rightarrow> address \<Rightarrow> u64 \<Rightarrow> string \<Rightarrow> platform_oc \<Rightarrow> winner_oc \<Rightarrow> ('w, unit) oact" where
  "append_oracle_submission env orc match_id game_id platform result =
     bnd (gets (\<lambda>s. unwrap_or (op_submission_list (opers s) orc) [])) (\<lambda>list.
     upd_opers (\<lambda>p. p\<lparr>op_submission_list := (op_submission_list p)(orc \<mapsto> list @
       [\<lparr>se_match_id = match_id, se_game_id = game_id, se_platform = platform, se_result = result,
         se_submitted_ledger = ledger_sequence env\<rparr>])\<rparr>))"

text \<open>The checks that open both admin submissions: not paused, the admin's authorization, and a
  positive stake if the admin is a registered oracle.\<close>

definition admin_submitter :: "('w, 'h) host_scheme \<Rightarrow> ('w, address) oact" where
  "admin_submitter env =
     bnd (gets is_paused_oc) (\<lambda>paused.
     bnd (reject_if paused ContractPaused_oc) (\<lambda>_.
     bnd (auth_admin_oc env) (\<lambda>admin.
     bnd (gets (\<lambda>s. oi_registration (oinst s) admin)) (\<lambda>registration.
     bnd (reject_if (case registration of Some r \<Rightarrow> rg_oracle_stake r \<le> 0 | None \<Rightarrow> False) InsufficientStake) (\<lambda>_.
     ret admin)))))"

definition submit_result_oc ::
    "('w, 'h) host_scheme \<Rightarrow> u64 \<Rightarrow> string \<Rightarrow> platform_oc \<Rightarrow> winner_oc \<Rightarrow> u64 \<Rightarrow> nat option \<Rightarrow> ('w, unit) oact" where
  "submit_result_oc env match_id game_id platform result response_time_ms confidence =
     bnd (admin_submitter env) (\<lambda>admin.
     bnd (check_oracle_rate_limit env admin 1) (\<lambda>_.
     bnd (update_oracle_metrics admin response_time_ms) (\<lambda>_.
     bnd (gets (\<lambda>s. op_result (opers s) match_id \<noteq> None)) (\<lambda>present. seqs [
       reject_if present AlreadySubmitted,
       reject_if (game_id = []) InvalidGameId_oc,
       set_result match_id (Some \<lparr>re_game_id = game_id, re_platform = platform, re_result = result,
         re_submitted_ledger = ledger_sequence env, re_submitter = admin, re_confidence = confidence\<rparr>),
       set_cache game_id platform (Some (result, cache_expiry env)),
       append_oracle_submission env admin match_id game_id platform result,
       publish ''oracle'' ''result'' [ONat match_id, OWinner result]]))))"

text \<open>The validation loop of the batch, on the entries from index \<open>i\<close> on.\<close>

fun validate_batch :: "batch_result_entry list \<Rightarrow> ('w, unit) oact" where
  "validate_batch [] = ret ()"
| "validate_batch (entry # rest) =
     bnd (reject_if (be_game_id entry = []) InvalidGameId_oc) (\<lambda>_.
     bnd (reject_if (list_ex (\<lambda>later. be_match_id later = be_match_id entry) rest) BatchDuplicateEntry) (\<lambda>_.
     bnd (gets (\<lambda>s. op_result (opers s) (be_match_id entry) \<noteq> None)) (\<lambda>present.
     bnd (reject_if present AlreadySubmitted) (\<lambda>_.
     validate_batch rest))))"

definition commit_entry :: "('w, 'h) host_scheme \<Rightarrow> address \<Rightarrow> batch_result_entry \<Rightarrow> ('w, unit) oact" where
  "commit_entry env admin entry = seqs [
     set_result (be_match_id entry) (Some \<lparr>re_game_id = be_game_id entry, re_platform = be_platform entry,
       re_result = be_result entry, re_submitted_ledger = ledger_sequence env, re_submitter = admin,
       re_confidence = be_confidence entry\<rparr>),
     set_cache (be_game_id entry) (be_platform entry) (Some (be_result entry, cache_expiry env)),
     append_oracle_submission env admin (be_match_id entry) (be_game_id entry) (be_platform entry) (be_result entry),
     publish ''oracle'' ''result'' [ONat (be_match_id entry), OWinner (be_result entry)]]"

definition submit_batch_results :: "('w, 'h) host_scheme \<Rightarrow> batch_result_entry list \<Rightarrow> ('w, unit) oact" where
  "submit_batch_results env entries =
     bnd (admin_submitter env) (\<lambda>admin. seqs [
       reject_if (length entries > MAX_BATCH_SIZE) BatchTooLarge,
       check_oracle_rate_limit env admin (length entries),
       validate_batch entries,
       seqs (map (commit_entry env admin) entries),
       publish ''oracle'' ''batch'' [ONat (length entries)]])"

definition get_result :: "u64 \<Rightarrow> ('w, result_entry) oact" where
  "get_result match_id = bnd (gets (\<lambda>s. op_result (opers s) match_id)) (\<lambda>r. ok_or r ResultNotFound)"

definition has_result :: "u64 \<Rightarrow> 'w oracle_state \<Rightarrow> bool" where
  "has_result match_id s \<longleftrightarrow> op_result (opers s) match_id \<noteq> None"

definition has_result_admin :: "('w, 'h) host_scheme \<Rightarrow> u64 \<Rightarrow> ('w, bool) oact" where
  "has_result_admin env match_id = bnd (auth_admin_oc env) (\<lambda>_. gets (has_result match_id))"

definition get_cached_result ::
    "('w, 'h) host_scheme \<Rightarrow> string \<Rightarrow> platform_oc \<Rightarrow> ('w, (winner_oc \<times> u64) option) oact" where
  "get_cached_result env game_id platform =
     bnd (gets (\<lambda>s. op_cache (opers s) game_id platform)) (\<lambda>found.
     case found of
       None \<Rightarrow> ret None
     | Some entry \<Rightarrow>
         if ledger_timestamp env \<ge> snd entry then bnd (set_cache game_id platform None) (\<lambda>_. ret None)
         else ret (Some entry))"

definition invalidate_cache :: "('w, 'h) host_scheme \<Rightarrow> string \<Rightarrow> platform_oc \<Rightarrow> ('w, unit) oact" where
  "invalidate_cache env game_id platform = bnd (auth_admin_oc env) (\<lambda>_. set_cache game_id platform None)"

definition delete_result :: "('w, 'h) host_scheme \<Rightarrow> u64 \<Rightarrow> ('w, unit) oact" where
  "delete_result env match_id =
     bnd (gets is_paused_oc) (\<lambda>paused.
     bnd (reject_if paused ContractPaused_oc) (\<lambda>_.
     bnd (auth_admin_oc env) (\<lambda>_.
     bnd (get_result match_id) (\<lambda>entry. seqs [
       set_cache (re_game_id entry) (re_platform entry) None,
       set_result match_id None,
       publish ''oracle'' ''deleted'' [ONat match_id]]))))"

text \<open>A page of a stored list. \<open>None\<close> is the overflow panic of the \<^verbatim>\<open>u32\<close>
  addition \<^verbatim>\<open>offset + limit\<close>.\<close>

definition page_of :: "'a list \<Rightarrow> u32 \<Rightarrow> u32 \<Rightarrow> 'a list option" where
  "page_of list offset limit =
     (let limit = min limit 100; total = length list
      in if offset \<ge> total then Some []
         else case checked_add_u32 offset limit of
           None \<Rightarrow> None
         | Some stop \<Rightarrow> Some (map (\<lambda>i. list ! i) [offset..<min stop total]))"

definition get_oracle_submissions ::
    "address \<Rightarrow> u32 \<Rightarrow> u32 \<Rightarrow> 'w oracle_state \<Rightarrow> oracle_submission_entry list option" where
  "get_oracle_submissions orc offset limit s =
     page_of (unwrap_or (op_submission_list (opers s) orc) []) offset limit"

definition get_all_oracles_paginated :: "u32 \<Rightarrow> u32 \<Rightarrow> 'w oracle_state \<Rightarrow> address list option" where
  "get_all_oracles_paginated offset limit s = page_of (unwrap_or (oi_oracle_set (oinst s)) []) offset limit"

section \<open>Exchange rates\<close>

definition set_rate :: "('w, 'h) host_scheme \<Rightarrow> address \<Rightarrow> address \<Rightarrow> i128 \<Rightarrow> ('w, unit) oact" where
  "set_rate env token_a token_b rate = bnd (auth_admin_oc env) (\<lambda>_. seqs [
     reject_if (rate \<le> 0) InvalidRate,
     upd_opers (\<lambda>p. p\<lparr>op_rate := (op_rate p)(token_a := (op_rate p token_a)(token_b \<mapsto>
       \<lparr>rt_rate = rate, rt_updated_ledger = ledger_sequence env\<rparr>))\<rparr>),
     publish ''oracle'' ''rate_set'' [OAddr token_a, OAddr token_b, OInt rate]])"

definition get_rate_with_age :: "address \<Rightarrow> address \<Rightarrow> ('w, rate_entry) oact" where
  "get_rate_with_age token_a token_b =
     bnd (gets (\<lambda>s. op_rate (opers s) token_a token_b)) (\<lambda>r. ok_or r RateNotFound)"

definition get_rate :: "address \<Rightarrow> address \<Rightarrow> ('w, i128) oact" where
  "get_rate token_a token_b =
     bnd (gets (\<lambda>s. op_rate (opers s) token_a token_b)) (\<lambda>r.
     bnd (ok_or r RateNotFound) (\<lambda>entry. ret (rt_rate entry)))"

definition rate_is_stale_oc :: "('w, 'h) host_scheme \<Rightarrow> rate_entry \<Rightarrow> bool" where
  "rate_is_stale_oc env entry \<longleftrightarrow>
     saturating_sub (ledger_sequence env) (rt_updated_ledger entry) > MAX_RATE_AGE_LEDGERS"

text \<open>The quoted amount: the forward rate multiplies, the reverse-keyed rate divides.\<close>

definition swap_quote ::
    "('w, 'h) host_scheme \<Rightarrow> address \<Rightarrow> address \<Rightarrow> i128 \<Rightarrow> i128 \<Rightarrow> ('w, i128) oact" where
  "swap_quote env token_in token_out amount_in min_amount_out =
     bnd (gets (\<lambda>s. (op_rate (opers s) token_in token_out, op_rate (opers s) token_out token_in))) (\<lambda>rates.
     case fst rates of
       Some entry \<Rightarrow>
         bnd (reject_if (rate_is_stale_oc env entry) RateNotFound) (\<lambda>_.
         bnd (ok_or (checked_mul amount_in (rt_rate entry)) Overflow_oc) (\<lambda>product.
         bnd (ok_or (checked_div product 10000000) Overflow_oc) (\<lambda>amt.
         bnd (reject_if (amt < min_amount_out) SlippageExceeded) (\<lambda>_. ret amt))))
     | None \<Rightarrow>
         (case snd rates of
            Some entry \<Rightarrow>
              bnd (reject_if (rate_is_stale_oc env entry) RateNotFound) (\<lambda>_.
              bnd (ok_or (checked_mul amount_in 10000000) Overflow_oc) (\<lambda>product.
              bnd (ok_or (checked_div product (rt_rate entry)) Overflow_oc) (\<lambda>amt.
              bnd (reject_if (amt < min_amount_out) SlippageExceeded) (\<lambda>_. ret amt))))
          | None \<Rightarrow> fail RateNotFound))"

definition swap ::
    "('w, 'h) host_scheme \<Rightarrow> address \<Rightarrow> address \<Rightarrow> address \<Rightarrow> i128 \<Rightarrow> i128 \<Rightarrow> address \<Rightarrow> ('w, unit) oact" where
  "swap env caller token_in token_out amount_in min_amount_out recipient =
     bnd (require_auth env caller) (\<lambda>_.
     bnd (reject_if (amount_in \<le> 0) InvalidAmount_oc) (\<lambda>_.
     bnd (swap_quote env token_in token_out amount_in min_amount_out) (\<lambda>amount_out. seqs [
       transfer env token_in caller (current_contract_address env) amount_in,
       transfer env token_out (current_contract_address env) recipient amount_out])))"

end
