(* ===== verification/Oracle_Voting.thy ===== *)
theory Oracle_Voting
  imports Oracle_Results
begin

text \<open>
  The m-of-n consensus of the oracle contract (contracts/oracle/src/lib.rs): votes of staked
  oracles on the result of a match, the finalisation of a candidate that reaches the threshold, the
  slashes of equivocating and outvoted oracles, the detection of a deadlock with its cached count of
  remaining voters, and the resolution of a deadlocked match by the admin.
\<close>

definition DEFAULT_CONSENSUS_THRESHOLD :: u32 where "DEFAULT_CONSENSUS_THRESHOLD = 1"

section \<open>Threshold and registry views\<close>

definition consensus_threshold :: "'w oracle_state \<Rightarrow> u32" where
  "consensus_threshold s = unwrap_or (oi_consensus_threshold (oinst s)) DEFAULT_CONSENSUS_THRESHOLD"

definition get_consensus_threshold :: "'w oracle_state \<Rightarrow> u32" where
  "get_consensus_threshold s = consensus_threshold s"

definition oracle_set_of :: "'w oracle_state \<Rightarrow> address list" where
  "oracle_set_of s = unwrap_or (oi_oracle_set (oinst s)) []"

definition get_registered_oracle_count :: "'w oracle_state \<Rightarrow> u32" where
  "get_registered_oracle_count s = length (oracle_set_of s)"

definition set_consensus_threshold :: "('w, 'h) host_scheme \<Rightarrow> u32 \<Rightarrow> ('w, unit) oact" where
  "set_consensus_threshold env threshold = bnd (auth_admin_oc env) (\<lambda>_.
     bnd (reject_if (threshold = 0) InvalidThreshold) (\<lambda>_.
     bnd (upd_oinst (\<lambda>i. i\<lparr>oi_consensus_threshold := Some threshold\<rparr>)) (\<lambda>_.
     bnd (publish ''oracle'' ''thresh'' [ONat threshold]) (\<lambda>_.
     bnd (gets get_registered_oracle_count) (\<lambda>registered.
     only_if (threshold > registered) (publish ''oracle'' ''thr_warn'' [ONat threshold, ONat registered]))))))"

definition get_match_votes :: "u64 \<Rightarrow> 'w oracle_state \<Rightarrow> consensus_state option" where
  "get_match_votes match_id s = op_match_votes (opers s) match_id"

definition get_consensus_state :: "u64 \<Rightarrow> 'w oracle_state \<Rightarrow> consensus_state option" where
  "get_consensus_state match_id s = op_match_votes (opers s) match_id"

definition get_approved_oracles_oc :: "'w oracle_state \<Rightarrow> address list" where
  "get_approved_oracles_oc s = unwrap_or (oi_approved_oracles (oinst s)) []"

definition add_to_approved_list :: "address \<Rightarrow> ('w, unit) oact" where
  "add_to_approved_list orc =
     bnd (gets get_approved_oracles_oc) (\<lambda>list.
     only_if (orc \<notin> set list) (upd_oinst (\<lambda>i. i\<lparr>oi_approved_oracles := Some (list @ [orc])\<rparr>)))"

definition remove_from_approved_list :: "address \<Rightarrow> ('w, unit) oact" where
  "remove_from_approved_list orc =
     bnd (gets get_approved_oracles_oc) (\<lambda>list.
     upd_oinst (\<lambda>i. i\<lparr>oi_approved_oracles := Some (filter (\<lambda>addr. addr \<noteq> orc) list)\<rparr>))"

section \<open>Remaining voters\<close>

text \<open>The loop over the oracle set: an address that has voted is skipped, a registered one with
  stake left is counted.\<close>

definition eligible :: "'w oracle_state \<Rightarrow> address \<Rightarrow> bool" where
  "eligible s addr = (case oi_registration (oinst s) addr of
     Some registration \<Rightarrow> rg_oracle_stake registration > 0 | None \<Rightarrow> False)"

fun count_remaining :: "'w oracle_state \<Rightarrow> u64 \<Rightarrow> address list \<Rightarrow> u32" where
  "count_remaining s match_id [] = 0"
| "count_remaining s match_id (addr # rest) =
     (if op_vote (opers s) match_id addr \<noteq> None then count_remaining s match_id rest
      else if eligible s addr then 1 + count_remaining s match_id rest
      else count_remaining s match_id rest)"

definition count_remaining_eligible_oracles :: "u64 \<Rightarrow> 'w oracle_state \<Rightarrow> u32" where
  "count_remaining_eligible_oracles match_id s = count_remaining s match_id (oracle_set_of s)"

definition eligibility_version :: "'w oracle_state \<Rightarrow> u32" where
  "eligibility_version s = unwrap_or (oi_eligibility_version (oinst s)) 0"

definition remaining_eligible_oracles :: "u64 \<Rightarrow> ('w, u32) oact" where
  "remaining_eligible_oracles match_id =
     bnd (gets eligibility_version) (\<lambda>version.
     bnd (gets (\<lambda>s. op_vote_tally (opers s) match_id)) (\<lambda>cached.
     bnd (gets (\<lambda>s. case cached of
            Some tally \<Rightarrow>
              if vt_eligibility_version tally = version then saturating_sub (vt_remaining_eligible tally) 1
              else count_remaining_eligible_oracles match_id s
          | None \<Rightarrow> count_remaining_eligible_oracles match_id s)) (\<lambda>remaining.
     bnd (upd_opers (\<lambda>p. p\<lparr>op_vote_tally := (op_vote_tally p)(match_id \<mapsto>
            \<lparr>vt_remaining_eligible = remaining, vt_eligibility_version = version\<rparr>)\<rparr>)) (\<lambda>_.
     ret remaining))))"

section \<open>Tallying a vote\<close>

definition same_candidate :: "oracle_vote_record \<Rightarrow> candidate_tally \<Rightarrow> bool" where
  "same_candidate vote candidate \<longleftrightarrow>
     ct_result candidate = ov_result vote \<and> ct_platform candidate = ov_platform vote \<and>
     ct_game_id candidate = ov_game_id vote"

text \<open>The loop over the candidates from index \<open>i\<close> on: it returns the updated list, the index
  of the candidate if the vote made it reach the threshold, and whether a candidate matched.\<close>

fun tally_vote ::
    "oracle_vote_record \<Rightarrow> address \<Rightarrow> u32 \<Rightarrow> u32 \<Rightarrow> candidate_tally list \<Rightarrow> candidate_tally list \<times> u32 option \<times> bool" where
  "tally_vote vote orc threshold i [] = ([], None, False)"
| "tally_vote vote orc threshold i (candidate # rest) =
     (if same_candidate vote candidate then
        let candidate = candidate\<lparr>ct_submitters := ct_submitters candidate @ [orc]\<rparr>
        in (candidate # rest, if length (ct_submitters candidate) \<ge> threshold then Some i else None, True)
      else
        let (rest, winning_idx, found) = tally_vote vote orc threshold (i + 1) rest
        in (candidate # rest, winning_idx, found))"

definition add_vote ::
    "oracle_vote_record \<Rightarrow> address \<Rightarrow> u32 \<Rightarrow> candidate_tally list \<Rightarrow> candidate_tally list \<times> u32 option" where
  "add_vote vote orc threshold candidates =
     (let (updated, winning_idx, found_existing) = tally_vote vote orc threshold 0 candidates
      in if found_existing then (updated, winning_idx)
         else (updated @ [\<lparr>ct_game_id = ov_game_id vote, ct_platform = ov_platform vote,
                          ct_result = ov_result vote, ct_submitters = [orc]\<rparr>],
               if length [orc] \<ge> threshold then Some (length updated) else None))"

definition slash_minority :: "('w, 'h) host_scheme \<Rightarrow> u64 \<Rightarrow> address \<Rightarrow> ('w, unit) oact" where
  "slash_minority env match_id orc =
     bnd (slash_bps env orc MINORITY_SLASH_BPS) (\<lambda>_.
     publish ''oracle'' ''minority'' [ONat match_id, OAddr orc])"

text \<open>The loop over the candidates from index \<open>i\<close> on that skips the winning index.\<close>

fun slash_losers :: "('w, 'h) host_scheme \<Rightarrow> u64 \<Rightarrow> u32 \<Rightarrow> u32 \<Rightarrow> candidate_tally list \<Rightarrow> ('w, unit) oact" where
  "slash_losers env match_id idx i [] = ret ()"
| "slash_losers env match_id idx i (losing # rest) =
     bnd (if i = idx then ret () else seqs (map (slash_minority env match_id) (ct_submitters losing))) (\<lambda>_.
     slash_losers env match_id idx (i + 1) rest)"

definition clear_votes :: "u64 \<Rightarrow> ('w, unit) oact" where
  "clear_votes match_id = bnd (upd_opers (\<lambda>p. p\<lparr>op_match_votes := (op_match_votes p)(match_id := None)\<rparr>)) (\<lambda>_.
     upd_opers (\<lambda>p. p\<lparr>op_vote_tally := (op_vote_tally p)(match_id := None)\<rparr>))"

definition finalize_candidate ::
    "('w, 'h) host_scheme \<Rightarrow> address \<Rightarrow> u64 \<Rightarrow> u32 \<Rightarrow> candidate_tally list \<Rightarrow> u32 \<Rightarrow> ('w, unit) oact" where
  "finalize_candidate env orc match_id threshold candidates idx =
     (let winning = candidates ! idx in seqs [
       set_result match_id (Some \<lparr>re_game_id = ct_game_id winning, re_platform = ct_platform winning,
         re_result = ct_result winning, re_submitted_ledger = ledger_sequence env, re_submitter = orc,
         re_confidence = None\<rparr>),
       set_cache (ct_game_id winning) (ct_platform winning) (Some (ct_result winning, cache_expiry env)),
       seqs (map (\<lambda>winning_oracle. append_oracle_submission env winning_oracle match_id
         (ct_game_id winning) (ct_platform winning) (ct_result winning)) (ct_submitters winning)),
       slash_losers env match_id idx 0 candidates,
       clear_votes match_id,
       publish ''oracle'' ''result'' [ONat match_id, OWinner (ct_result winning)],
       publish ''oracle'' ''finalzd'' [ONat match_id, ONat (length (ct_submitters winning)), ONat threshold]])"

definition still_possible :: "u32 \<Rightarrow> u32 \<Rightarrow> candidate_tally list \<Rightarrow> bool" where
  "still_possible threshold remaining candidates \<longleftrightarrow>
     list_ex (\<lambda>candidate. saturating_add_u32 (length (ct_submitters candidate)) remaining \<ge> threshold) candidates"

definition record_vote ::
    "('w, 'h) host_scheme \<Rightarrow> address \<Rightarrow> u64 \<Rightarrow> oracle_vote_record \<Rightarrow> u32 \<Rightarrow> candidate_tally list \<Rightarrow> ('w, unit) oact" where
  "record_vote env orc match_id vote threshold candidates =
     bnd (remaining_eligible_oracles match_id) (\<lambda>remaining.
     let disputed = (\<not> still_possible threshold remaining candidates) in seqs [
       only_if disputed (seqs [
         set_cache (ov_game_id vote) (ov_platform vote) None,
         publish ''oracle'' ''disputed'' [ONat match_id]]),
       upd_opers (\<lambda>p. p\<lparr>op_match_votes := (op_match_votes p)(match_id \<mapsto>
         \<lparr>cs_candidates = candidates, cs_disputed = disputed\<rparr>)\<rparr>),
       publish ''oracle'' ''vote'' [ONat match_id, OAddr orc, OWinner (ov_result vote)]])"

section \<open>Submitting a vote\<close>

definition late_vote :: "('w, 'h) host_scheme \<Rightarrow> address \<Rightarrow> u64 \<Rightarrow> oracle_vote_record \<Rightarrow> result_entry \<Rightarrow> ('w, unit) oact" where
  "late_vote env orc match_id vote finalized =
     (if re_result finalized \<noteq> ov_result vote \<or> re_platform finalized \<noteq> ov_platform vote \<or>
         re_game_id finalized \<noteq> ov_game_id vote
      then slash_minority env match_id orc
      else fail AlreadySubmitted)"

definition repeated_vote ::
    "('w, 'h) host_scheme \<Rightarrow> address \<Rightarrow> u64 \<Rightarrow> oracle_vote_record \<Rightarrow> oracle_vote_record \<Rightarrow> ('w, unit) oact" where
  "repeated_vote env orc match_id vote prev =
     (if prev = vote then fail AlreadySubmitted
      else bnd (slash_bps env orc EQUIVOCATION_SLASH_BPS) (\<lambda>_.
           publish ''oracle'' ''equivoc'' [ONat match_id, OAddr orc]))"

definition first_vote :: "('w, 'h) host_scheme \<Rightarrow> address \<Rightarrow> u64 \<Rightarrow> oracle_vote_record \<Rightarrow> ('w, unit) oact" where
  "first_vote env orc match_id vote =
     bnd (gets (\<lambda>s. unwrap_or (op_match_votes (opers s) match_id)
            \<lparr>cs_candidates = [], cs_disputed = False\<rparr>)) (\<lambda>state.
     bnd (reject_if (cs_disputed state) MatchDisputed) (\<lambda>_.
     bnd (upd_opers (\<lambda>p. p\<lparr>op_vote := (op_vote p)(match_id := (op_vote p match_id)(orc \<mapsto> vote))\<rparr>)) (\<lambda>_.
     bnd (gets consensus_threshold) (\<lambda>threshold.
     let (candidates, winning_idx) = add_vote vote orc threshold (cs_candidates state) in
     case winning_idx of
       Some idx \<Rightarrow> finalize_candidate env orc match_id threshold candidates idx
     | None \<Rightarrow> record_vote env orc match_id vote threshold candidates))))"

definition submit_oracle_result ::
    "('w, 'h) host_scheme \<Rightarrow> address \<Rightarrow> u64 \<Rightarrow> string \<Rightarrow> platform_oc \<Rightarrow> winner_oc \<Rightarrow> u64 \<Rightarrow> ('w, unit) oact" where
  "submit_oracle_result env orc match_id game_id platform result response_time_ms =
     bnd (gets is_paused_oc) (\<lambda>paused.
     bnd (reject_if paused ContractPaused_oc) (\<lambda>_.
     bnd (gets (\<lambda>s. oi_admin (oinst s) = None)) (\<lambda>uninitialized.
     bnd (reject_if uninitialized Unauthorized_oc) (\<lambda>_.
     bnd (require_auth env orc) (\<lambda>_.
     bnd (reject_if (game_id = []) InvalidGameId_oc) (\<lambda>_.
     bnd (gets (\<lambda>s. oi_registration (oinst s) orc)) (\<lambda>found.
     bnd (ok_or found NotRegisteredOracle) (\<lambda>registration.
     bnd (reject_if (rg_oracle_stake registration \<le> 0) InsufficientStake) (\<lambda>_.
     let vote = \<lparr>ov_game_id = game_id, ov_platform = platform, ov_result = result\<rparr> in
     bnd (gets (\<lambda>s. op_result (opers s) match_id)) (\<lambda>stored.
     case stored of
       Some finalized \<Rightarrow> late_vote env orc match_id vote finalized
     | None \<Rightarrow>
         bnd (check_oracle_rate_limit env orc 1) (\<lambda>_.
         bnd (update_oracle_metrics orc response_time_ms) (\<lambda>_.
         bnd (gets (\<lambda>s. op_vote (opers s) match_id orc)) (\<lambda>previous.
         case previous of
           Some prev \<Rightarrow> repeated_vote env orc match_id vote prev
         | None \<Rightarrow> first_vote env orc match_id vote)))))))))))))"

section \<open>Resolution of a deadlock\<close>

fun slash_disagreeing ::
    "('w, 'h) host_scheme \<Rightarrow> u64 \<Rightarrow> oracle_vote_record \<Rightarrow> candidate_tally list \<Rightarrow> ('w, unit) oact" where
  "slash_disagreeing env match_id outcome [] = ret ()"
| "slash_disagreeing env match_id outcome (candidate # rest) =
     bnd (if same_candidate outcome candidate then ret ()
          else seqs (map (slash_minority env match_id) (ct_submitters candidate))) (\<lambda>_.
     slash_disagreeing env match_id outcome rest)"

definition resolve_disputed_match ::
    "('w, 'h) host_scheme \<Rightarrow> u64 \<Rightarrow> string \<Rightarrow> platform_oc \<Rightarrow> winner_oc \<Rightarrow> ('w, unit) oact" where
  "resolve_disputed_match env match_id game_id platform result =
     bnd (auth_admin_oc env) (\<lambda>admin.
     bnd (gets (\<lambda>s. op_result (opers s) match_id \<noteq> None)) (\<lambda>present.
     bnd (reject_if present AlreadySubmitted) (\<lambda>_.
     bnd (gets (\<lambda>s. op_match_votes (opers s) match_id)) (\<lambda>found.
     bnd (ok_or found MatchNotDisputed) (\<lambda>state. seqs [
       reject_if (\<not> cs_disputed state) MatchNotDisputed,
       slash_disagreeing env match_id
         \<lparr>ov_game_id = game_id, ov_platform = platform, ov_result = result\<rparr> (cs_candidates state),
       set_result match_id (Some \<lparr>re_game_id = game_id, re_platform = platform, re_result = result,
         re_submitted_ledger = ledger_sequence env, re_submitter = admin, re_confidence = None\<rparr>),
       set_cache game_id platform (Some (result, cache_expiry env)),
       clear_votes match_id,
       publish ''oracle'' ''resolved'' [ONat match_id, OWinner result]])))))"

end
