(* ===== verification/Oracle_Contract.thy ===== *)
theory Oracle_Contract
  imports Oracle_Voting
begin

text \<open>
  The oracle contract as a whole: its entry points as one datatype, a transaction as the invocation
  of an entry point, and the invariant every transaction keeps. The invariant says that the oracle
  set lists the registered oracles, that stakes are not negative, that the staged slashes are listed
  exactly, that only registered oracles have voted, that the tally of a match
  holds each vote once and under the recorded candidate, and that
  the cached number of remaining voters of a match is the number a fresh count would give.
\<close>

section \<open>Entry points\<close>

datatype oracle_call =
    InitializeO address | UpdateAdmin address | ProposeAdminO address | AcceptAdminO | PauseO | UnpauseO
  | SetTreasury address | RegisterOracle address i128 address | SetGracePeriod u32
  | SlashOracle address u64 i128 | FinalizeSlash address u64 | CancelSlash address u64
  | SetRateLimits address u32 u32 | SetSlaThreshold u64 | DeactivateSlow address
  | SubmitResultO u64 string platform_oc winner_oc u64 "nat option" | SubmitBatchO "batch_result_entry list"
  | GetCached string platform_oc | InvalidateCache string platform_oc | DeleteResult u64
  | SetRate address address i128 | Swap address address address i128 i128 address
  | SetThreshold u32 | SubmitVote address u64 string platform_oc winner_oc u64
  | ResolveDisputed u64 string platform_oc winner_oc

fun exec_oc :: "('w, 'h) host_scheme \<Rightarrow> oracle_call \<Rightarrow> ('w, unit) oact" where
  "exec_oc env (InitializeO a) = initialize_oc env a"
| "exec_oc env (UpdateAdmin a) = update_admin env a"
| "exec_oc env (ProposeAdminO a) = propose_admin_oc env a"
| "exec_oc env AcceptAdminO = accept_admin_oc env"
| "exec_oc env PauseO = pause_oc env"
| "exec_oc env UnpauseO = unpause_oc env"
| "exec_oc env (SetTreasury a) = set_treasury env a"
| "exec_oc env (RegisterOracle a n t) = register_oracle_with_stake env a n t"
| "exec_oc env (SetGracePeriod n) = set_slashing_grace_period env n"
| "exec_oc env (SlashOracle a m n) = slash_oracle env a m n"
| "exec_oc env (FinalizeSlash a m) = finalize_slash env a m"
| "exec_oc env (CancelSlash a m) = admin_cancel_slash env a m"
| "exec_oc env (SetRateLimits a h d) = set_oracle_rate_limits env a h d"
| "exec_oc env (SetSlaThreshold n) = set_sla_threshold env n"
| "exec_oc env (DeactivateSlow a) = deactivate_slow_oracle env a"
| "exec_oc env (SubmitResultO m g p r t c) = submit_result_oc env m g p r t c"
| "exec_oc env (SubmitBatchO es) = submit_batch_results env es"
| "exec_oc env (GetCached g p) = bnd (get_cached_result env g p) (\<lambda>_. ret ())"
| "exec_oc env (InvalidateCache g p) = invalidate_cache env g p"
| "exec_oc env (DeleteResult m) = delete_result env m"
| "exec_oc env (SetRate a b r) = set_rate env a b r"
| "exec_oc env (Swap c a b n k r) = swap env c a b n k r"
| "exec_oc env (SetThreshold n) = set_consensus_threshold env n"
| "exec_oc env (SubmitVote a m g p r t) = submit_oracle_result env a m g p r t"
| "exec_oc env (ResolveDisputed m g p r) = resolve_disputed_match env m g p r"

lemmas oracle_op_defs =
  initialize_oc_def update_admin_def propose_admin_oc_def accept_admin_oc_def pause_oc_def unpause_oc_def
  set_treasury_def set_slashing_grace_period_def set_oracle_rate_limits_def set_sla_threshold_def
  deactivate_slow_oracle_def submit_result_oc_def submit_batch_results_def get_cached_result_def
  invalidate_cache_def delete_result_def set_rate_def swap_def swap_quote_def set_consensus_threshold_def
  get_result_def

lemmas oracle_helper_defs =
  admin_submitter_def check_oracle_rate_limit_def maybe_alert_def update_oracle_metrics_def set_result_def
  set_cache_def append_oracle_submission_def commit_entry_def

lemma frame_validate_batch [frame_rules]: "frame f (validate_batch es)"
  by (induction es) (auto intro!: frame_rules)

text \<open>The parts of the storage the invariant is about. Only the staking and voting entry points
  write them.\<close>

definition staking_part where
  "staking_part s = (oi_registration (oinst s), oi_oracle_set (oinst s), oi_eligibility_version (oinst s),
     oi_pending_slash (oinst s), oi_pending_slash_list (oinst s))"

definition ballot_part where
  "ballot_part s = (op_vote (opers s), op_match_votes (opers s), op_vote_tally (opers s))"

fun touches_stakes :: "oracle_call \<Rightarrow> bool" where
  "touches_stakes (RegisterOracle _ _ _) = True"
| "touches_stakes (SlashOracle _ _ _) = True"
| "touches_stakes (FinalizeSlash _ _) = True"
| "touches_stakes (CancelSlash _ _) = True"
| "touches_stakes (SubmitVote _ _ _ _ _ _) = True"
| "touches_stakes (ResolveDisputed _ _ _ _) = True"
| "touches_stakes _ = False"

lemma frame_plain_call:
  "\<not> touches_stakes c \<Longrightarrow> frame (\<lambda>s. (staking_part s, ballot_part s)) (exec_oc env c)"
  by (cases c) (auto simp: staking_part_def ballot_part_def oracle_op_defs oracle_helper_defs Let_def
      intro!: frame_rules)

section \<open>The invariant\<close>

definition registry_ok :: "'w oracle_state \<Rightarrow> bool" where
  "registry_ok s \<longleftrightarrow> distinct (oracle_set_of s) \<and>
     set (oracle_set_of s) = dom (oi_registration (oinst s)) \<and>
     (\<forall>a r. oi_registration (oinst s) a = Some r \<longrightarrow> 0 \<le> rg_oracle_stake r) \<and>
     eligibility_version s \<le> u32_max"

definition slashes_ok :: "'w oracle_state \<Rightarrow> bool" where
  "slashes_ok s \<longleftrightarrow> (\<forall>a. distinct (pending_slash_matches a s) \<and>
     set (pending_slash_matches a s) = dom (oi_pending_slash (oinst s) a) \<and>
     (\<forall>m p. oi_pending_slash (oinst s) a m = Some p \<longrightarrow> 0 < ps_slash_amount p \<and>
        (\<exists>r. oi_registration (oinst s) a = Some r \<and> rg_token r = ps_token p)))"

definition candidate_vote :: "candidate_tally \<Rightarrow> oracle_vote_record" where
  "candidate_vote c = \<lparr>ov_game_id = ct_game_id c, ov_platform = ct_platform c, ov_result = ct_result c\<rparr>"

definition candidates_ok :: "(address \<Rightarrow> oracle_vote_record option) \<Rightarrow> candidate_tally list \<Rightarrow> bool" where
  "candidates_ok votes cs \<longleftrightarrow> distinct (concat (map ct_submitters cs)) \<and> distinct (map candidate_vote cs) \<and>
     (\<forall>c \<in> set cs. \<forall>a \<in> set (ct_submitters c). votes a = Some (candidate_vote c))"

definition tally_exact :: "'w oracle_state \<Rightarrow> u64 \<Rightarrow> vote_tally \<Rightarrow> bool" where
  "tally_exact s m t \<longleftrightarrow> vt_eligibility_version t \<le> eligibility_version s \<and>
     (vt_eligibility_version t = eligibility_version s \<longrightarrow> eligibility_version s < u32_max \<longrightarrow>
        vt_remaining_eligible t = count_remaining_eligible_oracles m s)"

definition ballot_ok :: "'w oracle_state \<Rightarrow> u64 \<Rightarrow> bool" where
  "ballot_ok s m \<longleftrightarrow> (\<forall>t. op_vote_tally (opers s) m = Some t \<longrightarrow> tally_exact s m t) \<and>
     (\<forall>st. op_match_votes (opers s) m = Some st \<longrightarrow> candidates_ok (op_vote (opers s) m) (cs_candidates st))"

definition voters_ok :: "'w oracle_state \<Rightarrow> bool" where
  "voters_ok s \<longleftrightarrow> (\<forall>m a v. op_vote (opers s) m a = Some v \<longrightarrow> a \<in> set (oracle_set_of s))"

definition oracle_inv_except :: "u64 set \<Rightarrow> 'w oracle_state \<Rightarrow> bool" where
  "oracle_inv_except M s \<longleftrightarrow> registry_ok s \<and> slashes_ok s \<and> voters_ok s \<and> (\<forall>m. m \<notin> M \<longrightarrow> ballot_ok s m)"

abbreviation oracle_inv :: "'w oracle_state \<Rightarrow> bool" where
  "oracle_inv s \<equiv> oracle_inv_except {} s"

lemmas oracle_inv_defs = oracle_inv_except_def registry_ok_def slashes_ok_def voters_ok_def ballot_ok_def tally_exact_def

section \<open>The remaining voters as a set\<close>

definition may_vote :: "'w oracle_state \<Rightarrow> u64 \<Rightarrow> address set" where
  "may_vote s m = {a. eligible s a \<and> op_vote (opers s) m a = None}"

lemma count_remaining_filter:
  "count_remaining s m xs = length (filter (\<lambda>a. eligible s a \<and> op_vote (opers s) m a = None) xs)"
  by (induction xs) auto

lemma eligible_registered: "eligible s a \<Longrightarrow> a \<in> dom (oi_registration (oinst s))"
  by (auto simp: eligible_def split: option.splits)

lemma count_remaining_card:
  assumes "registry_ok s"
  shows "count_remaining_eligible_oracles m s = card (may_vote s m)"
proof -
  have "{a \<in> set (oracle_set_of s). eligible s a \<and> op_vote (opers s) m a = None} = may_vote s m"
    using assms by (auto simp: registry_ok_def may_vote_def dest: eligible_registered)
  then show ?thesis
    using assms
    by (simp add: count_remaining_eligible_oracles_def count_remaining_filter registry_ok_def distinct_length_filter Int_def conj_commute)
qed

lemma finite_may_vote: "registry_ok s \<Longrightarrow> finite (may_vote s m)"
  by (rule finite_subset [OF _ finite_set [of "oracle_set_of s"]])
    (auto simp: registry_ok_def may_vote_def dest: eligible_registered)

section \<open>Slashing\<close>

text \<open>What a slash may change: stakes shrink but stay non-negative, and an oracle that loses its
  eligibility raises the version of the eligible set.\<close>

definition shrunk :: "oracle_registration option \<Rightarrow> oracle_registration option \<Rightarrow> bool" where
  "shrunk x y \<longleftrightarrow> (case x of None \<Rightarrow> y = None
     | Some r \<Rightarrow> \<exists>r'. y = Some r' \<and> rg_token r' = rg_token r \<and> rg_oracle_stake r' \<le> rg_oracle_stake r \<and>
         (0 \<le> rg_oracle_stake r \<longrightarrow> 0 \<le> rg_oracle_stake r'))"

definition versioned :: "'w oracle_state \<Rightarrow> 'w oracle_state \<Rightarrow> bool" where
  "versioned s s' \<longleftrightarrow> eligibility_version s \<le> u32_max \<longrightarrow>
     eligibility_version s' \<le> u32_max \<and> eligibility_version s \<le> eligibility_version s' \<and>
     (eligibility_version s' = eligibility_version s \<and> eligible s' = eligible s \<or>
      eligibility_version s < eligibility_version s' \<or> eligibility_version s' = u32_max)"

definition restaked :: "'w oracle_state \<Rightarrow> 'w oracle_state \<Rightarrow> bool" where
  "restaked s s' \<longleftrightarrow> opers s' = opers s \<and> oi_oracle_set (oinst s') = oi_oracle_set (oinst s) \<and>
     oi_pending_slash (oinst s') = oi_pending_slash (oinst s) \<and>
     oi_pending_slash_list (oinst s') = oi_pending_slash_list (oinst s) \<and>
     (\<forall>a. shrunk (oi_registration (oinst s) a) (oi_registration (oinst s') a)) \<and> versioned s s'"

lemma shrunk_refl [simp]: "shrunk x x"
  by (simp add: shrunk_def split: option.split)

lemma shrunk_trans: "shrunk x y \<Longrightarrow> shrunk y z \<Longrightarrow> shrunk x z"
  by (auto simp: shrunk_def split: option.splits)

lemma versioned_refl [simp]: "versioned s s"
  by (simp add: versioned_def)

lemma versioned_trans: "versioned s s' \<Longrightarrow> versioned s' s'' \<Longrightarrow> versioned s s''"
  unfolding versioned_def by (metis le_trans le_antisym less_le_trans le_less_trans le_neq_implies_less)

interpretation slashing: state_order restaked
proof
  show "restaked s s" for s :: "'w oracle_state"
    by (simp add: restaked_def)
  show "restaked s s' \<Longrightarrow> restaked s' s'' \<Longrightarrow> restaked s s''" for s s' s'' :: "'w oracle_state"
    unfolding restaked_def by (auto intro: shrunk_trans versioned_trans)
qed

lemma versionedI:
  assumes "eligibility_version s' = saturating_add_u32 (eligibility_version s) 1 \<or>
    eligibility_version s' = eligibility_version s \<and> eligible s' = eligible s"
  shows "versioned s s'"
  using assms by (auto simp: versioned_def saturating_add_u32_def)

lemma slash_bps_restaked: "slashing.obeys (slash_bps env a bps)"
  unfolding slashing.obeys_def
proof
  fix s
  show "wp (slash_bps env a bps) (\<lambda>_. restaked s) (\<lambda>_. restaked s) True s"
    unfolding slash_bps_def bump_oracle_eligibility_version_def wp_simps Let_def
    by (auto simp: restaked_def shrunk_def eligible_def eligibility_version_def fun_eq_iff split: option.splits
        intro!: versionedI)
qed

lemma publish_restaked: "slashing.obeys (publish a b c)"
  by (rule slashing.obeys_frame [where f = "\<lambda>s. (oinst s, opers s)"])
    (auto simp: restaked_def eligible_def eligibility_version_def intro!: frame_rules versionedI)

lemma slash_minority_restaked: "slashing.obeys (slash_minority env m a)"
  unfolding slash_minority_def by (intro slashing.obeys_bnd slash_bps_restaked publish_restaked)

lemma slash_losers_restaked: "slashing.obeys (slash_losers env m idx i cs)"
  by (induction cs arbitrary: i)
    (auto intro!: slashing.obeys_bnd slashing.obeys_pure slashing.obeys_seqs_map slash_minority_restaked)

lemma slash_disagreeing_restaked: "slashing.obeys (slash_disagreeing env m v cs)"
  by (induction cs)
    (auto intro!: slashing.obeys_bnd slashing.obeys_pure slashing.obeys_seqs_map slash_minority_restaked)

lemma shrunk_some: "shrunk x (Some r') \<Longrightarrow> \<exists>r. x = Some r \<and> rg_token r' = rg_token r \<and> (0 \<le> rg_oracle_stake r \<longrightarrow> 0 \<le> rg_oracle_stake r')"
  by (auto simp: shrunk_def split: option.splits)

lemma registry_shrunk:
  assumes "registry_ok s" "\<And>a. shrunk (oi_registration (oinst s) a) (oi_registration (oinst s') a)"
    and "oi_oracle_set (oinst s') = oi_oracle_set (oinst s)" "eligibility_version s' \<le> u32_max"
  shows "registry_ok s'"
proof -
  have "dom (oi_registration (oinst s')) = dom (oi_registration (oinst s))"
    using assms(2) by (fastforce simp: shrunk_def dom_def split: option.splits)
  moreover have "0 \<le> rg_oracle_stake r'" if "oi_registration (oinst s') a = Some r'" for a r'
    using shrunk_some [of "oi_registration (oinst s) a" r'] assms(1) assms(2) [of a] that by (auto simp: registry_ok_def)
  ultimately show ?thesis
    using assms by (simp add: registry_ok_def oracle_set_of_def)
qed

lemma registry_restaked: "registry_ok s \<Longrightarrow> restaked s s' \<Longrightarrow> registry_ok s'"
  by (rule registry_shrunk [of s]) (auto simp: restaked_def versioned_def registry_ok_def)

text \<open>Staged slashes after stakes have shrunk and some slashes have been removed with their list
  entries.\<close>

lemma slashes_shrunk:
  assumes "slashes_ok s" "\<And>a. shrunk (oi_registration (oinst s) a) (oi_registration (oinst s') a)"
    and "\<And>a m. oi_pending_slash (oinst s') a m = (if P a m then oi_pending_slash (oinst s) a m else None)"
    and "\<And>a. pending_slash_matches a s' = filter (P a) (pending_slash_matches a s)"
  shows "slashes_ok s'"
  unfolding slashes_ok_def
proof (intro allI conjI impI)
  fix a m p
  show "distinct (pending_slash_matches a s')"
    using assms(1) by (simp add: assms(4) slashes_ok_def)
  show "set (pending_slash_matches a s') = dom (oi_pending_slash (oinst s') a)"
    using assms(1) by (auto simp: assms(3,4) slashes_ok_def split: if_splits)
  assume "oi_pending_slash (oinst s') a m = Some p"
  then have "oi_pending_slash (oinst s) a m = Some p" by (simp add: assms(3) split: if_splits)
  then obtain r where "0 < ps_slash_amount p" "oi_registration (oinst s) a = Some r" "rg_token r = ps_token p"
    using assms(1) unfolding slashes_ok_def by blast
  then show "0 < ps_slash_amount p" "\<exists>r. oi_registration (oinst s') a = Some r \<and> rg_token r = ps_token p"
    using assms(2) [of a] by (auto simp: shrunk_def)
qed

lemma slashes_restaked: "slashes_ok s \<Longrightarrow> restaked s s' \<Longrightarrow> slashes_ok s'"
  by (rule slashes_shrunk [where P = "\<lambda>_ _. True"]) (auto simp: restaked_def pending_slash_matches_def)

text \<open>Without a change of votes, either the set of eligible oracles is the same or every cached
  count is outdated.\<close>

lemma ballot_versioned:
  assumes "registry_ok s" "registry_ok s'" "opers s' = opers s" "versioned s s'" "ballot_ok s m"
  shows "ballot_ok s' m"
proof -
  have "count_remaining_eligible_oracles m s' = count_remaining_eligible_oracles m s" if "eligible s' = eligible s"
    using that assms(3) by (simp add: count_remaining_card [OF assms(1)] count_remaining_card [OF assms(2)] may_vote_def)
  then have "tally_exact s' m t" if "tally_exact s m t" for t
    using assms(1,4) that unfolding tally_exact_def versioned_def registry_ok_def by auto
  then show ?thesis
    using assms(3,5) by (auto simp: ballot_ok_def)
qed

lemma voters_mono:
  "voters_ok s \<Longrightarrow> op_vote (opers s') = op_vote (opers s) \<Longrightarrow> set (oracle_set_of s) \<subseteq> set (oracle_set_of s') \<Longrightarrow> voters_ok s'"
  by (auto simp: voters_ok_def dest: subsetD)

lemma inv_restaked:
  assumes "oracle_inv_except M s" "restaked s s'"
  shows "oracle_inv_except M s'"
proof -
  have r: "registry_ok s" "registry_ok s'" "opers s' = opers s" "versioned s s'"
    using assms registry_restaked [OF _ assms(2)] by (simp_all add: oracle_inv_except_def restaked_def)
  moreover have "voters_ok s'"
    by (rule voters_mono [of s]) (use assms in \<open>simp_all add: oracle_inv_except_def restaked_def oracle_set_of_def\<close>)
  ultimately show ?thesis
    using assms slashes_restaked [OF _ assms(2)] ballot_versioned [OF r] by (simp add: oracle_inv_except_def)
qed

text \<open>The invariant reads only the two parts, and of the ballots it reads each match alone.\<close>

lemma staking_cong:
  assumes "staking_part s' = staking_part s"
  shows "registry_ok s' = registry_ok s" "slashes_ok s' = slashes_ok s" "eligible s' = eligible s"
    and "eligibility_version s' = eligibility_version s" "oracle_set_of s' = oracle_set_of s"
  using assms
  by (simp_all add: staking_part_def registry_ok_def slashes_ok_def eligible_def [abs_def] oracle_set_of_def
      eligibility_version_def pending_slash_matches_def)

lemma ballot_cong:
  assumes "staking_part s' = staking_part s" "op_vote (opers s') m = op_vote (opers s) m"
    and "op_match_votes (opers s') m = op_match_votes (opers s) m" "op_vote_tally (opers s') m = op_vote_tally (opers s) m"
  shows "ballot_ok s' m = ballot_ok s m"
  using assms(2-4)
  by (simp add: ballot_ok_def tally_exact_def count_remaining_eligible_oracles_def count_remaining_filter
      staking_cong [OF assms(1)])

lemma ballot_none:
  "op_match_votes (opers s) m = None \<Longrightarrow> op_vote_tally (opers s) m = None \<Longrightarrow> ballot_ok s m"
  by (simp add: ballot_ok_def)

lemma inv_ballots:
  assumes "oracle_inv_except M s" "staking_part s' = staking_part s" "voters_ok s'"
    and "\<And>m. m \<notin> N \<Longrightarrow> ballot_ok s' m \<or> m \<notin> M \<and> op_vote (opers s') m = op_vote (opers s) m \<and>
      op_match_votes (opers s') m = op_match_votes (opers s) m \<and> op_vote_tally (opers s') m = op_vote_tally (opers s) m"
  shows "oracle_inv_except N s'"
proof -
  have "ballot_ok s' m" if "m \<notin> N" for m
    using assms(1) assms(4) [OF that] ballot_cong [OF assms(2), of m] by (auto simp: oracle_inv_except_def)
  then show ?thesis
    using assms(1,3) by (simp add: oracle_inv_except_def staking_cong [OF assms(2)])
qed

lemma voters_cong: "voters_ok s \<Longrightarrow> staking_part s' = staking_part s \<Longrightarrow> op_vote (opers s') = op_vote (opers s) \<Longrightarrow> voters_ok s'"
  by (erule voters_mono) (simp_all add: staking_part_def oracle_set_of_def)

lemma inv_parts:
  assumes "oracle_inv_except M s" "staking_part s' = staking_part s" "ballot_part s' = ballot_part s"
  shows "oracle_inv_except M s'"
proof (rule inv_ballots [OF assms(1,2)])
  show "voters_ok s'"
    by (rule voters_cong [of s s']) (use assms in \<open>simp_all add: oracle_inv_except_def ballot_part_def\<close>)
qed (use assms(3) in \<open>simp add: ballot_part_def\<close>)

section \<open>Registration and staged slashes keep the invariant\<close>

lemma inv_staked:
  assumes "oracle_inv s" "registry_ok s'" "slashes_ok s'" "opers s' = opers s" "versioned s s'"
    and "set (oracle_set_of s) \<subseteq> set (oracle_set_of s')"
  shows "oracle_inv s'"
proof -
  have "voters_ok s'" by (rule voters_mono [of s s']) (use assms in \<open>simp_all add: oracle_inv_except_def\<close>)
  then show ?thesis
    using assms(1-5) ballot_versioned [of s s'] by (simp add: oracle_inv_except_def)
qed

lemmas staking_state_defs = registry_ok_def slashes_ok_def pending_slash_matches_def oracle_set_of_def
  eligibility_version_def

lemma staged_registered:
  assumes "slashes_ok s"
  shows "oi_registration (oinst s) a = None \<Longrightarrow> oi_pending_slash (oinst s) a m = None"
    and "oi_pending_slash (oinst s) a m = Some p \<Longrightarrow> oi_registration (oinst s) a = Some r \<Longrightarrow> rg_token r = ps_token p"
    and "oi_pending_slash (oinst s) a m = Some p \<Longrightarrow> 0 < ps_slash_amount p"
    and "oi_pending_slash (oinst s) a m = Some p \<Longrightarrow> oi_registration (oinst s) a \<noteq> None"
  using assms unfolding slashes_ok_def by (metis option.exhaust option.simps(3) option.inject)+

lemma topped_up: "0 \<le> n \<Longrightarrow> 0 < k \<Longrightarrow> 0 < saturating_add n k"
  by (simp add: saturating_add_def i128_max_def i128_min_def)

lemma bumped_version: "saturating_add_u32 v 1 \<le> u32_max"
  by (simp add: saturating_add_u32_def)

lemma register_inv:
  assumes inv: "oracle_inv s"
  shows "wp (register_oracle_with_stake env a n t) (\<lambda>_. oracle_inv) (\<lambda>_. oracle_inv) True s"
proof -
  have ok: "registry_ok s" "slashes_ok s" using inv by (simp_all add: oracle_inv_except_def)
  have "0 < saturating_add (rg_oracle_stake r) n" if "oi_registration (oinst s) a = Some r" "0 < n" for r
    using ok(1) that by (auto simp: registry_ok_def intro: topped_up)
  moreover have "0 < saturating_add 0 n" if "0 < n" using that by (simp add: topped_up)
  ultimately show ?thesis
    unfolding register_oracle_with_stake_def bump_oracle_eligibility_version_def wp_simps Let_def
    using inv ok
    by (auto intro!: inv_staked [OF inv] versionedI simp: staking_state_defs eligible_def fun_eq_iff bumped_version [simplified]
        less_imp_le dest: staged_registered [OF ok(2)])
qed

lemma slash_oracle_inv:
  assumes inv: "oracle_inv s"
  shows "wp (slash_oracle env a m n) (\<lambda>_. oracle_inv) (\<lambda>_. oracle_inv) True s"
proof -
  have ok: "registry_ok s" "slashes_ok s" using inv by (simp_all add: oracle_inv_except_def)
  then show ?thesis
    unfolding slash_oracle_def set_pending_slash_def wp_simps Let_def
    using inv
    by (auto intro!: inv_staked [OF inv] versionedI simp: staking_state_defs eligible_def
        intro: staged_registered [OF ok(2)])
qed

lemma slashes_unstaged:
  assumes "slashes_ok s" "\<And>b. shrunk (oi_registration (oinst s) b) (oi_registration (oinst s') b)"
    and "oi_pending_slash (oinst s') = (oi_pending_slash (oinst s))(a := (oi_pending_slash (oinst s) a)(m := None))"
    and "oi_pending_slash_list (oinst s') = (oi_pending_slash_list (oinst s))
      (a := (let remaining = filter (\<lambda>i. i \<noteq> m) (pending_slash_matches a s) in if remaining = [] then None else Some remaining))"
  shows "slashes_ok s'"
  using assms(1,2)
  by (rule slashes_shrunk [where P = "\<lambda>b i. \<not> (b = a \<and> i = m)"])
    (auto simp: assms(3,4) pending_slash_matches_def Let_def)

lemma eligible_update:
  assumes "oi_registration (oinst s) a = Some r" "oi_registration (oinst s') = (oi_registration (oinst s))(a \<mapsto> r')"
    and "0 < rg_oracle_stake r' \<longleftrightarrow> 0 < rg_oracle_stake r"
  shows "eligible s' = eligible s"
  using assms by (auto simp: eligible_def fun_eq_iff)

lemma slashed_stake_inv:
  fixes s s' :: "'w oracle_state"
  assumes inv: "oracle_inv s" and r: "oi_registration (oinst s) a = Some r" and n: "0 < n"
    and "oi_registration (oinst s') = (oi_registration (oinst s))
      (a \<mapsto> r\<lparr>rg_oracle_stake := rg_oracle_stake r - min n (rg_oracle_stake r)\<rparr>)"
    and "oi_eligibility_version (oinst s') = (if 0 < rg_oracle_stake r \<and> rg_oracle_stake r \<le> n
      then Some (saturating_add_u32 (eligibility_version s) 1) else oi_eligibility_version (oinst s))"
    and same: "oi_oracle_set (oinst s') = oi_oracle_set (oinst s)" "opers s' = opers s"
    and "oi_pending_slash (oinst s') = (oi_pending_slash (oinst s))(a := (oi_pending_slash (oinst s) a)(m := None))"
    and "oi_pending_slash_list (oinst s') = (oi_pending_slash_list (oinst s))
      (a := (let remaining = filter (\<lambda>i. i \<noteq> m) (pending_slash_matches a s) in if remaining = [] then None else Some remaining))"
  shows "oracle_inv s'"
proof (rule inv_staked [OF inv])
  have ok: "registry_ok s" "slashes_ok s" using inv by (simp_all add: oracle_inv_except_def)
  have "0 \<le> rg_oracle_stake r" using ok(1) r by (auto simp: registry_ok_def)
  then have shrunk: "shrunk (oi_registration (oinst s) b) (oi_registration (oinst s') b)" for b
    using r n assms(4) by (simp add: shrunk_def split: option.split)
  show "versioned s s'"
  proof (cases "0 < rg_oracle_stake r \<and> rg_oracle_stake r \<le> n")
    case True
    then show ?thesis using assms(5) by (intro versionedI) (simp add: eligibility_version_def)
  next
    case False
    then have "eligible s' = eligible s" using n by (intro eligible_update [of s a r, OF r assms(4)]) (auto simp: min_def)
    then show ?thesis using assms(5) False by (intro versionedI) (auto simp: eligibility_version_def)
  qed
  then have "eligibility_version s' \<le> u32_max" using ok(1) by (simp add: versioned_def registry_ok_def)
  then show "registry_ok s'" using shrunk same by (intro registry_shrunk [OF ok(1)])
  show "slashes_ok s'" using shrunk assms(8,9) by (rule slashes_unstaged [OF ok(2)])
  show "opers s' = opers s" "set (oracle_set_of s) \<subseteq> set (oracle_set_of s')"
    using same by (simp_all add: oracle_set_of_def)
qed

lemma finalize_slash_inv:
  assumes inv: "oracle_inv s"
  shows "wp (finalize_slash env a m) (\<lambda>_. oracle_inv) (\<lambda>_. oracle_inv) True s"
proof -
  have pos: "0 < ps_slash_amount p" if "oi_pending_slash (oinst s) a m = Some p" for p
    using inv that staged_registered(3) by (auto simp: oracle_inv_except_def)
  show ?thesis
    unfolding finalize_slash_def set_pending_slash_def remove_pending_slash_match_def bump_oracle_eligibility_version_def
      wp_simps Let_def
    by (intro conjI impI allI; (simp only: ok_or_def)?;
      (rule inv | rule slashed_stake_inv [OF inv _ pos];
        auto simp: checked_sub_Some eligibility_version_def pending_slash_matches_def min_def Let_def split: if_splits;
        linarith))
qed

lemma cancel_slash_inv:
  assumes inv: "oracle_inv s"
  shows "wp (admin_cancel_slash env a m) (\<lambda>_. oracle_inv) (\<lambda>_. oracle_inv) True s"
proof -
  have ok: "registry_ok s" "slashes_ok s" using inv by (simp_all add: oracle_inv_except_def)
  have v: "eligibility_version s \<le> u32_max" using ok(1) by (simp add: registry_ok_def)
  show ?thesis
    unfolding admin_cancel_slash_def set_pending_slash_def remove_pending_slash_match_def wp_simps
    using inv v
    by (auto intro!: inv_staked [OF inv] registry_shrunk [OF ok(1)] slashes_unstaged [OF ok(2)] versionedI
        simp: Let_def eligibility_version_def eligible_def pending_slash_matches_def oracle_set_of_def)
qed

end
