(* ===== verification/Oracle_Safety.thy ===== *)
theory Oracle_Safety
  imports Oracle_Contract
begin

text \<open>
  Votes keep the invariant of the oracle contract, and with them every transaction. The theory then
  draws the consequences: the cached count of remaining voters is exact, a result stands on enough
  distinct votes, and a stored result stays until the admin deletes it.
\<close>

section \<open>Tallying\<close>

lemma same_candidate_vote: "same_candidate v c \<longleftrightarrow> candidate_vote c = v"
  by (cases v) (auto simp: same_candidate_def candidate_vote_def)

lemma tally_vote_new: "\<forall>c \<in> set cs. candidate_vote c \<noteq> v \<Longrightarrow> tally_vote v a th i cs = (cs, None, False)"
  by (induction cs arbitrary: i) (auto simp: same_candidate_vote)

lemma tally_vote_existing:
  assumes "\<forall>c \<in> set pre. candidate_vote c \<noteq> v" "candidate_vote c = v"
  shows "tally_vote v a th i (pre @ c # post) =
    (pre @ c\<lparr>ct_submitters := ct_submitters c @ [a]\<rparr> # post,
     if th \<le> length (ct_submitters c) + 1 then Some (i + length pre) else None, True)"
  using assms by (induction pre arbitrary: i) (auto simp: same_candidate_vote Let_def)

lemma add_vote_cases:
  obtains (existing) pre c post where "cs = pre @ c # post" "candidate_vote c = v"
      "add_vote v a th cs = (pre @ c\<lparr>ct_submitters := ct_submitters c @ [a]\<rparr> # post,
         if th \<le> length (ct_submitters c) + 1 then Some (length pre) else None)"
  | (fresh) c where "\<forall>c \<in> set cs. candidate_vote c \<noteq> v" "candidate_vote c = v" "ct_submitters c = [a]"
      "add_vote v a th cs = (cs @ [c], if th \<le> 1 then Some (length cs) else None)"
proof (cases "\<exists>c \<in> set cs. candidate_vote c = v")
  case True
  then obtain pre c post where "cs = pre @ c # post" "candidate_vote c = v" "\<forall>c \<in> set pre. candidate_vote c \<noteq> v"
    by (rule split_list_first_propE)
  then show ?thesis
    using existing [of pre c post] tally_vote_existing [of pre v c a th 0 post] by (simp add: add_vote_def)
next
  case False
  then show ?thesis
    using fresh [of "\<lparr>ct_game_id = ov_game_id v, ct_platform = ov_platform v, ct_result = ov_result v, ct_submitters = [a]\<rparr>"]
      tally_vote_new [of cs v a th 0]
    by (simp add: add_vote_def candidate_vote_def)
qed

lemma candidate_vote_update [simp]: "candidate_vote (c\<lparr>ct_submitters := xs\<rparr>) = candidate_vote c"
  by (simp add: candidate_vote_def)

lemma candidates_ok_not_voted:
  "candidates_ok votes cs \<Longrightarrow> votes a = None \<Longrightarrow> c \<in> set cs \<Longrightarrow> a \<notin> set (ct_submitters c)"
  by (auto simp: candidates_ok_def)

lemma add_vote_ok:
  assumes ok: "candidates_ok votes cs" and new: "votes a = None" and add: "add_vote v a th cs = (cs', w)"
  shows "candidates_ok (votes(a \<mapsto> v)) cs'"
    and "w = Some i \<Longrightarrow> i < length cs' \<and> candidate_vote (cs' ! i) = v \<and> th \<le> length (ct_submitters (cs' ! i))"
proof -
  note not_voted = candidates_ok_not_voted [OF ok new]
  have "candidates_ok (votes(a \<mapsto> v)) cs' \<and>
    (w = Some i \<longrightarrow> i < length cs' \<and> candidate_vote (cs' ! i) = v \<and> th \<le> length (ct_submitters (cs' ! i)))"
    using add_vote_cases [of cs v a th]
  proof cases
    case (existing pre c post)
    then show ?thesis
      using ok not_voted add by (auto simp: candidates_ok_def split: if_splits)
  next
    case (fresh c)
    then show ?thesis
      using ok not_voted add by (auto simp: candidates_ok_def split: if_splits)
  qed
  then show "candidates_ok (votes(a \<mapsto> v)) cs'"
    and "w = Some i \<Longrightarrow> i < length cs' \<and> candidate_vote (cs' ! i) = v \<and> th \<le> length (ct_submitters (cs' ! i))"
    by simp_all
qed

section \<open>Votes keep the invariant\<close>

interpretation kept: state_invariant "oracle_inv_except M" for M .

lemma restaking_kept: "slashing.obeys m \<Longrightarrow> kept.obeys M m"
  unfolding slashing.obeys_def kept.obeys_def by (auto intro: wp_mono inv_restaked)

lemma parts_kept: "frame (\<lambda>s. (staking_part s, ballot_part s)) m \<Longrightarrow> kept.obeys M m"
  by (rule kept.obeys_frame) (auto intro: inv_parts)

lemma kept_wp: "kept.obeys M m \<Longrightarrow> oracle_inv_except M s \<Longrightarrow> wp m (\<lambda>_. oracle_inv_except M) (\<lambda>_ _. True) True s"
  unfolding kept.obeys_def by (auto elim: wp_mono)

text \<open>Recording a vote breaks the exactness for its match only.\<close>

definition voted :: "u64 \<Rightarrow> address \<Rightarrow> oracle_vote_record \<Rightarrow> 'w oracle_state \<Rightarrow> 'w oracle_state" where
  "voted m a v s = s\<lparr>opers := (opers s)\<lparr>op_vote := (op_vote (opers s))(m := (op_vote (opers s) m)(a \<mapsto> v))\<rparr>\<rparr>"

lemma voted_except:
  assumes "oracle_inv s" "eligible s a"
  shows "oracle_inv_except {m} (voted m a v s)"
proof (rule inv_ballots [OF assms(1)])
  have "a \<in> set (oracle_set_of s)" "voters_ok s"
    using assms eligible_registered [OF assms(2)] by (simp_all add: oracle_inv_except_def registry_ok_def)
  then show "voters_ok (voted m a v s)"
    by (auto simp: voters_ok_def voted_def oracle_set_of_def split: if_splits)
qed (simp_all add: voted_def staking_part_def)

lemma clear_votes_inv:
  assumes "oracle_inv_except {m} s"
  shows "wp (clear_votes m) (\<lambda>_. oracle_inv) (\<lambda>_. oracle_inv) True s"
proof -
  have "voters_ok s" using assms by (simp add: oracle_inv_except_def)
  then show ?thesis
    unfolding clear_votes_def wp_simps
    by (intro inv_ballots [OF assms]) (auto simp: staking_part_def voters_ok_def oracle_set_of_def intro: ballot_none)
qed

lemma finalize_candidate_inv:
  assumes "oracle_inv_except {m} s"
  shows "wp (finalize_candidate env a m th cs idx) (\<lambda>_. oracle_inv) (\<lambda>_ _. True) True s"
proof -
  let ?w = "cs ! idx"
  let ?writes = "[set_result m (Some \<lparr>re_game_id = ct_game_id ?w, re_platform = ct_platform ?w,
      re_result = ct_result ?w, re_submitted_ledger = ledger_sequence env, re_submitter = a, re_confidence = None\<rparr>),
    set_cache (ct_game_id ?w) (ct_platform ?w) (Some (ct_result ?w, cache_expiry env)),
    seqs (map (\<lambda>b. append_oracle_submission env b m (ct_game_id ?w) (ct_platform ?w) (ct_result ?w)) (ct_submitters ?w)),
    slash_losers env m idx 0 cs]"
  have writes: "kept.obeys {m} (seqs ?writes)"
    by (intro kept.obeys_seqs restaking_kept [OF slash_losers_restaked] parts_kept)
      (auto simp: oracle_helper_defs staking_part_def ballot_part_def intro!: frame_rules)
  have unfold: "finalize_candidate env a m th cs idx = seqs (?writes @ [clear_votes m,
      publish ''oracle'' ''result'' [ONat m, OWinner (ct_result ?w)],
      publish ''oracle'' ''finalzd'' [ONat m, ONat (length (ct_submitters ?w)), ONat th]])"
    unfolding finalize_candidate_def Let_def append.simps ..
  have tail: "wp (seqs [clear_votes m, publish x y z, publish x' y' z']) (\<lambda>_. oracle_inv) (\<lambda>_ _. True) True s'"
    if "oracle_inv_except {m} s'" for s' :: "'a oracle_state" and x y z x' y' z'
    unfolding wp_seqs_Cons [of "clear_votes m"]
    by (rule wp_mono [OF clear_votes_inv [OF that]])
      (auto simp: wp_simps staking_part_def ballot_part_def elim!: inv_parts)
  show ?thesis
    unfolding unfold wp_seqs_append by (rule wp_mono [OF kept_wp [OF writes assms]]) (rule tail | assumption | simp)+
qed

text \<open>The voter was counted before its vote and is not counted after it.\<close>

lemma may_vote_voted:
  assumes "registry_ok s" "eligible s a" "op_vote (opers s) m a = None"
  shows "count_remaining_eligible_oracles m (voted m a v s) = count_remaining_eligible_oracles m s - 1"
proof -
  have ok: "registry_ok (voted m a v s)"
    using assms(1) by (simp add: registry_ok_def voted_def oracle_set_of_def eligibility_version_def)
  have "may_vote (voted m a v s) m = may_vote s m - {a}"
    using assms(2,3) by (auto simp: may_vote_def voted_def eligible_def)
  moreover have "a \<in> may_vote s m" using assms(2,3) by (simp add: may_vote_def)
  ultimately show ?thesis
    using count_remaining_card [OF ok, of m] count_remaining_card [OF assms(1), of m] finite_may_vote [OF assms(1), of m]
    by simp
qed

definition remaining_after :: "u64 \<Rightarrow> 'w oracle_state \<Rightarrow> u32" where
  "remaining_after m s = (case op_vote_tally (opers s) m of
     Some tally \<Rightarrow> if vt_eligibility_version tally = eligibility_version s then vt_remaining_eligible tally - 1
       else count_remaining_eligible_oracles m s
   | None \<Rightarrow> count_remaining_eligible_oracles m s)"

lemma wp_remaining_eligible [wp_simps]:
  "wp (remaining_eligible_oracles m) Q E T s = Q (remaining_after m s)
     (s\<lparr>opers := (opers s)\<lparr>op_vote_tally := (op_vote_tally (opers s))(m \<mapsto>
        \<lparr>vt_remaining_eligible = remaining_after m s, vt_eligibility_version = eligibility_version s\<rparr>)\<rparr>\<rparr>)"
  by (simp add: remaining_eligible_oracles_def remaining_after_def wp_simps)

lemma remaining_after_voted:
  assumes "oracle_inv s" "eligible s a" "op_vote (opers s) m a = None" "eligibility_version s < u32_max"
  shows "remaining_after m (voted m a v s) = count_remaining_eligible_oracles m (voted m a v s)"
proof -
  have ok: "registry_ok s" "ballot_ok s m" using assms(1) by (simp_all add: oracle_inv_except_def)
  have "vt_remaining_eligible t - 1 = count_remaining_eligible_oracles m (voted m a v s)"
    if "op_vote_tally (opers s) m = Some t" "vt_eligibility_version t = eligibility_version s" for t
    using ok(2) that assms(4) may_vote_voted [OF ok(1) assms(2,3)] by (simp add: ballot_ok_def tally_exact_def)
  then show ?thesis
    by (auto simp: remaining_after_def voted_def eligibility_version_def split: option.split)
qed

lemma record_vote_inv:
  assumes inv: "oracle_inv s" and a: "eligible s a" "op_vote (opers s) m a = None"
    and cs: "candidates_ok ((op_vote (opers s) m)(a \<mapsto> v)) cs"
  shows "wp (record_vote env a m v th cs) (\<lambda>_. oracle_inv) (\<lambda>_ _. True) True (voted m a v s)"
proof -
  have vi: "oracle_inv_except {m} (voted m a v s)" using inv a(1) by (rule voted_except)
  have key: "oracle_inv s'" if s': "oracle_inv_except {m} (voted m a v s)" "staking_part s' = staking_part s"
      "op_vote (opers s') = op_vote (opers (voted m a v s))"
      "op_match_votes (opers s') = (op_match_votes (opers s))(m \<mapsto> \<lparr>cs_candidates = cs, cs_disputed = d\<rparr>)"
      "op_vote_tally (opers s') = (op_vote_tally (opers s))(m \<mapsto>
        \<lparr>vt_remaining_eligible = remaining_after m (voted m a v s), vt_eligibility_version = eligibility_version s\<rparr>)"
    for s' d
  proof (rule inv_ballots [OF s'(1)])
    show staking: "staking_part s' = staking_part (voted m a v s)" using s'(2) by (simp add: voted_def staking_part_def)
    show "voters_ok s'"
      by (rule voters_cong [OF _ staking s'(3)]) (use s'(1) in \<open>simp add: oracle_inv_except_def\<close>)
    have "eligibility_version s < u32_max \<longrightarrow> remaining_after m (voted m a v s) = count_remaining_eligible_oracles m s'"
      using remaining_after_voted [OF inv a, of v] staking_cong(3,5) [OF staking] s'(3)
      by (simp add: count_remaining_eligible_oracles_def count_remaining_filter)
    then have "ballot_ok s' m"
      using cs s'(3,4,5) staking_cong(4) [OF s'(2)] by (simp add: ballot_ok_def tally_exact_def voted_def)
    then show "ballot_ok s' i \<or> i \<notin> {m} \<and> op_vote (opers s') i = op_vote (opers (voted m a v s)) i \<and>
      op_match_votes (opers s') i = op_match_votes (opers (voted m a v s)) i \<and>
      op_vote_tally (opers s') i = op_vote_tally (opers (voted m a v s)) i" for i
      using s'(3,4,5) by (cases "i = m") (simp_all add: voted_def)
  qed
  show ?thesis
    unfolding record_vote_def set_cache_def Let_def wp_simps
    by (intro conjI impI; rule key [OF vi]) (simp_all add: voted_def staking_part_def eligibility_version_def)
qed

lemma first_vote_inv:
  assumes inv: "oracle_inv s" and a: "eligible s a" "op_vote (opers s) m a = None"
  shows "wp (first_vote env a m v) (\<lambda>_. oracle_inv) (\<lambda>_ _. True) True s"
proof -
  let ?st = "unwrap_or (op_match_votes (opers s) m) \<lparr>cs_candidates = [], cs_disputed = False\<rparr>"
  have "ballot_ok s m" using inv by (simp add: oracle_inv_except_def)
  then have ok: "candidates_ok (op_vote (opers s) m) (cs_candidates ?st)"
    by (cases "op_match_votes (opers s) m") (auto simp: ballot_ok_def candidates_ok_def)
  obtain cs w where add: "add_vote v a (consensus_threshold s) (cs_candidates ?st) = (cs, w)" by fastforce
  note cs = add_vote_ok(1) [OF ok a(2) add]
  have "consensus_threshold (voted m a v s) = consensus_threshold s" by (simp add: consensus_threshold_def voted_def)
  then show ?thesis
    using record_vote_inv [OF inv a cs] finalize_candidate_inv [OF voted_except [OF inv a(1)]] add
    unfolding first_vote_def wp_simps voted_def [symmetric]
    by (auto simp: wp_simps split: option.split)
qed

lemma quota_frames:
  "frame (\<lambda>s. (staking_part s, ballot_part s)) (check_oracle_rate_limit env a n)"
  "frame (\<lambda>s. (staking_part s, ballot_part s)) (update_oracle_metrics a t)"
  by (auto simp: oracle_helper_defs staking_part_def ballot_part_def Let_def intro!: frame_rules)

lemma eligible_staking: "staking_part s' = staking_part s \<Longrightarrow> eligible s' = eligible s"
  by (simp add: staking_part_def eligible_def fun_eq_iff)

lemma slash_event_kept: "kept.obeys M (bnd (slash_bps env a bps) (\<lambda>_. publish x y z))"
  by (intro restaking_kept slashing.obeys_bnd slash_bps_restaked publish_restaked)

lemma submit_oracle_result_inv:
  assumes inv: "oracle_inv s"
  shows "wp (submit_oracle_result env a m g p r t) (\<lambda>_. oracle_inv) (\<lambda>_ _. True) True s"
proof -
  let ?v = "\<lparr>ov_game_id = g, ov_platform = p, ov_result = r\<rparr>"
  have late: "wp (late_vote env a m ?v f) (\<lambda>_. oracle_inv) (\<lambda>_ _. True) True s" for f
    unfolding late_vote_def slash_minority_def by (simp add: wp_fail kept_wp [OF slash_event_kept inv])
  have counted: "wp (bnd (gets (\<lambda>s. op_vote (opers s) m a)) (\<lambda>previous. case previous of
        Some prev \<Rightarrow> repeated_vote env a m ?v prev | None \<Rightarrow> first_vote env a m ?v)) (\<lambda>_. oracle_inv) (\<lambda>_ _. True) True s'"
    if "oracle_inv s'" "eligible s' a" for s'
    unfolding wp_bnd [of "gets f" for f] repeated_vote_def
    by (simp add: wp_gets first_vote_inv [OF that] wp_fail kept_wp [OF slash_event_kept that(1)] split: option.split)
  have "wp (bnd (check_oracle_rate_limit env a 1) (\<lambda>_. bnd (update_oracle_metrics a t) (\<lambda>_.
      bnd (gets (\<lambda>s. op_vote (opers s) m a)) (\<lambda>previous. case previous of
        Some prev \<Rightarrow> repeated_vote env a m ?v prev | None \<Rightarrow> first_vote env a m ?v)))) (\<lambda>_. oracle_inv) (\<lambda>_ _. True) True s"
    if "eligible s a"
    unfolding wp_bnd [of "check_oracle_rate_limit env a 1"] wp_bnd [of "update_oracle_metrics a t"]
    by (intro wp_frame [OF quota_frames(1)] wp_frame [OF quota_frames(2)] counted TrueI)
      (use inv that in \<open>auto dest: inv_parts eligible_staking\<close>)
  then show ?thesis
    using late unfolding submit_oracle_result_def Let_def
    by (auto simp: wp_simps eligible_def)
qed

lemma inv_weaken: "oracle_inv s \<Longrightarrow> oracle_inv_except M s"
  by (simp add: oracle_inv_except_def)

lemma resolve_disputed_match_kept: "kept.obeys {} (resolve_disputed_match env m g p r)"
  unfolding resolve_disputed_match_def
  by (intro kept.obeys_rules restaking_kept [OF slash_disagreeing_restaked] parts_kept kept.obeysI [OF clear_votes_inv [OF inv_weaken]])
    (auto simp: oracle_helper_defs staking_part_def ballot_part_def intro!: frame_rules)

theorem exec_oc_inv:
  assumes inv: "oracle_inv s"
  shows "wp (exec_oc env c) (\<lambda>_. oracle_inv) (\<lambda>_ _. True) True s"
proof (cases "touches_stakes c")
  case True
  have weaken: "wp m Q (\<lambda>_. oracle_inv) True s \<Longrightarrow> wp m Q (\<lambda>_ _. True) True s" for m :: "('a, unit) oact" and Q
    by (auto elim: wp_mono)
  show ?thesis
    using True
    by (cases c) (simp_all add: kept_wp [OF resolve_disputed_match_kept inv] submit_oracle_result_inv [OF inv]
        weaken [OF register_inv [OF inv]] weaken [OF slash_oracle_inv [OF inv]] weaken [OF finalize_slash_inv [OF inv]]
        weaken [OF cancel_slash_inv [OF inv]])
next
  case False
  then show ?thesis
    using kept_wp [OF parts_kept [OF frame_plain_call]] inv by blast
qed

section \<open>Reachable states\<close>

text \<open>The states of a deployed oracle contract: transactions of its entry points in any order, and
  transactions elsewhere that change the token contracts.\<close>

inductive reachable_oc :: "'w oracle_state \<Rightarrow> bool" where
  deployment: "reachable_oc (deployed_oc w)"
| transaction: "reachable_oc s \<Longrightarrow> invoke (exec_oc (env :: 'w host) c) s = (r, s') \<Longrightarrow> reachable_oc s'"
| elsewhere: "reachable_oc s \<Longrightarrow> reachable_oc (s\<lparr>world := w\<rparr>)"

lemma oracle_inv_deployed: "oracle_inv (deployed_oc w)"
  by (simp add: oracle_inv_defs deployed_oc_def oracle_set_of_def eligibility_version_def pending_slash_matches_def)

lemma oracle_inv_step: "oracle_inv s \<Longrightarrow> invoke (exec_oc env c) s = (r, s') \<Longrightarrow> oracle_inv s'"
  by (rule invoke_preserves [where m = "exec_oc env c" and I = oracle_inv, OF _ exec_oc_inv])

lemma oracle_inv_world: "oracle_inv s \<Longrightarrow> oracle_inv (s\<lparr>world := w\<rparr>)"
  by (erule inv_parts) (simp_all add: staking_part_def ballot_part_def)

lemma reachable_oc_inv: "reachable_oc s \<Longrightarrow> oracle_inv s"
  by (induction rule: reachable_oc.induct) (auto intro: oracle_inv_deployed oracle_inv_step oracle_inv_world)

end
