(* ===== verification/Oracle_Guarantees.thy ===== *)
theory Oracle_Guarantees
  imports Oracle_Safety
begin

text \<open>
  What the oracle contract promises its users, stated for every reachable state and every entry
  point: a result stays until the admin deletes it, a voted result stands on enough distinct votes,
  a match is flagged as deadlocked exactly when no candidate can win any more, and the cached count
  behind that decision is exact. Concrete runs with two staked oracles exercise the statements.
\<close>

section \<open>Runs with two oracles\<close>

definition oracle_host :: "u32 \<Rightarrow> u64 \<Rightarrow> ledger host" where
  "oracle_host seq now = \<lparr>current_contract_address = Address 0, ledger_sequence = seq,
     ledger_timestamp = now, authorized = (\<lambda>a. a \<noteq> Address 0), token_transfer = ledger_transfer,
     token_balance = (\<lambda>t a w. Some (w t a))\<rparr>"

fun run_oc :: "oracle_call list \<Rightarrow> ledger oracle_state \<Rightarrow> ledger oracle_state" where
  "run_oc [] s = s"
| "run_oc (c # cs) s = run_oc cs (snd (invoke (exec_oc (oracle_host 100 500) c) s))"

lemma reachable_run: "reachable_oc s \<Longrightarrow> reachable_oc (run_oc cs s)"
proof (induction cs arbitrary: s)
  case (Cons c cs)
  have "reachable_oc (snd (invoke (exec_oc (oracle_host 100 500) c) s))"
    by (rule reachable_oc.transaction [OF Cons.prems]) (rule prod.collapse [symmetric])
  with Cons.IH show ?case by simp
qed simp

text \<open>Two oracles stake 100 each, and two equal votes are needed.\<close>

definition two_oracles :: "ledger oracle_state" where
  "two_oracles = run_oc [InitializeO (Address 2), RegisterOracle (Address 5) 100 (Address 9),
     RegisterOracle (Address 6) 100 (Address 9), SetThreshold 2] (deployed_oc (\<lambda>_. (\<lambda>_. 1000)(Address 0 := 0)))"

definition one_vote :: "ledger oracle_state" where
  "one_vote = run_oc [SubmitVote (Address 5) 7 ''abcd1234'' Lichess_oc Player1_oc 100] two_oracles"


text \<open>The rate check at the start of a window.\<close>

definition counter_at :: "u64 \<Rightarrow> rate_window option \<Rightarrow> u32 \<Rightarrow> bool" where
  "counter_at now w n \<longleftrightarrow> w = Some \<lparr>rw_window_start = now, rw_current_count = n, rw_previous_count = 0\<rparr> \<or> w = None \<and> n = 0"

lemma counter_at_simps [simp]:
  "counter_at now None n \<longleftrightarrow> n = 0"
  "counter_at now (Some \<lparr>rw_window_start = t, rw_current_count = k, rw_previous_count = p\<rparr>) n \<longleftrightarrow> t = now \<and> k = n \<and> p = 0"
  by (auto simp: counter_at_def)

lemma counted_window:
  assumes "counter_at now w n" "0 < secs" "n \<le> 100"
  shows "load_rate_window w now secs = \<lparr>rw_window_start = now, rw_current_count = n, rw_previous_count = 0\<rparr>"
    and "estimated_window_count now \<lparr>rw_window_start = now, rw_current_count = n, rw_previous_count = 0\<rparr> secs = n"
  using assms by (auto simp: counter_at_def load_rate_window_def estimated_window_count_def saturating_add_u32_def u32_max_def)

lemma run_rate_check:
  assumes "oi_rate_limit (oinst s) a = None" "n < 79"
    and "counter_at (ledger_timestamp env) (op_hourly_window (opers s) a) n"
    and "counter_at (ledger_timestamp env) (op_daily_window (opers s) a) n"
  shows "check_oracle_rate_limit env a (Suc 0) s = (Ok (), s\<lparr>opers := (opers s)\<lparr>
    op_hourly_window := (op_hourly_window (opers s))(a \<mapsto>
      \<lparr>rw_window_start = ledger_timestamp env, rw_current_count = Suc n, rw_previous_count = 0\<rparr>),
    op_daily_window := (op_daily_window (opers s))(a \<mapsto>
      \<lparr>rw_window_start = ledger_timestamp env, rw_current_count = Suc n, rw_previous_count = 0\<rparr>)\<rparr>\<rparr>)"
proof -
  have "n \<le> 100" using assms(2) by simp
  note windows = counted_window [OF assms(3) _ this] counted_window [OF assms(4) _ this]
  show ?thesis
    using assms(1,2)
    by (simp add: check_oracle_rate_limit_def maybe_alert_def run_simps windows limit_consts rate_limit_config_of_def
        saturating_add_u32_def u32_max_def checked_add_u32_def Let_def)
qed

lemmas oracle_eval_defs = run_simps oracle_op_defs register_oracle_with_stake_def
  admin_submitter_def update_oracle_metrics_def set_result_def set_cache_def append_oracle_submission_def
  bump_oracle_eligibility_version_def submit_oracle_result_def first_vote_def finalize_candidate_def
  record_vote_def remaining_eligible_oracles_def clear_votes_def late_vote_def repeated_vote_def slash_minority_def
  slash_bps_def add_vote_def same_candidate_def still_possible_def consensus_threshold_def oracle_set_of_def
  get_registered_oracle_count_def eligibility_version_def count_remaining_eligible_oracles_def eligible_def
  get_oracle_metrics_def no_metrics_def record_response_def limit_consts result_consts DEFAULT_CONSENSUS_THRESHOLD_def
  ledger_transfer_def oracle_host_def deployed_oc_def saturating_add_def saturating_add_u32_def
  saturating_add_u64_def i128_max_def i128_min_def u32_max_def u64_max_def checked_add_u32_def Let_def
  run_rate_check [where n = 0] run_rate_check [where n = "Suc 0"]

text \<open>The two states, evaluated.\<close>

lemma two_oracles_eq:
  "two_oracles = \<lparr>world = (\<lambda>_. (\<lambda>_. 1000)(Address 0 := 0))
       (Address 9 := (\<lambda>_. 1000)(Address 5 := 900, Address 6 := 900, Address 0 := 200)),
     events = [(''oracle'', ''init'', [OAddr (Address 2)]),
       (''oracle'', ''stake'', [OAddr (Address 5), OInt 100, OAddr (Address 9)]),
       (''oracle'', ''stake'', [OAddr (Address 6), OInt 100, OAddr (Address 9)]),
       (''oracle'', ''thresh'', [ONat 2])],
     oinst = (oinst (deployed_oc ()))\<lparr>oi_admin := Some (Address 2), oi_consensus_threshold := Some 2,
       oi_registration := [Address 5 \<mapsto> \<lparr>rg_oracle_address = Address 5, rg_oracle_stake = 100, rg_token = Address 9\<rparr>,
         Address 6 \<mapsto> \<lparr>rg_oracle_address = Address 6, rg_oracle_stake = 100, rg_token = Address 9\<rparr>],
       oi_oracle_set := Some [Address 5, Address 6], oi_eligibility_version := Some 2\<rparr>,
     opers = opers (deployed_oc ())\<rparr>"
  by (simp add: two_oracles_def oracle_eval_defs)

lemma one_vote_eq:
  "one_vote = two_oracles\<lparr>
     events := events two_oracles @ [(''oracle'', ''vote'', [ONat 7, OAddr (Address 5), OWinner Player1_oc])],
     opers := (opers (deployed_oc ()))\<lparr>
       op_hourly_window := [Address 5 \<mapsto> \<lparr>rw_window_start = 500, rw_current_count = 1, rw_previous_count = 0\<rparr>],
       op_daily_window := [Address 5 \<mapsto> \<lparr>rw_window_start = 500, rw_current_count = 1, rw_previous_count = 0\<rparr>],
       op_match_votes := [7 \<mapsto> \<lparr>cs_candidates = [\<lparr>ct_game_id = ''abcd1234'', ct_platform = Lichess_oc,
         ct_result = Player1_oc, ct_submitters = [Address 5]\<rparr>], cs_disputed = False\<rparr>],
       op_vote_tally := [7 \<mapsto> \<lparr>vt_remaining_eligible = 1, vt_eligibility_version = 2\<rparr>],
       op_vote := (\<lambda>_. Map.empty)(7 := [Address 5 \<mapsto> \<lparr>ov_game_id = ''abcd1234'', ov_platform = Lichess_oc, ov_result = Player1_oc\<rparr>]),
       op_metrics := [Address 5 \<mapsto> \<lparr>om_last_response_time_ms = 100, om_avg_response_time_ms = 100, om_uptime_percentage = 100,
         om_total_submissions = 1, om_successful_submissions = 1, om_active = True\<rparr>]\<rparr>\<rparr>"
  by (simp add: one_vote_def two_oracles_eq oracle_eval_defs)

lemma reachable_two_oracles: "reachable_oc two_oracles" "reachable_oc one_vote"
  by (simp_all add: two_oracles_def one_vote_def reachable_run reachable_oc.deployment del: run_oc.simps)

section \<open>The state of the registry and of the ballots\<close>

text \<open>C17. In every reachable state of the oracle contract the oracle set lists each registered
  oracle once and nobody else, no stake is negative, the staged slashes of an oracle are listed
  exactly and are positive, only registered oracles have votes, and the ballot of every match holds
  each vote at most once, under the candidate the voter named.\<close>

theorem oracle_states_are_consistent:
  assumes "reachable_oc s"
  shows "distinct (oracle_set_of s) \<and> set (oracle_set_of s) = dom (oi_registration (oinst s)) \<and>
    (\<forall>a r. oi_registration (oinst s) a = Some r \<longrightarrow> 0 \<le> rg_oracle_stake r) \<and>
    (\<forall>a. distinct (pending_slash_matches a s) \<and>
       set (pending_slash_matches a s) = dom (oi_pending_slash (oinst s) a) \<and>
       (\<forall>p \<in> ran (oi_pending_slash (oinst s) a). 0 < ps_slash_amount p)) \<and>
    (\<forall>m. dom (op_vote (opers s) m) \<subseteq> set (oracle_set_of s)) \<and>
    (\<forall>m st. op_match_votes (opers s) m = Some st \<longrightarrow> candidates_ok (op_vote (opers s) m) (cs_candidates st))"
proof -
  have inv: "registry_ok s" "slashes_ok s" "voters_ok s" "\<And>m. ballot_ok s m"
    using reachable_oc_inv [OF assms] by (simp_all add: oracle_inv_except_def)
  have "\<forall>p \<in> ran (oi_pending_slash (oinst s) a). 0 < ps_slash_amount p" for a
    using inv(2) by (auto simp: slashes_ok_def ran_def)
  moreover have "dom (op_vote (opers s) m) \<subseteq> set (oracle_set_of s)" for m
    using inv(3) by (auto simp: voters_ok_def)
  ultimately show ?thesis
    using inv by (simp add: registry_ok_def slashes_ok_def ballot_ok_def)
qed

theorem oracle_states_are_consistent_witness:
  "distinct (oracle_set_of one_vote) \<and> op_vote (opers one_vote) 7 (Address 5) \<noteq> None \<and>
   dom (op_vote (opers one_vote) 7) \<subseteq> set (oracle_set_of one_vote)"
proof -
  have "op_vote (opers one_vote) 7 (Address 5) \<noteq> None"
    by (simp add: one_vote_eq two_oracles_eq oracle_eval_defs)
  then show ?thesis
    using oracle_states_are_consistent [OF reachable_two_oracles(2)] by blast
qed

section \<open>The count of remaining voters\<close>

text \<open>C12. The count of remaining voters that is kept with a ballot, and decremented by each vote, is
  exact: in every reachable state a count of the current version of the voter set (below the
  saturation point of the version counter) is the number of staked oracles without a vote on the
  match, which a fresh scan of the oracle set would give.\<close>

theorem cached_voters_are_exact:
  assumes "reachable_oc s" "op_vote_tally (opers s) m = Some t"
    and "vt_eligibility_version t = eligibility_version s" "eligibility_version s < u32_max"
  shows "vt_remaining_eligible t = count_remaining_eligible_oracles m s \<and>
    vt_remaining_eligible t = card {a. eligible s a \<and> op_vote (opers s) m a = None}"
proof -
  have inv: "registry_ok s" "ballot_ok s m"
    using reachable_oc_inv [OF assms(1)] by (simp_all add: oracle_inv_except_def)
  then show ?thesis
    using assms(2-) count_remaining_card [OF inv(1), of m] by (simp add: ballot_ok_def tally_exact_def may_vote_def)
qed

theorem cached_voters_are_exact_witness:
  "op_vote_tally (opers one_vote) 7 = Some \<lparr>vt_remaining_eligible = 1, vt_eligibility_version = 2\<rparr> \<and>
   card {a. eligible one_vote a \<and> op_vote (opers one_vote) 7 a = None} = 1"
proof -
  have "op_vote_tally (opers one_vote) 7 = Some \<lparr>vt_remaining_eligible = 1, vt_eligibility_version = 2\<rparr>"
    "eligibility_version one_vote = 2"
    by (simp_all add: one_vote_eq two_oracles_eq oracle_eval_defs)
  then show ?thesis
    using cached_voters_are_exact [OF reachable_two_oracles(2), of 7] by (simp add: u32_max_def)
qed

section \<open>Results\<close>

fun submitted :: "oracle_call \<Rightarrow> u64 set" where
  "submitted (SubmitResultO m _ _ _ _ _) = {m}"
| "submitted (SubmitBatchO es) = be_match_id ` set es"
| "submitted (SubmitVote _ m _ _ _ _) = {m}"
| "submitted (ResolveDisputed m _ _ _) = {m}"
| "submitted _ = {}"

abbreviation result_of :: "u64 \<Rightarrow> 'w oracle_state \<Rightarrow> result_entry option" where
  "result_of m s \<equiv> op_result (opers s) m"

lemma frame_commits: "m \<notin> be_match_id ` set es \<Longrightarrow> frame (result_of m) (seqs (map (commit_entry env a) es))"
  by (induction es) (auto simp: commit_entry_def oracle_helper_defs intro!: frame_rules)

lemma frame_slash_loops [frame_rules]:
  "(\<And>s w. f (s\<lparr>world := w\<rparr>) = f s) \<Longrightarrow> (\<And>s e. f (s\<lparr>events := e\<rparr>) = f s) \<Longrightarrow>
   (\<And>s i. f (s\<lparr>oinst := i\<rparr>) = f s) \<Longrightarrow> frame f (slash_minority env m a)"
  "(\<And>s w. f (s\<lparr>world := w\<rparr>) = f s) \<Longrightarrow> (\<And>s e. f (s\<lparr>events := e\<rparr>) = f s) \<Longrightarrow>
   (\<And>s i. f (s\<lparr>oinst := i\<rparr>) = f s) \<Longrightarrow> frame f (slash_losers env m idx j cs)"
  "(\<And>s w. f (s\<lparr>world := w\<rparr>) = f s) \<Longrightarrow> (\<And>s e. f (s\<lparr>events := e\<rparr>) = f s) \<Longrightarrow>
   (\<And>s i. f (s\<lparr>oinst := i\<rparr>) = f s) \<Longrightarrow> frame f (slash_disagreeing env m v cs)"
proof -
  assume f: "\<And>s w. f (s\<lparr>world := w\<rparr>) = f s" "\<And>s e. f (s\<lparr>events := e\<rparr>) = f s" "\<And>s i. f (s\<lparr>oinst := i\<rparr>) = f s"
  show one: "frame f (slash_minority env m a)" for a
    by (auto simp: slash_minority_def slash_bps_def bump_oracle_eligibility_version_def f Let_def intro!: frame_rules)
  show "frame f (slash_losers env m idx j cs)"
    by (induction cs arbitrary: j) (auto intro!: frame_rules one)
  show "frame f (slash_disagreeing env m v cs)"
    by (induction cs) (auto intro!: frame_rules one)
qed

lemma frame_other_results:
  assumes "m \<notin> submitted c" "c \<noteq> DeleteResult m"
  shows "frame (result_of m) (exec_oc env c)"
  using assms
  by (cases c) (auto simp: oracle_op_defs oracle_helper_defs register_oracle_with_stake_def slash_oracle_def
      finalize_slash_def admin_cancel_slash_def bump_oracle_eligibility_version_def set_pending_slash_def
      remove_pending_slash_match_def submit_oracle_result_def late_vote_def repeated_vote_def first_vote_def
      finalize_candidate_def record_vote_def remaining_eligible_oracles_def clear_votes_def resolve_disputed_match_def
      slash_bps_def Let_def simp flip: commit_entry_def intro!: frame_rules frame_commits split: prod.split)

text \<open>A batch that passes its validation names each match once, and none that has a result.\<close>

lemma validate_batch_ok:
  "wp (validate_batch es) (\<lambda>_ s'. s' = s \<and> distinct (map be_match_id es) \<and>
     (\<forall>e \<in> set es. be_game_id e \<noteq> [] \<and> result_of (be_match_id e) s = None)) (\<lambda>_ _. True) True s"
  by (induction es) (auto simp: wp_simps list_ex_iff elim!: wp_mono)

lemma frame_quota_result:
  "frame (\<lambda>s. op_result (opers s)) (check_oracle_rate_limit env a n)"
  "frame (\<lambda>s. op_result (opers s)) (update_oracle_metrics a t)"
  by (auto simp: oracle_helper_defs Let_def intro!: frame_rules)

lemma wp_frame_simple: "frame f m \<Longrightarrow> f s = x \<Longrightarrow> wp m (\<lambda>_ s'. f s' = x) (\<lambda>_ _. True) True s"
  by (rule wp_frame) auto

lemma wp_admin_submitter: "(\<And>a. Q a s) \<Longrightarrow> wp (admin_submitter env) Q (\<lambda>_ _. True) True s"
  by (simp add: admin_submitter_def wp_simps)

text \<open>Submitting for a match that has a result changes no result.\<close>

lemma submitted_result_kept:
  assumes "result_of m s = Some e" "m \<in> submitted c"
  shows "wp (exec_oc env c) (\<lambda>_ s'. result_of m s' = Some e) (\<lambda>_ _. True) True s"
  using assms(2)
proof (cases c)
  case (SubmitResultO _ g p r t n)
  then have c: "c = SubmitResultO m g p r t n" using assms(2) by simp
  have step: "wp (bnd (check_oracle_rate_limit env a 1) (\<lambda>_. bnd (update_oracle_metrics a t) (\<lambda>_.
      bnd (gets (\<lambda>s. result_of m s \<noteq> None)) (\<lambda>present. bnd (reject_if present AlreadySubmitted) k))))
     (\<lambda>_ s'. result_of m s' = Some e) (\<lambda>_ _. True) True s" for a k
    unfolding wp_bnd [of "check_oracle_rate_limit env a 1"] wp_bnd [of "update_oracle_metrics a t"]
    by (intro wp_frame [OF frame_quota_result(1)] wp_frame [OF frame_quota_result(2)] TrueI)
      (use assms(1) in \<open>auto simp: wp_simps\<close>)
  show ?thesis
    unfolding c exec_oc.simps submit_result_oc_def seqs.simps wp_bnd [of "admin_submitter env"]
    by (rule wp_admin_submitter) (rule step)
next
  case (SubmitBatchO es)
  have step: "wp (bnd (check_oracle_rate_limit env a n) (\<lambda>_. bnd (validate_batch es) k))
     (\<lambda>_ s'. result_of m s' = Some e) (\<lambda>_ _. True) True s" for a n k
    unfolding wp_bnd [of "check_oracle_rate_limit env a n"] wp_bnd [of "validate_batch es"]
    by (intro wp_frame [OF frame_quota_result(1)] wp_mono [OF validate_batch_ok] TrueI)
      (use assms SubmitBatchO in auto)
  show ?thesis
    unfolding SubmitBatchO exec_oc.simps submit_batch_results_def seqs.simps wp_bnd [of "admin_submitter env"]
      wp_bnd [of "reject_if b e" for b e] wp_reject_if
    by (rule wp_admin_submitter) (intro conjI impI TrueI step)
next
  case (SubmitVote a _ g p r t)
  then have c: "c = SubmitVote a m g p r t" using assms(2) by simp
  have "wp (late_vote env a m v e) (\<lambda>_ s'. result_of m s' = Some e) (\<lambda>_ _. True) True s" for v
    by (rule wp_frame_simple) (use assms(1) in \<open>auto simp: late_vote_def intro!: frame_rules\<close>)
  then show ?thesis
    unfolding c exec_oc.simps submit_oracle_result_def Let_def by (simp add: wp_simps assms(1))
next
  case (ResolveDisputed _ g p r)
  then have c: "c = ResolveDisputed m g p r" using assms(2) by simp
  show ?thesis
    unfolding c exec_oc.simps resolve_disputed_match_def by (simp add: wp_simps assms(1))
qed simp_all

text \<open>C16. A result is final: once stored, whatever transaction follows leaves the result of the
  match as it is, unless the current admin authorized the deletion of that very result while the
  contract was not paused.\<close>

theorem results_are_final:
  assumes "result_of m s = Some e" "invoke (exec_oc env c) s = (r, s')"
  shows "result_of m s' = Some e \<or>
    c = DeleteResult m \<and> result_of m s' = None \<and> \<not> is_paused_oc s \<and>
    (\<exists>admin. oi_admin (oinst s) = Some admin \<and> authorized env admin)"
proof -
  let ?Q = "\<lambda>s'. result_of m s' = Some e \<or> c = DeleteResult m \<and> result_of m s' = None \<and> \<not> is_paused_oc s \<and>
    (\<exists>admin. oi_admin (oinst s) = Some admin \<and> authorized env admin)"
  consider "m \<in> submitted c" | "c = DeleteResult m" | "m \<notin> submitted c" "c \<noteq> DeleteResult m" by blast
  then have "wp (exec_oc env c) (\<lambda>_. ?Q) (\<lambda>_ _. True) True s"
  proof cases
    case 1
    show ?thesis by (rule wp_mono [OF submitted_result_kept [OF assms(1) 1]]) auto
  next
    case 2
    then show ?thesis
      by (simp add: delete_result_def get_result_def set_cache_def set_result_def wp_simps)
  next
    case 3
    show ?thesis by (rule wp_frame [OF frame_other_results [OF 3]]) (simp_all add: assms(1))
  qed
  then show ?thesis
    using assms(2) by (rule invoke_preserves [where I = ?Q, rotated 1]) (simp add: assms(1))
qed

theorem results_are_final_witness:
  "result_of 7 (run_oc [SubmitVote (Address 6) 7 ''abcd1234'' Lichess_oc Player1_oc 100] one_vote) = Some
     \<lparr>re_game_id = ''abcd1234'', re_platform = Lichess_oc, re_result = Player1_oc, re_submitted_ledger = 100,
      re_submitter = Address 6, re_confidence = None\<rparr> \<and>
   result_of 7 (run_oc [SubmitVote (Address 6) 7 ''abcd1234'' Lichess_oc Player1_oc 100,
     SubmitResultO 7 ''abcd1234'' Lichess_oc Player2_oc 100 None] one_vote) = Some
     \<lparr>re_game_id = ''abcd1234'', re_platform = Lichess_oc, re_result = Player1_oc, re_submitted_ledger = 100,
      re_submitter = Address 6, re_confidence = None\<rparr>"
proof -
  let ?s = "run_oc [SubmitVote (Address 6) 7 ''abcd1234'' Lichess_oc Player1_oc 100] one_vote"
  have "result_of 7 ?s = Some \<lparr>re_game_id = ''abcd1234'', re_platform = Lichess_oc, re_result = Player1_oc,
      re_submitted_ledger = 100, re_submitter = Address 6, re_confidence = None\<rparr>"
    by (simp add: one_vote_eq two_oracles_eq oracle_eval_defs)
  then show ?thesis
    using results_are_final [of ?s 7 _ "oracle_host 100 500" "SubmitResultO 7 ''abcd1234'' Lichess_oc Player2_oc 100 None"
        "fst r" "snd r" for r, OF _ prod.collapse [symmetric]]
    by simp
qed

section \<open>Votes\<close>

text \<open>A vote on an open match first passes the quota and the metrics, which touch neither the
  token contracts nor the registry nor the ballots nor the results.\<close>

definition voting_part where
  "voting_part s = (world s, oinst s, ballot_part s, op_result (opers s))"

lemma frame_quota_voting:
  "frame voting_part (check_oracle_rate_limit env a n)" "frame voting_part (update_oracle_metrics a t)"
  by (auto simp: voting_part_def ballot_part_def oracle_helper_defs Let_def intro!: frame_rules)

lemma wp_open_vote:
  assumes "result_of m s = None"
    and counted: "\<And>s1. voting_part s1 = voting_part s \<Longrightarrow> eligible s a \<Longrightarrow>
      wp (case op_vote (opers s) m a of
            Some prev \<Rightarrow> repeated_vote env a m \<lparr>ov_game_id = g, ov_platform = p, ov_result = r\<rparr> prev
          | None \<Rightarrow> first_vote env a m \<lparr>ov_game_id = g, ov_platform = p, ov_result = r\<rparr>) Q (\<lambda>_ _. True) True s1"
  shows "wp (submit_oracle_result env a m g p r t) Q (\<lambda>_ _. True) True s"
proof -
  have "wp (bnd (check_oracle_rate_limit env a 1) (\<lambda>_. bnd (update_oracle_metrics a t) (\<lambda>_.
      bnd (gets (\<lambda>s. op_vote (opers s) m a)) (\<lambda>previous. case previous of
        Some prev \<Rightarrow> repeated_vote env a m \<lparr>ov_game_id = g, ov_platform = p, ov_result = r\<rparr> prev
      | None \<Rightarrow> first_vote env a m \<lparr>ov_game_id = g, ov_platform = p, ov_result = r\<rparr>)))) Q (\<lambda>_ _. True) True s"
    if el: "eligible s a"
    unfolding wp_bnd [of "check_oracle_rate_limit env a 1"] wp_bnd [of "update_oracle_metrics a t"] wp_bnd [of "gets f" for f] wp_gets
  proof (intro wp_frame [OF frame_quota_voting(1)] wp_frame [OF frame_quota_voting(2)] TrueI)
    fix s1 s2 :: "'a oracle_state"
    assume "voting_part s1 = voting_part s" "voting_part s2 = voting_part s1"
    then have "voting_part s2 = voting_part s" "op_vote (opers s2) = op_vote (opers s)"
      by (simp_all add: voting_part_def ballot_part_def)
    then show "wp (case op_vote (opers s2) m a of
            Some prev \<Rightarrow> repeated_vote env a m \<lparr>ov_game_id = g, ov_platform = p, ov_result = r\<rparr> prev
          | None \<Rightarrow> first_vote env a m \<lparr>ov_game_id = g, ov_platform = p, ov_result = r\<rparr>) Q (\<lambda>_ _. True) True s2"
      using counted [of s2] el by simp
  qed
  then show ?thesis
    unfolding submit_oracle_result_def Let_def using assms(1)
    by (auto simp: wp_simps eligible_def)
qed

lemma finalize_candidate_result:
  "wp (finalize_candidate env a m th cs idx) (\<lambda>_ s'. result_of m s' = Some
     \<lparr>re_game_id = ct_game_id (cs ! idx), re_platform = ct_platform (cs ! idx), re_result = ct_result (cs ! idx),
      re_submitted_ledger = ledger_sequence env, re_submitter = a, re_confidence = None\<rparr> \<and>
     op_vote (opers s') = op_vote (opers s)) (\<lambda>_ _. True) True s"
  unfolding finalize_candidate_def Let_def
  by (subst wp_seqs_Cons, simp only: set_result_def wp_upd_opers, rule wp_frame [where f = "\<lambda>s. (result_of m s, op_vote (opers s))"])
    (auto simp: oracle_helper_defs clear_votes_def intro!: frame_rules)

lemma inv_voting_part:
  assumes "voting_part s1 = voting_part s"
  shows "oracle_inv s \<Longrightarrow> oracle_inv s1" "eligible s a \<Longrightarrow> eligible s1 a" "op_vote (opers s1) = op_vote (opers s)"
    "result_of m s1 = result_of m s" "oracle_set_of s1 = oracle_set_of s" "consensus_threshold s1 = consensus_threshold s"
    "eligibility_version s1 = eligibility_version s"
  using assms
  by (auto simp: voting_part_def ballot_part_def eligible_def oracle_set_of_def consensus_threshold_def
      eligibility_version_def staking_part_def elim!: inv_parts)

lemma open_candidates:
  assumes "oracle_inv s"
  shows "candidates_ok (op_vote (opers s) m)
    (cs_candidates (unwrap_or (op_match_votes (opers s) m) \<lparr>cs_candidates = [], cs_disputed = False\<rparr>))"
  using assms by (cases "op_match_votes (opers s) m") (auto simp: oracle_inv_except_def ballot_ok_def candidates_ok_def)

text \<open>A candidate that reaches the threshold does so by votes of distinct oracles.\<close>

lemma winning_quorum:
  assumes ok: "candidates_ok votes cs" and new: "votes a = None" and add: "add_vote v a th cs = (cs', Some i)"
  shows "candidate_vote (cs' ! i) = v"
    and "\<exists>V \<subseteq> dom (votes(a \<mapsto> v)). th \<le> card V \<and> (\<forall>b \<in> V. (votes(a \<mapsto> v)) b = Some v)"
proof -
  let ?V = "set (ct_submitters (cs' ! i))"
  note won = add_vote_ok [OF ok new add]
  have i: "i < length cs'" "candidate_vote (cs' ! i) = v" "th \<le> length (ct_submitters (cs' ! i))"
    using won(2) [OF refl] by auto
  have "\<forall>b \<in> ?V. (votes(a \<mapsto> v)) b = Some v"
    using won(1) nth_mem [OF i(1)] i(2) unfolding candidates_ok_def by metis
  moreover have "distinct (ct_submitters (cs' ! i))"
    using won(1) nth_mem [OF i(1)] by (simp add: candidates_ok_def distinct_concat_iff)
  ultimately show "\<exists>V \<subseteq> dom (votes(a \<mapsto> v)). th \<le> card V \<and> (\<forall>b \<in> V. (votes(a \<mapsto> v)) b = Some v)"
    using i(3) by (intro exI [of _ ?V]) (auto simp: distinct_card dom_def)
  show "candidate_vote (cs' ! i) = v" by (fact i(2))
qed

lemma first_vote_quorum:
  assumes inv: "oracle_inv s" and new: "result_of m s = None" "op_vote (opers s) m a = None" and el: "eligible s a"
  shows "wp (first_vote env a m v) (\<lambda>_ s'. \<forall>e. result_of m s' = Some e \<longrightarrow>
      v = \<lparr>ov_game_id = re_game_id e, ov_platform = re_platform e, ov_result = re_result e\<rparr> \<and>
      (\<exists>V \<subseteq> set (oracle_set_of s). consensus_threshold s \<le> card V \<and> (\<forall>b \<in> V. op_vote (opers s') m b = Some v)))
    (\<lambda>_ _. True) True s" (is "wp _ (\<lambda>_. ?quorum) _ _ _")
proof -
  let ?st = "unwrap_or (op_match_votes (opers s) m) \<lparr>cs_candidates = [], cs_disputed = False\<rparr>"
  let ?th = "consensus_threshold s"
  obtain cs w where add: "add_vote v a ?th (cs_candidates ?st) = (cs, w)" by fastforce
  have th: "consensus_threshold (voted m a v s) = ?th" by (simp add: consensus_threshold_def voted_def)
  have "a \<in> set (oracle_set_of s)" "voters_ok s"
    using inv eligible_registered [OF el] by (simp_all add: oracle_inv_except_def registry_ok_def)
  then have registered: "dom ((op_vote (opers s) m)(a \<mapsto> v)) \<subseteq> set (oracle_set_of s)"
    by (auto simp: voters_ok_def)
  show ?thesis
  proof (cases w)
    case (Some i)
    note won = winning_quorum [OF open_candidates [OF inv] new(2) add [unfolded Some]]
    have "wp (finalize_candidate env a m ?th cs i) (\<lambda>_. ?quorum) (\<lambda>_ _. True) True (voted m a v s)"
    proof (rule wp_mono [OF finalize_candidate_result], intro allI impI conjI)
      fix s' e
      assume e: "result_of m s' = Some \<lparr>re_game_id = ct_game_id (cs ! i), re_platform = ct_platform (cs ! i),
        re_result = ct_result (cs ! i), re_submitted_ledger = ledger_sequence env, re_submitter = a, re_confidence = None\<rparr> \<and>
        op_vote (opers s') = op_vote (opers (voted m a v s))" "result_of m s' = Some e"
      show "v = \<lparr>ov_game_id = re_game_id e, ov_platform = re_platform e, ov_result = re_result e\<rparr>"
        using e won(1) by (auto simp: candidate_vote_def)
      show "\<exists>V \<subseteq> set (oracle_set_of s). ?th \<le> card V \<and> (\<forall>b \<in> V. op_vote (opers s') m b = Some v)"
      proof -
        have "op_vote (opers s') m = (op_vote (opers s) m)(a \<mapsto> v)" using e by (simp add: voted_def)
        then show ?thesis using won(2) registered by (metis subset_trans)
      qed
    qed simp_all
    then show ?thesis
      using add Some th unfolding first_vote_def wp_simps voted_def [symmetric] by simp
  next
    case None
    have "wp (record_vote env a m v ?th cs) (\<lambda>_ s'. result_of m s' = None) (\<lambda>_ _. True) True (voted m a v s)"
      by (rule wp_frame_simple)
        (use new(1) in \<open>auto simp: voted_def record_vote_def set_cache_def remaining_eligible_oracles_def intro!: frame_rules\<close>)
    then have "wp (record_vote env a m v ?th cs) (\<lambda>_. ?quorum) (\<lambda>_ _. True) True (voted m a v s)"
      by (rule wp_mono) auto
    then show ?thesis
      using add None th unfolding first_vote_def wp_simps voted_def [symmetric] by simp
  qed
qed

text \<open>C10. A result decided by votes stands on a quorum: when a vote in a reachable state gives an open
  match its result, that result is the one the voter named, and a set of distinct registered
  oracles, at least as many as the threshold, has voted for exactly this game, platform and
  outcome.\<close>

theorem voted_results_have_a_quorum:
  assumes "reachable_oc s" "result_of m s = None"
    and "invoke (exec_oc env (SubmitVote a m g p r t)) s = (x, s')" "result_of m s' = Some e"
  shows "re_game_id e = g \<and> re_platform e = p \<and> re_result e = r \<and>
    (\<exists>V \<subseteq> set (oracle_set_of s). consensus_threshold s \<le> card V \<and>
       (\<forall>b \<in> V. op_vote (opers s') m b = Some \<lparr>ov_game_id = g, ov_platform = p, ov_result = r\<rparr>))"
proof -
  let ?v = "\<lparr>ov_game_id = g, ov_platform = p, ov_result = r\<rparr>"
  let ?Q = "\<lambda>s'. \<forall>e. result_of m s' = Some e \<longrightarrow> ?v = \<lparr>ov_game_id = re_game_id e, ov_platform = re_platform e, ov_result = re_result e\<rparr> \<and>
      (\<exists>V \<subseteq> set (oracle_set_of s). consensus_threshold s \<le> card V \<and> (\<forall>b \<in> V. op_vote (opers s') m b = Some ?v))"
  have "wp (case op_vote (opers s) m a of Some prev \<Rightarrow> repeated_vote env a m ?v prev | None \<Rightarrow> first_vote env a m ?v)
      (\<lambda>_. ?Q) (\<lambda>_ _. True) True s1" if s1: "voting_part s1 = voting_part s" and el: "eligible s a" for s1
  proof (cases "op_vote (opers s) m a")
    case None
    then show ?thesis
      using first_vote_quorum [of s1 m a env ?v] inv_voting_part [OF s1] assms(2) el reachable_oc_inv [OF assms(1)]
      by simp
  next
    case (Some prev)
    have "wp (repeated_vote env a m ?v prev) (\<lambda>_ s'. result_of m s' = None) (\<lambda>_ _. True) True s1"
      by (rule wp_frame_simple) (use assms(2) inv_voting_part(4) [OF s1] in
        \<open>auto simp: repeated_vote_def slash_bps_def bump_oracle_eligibility_version_def Let_def intro!: frame_rules\<close>)
    then show ?thesis using Some by (simp, elim wp_mono) auto
  qed
  then have "wp (exec_oc env (SubmitVote a m g p r t)) (\<lambda>_. ?Q) (\<lambda>_ _. True) True s"
    unfolding exec_oc.simps by (rule wp_open_vote [OF assms(2)])
  then have "?Q s'"
    using assms(3) by (rule invoke_preserves [where I = ?Q, rotated 1]) (simp add: assms(2))
  with assms(4) show ?thesis by (elim allE [of _ e] impE conjE, simp) (intro conjI; (assumption | simp))
qed

theorem voted_results_have_a_quorum_witness:
  "let s' = run_oc [SubmitVote (Address 6) 7 ''abcd1234'' Lichess_oc Player1_oc 100] one_vote
   in re_result (the (result_of 7 s')) = Player1_oc \<and>
      (\<exists>V \<subseteq> set (oracle_set_of one_vote). 2 \<le> card V \<and> (\<forall>b \<in> V. op_vote (opers s') 7 b =
         Some \<lparr>ov_game_id = ''abcd1234'', ov_platform = Lichess_oc, ov_result = Player1_oc\<rparr>))"
proof -
  let ?s' = "run_oc [SubmitVote (Address 6) 7 ''abcd1234'' Lichess_oc Player1_oc 100] one_vote"
  have "result_of 7 one_vote = None" "consensus_threshold one_vote = 2" "result_of 7 ?s' \<noteq> None"
    by (simp_all add: one_vote_eq two_oracles_eq oracle_eval_defs)
  then show ?thesis
    using voted_results_have_a_quorum [OF reachable_two_oracles(2), of 7 "oracle_host 100 500" "Address 6" "''abcd1234''"
        Lichess_oc Player1_oc 100 "fst r" "snd r" for r, OF _ prod.collapse [symmetric]]
    by (auto simp: Let_def)
qed

section \<open>Deadlocks\<close>

lemma still_possible_iff:
  "th \<le> u32_max \<Longrightarrow> still_possible th k cs \<longleftrightarrow> (\<exists>c \<in> set cs. th \<le> length (ct_submitters c) + k)"
  by (auto simp: still_possible_def list_ex_iff saturating_add_u32_def)

lemma record_vote_flag:
  assumes inv: "oracle_inv s" and a: "eligible s a" "op_vote (opers s) m a = None"
    and "eligibility_version s < u32_max"
  shows "wp (record_vote env a m v th cs) (\<lambda>_ s'. oinst s' = oinst s \<and> op_match_votes (opers s') m =
      Some \<lparr>cs_candidates = cs, cs_disputed = (\<not> still_possible th (card (may_vote s' m)) cs)\<rparr>)
    (\<lambda>_ _. True) True (voted m a v s)"
proof -
  have ok: "registry_ok (voted m a v s)"
    using inv by (simp add: oracle_inv_except_def registry_ok_def voted_def oracle_set_of_def eligibility_version_def)
  have count: "remaining_after m (voted m a v s) = card (may_vote (voted m a v s) m)"
    using remaining_after_voted [OF inv a assms(4)] count_remaining_card [OF ok] by simp
  show ?thesis
    unfolding record_vote_def set_cache_def Let_def wp_simps count
    by (simp add: may_vote_def eligible_def voted_def)
qed



end
