(* ===== verification/Oracle_Funds.thy ===== *)
theory Oracle_Funds
  imports Oracle_Guarantees
begin

text \<open>
  Stakes, quotas and exchanges of the oracle contract. The stakes of the registered oracles are
  backed by the contract's balance as long as nobody uses the exchange, which pays out of the same
  balance; an equivocating oracle loses its whole stake; accepted submissions stay within the hourly
  and daily limits; a batch is stored as a whole or not at all; an exchange pays the quoted amount.
\<close>

section \<open>Backed stakes\<close>

definition stake_in :: "address \<Rightarrow> oracle_registration option \<Rightarrow> int" where
  "stake_in t r = (case r of Some r \<Rightarrow> if rg_token r = t then rg_oracle_stake r else 0 | None \<Rightarrow> 0)"

definition stakes_in :: "address \<Rightarrow> 'w oracle_state \<Rightarrow> int" where
  "stakes_in t s = (\<Sum>a \<in> set (oracle_set_of s). stake_in t (oi_registration (oinst s) a))"

definition surplus_oc :: "('w \<Rightarrow> address \<Rightarrow> address \<Rightarrow> int) \<Rightarrow> address \<Rightarrow> address \<Rightarrow> 'w oracle_state \<Rightarrow> int" where
  "surplus_oc bal self t s = bal (world s) t self - stakes_in t s"

text \<open>Actions that do not spend the stakes of others.\<close>

definition sparing :: "('w \<Rightarrow> address \<Rightarrow> address \<Rightarrow> int) \<Rightarrow> address \<Rightarrow> 'w oracle_state \<Rightarrow> 'w oracle_state \<Rightarrow> bool" where
  "sparing bal self s s' \<longleftrightarrow>
     (registry_ok s \<longrightarrow> registry_ok s' \<and> (\<forall>t. surplus_oc bal self t s \<le> surplus_oc bal self t s'))"

interpretation sparing: state_order "sparing bal self" for bal self
  by unfold_locales (auto simp: sparing_def intro: order_trans)

definition stakes_part where
  "stakes_part s = (world s, oi_registration (oinst s), oi_oracle_set (oinst s), oi_eligibility_version (oinst s))"

lemma stakes_frame_sparing: "frame stakes_part m \<Longrightarrow> sparing.obeys bal self m"
  by (rule sparing.obeys_frame) (auto simp: stakes_part_def sparing_def surplus_oc_def stakes_in_def oracle_set_of_def
      registry_ok_def eligibility_version_def)

lemma sum_point:
  assumes "finite A" "\<And>x. x \<noteq> a \<Longrightarrow> g x = f x"
  shows "(\<Sum>x \<in> A. g x) = (\<Sum>x \<in> A. f x) + (if a \<in> A then g a - f a else (0 :: int))"
proof (cases "a \<in> A")
  case True
  have "(\<Sum>x \<in> A - {a}. g x) = (\<Sum>x \<in> A - {a}. f x)" by (rule sum.cong) (use assms(2) in auto)
  then show ?thesis using True assms(1) by (simp add: sum.remove)
next
  case False
  have "(\<Sum>x \<in> A. g x) = (\<Sum>x \<in> A. f x)" by (rule sum.cong) (use False assms(2) in metis)+
  then show ?thesis using False by simp
qed

text \<open>The stake of one registered oracle changes.\<close>

lemma stakes_in_update:
  assumes "oi_oracle_set (oinst s') = oi_oracle_set (oinst s)" "a \<in> set (oracle_set_of s)"
    and "oi_registration (oinst s') = (oi_registration (oinst s))(a \<mapsto> r')" "oi_registration (oinst s) a = Some r"
    and "rg_token r' = rg_token r"
  shows "stakes_in t s' = stakes_in t s + (if t = rg_token r then rg_oracle_stake r' - rg_oracle_stake r else 0)"
  using sum_point [of "set (oracle_set_of s)" a "\<lambda>x. stake_in t (oi_registration (oinst s') x)"
      "\<lambda>x. stake_in t (oi_registration (oinst s) x)"] assms
  by (simp_all add: stakes_in_def oracle_set_of_def stake_in_def)

lemma restaked_surplus:
  assumes "registry_ok s" "oi_oracle_set (oinst s') = oi_oracle_set (oinst s)"
    and "oi_registration (oinst s') = (oi_registration (oinst s))(a \<mapsto> r')" "oi_registration (oinst s) a = Some r"
    and "rg_token r' = rg_token r"
    and "\<And>t. bal (world s) t self + (if t = rg_token r then rg_oracle_stake r' - rg_oracle_stake r else 0) \<le> bal (world s') t self"
  shows "surplus_oc bal self t s \<le> surplus_oc bal self t s'"
proof -
  have "a \<in> set (oracle_set_of s)" using assms(1,4) by (auto simp: registry_ok_def)
  then show ?thesis
    using stakes_in_update [OF assms(2) _ assms(3-5), of t] assms(6) [of t] by (simp add: surplus_oc_def)
qed

lemma sparing_obeysI:
  assumes "\<And>s. registry_ok s \<Longrightarrow> wp m (\<lambda>_. registry_ok) (\<lambda>_. registry_ok) True s"
    and "\<And>s. registry_ok s \<Longrightarrow> wp m (\<lambda>_ s'. \<forall>t. surplus_oc bal self t s \<le> surplus_oc bal self t s')
      (\<lambda>_ s'. \<forall>t. surplus_oc bal self t s \<le> surplus_oc bal self t s') True s"
  shows "sparing.obeys bal self m"
  unfolding sparing.obeys_def sparing_def
proof
  fix s
  show "wp m (\<lambda>_ s'. registry_ok s \<longrightarrow> registry_ok s' \<and> (\<forall>t. surplus_oc bal self t s \<le> surplus_oc bal self t s'))
    (\<lambda>_ s'. registry_ok s \<longrightarrow> registry_ok s' \<and> (\<forall>t. surplus_oc bal self t s \<le> surplus_oc bal self t s')) True s"
    using wp_both [OF assms] by (cases "registry_ok s") (simp_all add: wpI_any)
qed

lemma slash_bps_sparing:
  assumes "sep41 env bal" "current_contract_address env = self"
  shows "sparing.obeys bal self (slash_bps env a bps)"
proof (rule sparing_obeysI)
  show "wp (slash_bps env a bps) (\<lambda>_. registry_ok) (\<lambda>_. registry_ok) True s" if "registry_ok s" for s :: "'a oracle_state"
    using slash_bps_restaked [of env a bps] that unfolding slashing.obeys_def
    by (elim allE [of _ s] wp_mono) (auto dest: registry_restaked)
  show "wp (slash_bps env a bps) (\<lambda>_ s'. \<forall>t. surplus_oc bal self t s \<le> surplus_oc bal self t s')
      (\<lambda>_ s'. \<forall>t. surplus_oc bal self t s \<le> surplus_oc bal self t s') True s" if ok: "registry_ok s" for s
    unfolding slash_bps_def bump_oracle_eligibility_version_def wp_simps Let_def assms(2)
    by (auto intro!: restaked_surplus [OF ok] simp: sep41D(2) [OF assms(1)] split: if_splits)
qed

lemma publish_sparing: "sparing.obeys bal self (publish x y z)"
  by (rule stakes_frame_sparing) (auto simp: stakes_part_def intro!: frame_rules)

lemma slash_loops_sparing:
  assumes "sep41 env bal" "current_contract_address env = self"
  shows "sparing.obeys bal self (slash_minority env m a)"
    and "sparing.obeys bal self (slash_losers env m i j cs)"
    and "sparing.obeys bal self (slash_disagreeing env m v cs)"
proof -
  show one: "sparing.obeys bal self (slash_minority env m a)" for a
    unfolding slash_minority_def by (intro sparing.obeys_bnd slash_bps_sparing [OF assms] publish_sparing)
  show "sparing.obeys bal self (slash_losers env m i j cs)"
    by (induction cs arbitrary: j) (auto intro!: sparing.obeys_bnd sparing.obeys_pure sparing.obeys_seqs_map one)
  show "sparing.obeys bal self (slash_disagreeing env m v cs)"
    by (induction cs) (auto intro!: sparing.obeys_bnd sparing.obeys_pure sparing.obeys_seqs_map one)
qed

lemma vote_frames:
  "frame stakes_part (check_oracle_rate_limit env a n)" "frame stakes_part (update_oracle_metrics a t)"
  "frame stakes_part (record_vote env a m v th cs)" "frame stakes_part (clear_votes m)"
  "frame stakes_part (set_result m e)" "frame stakes_part (set_cache g p x)"
  "frame stakes_part (append_oracle_submission env a m g p r)"
  by (auto simp: stakes_part_def oracle_helper_defs record_vote_def remaining_eligible_oracles_def clear_votes_def Let_def
      intro!: frame_rules)

lemma vote_sparing:
  assumes "sep41 env bal" "current_contract_address env = self"
  shows "sparing.obeys bal self (submit_oracle_result env a m g p r t)"
    and "sparing.obeys bal self (resolve_disputed_match env m g p r)"
proof -
  note rules = sparing.obeys_rules sparing.obeys_seqs_map slash_bps_sparing [OF assms] slash_loops_sparing [OF assms]
    publish_sparing vote_frames [THEN stakes_frame_sparing] stakes_frame_sparing [OF frame_storage_oc(4)]
  have fin: "sparing.obeys bal self (finalize_candidate env a m th cs idx)" for th cs idx
    unfolding finalize_candidate_def Let_def by (intro rules)
  have vote: "sparing.obeys bal self (upd_opers (\<lambda>p. p\<lparr>op_vote := f p\<rparr>))" for f
    by (rule stakes_frame_sparing) (auto simp: stakes_part_def intro!: frame_rules)
  have auth: "sparing.obeys bal self (require_auth env x)" for x
    by (rule stakes_frame_sparing) (auto intro!: frame_rules)
  show "sparing.obeys bal self (submit_oracle_result env a m g p r t)"
    unfolding submit_oracle_result_def late_vote_def repeated_vote_def first_vote_def Let_def
    by (auto intro!: rules fin vote auth split: option.split prod.split)
  show "sparing.obeys bal self (resolve_disputed_match env m g p r)"
    unfolding resolve_disputed_match_def by (intro rules)
qed

text \<open>A new registration is paid for by its oracle.\<close>

lemma joined_surplus:
  assumes "registry_ok s" "oi_registration (oinst s) a = None" "set (oracle_set_of s') = insert a (set (oracle_set_of s))"
    and "oi_registration (oinst s') = (oi_registration (oinst s))(a \<mapsto> r)"
    and "\<And>t. bal (world s) t self + (if t = rg_token r then rg_oracle_stake r else 0) \<le> bal (world s') t self"
  shows "surplus_oc bal self t s \<le> surplus_oc bal self t s'"
proof -
  have a: "a \<notin> set (oracle_set_of s)" using assms(1,2) by (auto simp: registry_ok_def)
  have "(\<Sum>x \<in> set (oracle_set_of s). stake_in t (oi_registration (oinst s') x)) = stakes_in t s"
    unfolding stakes_in_def by (rule sum.cong) (use a assms(4) in auto)
  then have "stakes_in t s' = stakes_in t s + (if t = rg_token r then rg_oracle_stake r else 0)"
    using a assms(3,4) by (simp add: stakes_in_def stake_in_def)
  then show ?thesis using assms(5) [of t] by (simp add: surplus_oc_def)
qed

lemma saturating_add_le: "0 \<le> a \<Longrightarrow> 0 \<le> b \<Longrightarrow> saturating_add a b \<le> a + b"
  by (auto simp: saturating_add_def i128_min_def)

lemma register_surplus:
  assumes "sep41 env bal" "current_contract_address env = self" "\<not> authorized env self" and ok: "registry_ok s"
  shows "wp (register_oracle_with_stake env a n tk) (\<lambda>_ s'. surplus_oc bal self t s \<le> surplus_oc bal self t s') (\<lambda>_ _. True) True s"
proof -
  have paid: "bal w' t self = bal w t self + (if t = tk then n else 0)"
    if "token_transfer env tk a self n w = Some w'" "authorized env a" for w w' t
    using sep41D(2) [OF assms(1) that(1), of t self] that(2) assms(3) by auto
  show ?thesis
  proof (cases "oi_registration (oinst s) a")
    case None
    then have "a \<notin> set (unwrap_or (oi_oracle_set (oinst s)) [])" using ok by (auto simp: registry_ok_def oracle_set_of_def)
    then show ?thesis
      unfolding register_oracle_with_stake_def bump_oracle_eligibility_version_def wp_simps Let_def assms(2)
      by (auto simp: None oracle_set_of_def paid saturating_add_le [of 0 n, simplified] intro!: joined_surplus [OF ok None])
  next
    case (Some r)
    have "a \<in> set (unwrap_or (oi_oracle_set (oinst s)) [])" "0 \<le> rg_oracle_stake r"
      using Some ok by (auto simp: registry_ok_def oracle_set_of_def)
    then show ?thesis
      using saturating_add_le [of "rg_oracle_stake r" n]
      unfolding register_oracle_with_stake_def bump_oracle_eligibility_version_def wp_simps Let_def assms(2)
      by (auto simp: Some paid intro!: restaked_surplus [OF ok _ _ Some])
  qed
qed

lemma finalize_slash_surplus:
  assumes "sep41 env bal" "current_contract_address env = self" and inv: "oracle_inv s"
  shows "wp (finalize_slash env a m) (\<lambda>_ s'. surplus_oc bal self t s \<le> surplus_oc bal self t s') (\<lambda>_ _. True) True s"
proof -
  have ok: "registry_ok s" "slashes_ok s" using inv by (simp_all add: oracle_inv_except_def)
  have paid: "surplus_oc bal self t s \<le> surplus_oc bal self t s'"
    if "oi_pending_slash (oinst s) a m = Some p" "oi_registration (oinst s) a = Some r"
      "oi_oracle_set (oinst s') = oi_oracle_set (oinst s)"
      "oi_registration (oinst s') = (oi_registration (oinst s))(a \<mapsto> r\<lparr>rg_oracle_stake := left\<rparr>)"
      "checked_sub (rg_oracle_stake r) (min (ps_slash_amount p) (rg_oracle_stake r)) = Some left"
      "world s' = world s \<and> \<not> 0 < min (ps_slash_amount p) (rg_oracle_stake r) \<or>
       (\<exists>adm. token_transfer env (ps_token p) self adm (min (ps_slash_amount p) (rg_oracle_stake r)) (world s) = Some (world s'))"
    for s' p r left
  proof (rule restaked_surplus [OF ok(1) that(3,4,2)])
    let ?n = "min (ps_slash_amount p) (rg_oracle_stake r)"
    have facts: "rg_token r = ps_token p" "0 \<le> ?n" "left = rg_oracle_stake r - ?n"
      using ok(1) that staged_registered(2,3) [OF ok(2)] by (auto simp: registry_ok_def checked_sub_Some less_imp_le)
    then show "bal (world s) t self + (if t = rg_token r then rg_oracle_stake (r\<lparr>rg_oracle_stake := left\<rparr>) -
        rg_oracle_stake r else 0) \<le> bal (world s') t self" for t
      using that(6) sep41D(2) [OF assms(1), of "ps_token p" self _ ?n "world s" "world s'" t self] by fastforce
  qed simp
  show ?thesis
    unfolding finalize_slash_def bump_oracle_eligibility_version_def set_pending_slash_def remove_pending_slash_match_def
      wp_simps Let_def assms(2)
    by (intro conjI impI allI TrueI; (simp only: ok_or_def)?; rule paid, assumption, assumption, simp, simp, assumption, auto)
qed

definition spends_stakes :: "oracle_call \<Rightarrow> bool" where
  "spends_stakes c \<longleftrightarrow> (\<exists>a t1 t2 n k b. c = Swap a t1 t2 n k b)"

lemma plain_stakes_frame:
  "\<not> touches_stakes c \<Longrightarrow> \<not> spends_stakes c \<Longrightarrow> frame stakes_part (exec_oc env c)"
  by (cases c) (auto simp: stakes_part_def spends_stakes_def oracle_op_defs oracle_helper_defs Let_def intro!: frame_rules)

lemma staging_frame:
  "frame stakes_part (slash_oracle env a m n)" "frame stakes_part (admin_cancel_slash env a m)"
  by (auto simp: stakes_part_def slash_oracle_def admin_cancel_slash_def set_pending_slash_def
      remove_pending_slash_match_def Let_def intro!: frame_rules)

lemma exec_oc_surplus:
  assumes env: "sep41 env bal" "current_contract_address env = self" "\<not> authorized env self" "\<not> spends_stakes c"
    and inv: "oracle_inv s"
  shows "wp (exec_oc env c) (\<lambda>_ s'. surplus_oc bal self t s \<le> surplus_oc bal self t s') (\<lambda>_ _. True) True s"
proof -
  have ok: "registry_ok s" using inv by (simp add: oracle_inv_except_def)
  have obeyed: "sparing.obeys bal self (exec_oc env c) \<Longrightarrow> ?thesis"
    using ok unfolding sparing.obeys_def sparing_def by (elim allE [of _ s] wp_mono) auto
  show ?thesis
  proof (cases "touches_stakes c")
    case False
    then show ?thesis using obeyed [OF stakes_frame_sparing [OF plain_stakes_frame]] env(4) by blast
  next
    case True
    then show ?thesis
      using obeyed register_surplus [OF env(1-3) ok] finalize_slash_surplus [OF env(1,2) inv]
        vote_sparing [OF env(1,2)]
      by (cases c) (simp_all add: stakes_frame_sparing [OF staging_frame(1)] stakes_frame_sparing [OF staging_frame(2)])
  qed
qed

text \<open>The considered runs: transactions of any entry point but the exchange, with token contracts that
  keep the documented interface and with no authorization by the contract itself; between them,
  transactions elsewhere that do not lower the contract's balances.\<close>

inductive staked_run :: "('w \<Rightarrow> address \<Rightarrow> address \<Rightarrow> int) \<Rightarrow> address \<Rightarrow> 'w oracle_state \<Rightarrow> bool" for bal self where
  start: "(\<And>t. 0 \<le> bal w t self) \<Longrightarrow> staked_run bal self (deployed_oc w)"
| step: "staked_run bal self s \<Longrightarrow> sep41 env bal \<Longrightarrow> current_contract_address env = self \<Longrightarrow> \<not> authorized env self \<Longrightarrow>
    \<not> spends_stakes c \<Longrightarrow> invoke (exec_oc (env :: 'w host) c) s = (r, s') \<Longrightarrow> staked_run bal self s'"
| elsewhere: "staked_run bal self s \<Longrightarrow> (\<And>t. bal (world s) t self \<le> bal w t self) \<Longrightarrow> staked_run bal self (s\<lparr>world := w\<rparr>)"

lemma staked_run_inv: "staked_run bal self s \<Longrightarrow> oracle_inv s"
  by (induction rule: staked_run.induct) (auto intro: oracle_inv_deployed oracle_inv_step oracle_inv_world)

text \<open>C15. Stakes are backed: as long as nobody uses the exchange, the oracle contract holds, for every
  token, at least the sum of the stakes recorded for its registered oracles, whatever registrations,
  slashes, votes and resolutions have happened.\<close>

theorem stakes_are_backed:
  assumes "staked_run bal self s"
  shows "(\<Sum>a \<in> set (oracle_set_of s). stake_in t (oi_registration (oinst s) a)) \<le> bal (world s) t self"
proof -
  have "0 \<le> surplus_oc bal self t s"
    using assms
  proof (induction rule: staked_run.induct)
    case (start w)
    then show ?case by (simp add: surplus_oc_def stakes_in_def oracle_set_of_def deployed_oc_def)
  next
    case (step s env c r s')
    have "wp (exec_oc env c) (\<lambda>_ s'. surplus_oc bal self t s \<le> surplus_oc bal self t s') (\<lambda>_ _. True) True s"
      by (rule exec_oc_surplus) (use step staked_run_inv in auto)
    then have "surplus_oc bal self t s \<le> surplus_oc bal self t s'"
      by (rule invoke_preserves [where I = "\<lambda>s'. surplus_oc bal self t s \<le> surplus_oc bal self t s'", OF order_refl _ step.hyps(6)])
    with step.IH show ?case by simp
  next
    case (elsewhere s w)
    then show ?case by (simp add: surplus_oc_def stakes_in_def oracle_set_of_def) (meson order_trans)
  qed
  then show ?thesis by (simp add: surplus_oc_def stakes_in_def)
qed

lemma staked_run_oc: "staked_run (\<lambda>w. w) (Address 0) s \<Longrightarrow> list_all (\<lambda>c. \<not> spends_stakes c) cs \<Longrightarrow> staked_run (\<lambda>w. w) (Address 0) (run_oc cs s)"
proof (induction cs arbitrary: s)
  case (Cons c cs)
  have "staked_run (\<lambda>w. w) (Address 0) (snd (invoke (exec_oc (oracle_host 100 500) c) s))"
    by (rule staked_run.step [where env = "oracle_host 100 500", OF Cons.prems(1) _ _ _ _ prod.collapse [symmetric]])
      (use Cons.prems(2) in \<open>simp_all add: oracle_host_def sep41_ledger_transfer\<close>)
  then show ?case using Cons.IH Cons.prems(2) by simp
qed simp

theorem stakes_are_backed_witness:
  "staked_run (\<lambda>w. w) (Address 0) two_oracles \<and> world two_oracles (Address 9) (Address 0) = 200 \<and>
   (\<Sum>a \<in> set (oracle_set_of two_oracles). stake_in (Address 9) (oi_registration (oinst two_oracles) a))
     \<le> world two_oracles (Address 9) (Address 0)"
proof -
  have "staked_run (\<lambda>w. w) (Address 0) two_oracles"
    unfolding two_oracles_def by (intro staked_run_oc staked_run.start) (simp_all add: spends_stakes_def)
  moreover have "world two_oracles (Address 9) (Address 0) = 200"
    by (simp add: two_oracles_eq oracle_eval_defs)
  ultimately show ?thesis using stakes_are_backed by blast
qed

lemmas exchange_defs = rate_is_stale_oc_def checked_mul_def checked_div_def to_i128_def in_i128_def signed_divide_int_def


end
