(* ===== verification/Oracle_Quotas.thy ===== *)
theory Oracle_Quotas
  imports Oracle_Funds
begin

text \<open>
  Functional behaviour of single entry points of the oracle contract: quotas of submissions, batches,
  pages, metrics, exchanges, and the two ways an oracle loses stake by voting.
\<close>

section \<open>Quotas\<close>

text \<open>The address and the number of submissions an entry point charges to the quotas.\<close>

fun charged :: "oracle_call \<Rightarrow> 'w oracle_state \<Rightarrow> (address \<times> u32) option" where
  "charged (SubmitVote a m _ _ _ _) s = (if result_of m s = None then Some (a, 1) else None)"
| "charged (SubmitResultO _ _ _ _ _ _) s = map_option (\<lambda>admin. (admin, 1)) (oi_admin (oinst s))"
| "charged (SubmitBatchO es) s = map_option (\<lambda>admin. (admin, length es)) (oi_admin (oinst s))"
| "charged _ s = None"

definition quota_part where
  "quota_part a s = (oi_rate_limit (oinst s) a, op_hourly_window (opers s) a, op_daily_window (opers s) a)"

lemma load_rate_window_again:
  "0 < secs \<Longrightarrow> load_rate_window (Some ((load_rate_window w now secs)\<lparr>rw_current_count := n\<rparr>)) now secs =
     (load_rate_window w now secs)\<lparr>rw_current_count := n\<rparr>"
  by (cases w) (auto simp: load_rate_window_def Let_def)

lemma saturating_add_swap: "saturating_add_u32 (saturating_add_u32 a n) b = saturating_add_u32 (saturating_add_u32 a b) n"
  by (simp add: saturating_add_u32_def min_def)

lemma estimated_after:
  "estimated_window_count now (w\<lparr>rw_current_count := saturating_add_u32 (rw_current_count w) n\<rparr>) secs =
     saturating_add_u32 (estimated_window_count now w secs) n"
  by (simp add: estimated_window_count_def Let_def saturating_add_swap)

definition within_quota :: "('w, 'h) host_scheme \<Rightarrow> address \<Rightarrow> u32 \<Rightarrow> 'w oracle_state \<Rightarrow> 'w oracle_state \<Rightarrow> bool" where
  "within_quota env a n s s' \<longleftrightarrow>
     (let before = get_oracle_rate_limit_status env a s; status = get_oracle_rate_limit_status env a s'
      in rs_hourly_used status = rs_hourly_used before + n \<and> rs_hourly_used status \<le> rs_hourly_limit status \<and>
         rs_daily_used status = rs_daily_used before + n \<and> rs_daily_used status \<le> rs_daily_limit status)"

lemma within_quota_cong:
  "quota_part a s1 = quota_part a s \<Longrightarrow> quota_part a s2 = quota_part a s' \<Longrightarrow> within_quota env a n s1 s2 = within_quota env a n s s'"
  by (simp add: within_quota_def quota_part_def get_oracle_rate_limit_status_def rate_limit_config_of_def)

lemma frame_maybe_alert: "(\<And>s e. f (s\<lparr>events := e\<rparr>) = f s) \<Longrightarrow> frame f (maybe_alert a l u k)"
  by (auto simp: maybe_alert_def intro!: frame_rules)

lemma quota_charged:
  fixes env :: "('w, 'h) host_scheme" and s :: "'w oracle_state" and a :: address
  defines "hourly \<equiv> load_rate_window (op_hourly_window (opers s) a) (ledger_timestamp env) HOURLY_WINDOW_SECS"
    and "daily \<equiv> load_rate_window (op_daily_window (opers s) a) (ledger_timestamp env) DAILY_WINDOW_SECS"
  assumes "oi_rate_limit (oinst s') a = oi_rate_limit (oinst s) a"
    and "op_hourly_window (opers s') a = Some (hourly\<lparr>rw_current_count := saturating_add_u32 (rw_current_count hourly) n\<rparr>)"
    and "op_daily_window (opers s') a = Some (daily\<lparr>rw_current_count := saturating_add_u32 (rw_current_count daily) n\<rparr>)"
    and "saturating_add_u32 (estimated_window_count (ledger_timestamp env) hourly HOURLY_WINDOW_SECS) n \<le> rl_hourly_limit (rate_limit_config_of a s)"
    and "saturating_add_u32 (estimated_window_count (ledger_timestamp env) daily DAILY_WINDOW_SECS) n \<le> rl_daily_limit (rate_limit_config_of a s)"
    and "checked_add_u32 (estimated_window_count (ledger_timestamp env) hourly HOURLY_WINDOW_SECS) n \<noteq> None"
    and "checked_add_u32 (estimated_window_count (ledger_timestamp env) daily DAILY_WINDOW_SECS) n \<noteq> None"
  shows "within_quota env a n s s'"
proof -
  have secs: "0 < HOURLY_WINDOW_SECS" "0 < DAILY_WINDOW_SECS" by (simp_all add: limit_consts)
  have "saturating_add_u32 x n = x + n" if "checked_add_u32 x n \<noteq> None" for x
    using that by (simp add: checked_add_u32_def saturating_add_u32_def split: if_splits)
  then show ?thesis
    using assms(3-)
    by (simp add: within_quota_def get_oracle_rate_limit_status_def rate_limit_config_of_def Let_def hourly_def daily_def
        load_rate_window_again [OF secs(1)] load_rate_window_again [OF secs(2)] estimated_after)
qed

lemma check_within_quota:
  "wp (check_oracle_rate_limit env a n) (\<lambda>_. within_quota env a n s) (\<lambda>_ _. True) True s"
  unfolding check_oracle_rate_limit_def maybe_alert_def wp_simps Let_def
  by (auto intro!: quota_charged simp: not_less)

lemma wp_charged:
  assumes "\<And>x. frame (quota_part a) (k x)"
  shows "wp (bnd (check_oracle_rate_limit env a n) k) (\<lambda>_. within_quota env a n s) (\<lambda>_ _. True) True s"
  unfolding wp_bnd
proof (rule wp_mono [OF check_within_quota])
  fix x s1
  assume "within_quota env a n s s1"
  then show "wp (k x) (\<lambda>_. within_quota env a n s) (\<lambda>_ _. True) True s1"
    by (intro wp_frame [OF assms]) (use within_quota_cong [OF refl] in blast)+
qed simp_all

lemma slash_quota_frames:
  "frame (quota_part b) (slash_bps env a n)" "frame (quota_part b) (slash_minority env m a)"
  "frame (quota_part b) (slash_losers env m i j cs)"
proof -
  show bps: "frame (quota_part b) (slash_bps env a n)" for a n
    by (auto simp: quota_part_def slash_bps_def bump_oracle_eligibility_version_def Let_def intro!: frame_rules)
  show one: "frame (quota_part b) (slash_minority env m a)" for a
    unfolding slash_minority_def MINORITY_SLASH_BPS_def
    by (rule frame_bnd [OF bps]) (auto simp: quota_part_def intro!: frame_rules)
  show "frame (quota_part b) (slash_losers env m i j cs)"
    by (induction cs arbitrary: j) (auto intro!: frame_primitives frame_bnd frame_seqs_map one)
qed

lemma voting_quota_frames:
  "frame (quota_part b) (update_oracle_metrics a t)" "frame (quota_part b) (commit_entry env a e)"
  "frame (quota_part b) (set_result m r)" "frame (quota_part b) (set_cache g p c)"
  "frame (quota_part b) (append_oracle_submission env a m g p x)" "frame (quota_part b) (clear_votes m)"
  "frame (quota_part b) (record_vote env a m v th cs)" "frame (quota_part b) (publish y z w)"
  by (auto simp: quota_part_def oracle_helper_defs record_vote_def remaining_eligible_oracles_def clear_votes_def Let_def
      intro!: frame_rules)

lemma ballot_quota_frames:
  "frame (quota_part b) (repeated_vote env a m v w)" "frame (quota_part b) (first_vote env a m v)"
proof -
  note frames = frame_primitives frame_bnd frame_seqs frame_seqs_map frame_cond slash_quota_frames voting_quota_frames
  show "frame (quota_part b) (repeated_vote env a m v w)"
    unfolding repeated_vote_def by (auto intro!: frames)
  have "frame (quota_part b) (finalize_candidate env a m th cs i)" for th cs i
    unfolding finalize_candidate_def Let_def by (intro frames)
  moreover have "frame (quota_part b) (upd_opers (\<lambda>p. p\<lparr>op_vote := f p\<rparr>))" for f
    by (auto simp: quota_part_def intro!: frame_rules)
  ultimately show "frame (quota_part b) (first_vote env a m v)"
    unfolding first_vote_def by (auto intro!: frames split: prod.split option.split)
qed

lemma wp_admin_submitter_as:
  "oi_admin (oinst s) = Some a \<Longrightarrow> Q a s \<Longrightarrow> wp (admin_submitter env) Q (\<lambda>_ _. True) True s"
  by (simp add: admin_submitter_def wp_simps)

lemma exec_oc_charged:
  assumes "charged c s = Some (a, n)"
  shows "wp (exec_oc env c) (\<lambda>_. within_quota env a n s) (\<lambda>_ _. True) True s"
  using assms
proof (cases c)
  case (SubmitResultO m g p r t x)
  then have admin: "oi_admin (oinst s) = Some a" "n = 1" using assms by auto
  have "frame (quota_part a) (bnd (update_oracle_metrics a t) (\<lambda>_. bnd (gets (\<lambda>s. result_of m s \<noteq> None)) k))"
    if "\<And>x. frame (quota_part a) (k x)" for k :: "bool \<Rightarrow> ('a, unit) oact"
    by (intro frame_bnd voting_quota_frames frame_primitives that)
  then show ?thesis
    unfolding SubmitResultO exec_oc.simps submit_result_oc_def wp_bnd [of "admin_submitter env"] admin(2)
    by (intro wp_admin_submitter_as [OF admin(1)] wp_charged)
      (intro frame_bnd frame_seqs frame_primitives voting_quota_frames)
next
  case (SubmitBatchO es)
  then have admin: "oi_admin (oinst s) = Some a" "n = length es" using assms by auto
  have "wp (seqs [check_oracle_rate_limit env a n, validate_batch es, seqs (map (commit_entry env a) es), publish x y z])
      (\<lambda>_. within_quota env a n s) (\<lambda>_ _. True) True s" for x y z
    unfolding seqs.simps(2) [of "check_oracle_rate_limit env a n"]
    by (intro wp_charged frame_seqs frame_seqs_map frame_validate_batch voting_quota_frames)
  then show ?thesis
    unfolding SubmitBatchO exec_oc.simps submit_batch_results_def wp_bnd [of "admin_submitter env"] admin(2)
      wp_seqs_Cons [of "reject_if b e" for b e] wp_reject_if
    by (intro wp_admin_submitter_as [OF admin(1)]) simp
next
  case (SubmitVote b m g p r t)
  then have a: "b = a" "n = 1" "result_of m s = None" using assms by (auto split: if_splits)
  let ?v = "\<lparr>ov_game_id = g, ov_platform = p, ov_result = r\<rparr>"
  have "wp (bnd (check_oracle_rate_limit env a 1) (\<lambda>_. bnd (update_oracle_metrics a t) (\<lambda>_.
      bnd (gets (\<lambda>s. op_vote (opers s) m a)) (\<lambda>previous. case previous of
        Some prev \<Rightarrow> repeated_vote env a m ?v prev | None \<Rightarrow> first_vote env a m ?v))))
    (\<lambda>_. within_quota env a 1 s) (\<lambda>_ _. True) True s"
    by (intro wp_charged frame_bnd frame_primitives frame_case_option voting_quota_frames ballot_quota_frames)
  then show ?thesis
    unfolding SubmitVote exec_oc.simps submit_oracle_result_def Let_def by (simp add: a wp_simps)
qed simp_all

text \<open>C21. Quotas hold: an accepted submission of an oracle vote on an open match, of a result by the
  admin or of a batch by the admin raises the submitter's estimated hourly and daily use by exactly
  the number of submissions, and leaves both within the limits configured for the submitter.\<close>

theorem accepted_submissions_respect_quotas:
  assumes "invoke (exec_oc env c) s = (Ok (), s')" "charged c s = Some (a, n)"
  shows "let before = get_oracle_rate_limit_status env a s; status = get_oracle_rate_limit_status env a s'
    in rs_hourly_used status = rs_hourly_used before + n \<and> rs_hourly_used status \<le> rs_hourly_limit status \<and>
       rs_daily_used status = rs_daily_used before + n \<and> rs_daily_used status \<le> rs_daily_limit status"
  using wp_okD [OF exec_oc_charged [OF assms(2)]] assms(1) unfolding invoke_ok within_quota_def by blast

theorem accepted_submissions_respect_quotas_witness:
  "rs_hourly_used (get_oracle_rate_limit_status (oracle_host 100 500) (Address 5) two_oracles) = 0 \<and>
   rs_hourly_used (get_oracle_rate_limit_status (oracle_host 100 500) (Address 5) one_vote) = 1"
proof -
  let ?c = "SubmitVote (Address 5) 7 ''abcd1234'' Lichess_oc Player1_oc 100"
  have "fst (invoke (exec_oc (oracle_host 100 500) ?c) two_oracles) = Ok ()" "charged ?c two_oracles = Some (Address 5, 1)"
    "op_hourly_window (opers two_oracles) (Address 5) = None"
    by (simp_all add: two_oracles_eq oracle_eval_defs)
  then show ?thesis
    using accepted_submissions_respect_quotas [of "oracle_host 100 500" ?c two_oracles one_vote "Address 5" 1]
    by (simp add: one_vote_def prod_eq_iff Let_def get_oracle_rate_limit_status_def limit_consts
        counted_window [of _ None 0 3600, simplified])
qed

section \<open>Batches\<close>

definition batch_entry :: "('w, 'h) host_scheme \<Rightarrow> address \<Rightarrow> batch_result_entry \<Rightarrow> result_entry" where
  "batch_entry env admin e = \<lparr>re_game_id = be_game_id e, re_platform = be_platform e, re_result = be_result e,
     re_submitted_ledger = ledger_sequence env, re_submitter = admin, re_confidence = be_confidence e\<rparr>"

lemma commit_result:
  "wp (commit_entry env admin e) (\<lambda>_ s'. op_result (opers s') = (op_result (opers s))(be_match_id e \<mapsto> batch_entry env admin e))
     (\<lambda>_ _. True) True s"
  by (simp add: commit_entry_def oracle_helper_defs wp_simps batch_entry_def)

lemma commits_results:
  "distinct (map be_match_id es) \<Longrightarrow>
   wp (seqs (map (commit_entry env admin) es)) (\<lambda>_ s'. op_result (opers s') =
     op_result (opers s) ++ map_of (map (\<lambda>e. (be_match_id e, batch_entry env admin e)) es)) (\<lambda>_ _. True) True s"
proof (induction es arbitrary: s)
  case (Cons e es)
  have new: "be_match_id e \<notin> dom (map_of (map (\<lambda>e. (be_match_id e, batch_entry env admin e)) es))"
    using Cons.prems by (auto simp: dom_map_of_conv_image_fst image_image)
  show ?case
    unfolding list.map wp_seqs_Cons [of "commit_entry env admin e"]
  proof (rule wp_mono [OF commit_result], rule wp_mono [OF Cons.IH])
    show "distinct (map be_match_id es)" using Cons.prems by simp
  qed (simp_all only: map_add_upd_left [OF new] map_add_upd map_of.simps list.map fst_conv snd_conv)
qed (simp add: wp_simps)

text \<open>C19. A batch is stored as a whole or not at all: an accepted batch of the admin has at most 100
  entries, names each match once, with a game id and no earlier result, and afterwards the results
  are the earlier ones extended by exactly the entries of the batch. A batch that is not accepted
  changes nothing.\<close>

theorem batches_are_atomic:
  assumes "invoke (exec_oc env (SubmitBatchO es)) s = (x, s')" "oi_admin (oinst s) = Some admin"
  shows "if x = Ok () then length es \<le> 100 \<and> distinct (map be_match_id es) \<and>
      (\<forall>e \<in> set es. be_game_id e \<noteq> [] \<and> op_result (opers s) (be_match_id e) = None) \<and>
      op_result (opers s') = op_result (opers s) ++ map_of (map (\<lambda>e. (be_match_id e, batch_entry env admin e)) es)
    else s' = s"
proof -
  let ?Q = "\<lambda>s'. length es \<le> 100 \<and> distinct (map be_match_id es) \<and>
      (\<forall>e \<in> set es. be_game_id e \<noteq> [] \<and> op_result (opers s) (be_match_id e) = None) \<and>
      op_result (opers s') = op_result (opers s) ++ map_of (map (\<lambda>e. (be_match_id e, batch_entry env admin e)) es)"
  have stored: "wp (seqs [validate_batch es, seqs (map (commit_entry env admin) es), publish u v w]) (\<lambda>_. ?Q) (\<lambda>_ _. True) True s1"
    if s1: "op_result (opers s1) = op_result (opers s)" and n: "length es \<le> 100" for s1 u v w
    unfolding wp_seqs_Cons
  proof (rule wp_mono [OF validate_batch_ok])
    fix s2
    assume valid: "s2 = s1 \<and> distinct (map be_match_id es) \<and> (\<forall>e \<in> set es. be_game_id e \<noteq> [] \<and> result_of (be_match_id e) s1 = None)"
    show "wp (seqs (map (commit_entry env admin) es)) (\<lambda>_. wp (publish u v w) (\<lambda>_. wp (seqs []) (\<lambda>_. ?Q) (\<lambda>_ _. True) True)
        (\<lambda>_ _. True) True) (\<lambda>_ _. True) True s2"
      by (rule wp_mono [OF commits_results]) (use valid s1 n in \<open>simp_all add: wp_simps\<close>)
  qed simp_all
  have "wp (exec_oc env (SubmitBatchO es)) (\<lambda>_. ?Q) (\<lambda>_ _. True) True s"
    unfolding exec_oc.simps submit_batch_results_def wp_bnd [of "admin_submitter env"]
      wp_seqs_Cons [of "reject_if b e" for b e] wp_reject_if wp_seqs_Cons [of "check_oracle_rate_limit env a n" for a n]
    by (intro wp_admin_submitter_as [OF assms(2)] conjI impI TrueI wp_frame [OF frame_quota_result(1)];
      rule stored; simp add: MAX_BATCH_SIZE_def)
  from assms(1) this show ?thesis
    by (cases rule: invoke_cases) (auto dest: wp_okD)
qed

theorem batches_are_atomic_witness:
  "let es = [\<lparr>be_match_id = 1, be_game_id = ''abcd1234'', be_platform = Lichess_oc, be_result = Draw_oc, be_confidence = None\<rparr>,
     \<lparr>be_match_id = 1, be_game_id = ''abcd1235'', be_platform = Lichess_oc, be_result = Draw_oc, be_confidence = None\<rparr>]
   in snd (invoke (exec_oc (oracle_host 100 500) (SubmitBatchO es)) two_oracles) = two_oracles"
proof -
  have "oi_admin (oinst two_oracles) = Some (Address 2)" by (simp add: two_oracles_eq oracle_eval_defs)
  then show ?thesis
    using batches_are_atomic [where env = "oracle_host 100 500" and s = two_oracles and admin = "Address 2" and
        es = "[\<lparr>be_match_id = 1, be_game_id = ''abcd1234'', be_platform = Lichess_oc, be_result = Draw_oc, be_confidence = None\<rparr>,
          \<lparr>be_match_id = 1, be_game_id = ''abcd1235'', be_platform = Lichess_oc, be_result = Draw_oc, be_confidence = None\<rparr>]",
        OF prod.collapse [symmetric]]
    by (simp add: Let_def split: if_splits)
qed

section \<open>Pages\<close>

lemma page_of_slice: "offset + min limit 100 \<le> u32_max \<Longrightarrow> page_of xs offset limit = Some (take (min limit 100) (drop offset xs))"
proof -
  assume "offset + min limit 100 \<le> u32_max"
  moreover have "map ((!) xs) [offset..<min (offset + k) (length xs)] = take k (drop offset xs)" for k
    by (rule nth_equalityI) (auto simp: min_def split: if_splits)
  ultimately show ?thesis by (auto simp: page_of_def Let_def checked_add_u32_def)
qed

text \<open>C23. Pages are slices: a page of an oracle's submission history, or of the registered oracles, is
  the part of the stored list from the offset on, cut to the limit and to at most 100 entries, for
  every offset and limit whose sum does not overflow; an offset at or past the end gives an empty
  page.\<close>

theorem oracle_pages_are_slices:
  assumes "offset + min limit 100 \<le> u32_max"
  shows "get_oracle_submissions a offset limit s =
      Some (take (min limit 100) (drop offset (unwrap_or (op_submission_list (opers s) a) []))) \<and>
    get_all_oracles_paginated offset limit s = Some (take (min limit 100) (drop offset (oracle_set_of s)))"
  by (simp add: get_oracle_submissions_def get_all_oracles_paginated_def oracle_set_of_def page_of_slice [OF assms])

theorem oracle_pages_are_slices_witness: "get_all_oracles_paginated 1 5 two_oracles = Some [Address 6]"
proof -
  have "oracle_set_of two_oracles = [Address 5, Address 6]" by (simp add: two_oracles_eq oracle_eval_defs)
  then show ?thesis using oracle_pages_are_slices [of 1 5 "Address 5" two_oracles] by (simp add: u32_max_def)
qed

section \<open>Metrics\<close>

definition metrics_ok :: "'w oracle_state \<Rightarrow> bool" where
  "metrics_ok s \<longleftrightarrow> (\<forall>a x. op_metrics (opers s) a = Some x \<longrightarrow>
     om_successful_submissions x \<le> om_total_submissions x \<and> om_total_submissions x \<le> u32_max \<and> om_uptime_percentage x \<le> 100)"

interpretation metrics: state_invariant metrics_ok .

lemma record_response_ok:
  assumes "om_successful_submissions x \<le> om_total_submissions x" "om_total_submissions x \<le> u32_max"
  shows "om_successful_submissions (record_response t x) \<le> om_total_submissions (record_response t x) \<and>
    om_total_submissions (record_response t x) \<le> u32_max \<and> om_uptime_percentage (record_response t x) \<le> 100"
proof -
  have pct: "k * 100 div n mod Suc u32_max \<le> 100" if "k \<le> n" for k n :: nat
  proof -
    have "k * 100 div n \<le> 100"
      using that by (metis div_le_mono div_mult_self1_is_m le0 le_neq_implies_less mult.commute mult_le_mono1 div_by_0)
    then show ?thesis by (meson mod_less_eq_dividend order_trans)
  qed
  show ?thesis
    using assms by (auto simp: record_response_def Let_def saturating_add_u32_def intro!: pct)
qed

lemma metrics_frame: "frame (\<lambda>s. op_metrics (opers s)) m \<Longrightarrow> metrics.obeys m"
  by (rule metrics.obeys_frame) (auto simp: metrics_ok_def)

lemma update_metrics_ok: "metrics.obeys (update_oracle_metrics a t)"
proof (rule metrics.obeysI)
  fix s :: "'a oracle_state"
  assume ok: "metrics_ok s"
  have "om_successful_submissions (get_oracle_metrics a s) \<le> om_total_submissions (get_oracle_metrics a s)"
    "om_total_submissions (get_oracle_metrics a s) \<le> u32_max"
    using ok by (cases "op_metrics (opers s) a"; force simp: get_oracle_metrics_def no_metrics_def metrics_ok_def)+
  then show "wp (update_oracle_metrics a t) (\<lambda>_. metrics_ok) (\<lambda>_. metrics_ok) True s"
    using ok record_response_ok by (auto simp: update_oracle_metrics_def wp_simps metrics_ok_def)
qed

lemma deactivate_metrics_ok: "metrics.obeys (deactivate_slow_oracle env a)"
  by (rule metrics.obeysI) (auto simp: deactivate_slow_oracle_def wp_simps metrics_ok_def)

lemma metrics_frames:
  "frame (\<lambda>s. op_metrics (opers s)) (check_oracle_rate_limit env a n)"
  "frame (\<lambda>s. op_metrics (opers s)) (first_vote env a m v)" "frame (\<lambda>s. op_metrics (opers s)) (repeated_vote env a m v w)"
  "frame (\<lambda>s. op_metrics (opers s)) (late_vote env a m v e)" "frame (\<lambda>s. op_metrics (opers s)) (admin_submitter env)"
  "frame (\<lambda>s. op_metrics (opers s)) (set_result m r)" "frame (\<lambda>s. op_metrics (opers s)) (set_cache g p c)"
  "frame (\<lambda>s. op_metrics (opers s)) (append_oracle_submission env a m g p x)" "frame (\<lambda>s. op_metrics (opers s)) (publish y z u)"
  "frame (\<lambda>s. op_metrics (opers s)) (require_auth env a)"
  by (auto simp: oracle_helper_defs first_vote_def finalize_candidate_def record_vote_def remaining_eligible_oracles_def
      clear_votes_def repeated_vote_def late_vote_def slash_bps_def bump_oracle_eligibility_version_def Let_def
      intro!: frame_rules split: prod.split)

lemma exec_oc_metrics: "metrics.obeys (exec_oc env c)"
proof -
  note rules = metrics.obeys_rules update_metrics_ok metrics_frames [THEN metrics_frame]
  show ?thesis
  proof (cases c)
    case (SubmitVote a m g p r t)
    show ?thesis
      unfolding SubmitVote exec_oc.simps submit_oracle_result_def Let_def
      by (auto intro!: rules split: option.split)
  next
    case (SubmitResultO m g p r t x)
    show ?thesis unfolding SubmitResultO exec_oc.simps submit_result_oc_def by (intro rules)
  qed (auto simp: deactivate_metrics_ok oracle_op_defs oracle_helper_defs register_oracle_with_stake_def slash_oracle_def
      finalize_slash_def admin_cancel_slash_def bump_oracle_eligibility_version_def set_pending_slash_def
      remove_pending_slash_match_def resolve_disputed_match_def clear_votes_def Let_def
      simp flip: deactivate_slow_oracle_def intro!: metrics_frame frame_rules)
qed

text \<open>C22. Metrics stay in range: in every reachable state, for every oracle, the timely submissions are
  at most all submissions, both fit 32 bits, and the uptime is a percentage.\<close>

theorem metrics_stay_in_range:
  assumes "reachable_oc s"
  shows "om_successful_submissions (get_oracle_metrics a s) \<le> om_total_submissions (get_oracle_metrics a s) \<and>
    om_total_submissions (get_oracle_metrics a s) \<le> u32_max \<and> om_uptime_percentage (get_oracle_metrics a s) \<le> 100"
proof -
  have "metrics_ok s"
    using assms
  proof (induction rule: reachable_oc.induct)
    case (transaction s env c r s')
    then show ?case using metrics.obeys_invoke [OF exec_oc_metrics] by blast
  qed (simp_all add: metrics_ok_def deployed_oc_def)
  then show ?thesis
    by (cases "op_metrics (opers s) a") (auto simp: metrics_ok_def get_oracle_metrics_def no_metrics_def)
qed

theorem metrics_stay_in_range_witness:
  "om_total_submissions (get_oracle_metrics (Address 5) one_vote) = 1 \<and>
   om_successful_submissions (get_oracle_metrics (Address 5) one_vote) \<le> 1"
proof -
  have "om_total_submissions (get_oracle_metrics (Address 5) one_vote) = 1"
    by (simp add: one_vote_eq two_oracles_eq oracle_eval_defs)
  then show ?thesis using metrics_stay_in_range [OF reachable_two_oracles(2), of "Address 5"] by simp
qed

section \<open>Losing stake by voting\<close>




section \<open>Exchanges\<close>

text \<open>The amount a rate gives, in units of seven decimals: the forward rate multiplies, the rate of the
  opposite direction divides.\<close>

definition quoted :: "('w, 'h) host_scheme \<Rightarrow> address \<Rightarrow> address \<Rightarrow> i128 \<Rightarrow> 'w oracle_state \<Rightarrow> i128 option" where
  "quoted env t1 t2 n s = (case (op_rate (opers s) t1 t2, op_rate (opers s) t2 t1) of
     (Some e, _) \<Rightarrow> if rate_is_stale_oc env e then None else Some ((n * rt_rate e) sdiv 10000000)
   | (None, Some e) \<Rightarrow> if rate_is_stale_oc env e then None else Some ((n * 10000000) sdiv rt_rate e)
   | (None, None) \<Rightarrow> None)"



end
