(* ===== verification/Indexer_Strkey.thy ===== *)
theory Indexer_Strkey
  imports Rust_Text "HOL-Library.Word"
begin

text \<open>
  Stellar addresses in the event indexer (services/event-indexer/src/validation.rs): the base32
  decoder, the CRC16-XMODEM checksum and the validation of a strkey. The machine integers are words,
  since the code relies on shifts that drop bits. The lemmas show that the decoder regroups the
  five-bit codes of the characters into bytes, that the checksum is linear over exclusive or and
  injective in its state, and from both that a single mistyped character never goes unnoticed.
\<close>

unbundle bit_operations_syntax

section \<open>Errors\<close>

text \<open>A \<^verbatim>\<open>ValidationError\<close> carries the field and a message; the message is a constructor
  per text of the source, with the values that are formatted into it. A character that is
  reported is represented by its first byte.\<close>

datatype message =
    MustNotBeEmpty | NotBase32 char | WrongAddressLength nat nat | MustBeUpperCase | WrongPayloadLength
  | WrongAddressKind "8 word list" char | InvalidChecksum | NegativeAmount | SignedAmount | FractionalAmount
  | DigitsOnly | AmountTooLarge int | MustBePositive | TooLong nat nat | BadGameIdCharacter char
  | NegativeMatchId | NotWholeNumber | MatchIdOutOfRange | TokenTooLong nat | BadTokenCharacter char
  | UnknownStatus string | UnknownTransactionType string | UnknownSortField string | UnknownSortOrder string
  | LimitOutOfRange int int int | NegativeOffset int | NotNonNegativeNumber | LedgerOutOfRange
  | RangeInverted string | NotInteger string | NotADate string

record validation_error =
  ve_field :: string
  ve_message :: message

abbreviation invalid :: "string \<Rightarrow> message \<Rightarrow> validation_error + 'a" where
  "invalid field message \<equiv> Inl \<lparr>ve_field = field, ve_message = message\<rparr>"

section \<open>Limits and alphabet\<close>

definition STELLAR_ADDRESS_LEN :: nat where "STELLAR_ADDRESS_LEN = 56"
definition MIN_PAGE_LIMIT :: int where "MIN_PAGE_LIMIT = 1"
definition MAX_PAGE_LIMIT :: int where "MAX_PAGE_LIMIT = 1000"
definition MAX_TOKEN_AMOUNT :: int where "MAX_TOKEN_AMOUNT = 2 ^ 63 - 1"
definition MAX_GAME_ID_LEN_ix :: nat where "MAX_GAME_ID_LEN_ix = 64"
definition MAX_TOKEN_LEN :: nat where "MAX_TOKEN_LEN = 56"
definition VERSION_BYTE_ACCOUNT :: "8 word" where "VERSION_BYTE_ACCOUNT = push_bit 3 6"
definition VERSION_BYTE_CONTRACT :: "8 word" where "VERSION_BYTE_CONTRACT = push_bit 3 2"

definition BASE32_ALPHABET :: string where
  "BASE32_ALPHABET = ''ABCDEFGHIJKLMNOPQRSTUVWXYZ234567''"

section \<open>Checksum\<close>

definition crc_bit :: "16 word \<Rightarrow> 16 word" where
  "crc_bit crc = (if crc AND 0x8000 \<noteq> 0 then push_bit 1 crc XOR 0x1021 else push_bit 1 crc)"

definition crc_byte :: "16 word \<Rightarrow> 8 word \<Rightarrow> 16 word" where
  "crc_byte crc b = (crc_bit ^^ 8) (crc XOR push_bit 8 (ucast b))"

definition crc16_xmodem :: "8 word list \<Rightarrow> 16 word" where
  "crc16_xmodem data = foldl crc_byte 0 data"

section \<open>Base32\<close>

fun position :: "'a \<Rightarrow> 'a list \<Rightarrow> nat option" where
  "position x [] = None"
| "position x (y # ys) = (if y = x then Some 0 else map_option Suc (position x ys))"

text \<open>The loop over the bytes of the value with the shift buffer and the number of bits in it that are
  not yet output.\<close>

fun base32_loop :: "string \<Rightarrow> 16 word \<Rightarrow> nat \<Rightarrow> string \<Rightarrow> validation_error + 8 word list" where
  "base32_loop field buffer bits [] = Inr []"
| "base32_loop field buffer bits (ch # rest) = (case position ch BASE32_ALPHABET of
     None \<Rightarrow> invalid field (NotBase32 ch)
   | Some index \<Rightarrow>
       let buffer = push_bit 5 buffer OR of_nat index; bits = bits + 5
       in if bits \<ge> 8
          then map_sum id ((#) (ucast (drop_bit (bits - 8) buffer))) (base32_loop field buffer (bits - 8) rest)
          else base32_loop field buffer bits rest)"

definition base32_decode :: "string \<Rightarrow> string \<Rightarrow> validation_error + 8 word list" where
  "base32_decode field value = base32_loop field 0 0 value"

section \<open>Addresses\<close>

definition validate_strkey :: "string \<Rightarrow> string \<Rightarrow> 8 word list \<Rightarrow> validation_error + string" where
  "validate_strkey field value allowed =
     (if value = [] then invalid field MustNotBeEmpty
      else if length value \<noteq> STELLAR_ADDRESS_LEN then
        invalid field (WrongAddressLength STELLAR_ADDRESS_LEN (length value))
      else if list_ex is_ascii_lowercase value then invalid field MustBeUpperCase
      else case base32_decode field value of
        Inl e \<Rightarrow> Inl e
      | Inr decoded \<Rightarrow>
          if length decoded \<noteq> 35 then invalid field WrongPayloadLength
          else if decoded ! 0 \<notin> set allowed then invalid field (WrongAddressKind allowed (value ! 0))
          else
            let payload = take 33 decoded; checksum_bytes = drop 33 decoded;
                expected = (ucast (checksum_bytes ! 0) OR push_bit 8 (ucast (checksum_bytes ! 1)) :: 16 word)
            in if crc16_xmodem payload \<noteq> expected then invalid field InvalidChecksum
               else Inr value)"

definition validate_stellar_address :: "string \<Rightarrow> string \<Rightarrow> validation_error + string" where
  "validate_stellar_address field value = validate_strkey field value [VERSION_BYTE_ACCOUNT, VERSION_BYTE_CONTRACT]"

definition validate_account_address :: "string \<Rightarrow> string \<Rightarrow> validation_error + string" where
  "validate_account_address field value = validate_strkey field value [VERSION_BYTE_ACCOUNT]"

definition validate_contract_address :: "string \<Rightarrow> string \<Rightarrow> validation_error + string" where
  "validate_contract_address field value = validate_strkey field value [VERSION_BYTE_CONTRACT]"

section \<open>The decoder regroups bits\<close>

text \<open>The bits of a word, most significant first.\<close>

definition bits_of :: "nat \<Rightarrow> 'a::semiring_bit_operations \<Rightarrow> bool list" where
  "bits_of n w = map (bit w) (rev [0..<n])"

definition code_of :: "char \<Rightarrow> nat" where
  "code_of ch = (case position ch BASE32_ALPHABET of Some i \<Rightarrow> i | None \<Rightarrow> 0)"

definition codes :: "string \<Rightarrow> bool list" where
  "codes s = concat (map (bits_of 5 \<circ> code_of) s)"

lemma length_bits_of [simp]: "length (bits_of n w) = n"
  by (simp add: bits_of_def)

lemma nth_bits_of: "i < n \<Longrightarrow> bits_of n w ! i = bit w (n - 1 - i)"
  by (simp add: bits_of_def rev_nth)

lemma length_codes [simp]: "length (codes s) = 5 * length s"
  by (induction s) (simp_all add: codes_def)

lemma position_Some: "position x xs = Some i \<Longrightarrow> i < length xs \<and> xs ! i = x"
  by (induction xs arbitrary: i) (auto split: if_splits)

lemma length_alphabet: "length BASE32_ALPHABET = 32"
  by (simp add: BASE32_ALPHABET_def)

lemma position_code: "position ch BASE32_ALPHABET = Some i \<Longrightarrow> code_of ch = i \<and> i < 32"
  using position_Some [of ch BASE32_ALPHABET i] by (simp add: code_of_def length_alphabet)

lemma bits_of_shift_in:
  fixes buffer :: "16 word"
  assumes "index < 32" "bits \<le> 11"
  shows "bits_of (bits + 5) (push_bit 5 buffer OR of_nat index) = bits_of bits buffer @ bits_of 5 index"
proof (rule nth_equalityI)
  fix i
  assume i: "i < length (bits_of (bits + 5) (push_bit 5 buffer OR of_nat index))"
  have high: "\<not> bit index n" if "5 \<le> n" for n
  proof -
    have "index < 2 ^ n" using assms(1) power_increasing [OF that, of "2 :: nat"] by simp
    then show ?thesis by (simp add: bit_iff_odd)
  qed
  show "bits_of (bits + 5) (push_bit 5 buffer OR of_nat index) ! i = (bits_of bits buffer @ bits_of 5 index) ! i"
    using i assms(2) high
    by (auto simp: nth_append nth_bits_of bit_simps possible_bit_def)
qed simp

lemma bits_of_byte_out:
  fixes buffer :: "16 word"
  assumes "k \<le> 8"
  shows "bits_of (k + 8) buffer = bits_of 8 (ucast (drop_bit k buffer) :: 8 word) @ bits_of k buffer"
proof (rule nth_equalityI)
  fix i
  assume "i < length (bits_of (k + 8) buffer)"
  then show "bits_of (k + 8) buffer ! i = (bits_of 8 (ucast (drop_bit k buffer) :: 8 word) @ bits_of k buffer) ! i"
    using assms by (auto simp: nth_append nth_bits_of bit_simps add.commute intro: arg_cong [where f = "bit buffer"])
qed simp

lemma base32_loop_bits:
  assumes "base32_loop field buffer bits s = Inr out" "bits < 8"
  shows "concat (map (bits_of 8) out) = take (8 * length out) (bits_of bits buffer @ codes s) \<and>
    length out = (bits + 5 * length s) div 8"
  using assms
proof (induction field buffer bits s arbitrary: out rule: base32_loop.induct)
  case (2 field buffer bits ch rest)
  obtain index where index: "position ch BASE32_ALPHABET = Some index"
    using 2(3) by (cases "position ch BASE32_ALPHABET") auto
  note code = position_code [OF index]
  let ?buffer = "push_bit 5 buffer OR of_nat index :: 16 word"
  have shift: "bits_of bits buffer @ codes (ch # rest) = bits_of (bits + 5) ?buffer @ codes rest"
    using code bits_of_shift_in [of index bits buffer] 2(4) by (simp add: codes_def)
  show ?case
  proof (cases "bits + 5 \<ge> 8")
    case True
    then obtain out' where out': "base32_loop field ?buffer (bits + 5 - 8) rest = Inr out'"
      "out = ucast (drop_bit (bits + 5 - 8) ?buffer) # out'"
      using 2(3) index by (cases "base32_loop field ?buffer (bits + 5 - 8) rest") (auto simp: Let_def)
    have "bits_of (bits + 5) ?buffer = bits_of 8 (ucast (drop_bit (bits + 5 - 8) ?buffer) :: 8 word) @ bits_of (bits + 5 - 8) ?buffer"
      using bits_of_byte_out [of "bits + 5 - 8" ?buffer] True 2(4) by (simp add: add.commute)
    then show ?thesis
      using 2(1) [OF index refl refl True out'(1)] True 2(4) out'(2) unfolding shift by auto
  next
    case False
    then show ?thesis
      using 2(2) [OF index refl refl] 2(3,4) index unfolding shift by (auto simp: Let_def)
  qed
qed simp

section \<open>The checksum is linear\<close>

lemma crc_bit_if: "crc_bit w = push_bit 1 w XOR (if bit w 15 then 0x1021 else 0)"
proof -
  have "w AND 0x8000 = 0 \<longleftrightarrow> \<not> bit w 15"
    using and_exp_eq_0_iff_not_bit [of w 15] by simp
  then show ?thesis by (simp add: crc_bit_def)
qed

lemma word_xor_eq_0: "x XOR y = 0 \<longleftrightarrow> x = y" for x y :: "'a::len word"
  by (metis xor.assoc xor.left_neutral xor.right_neutral xor_self_eq)

lemma crc_bit_xor: "crc_bit (x XOR y) = crc_bit x XOR crc_bit y"
  by (simp only: crc_bit_if bit_xor_iff push_bit_xor)
    (cases "bit x 15"; cases "bit y 15"; simp add: xor.assoc xor.left_commute xor.commute)

lemma crc_bit_0 [simp]: "crc_bit 0 = 0"
  by (simp add: crc_bit_def)

lemma crc_bit_eq_0: "crc_bit w = 0 \<Longrightarrow> w = 0"
proof (rule bit_eqI)
  fix n
  assume w: "crc_bit w = 0"
  have top: "\<not> bit w 15"
  proof
    assume "bit w 15"
    then have "bit (crc_bit w) 0" by (simp only: crc_bit_if bit_xor_iff bit_push_bit_iff if_True) simp
    with w show False by simp
  qed
  then have "push_bit 1 w = 0" using w by (simp add: crc_bit_if)
  moreover have "bit (push_bit 1 w) (Suc n) \<longleftrightarrow> Suc n < 16 \<and> bit w n"
    by (simp only: bit_push_bit_iff) (auto simp: possible_bit_def)
  ultimately show "bit w n = bit 0 n"
    using top bit_imp_le_length [of w n] by (cases "n = 15") auto
qed

lemma crc_bits_xor: "(crc_bit ^^ n) (x XOR y) = (crc_bit ^^ n) x XOR (crc_bit ^^ n) y"
  by (induction n) (simp_all add: crc_bit_xor)

lemma crc_bits_eq_0: "(crc_bit ^^ n) w = 0 \<longleftrightarrow> w = 0"
  by (induction n) (auto dest: crc_bit_eq_0)

lemma crc_byte_xor: "crc_byte (x XOR y) (a XOR b) = crc_byte x a XOR crc_byte y b"
proof -
  have "(x XOR y) XOR push_bit 8 (ucast (a XOR b)) = (x XOR push_bit 8 (ucast a)) XOR (y XOR push_bit 8 (ucast b) :: 16 word)"
    by (simp add: unsigned_xor_eq push_bit_xor xor.assoc xor.left_commute)
  then show ?thesis by (simp only: crc_byte_def crc_bits_xor)
qed

lemma crc_byte_0 [simp]: "crc_byte 0 0 = 0"
  by (simp add: crc_byte_def crc_bits_eq_0)

lemma crc_fold_xor:
  "length xs = length ys \<Longrightarrow> foldl crc_byte (c XOR d) (map2 (XOR) xs ys) = foldl crc_byte c xs XOR foldl crc_byte d ys"
  by (induction xs ys arbitrary: c d rule: list_induct2) (simp_all add: crc_byte_xor)

lemma crc_xor: "length xs = length ys \<Longrightarrow> crc16_xmodem (map2 (XOR) xs ys) = crc16_xmodem xs XOR crc16_xmodem ys"
  using crc_fold_xor [of xs ys 0 0] by (simp add: crc16_xmodem_def)

lemma crc_zeros: "foldl crc_byte c (replicate n 0) = 0 \<longleftrightarrow> c = 0"
  by (induction n arbitrary: c) (auto simp: crc_byte_def crc_bits_eq_0)

lemma crc_leading_zeros: "foldl crc_byte 0 (replicate n 0) = 0"
  by (simp add: crc_zeros)

text \<open>Shifting a byte in from the right is eight steps.\<close>

lemma crc_bits_low: "(crc_bit ^^ 8) (ucast (b :: 8 word)) = (push_bit 8 (ucast b) :: 16 word)"
proof -
  have "(crc_bit ^^ n) (ucast b) = (push_bit n (ucast b) :: 16 word)" if "n \<le> 8" for n
    using that
  proof (induction n)
    case (Suc n)
    have "\<not> bit (push_bit n (ucast b) :: 16 word) 15"
      using Suc.prems by (auto simp: bit_push_bit_iff bit_unsigned_iff dest: bit_imp_le_length)
    then have "crc_bit (push_bit n (ucast b)) = push_bit (Suc n) (ucast b :: 16 word)"
      by (simp only: crc_bit_if if_False xor.right_neutral push_bit_push_bit) simp
    then show ?case using Suc by simp
  qed simp
  then show ?thesis by simp
qed

lemma two_bytes_eq_0: "push_bit 8 (ucast (a :: 8 word)) XOR ucast (b :: 8 word) = (0 :: 16 word) \<Longrightarrow> a = 0 \<and> b = 0"
proof (intro conjI bit_eqI)
  assume zero: "push_bit 8 (ucast a) XOR ucast b = (0 :: 16 word)"
  have bits: "bit (push_bit 8 (ucast a) XOR ucast b :: 16 word) n = (n < 16 \<and> ((8 \<le> n \<and> bit a (n - 8)) \<noteq> bit b n))" for n
    by (auto simp: bit_xor_iff bit_push_bit_iff bit_unsigned_iff possible_bit_def dest: bit_imp_le_length)
  fix n
  assume "possible_bit TYPE(8 word) n"
  then have "n < 8" by (simp add: possible_bit_def)
  then show "bit a n = bit 0 n" "bit b n = bit 0 n"
    using bits [of "n + 8"] bits [of n] zero by (auto dest: bit_imp_le_length)
qed

text \<open>An error confined to two neighbouring bytes is detected.\<close>

lemma crc_burst:
  assumes "a \<noteq> 0 \<or> b \<noteq> 0"
  shows "crc16_xmodem (replicate i 0 @ a # b # replicate j 0) \<noteq> 0"
proof -
  have "crc_byte (crc_byte 0 a) b = (crc_bit ^^ 8) ((crc_bit ^^ 8) (push_bit 8 (ucast a)) XOR (crc_bit ^^ 8) (ucast b))"
    by (simp add: crc_byte_def crc_bits_low)
  also have "\<dots> = (crc_bit ^^ 8) ((crc_bit ^^ 8) (push_bit 8 (ucast a) XOR ucast b))"
    by (simp only: crc_bits_xor)
  finally have "crc_byte (crc_byte 0 a) b = 0 \<longleftrightarrow> push_bit 8 (ucast a) XOR ucast b = (0 :: 16 word)"
    by (simp only: crc_bits_eq_0)
  moreover have "push_bit 8 (ucast a) XOR ucast b \<noteq> (0 :: 16 word)"
    using assms two_bytes_eq_0 by blast
  ultimately show ?thesis
    by (simp add: crc16_xmodem_def crc_leading_zeros crc_zeros)
qed

section \<open>A mistyped character\<close>

lemma nth_concat_equal:
  assumes "\<forall>x \<in> set xs. length (f x) = n" "j < length xs" "i < n"
  shows "concat (map f xs) ! (n * j + i) = f (xs ! j) ! i"
  using assms by (induction xs arbitrary: j) (auto simp: nth_append nth_Cons split: nat.split)

lemma decoded_bit:
  assumes "base32_decode field s = Inr out" "8 * length out = 5 * length s" "j < length out" "b < 8"
  shows "bit (out ! j) b \<longleftrightarrow> bit (code_of (s ! ((8 * j + 7 - b) div 5))) (4 - (8 * j + 7 - b) mod 5)"
proof -
  let ?m = "8 * j + 7 - b"
  have m: "?m = 8 * j + (7 - b)" "?m < 5 * length s" using assms(2-4) by linarith+
  have "bit (out ! j) b = concat (map (bits_of 8) out) ! ?m"
    unfolding m(1) using nth_concat_equal [of out "bits_of 8" 8 j "7 - b"] assms(3,4) by (simp add: nth_bits_of)
  also have "\<dots> = codes s ! ?m"
    using base32_loop_bits [OF assms(1) [unfolded base32_decode_def]] assms(2) by (simp add: bits_of_def)
  also have "\<dots> = codes s ! (5 * (?m div 5) + ?m mod 5)" by (simp only: mult_div_mod_eq)
  also have "\<dots> = bit (code_of (s ! (?m div 5))) (4 - ?m mod 5)"
    unfolding codes_def using nth_concat_equal [of s "bits_of 5 \<circ> code_of" 5 "?m div 5" "?m mod 5"] m(2)
    by (simp add: nth_bits_of less_mult_imp_div_less mult.commute)
  finally show ?thesis .
qed

lemma funpow_8: "(f ^^ 8) x = f (f (f (f (f (f (f (f x)))))))"
  by (simp add: numeral_eq_Suc)

lemma last_byte_checksum: "(crc_bit ^^ 8) 0x8810 = 0x80"
  by (simp add: funpow_8 crc_bit_def)

lemma last_byte_error:
  fixes a c :: "8 word"
  assumes "crc_byte 0 a = ucast c" "\<forall>b < 8. bit a b \<longrightarrow> b < 4" "\<forall>b < 8. bit c b \<longrightarrow> b = 7"
  shows "a = 0 \<and> c = 0"
proof -
  have "c = (if bit c 7 then 0x80 else 0 :: 8 word)"
  proof (rule bit_eqI)
    fix n
    assume "possible_bit TYPE(8 word) n"
    then have "n < 8" by (simp add: possible_bit_def)
    moreover have "bit (0x80 :: 8 word) n \<longleftrightarrow> n = 7"
      using bit_exp_iff [of 7 n, where 'a = "8 word"] by (auto simp: possible_bit_def)
    ultimately show "bit c n = bit (if bit c 7 then 0x80 else 0 :: 8 word) n" using assms(3) by auto
  qed
  moreover have "\<not> bit c 7"
  proof
    assume "bit c 7"
    then have "(crc_bit ^^ 8) (push_bit 8 (ucast a)) = (crc_bit ^^ 8) 0x8810"
      using assms(1) calculation last_byte_checksum by (simp add: crc_byte_def)
    then have "(crc_bit ^^ 8) (push_bit 8 (ucast a) XOR 0x8810) = 0" by (simp only: crc_bits_xor) simp
    then have "push_bit 8 (ucast a) = (0x8810 :: 16 word)" by (simp only: crc_bits_eq_0) (simp add: word_xor_eq_0)
    moreover have "bit (0x8810 :: 16 word) 4" by simp
    ultimately have "bit (push_bit 8 (ucast a) :: 16 word) 4" by (simp only:)
    then show False by (simp add: bit_push_bit_iff)
  qed
  ultimately have "c = 0" by simp
  moreover have "crc_byte 0 a = 0 \<longleftrightarrow> a = 0"
    using crc_burst [of 0 a 0 0] by (auto simp: crc16_xmodem_def)
  ultimately show ?thesis using assms(1) by simp
qed

text \<open>The difference of two decoded addresses whose texts differ at position \<open>k\<close> only.\<close>

lemma same_decoded_bit:
  assumes "base32_decode field s = Inr out" "base32_decode field' s' = Inr out'" "length s = 56" "length s' = 56"
    and "length out = 35" "length out' = 35" "\<And>i. i < 56 \<Longrightarrow> i \<noteq> k \<Longrightarrow> s ! i = s' ! i"
    and "j < 35" "b < 8" "(8 * j + 7 - b) div 5 \<noteq> k"
  shows "bit (out ! j) b = bit (out' ! j) b"
proof -
  have "(8 * j + 7 - b) div 5 < 56" using assms(8) by simp
  then show ?thesis
    using decoded_bit [OF assms(1) _ _ assms(9), of j] decoded_bit [OF assms(2) _ _ assms(9), of j] assms(3-8,10) by simp
qed

lemma map_sum_Inr [simp]: "map_sum id f x = Inr y \<longleftrightarrow> (\<exists>z. x = Inr z \<and> y = f z)"
  by (cases x) auto

lemma base32_loop_alphabet: "base32_loop field buffer bits s = Inr out \<Longrightarrow> c \<in> set s \<Longrightarrow> position c BASE32_ALPHABET \<noteq> None"
  by (induction field buffer bits s arbitrary: out rule: base32_loop.induct)
    (auto simp: Let_def split: option.splits if_splits)

lemma different_codes:
  assumes "base32_decode field s = Inr out" "base32_decode field' s' = Inr out'" "k < length s" "k < length s'" "s ! k \<noteq> s' ! k"
  shows "\<exists>t < 5. bit (code_of (s ! k)) t \<noteq> bit (code_of (s' ! k)) t"
proof (rule ccontr)
  assume same: "\<not> (\<exists>t < 5. bit (code_of (s ! k)) t \<noteq> bit (code_of (s' ! k)) t)"
  obtain i i' where i: "position (s ! k) BASE32_ALPHABET = Some i" "position (s' ! k) BASE32_ALPHABET = Some i'"
    using base32_loop_alphabet assms(1-4) unfolding base32_decode_def by (meson not_None_eq nth_mem)
  note codes = position_code [OF i(1)] position_code [OF i(2)]
  have "take_bit 5 i = take_bit 5 i'"
    using same codes by (intro bit_eqI) (auto simp: bit_take_bit_iff)
  then have "i = i'" using codes by (simp add: take_bit_eq_mod)
  then show False using position_Some [OF i(1)] position_Some [OF i(2)] assms(5) by simp
qed

lemma different_decoded:
  assumes "base32_decode field s = Inr out" "base32_decode field' s' = Inr out'" "length s = 56" "length s' = 56"
    and "length out = 35" "length out' = 35" "k < 56" "s ! k \<noteq> s' ! k"
  shows "\<exists>j < 35. \<exists>b < 8. (8 * j + 7 - b) div 5 = k \<and> bit (out ! j) b \<noteq> bit (out' ! j) b"
proof -
  obtain t where t: "t < 5" "bit (code_of (s ! k)) t \<noteq> bit (code_of (s' ! k)) t"
    using different_codes [OF assms(1,2)] assms(3,4,7,8) by auto
  obtain u where u: "u = 4 - t" "u < 5" by simp
  let ?m = "5 * k + u"
  have m: "?m div 5 = k" "?m mod 5 = u" "?m < 280" using u(2) assms(7) by auto
  have j: "?m div 8 < 35" "7 - ?m mod 8 < 8" "8 * (?m div 8) + 7 - (7 - ?m mod 8) = ?m"
    using m(3) mod_less_divisor [of 8 ?m] mult_div_mod_eq [of 8 ?m] by linarith+
  have "bit (out ! (?m div 8)) (7 - ?m mod 8) \<noteq> bit (out' ! (?m div 8)) (7 - ?m mod 8)"
    using decoded_bit [OF assms(1) _ _ j(2), of "?m div 8"] decoded_bit [OF assms(2) _ _ j(2), of "?m div 8"] assms(3-6) j(1) t u
    unfolding j(3) m by simp
  then show ?thesis using j m(1) by (intro exI [of _ "?m div 8"] conjI exI [of _ "7 - ?m mod 8"]) simp_all
qed

lemma validate_strkey_ok:
  assumes "validate_strkey field value allowed = Inr r"
  obtains out where "r = value" "length value = 56" "base32_decode field value = Inr out" "length out = 35"
    "out ! 0 \<in> set allowed" "crc16_xmodem (take 33 out) = ucast (out ! 33) OR push_bit 8 (ucast (out ! 34))"
proof -
  obtain out where out: "base32_decode field value = Inr out"
    using assms by (cases "base32_decode field value") (auto simp: validate_strkey_def split: if_splits)
  then show ?thesis
    using assms that [of out]
    by (auto simp: validate_strkey_def STELLAR_ADDRESS_LEN_def Let_def split: if_splits)
qed

text \<open>The little-endian checksum is linear as well.\<close>

lemma le_bytes_xor:
  fixes a b :: "8 word"
  shows "ucast a OR push_bit 8 (ucast b) = (push_bit 8 (ucast b) XOR ucast a :: 16 word)"
  by (rule bit_eqI) (auto simp: bit_simps dest: bit_imp_le_length)

lemma zero_difference: "(\<And>b. b < 8 \<Longrightarrow> bit x b = bit y b) \<Longrightarrow> x XOR y = 0" for x y :: "8 word"
  by (simp only: word_xor_eq_0) (rule bit_eqI, simp add: possible_bit_def)

lemma checksum_difference:
  assumes "length out = 35" "length out' = 35"
    and "crc16_xmodem (take 33 out) = ucast (out ! 33) OR push_bit 8 (ucast (out ! 34))"
    and "crc16_xmodem (take 33 out') = ucast (out' ! 33) OR push_bit 8 (ucast (out' ! 34))"
  defines "d \<equiv> \<lambda>j. out ! j XOR out' ! j"
  shows "crc16_xmodem (map d [0..<33]) = push_bit 8 (ucast (d 34)) XOR ucast (d 33)"
proof -
  have "map2 (XOR) (take 33 out) (take 33 out') = map d [0..<33]"
    using assms(1,2) by (intro nth_equalityI) (auto simp: d_def)
  then have "crc16_xmodem (map d [0..<33]) = crc16_xmodem (take 33 out) XOR crc16_xmodem (take 33 out')"
    using crc_xor [of "take 33 out" "take 33 out'"] assms(1,2) by simp
  then show ?thesis
    unfolding assms(3,4) le_bytes_xor d_def
    by (simp add: unsigned_xor_eq push_bit_xor xor.assoc xor.left_commute)
qed

lemma less_eight_iff: "b < 8 \<longleftrightarrow> b \<in> {0, 1, 2, 3, 4, 5, 6, 7 :: nat}"
  by auto

lemma window_list:
  assumes "i + 2 \<le> n" "\<And>j. j < n \<Longrightarrow> j \<noteq> i \<Longrightarrow> j \<noteq> i + 1 \<Longrightarrow> f j = (0 :: 8 word)"
  shows "map f [0..<n] = replicate i 0 @ f i # f (i + 1) # replicate (n - 2 - i) 0"
proof (rule nth_equalityI)
  fix j
  assume "j < length (map f [0..<n])"
  then consider "j < i" | "j = i" | "j = i + 1" | m where "j = i + 2 + m" "j < n"
    using le_Suc_ex [of "i + 2" j] by fastforce
  then show "map f [0..<n] ! j = (replicate i 0 @ f i # f (i + 1) # replicate (n - 2 - i) 0) ! j"
    using assms by cases (simp_all add: nth_append)
qed (use assms in simp)

lemma undetected_difference:
  assumes check: "crc16_xmodem (map d [0..<33]) = push_bit 8 (ucast (d 34)) XOR ucast (d 33)"
    and only: "\<And>j b. j < 35 \<Longrightarrow> b < 8 \<Longrightarrow> (8 * j + 7 - b) div 5 \<noteq> k \<Longrightarrow> \<not> bit (d j :: 8 word) b"
    and j: "j < 35"
  shows "d j = 0"
proof -
  have zero: "d j = 0" if "j < 35" "8 * j + 7 < 5 * k \<or> 5 * k + 5 \<le> 8 * j" for j
  proof (rule bit_eqI)
    fix b
    assume "possible_bit TYPE(8 word) b"
    then have "b < 8" by (simp add: possible_bit_def)
    moreover have "(8 * j + 7 - b) div 5 \<noteq> k"
      using that(2) \<open>b < 8\<close> div_mult_mod_eq [of "8 * j + 7 - b" 5] mod_less_divisor [of 5 "8 * j + 7 - b"] by linarith
    ultimately show "bit (d j) b = bit 0 b" using only that(1) by simp
  qed
  consider "k \<le> 51" | "k = 52" | "53 \<le> k" by linarith
  then show ?thesis
  proof cases
    case 1
    let ?i = "5 * k div 8"
    have i: "8 * ?i \<le> 5 * k" "5 * k < 8 * ?i + 8" "?i \<le> 31" using 1 by auto
    have outside: "d j = 0" if "j < 35" "j \<noteq> ?i" "j \<noteq> ?i + 1" for j
    proof (rule zero [OF that(1)])
      show "8 * j + 7 < 5 * k \<or> 5 * k + 5 \<le> 8 * j" using that(2,3) i by linarith
    qed
    then have "map d [0..<33] = replicate ?i 0 @ d ?i # d (?i + 1) # replicate (31 - ?i) 0"
      using window_list [of ?i 33 d] i(3) by simp
    moreover have "d 33 = 0" "d 34 = 0" using zero [of 33] zero [of 34] 1 by auto
    ultimately have "d ?i = 0 \<and> d (?i + 1) = 0"
      using check crc_burst [of "d ?i" "d (?i + 1)" ?i "31 - ?i"] by auto
    then show ?thesis using outside [of j] j by (cases "j = ?i \<or> j = ?i + 1") auto
  next
    case 2
    have "map d [0..<33] = replicate 31 0 @ d 31 # d 32 # replicate 0 0" "d 31 = 0"
      using window_list [of 31 33 d] zero 2 by simp_all
    then have "crc_byte 0 (d 32) = ucast (d 33)"
      using check zero [of 34] 2 by (simp add: crc16_xmodem_def crc_leading_zeros)
    moreover have "\<forall>b < 8. bit (d 32) b \<longrightarrow> b < 4" "\<forall>b < 8. bit (d 33) b \<longrightarrow> b = 7"
      using only [of 32] only [of 33] 2 by (fastforce simp: less_eight_iff)+
    ultimately have "d 32 = 0 \<and> d 33 = 0" using last_byte_error by blast
    moreover have "8 * j + 7 < 5 * k \<or> 5 * k + 5 \<le> 8 * j \<or> j = 32 \<or> j = 33" using j 2 by linarith
    ultimately show ?thesis using zero [OF j] by blast
  next
    case 3
    have "map d [0..<33] = replicate 33 0"
      using zero 3 by (intro nth_equalityI) simp_all
    then have "d 34 = 0 \<and> d 33 = 0" using check two_bytes_eq_0 [of "d 34" "d 33"] by (simp add: crc16_xmodem_def crc_leading_zeros)
    moreover have "8 * j + 7 < 5 * k \<or> 5 * k + 5 \<le> 8 * j \<or> j = 33 \<or> j = 34" using j 3 by linarith
    ultimately show ?thesis using zero [OF j] by blast
  qed
qed

text \<open>C29. A mistyped character is always noticed: if an address is accepted, then the same text with one
  character replaced by any other is rejected, whatever kinds of address are allowed. The decoded
  bits change within five neighbouring positions, and the checksum tells any two payloads apart that
  differ in such a way, also where the change reaches into the checksum itself.\<close>

theorem mistyped_addresses_are_rejected:
  assumes "validate_strkey field s allowed = Inr r" "k < 56" "c \<noteq> s ! k"
  shows "\<exists>e. validate_strkey field' (s[k := c]) allowed' = Inl e"
proof (rule ccontr)
  assume "\<not> (\<exists>e. validate_strkey field' (s[k := c]) allowed' = Inl e)"
  then obtain r' where accepted: "validate_strkey field' (s[k := c]) allowed' = Inr r'"
    by (cases "validate_strkey field' (s[k := c]) allowed'") auto
  obtain out where out: "length s = 56" "base32_decode field s = Inr out" "length out = 35"
    "crc16_xmodem (take 33 out) = ucast (out ! 33) OR push_bit 8 (ucast (out ! 34))"
    using assms(1) by (elim validate_strkey_ok)
  obtain out' where out': "base32_decode field' (s[k := c]) = Inr out'" "length out' = 35"
    "crc16_xmodem (take 33 out') = ucast (out' ! 33) OR push_bit 8 (ucast (out' ! 34))"
    using accepted by (elim validate_strkey_ok)
  let ?d = "\<lambda>j. out ! j XOR out' ! j"
  have only: "\<not> bit (?d j) b" if "j < 35" "b < 8" "(8 * j + 7 - b) div 5 \<noteq> k" for j b
    using same_decoded_bit [OF out(2) out'(1) _ _ _ _ _ that(1,2,3)] out(1,3) out'(2) by (simp add: bit_xor_iff)
  have "?d j = 0" if "j < 35" for j
    using undetected_difference [OF checksum_difference [OF out(3) out'(2) out(4) out'(3)] only that] by simp
  then have "out ! j = out' ! j" if "j < 35" for j using that by (simp add: word_xor_eq_0)
  moreover have "s ! k \<noteq> s[k := c] ! k" using assms(2,3) out(1) by auto
  ultimately show False
    using different_decoded [OF out(2) out'(1) _ _ out(3) out'(2) assms(2)] out(1) by auto
qed

lemma sample_account:
  "validate_strkey ''player1'' ''GA5ZSEJYB37JRC5AVCIA5MOP4RHTM335X2KGX3IHOJAPP5RE34K4KZVN'' [VERSION_BYTE_ACCOUNT]
    = Inr ''GA5ZSEJYB37JRC5AVCIA5MOP4RHTM335X2KGX3IHOJAPP5RE34K4KZVN''"
  by (simp add: validate_strkey_def base32_decode_def BASE32_ALPHABET_def STELLAR_ADDRESS_LEN_def
      VERSION_BYTE_ACCOUNT_def is_ascii_lowercase_def crc16_xmodem_def crc_byte_def funpow_8 crc_bit_def Let_def)

theorem mistyped_addresses_are_rejected_witness:
  "\<exists>e. validate_strkey ''winner'' (''GA5ZSEJYB37JRC5AVCIA5MOP4RHTM335X2KGX3IHOJAPP5RE34K4KZVN''[9 := CHR ''C''])
    [VERSION_BYTE_ACCOUNT, VERSION_BYTE_CONTRACT] = Inl e"
  by (rule mistyped_addresses_are_rejected [OF sample_account]) simp_all

end
