(* ===== verification/Indexer_Transactions.thy ===== *)
theory Indexer_Transactions
  imports Indexer_Strkey
begin

text \<open>
  The transaction history of the event indexer (services/event-indexer/src/transactions.rs and the
  data of models.rs): the kinds of transaction, the classification of events by markers in their names,
  the whitelisted sort fields, the filters of a query and the page that answers it. A time
  (\<^verbatim>\<open>DateTime<Utc>\<close> of the chrono crate) is a value of a type variable. The classification in the
  program and the patterns it sends to the database are shown to select the same events.
\<close>

section \<open>Transaction types\<close>

datatype transaction_type = Deposit | Payout | Fee

fun as_str :: "transaction_type \<Rightarrow> string" where
  "as_str Deposit = ''deposit''"
| "as_str Payout = ''payout''"
| "as_str Fee = ''fee''"

definition ALL_types :: "transaction_type list" where "ALL_types = [Deposit, Payout, Fee]"

definition parse_transaction_type :: "string \<Rightarrow> transaction_type option" where
  "parse_transaction_type raw =
     (let s = map to_ascii_lowercase (trim raw)
      in if s \<in> {''deposit'', ''deposits''} then Some Deposit
         else if s \<in> {''payout'', ''payouts''} then Some Payout
         else if s \<in> {''fee'', ''fees''} then Some Fee
         else None)"

fun event_name_markers :: "transaction_type \<Rightarrow> string list" where
  "event_name_markers Deposit = [''deposit'', ''funded'']"
| "event_name_markers Payout = [''completed'', ''finalized'', ''claim'', ''payout'', ''resolved'']"
| "event_name_markers Fee = [''fee'', ''cancelled'', ''expired'']"

definition sql_patterns :: "transaction_type \<Rightarrow> string list" where
  "sql_patterns t = map (\<lambda>m. ''%'' @ m @ ''%'') (event_name_markers t)"

definition from_event_type :: "string \<Rightarrow> transaction_type option" where
  "from_event_type event_type =
     (let lowered = map to_ascii_lowercase event_type
      in find (\<lambda>t. list_ex (\<lambda>m. contains_str m lowered) (event_name_markers t)) ALL_types)"

definition all_sql_patterns :: "string list" where
  "all_sql_patterns = concat (map sql_patterns ALL_types)"

section \<open>Sorting\<close>

datatype transaction_sort_field = Timestamp | Amount | MatchId | Type

definition parse_sort_field :: "string \<Rightarrow> transaction_sort_field option" where
  "parse_sort_field raw =
     (let s = map to_ascii_lowercase (trim raw)
      in if s \<in> {''timestamp'', ''date'', ''time''} then Some Timestamp
         else if s = ''amount'' then Some Amount
         else if s \<in> {''match_id'', ''match''} then Some MatchId
         else if s \<in> {''type'', ''tx_type''} then Some Type
         else None)"

fun sql_expr :: "transaction_sort_field \<Rightarrow> string" where
  "sql_expr Timestamp = ''timestamp''"
| "sql_expr Amount = ''NULLIF(stake_amount, '' @ [CHR 39, CHR 39] @ '')::NUMERIC''"
| "sql_expr MatchId = ''match_id''"
| "sql_expr Type = ''event_type''"

datatype sort_order = Asc | Desc

definition parse_sort_order :: "string \<Rightarrow> sort_order option" where
  "parse_sort_order raw =
     (let s = map to_ascii_lowercase (trim raw)
      in if s \<in> {''asc'', ''ascending''} then Some Asc
         else if s \<in> {''desc'', ''descending''} then Some Desc
         else None)"

fun sql_keyword :: "sort_order \<Rightarrow> string" where
  "sql_keyword Asc = ''ASC''"
| "sql_keyword Desc = ''DESC''"

section \<open>Filters\<close>

definition DEFAULT_PAGE_LIMIT :: int where "DEFAULT_PAGE_LIMIT = 100"

record 'd transaction_history_filters =
  th_player_address :: string
  th_tx_type :: "transaction_type option"
  th_token :: "string option"
  th_from_date :: "'d option"
  th_to_date :: "'d option"
  th_completed_after :: "nat option"
  th_completed_before :: "nat option"
  th_limit :: int
  th_offset :: int
  th_sort_by :: transaction_sort_field
  th_sort_order :: sort_order

definition new_filters :: "string \<Rightarrow> 'd transaction_history_filters" where
  "new_filters player_address = \<lparr>th_player_address = player_address, th_tx_type = None, th_token = None,
     th_from_date = None, th_to_date = None, th_completed_after = None, th_completed_before = None,
     th_limit = DEFAULT_PAGE_LIMIT, th_offset = 0, th_sort_by = Timestamp, th_sort_order = Desc\<rparr>"

definition clamped :: "'d transaction_history_filters \<Rightarrow> 'd transaction_history_filters" where
  "clamped f = f\<lparr>th_limit := min (max (th_limit f) MIN_PAGE_LIMIT) MAX_PAGE_LIMIT, th_offset := max (th_offset f) 0\<rparr>"

definition event_type_patterns :: "'d transaction_history_filters \<Rightarrow> string list" where
  "event_type_patterns f = (case th_tx_type f of Some t \<Rightarrow> sql_patterns t | None \<Rightarrow> all_sql_patterns)"

section \<open>Records and pages\<close>

record 'd transaction_record =
  tr_match_id :: nat
  tr_timestamp :: 'd
  tr_tx_type :: transaction_type
  tr_amount :: string
  tr_token :: string
  tr_event_id :: string
  tr_event_type :: string
  tr_ledger_sequence :: nat

record 'd transaction_page =
  tp_transactions :: "'d transaction_record list"
  tp_total :: int
  tp_limit :: int
  tp_offset :: int
  tp_has_more :: bool

text \<open>\<^verbatim>\<open>i64::saturating_add\<close>\<close>

definition i64_saturating_add :: "int \<Rightarrow> int \<Rightarrow> int" where
  "i64_saturating_add a b = min (max (a + b) (- (2 ^ 63))) (2 ^ 63 - 1)"

definition new_page :: "'d transaction_record list \<Rightarrow> int \<Rightarrow> int \<Rightarrow> int \<Rightarrow> 'd transaction_page" where
  "new_page transactions total_rows limit offset =
     \<lparr>tp_transactions = transactions, tp_total = total_rows, tp_limit = limit, tp_offset = offset,
      tp_has_more = (i64_saturating_add offset (int (length transactions)) < total_rows)\<rparr>"

section \<open>Classification and patterns\<close>

text \<open>C34. The two places that decide which events are transactions agree: for a database whose
  \<^verbatim>\<open>ILIKE\<close> with a pattern \<^verbatim>\<open>%m%\<close> finds the letters \<open>m\<close> in any case, the
  patterns of a query without a type filter select exactly the events that are classified, and the
  patterns of one type select every event that is classified with this type.\<close>

theorem patterns_select_classified_events:
  assumes "\<And>m e. m \<noteq> [] \<Longrightarrow> list_all is_ascii_lowercase m \<Longrightarrow>
    ilike e (''%'' @ m @ ''%'') = contains_str m (map to_ascii_lowercase e)"
  shows "(list_ex (ilike e) (event_type_patterns (f\<lparr>th_tx_type := None\<rparr>)) \<longleftrightarrow> from_event_type e \<noteq> None)
    \<and> (from_event_type e = Some t \<longrightarrow> list_ex (ilike e) (event_type_patterns (f\<lparr>th_tx_type := Some t\<rparr>)))"
proof -
  have marker: "m \<noteq> [] \<and> list_all is_ascii_lowercase m" if "m \<in> set (event_name_markers t)" for m t
    using that by (cases t) (auto simp: is_ascii_lowercase_def)
  have single: "list_ex (ilike e) (sql_patterns t)
      = list_ex (\<lambda>m. contains_str m (map to_ascii_lowercase e)) (event_name_markers t)" for t
    using assms marker by (auto simp: sql_patterns_def list_ex_iff)
  then have "from_event_type e = Some t \<longrightarrow> list_ex (ilike e) (event_type_patterns (f\<lparr>th_tx_type := Some t\<rparr>))"
    by (auto simp: event_type_patterns_def from_event_type_def find_Some_iff)
  moreover have "list_ex (ilike e) (event_type_patterns (f\<lparr>th_tx_type := None\<rparr>)) \<longleftrightarrow> from_event_type e \<noteq> None"
    using single
    by (auto simp: event_type_patterns_def all_sql_patterns_def from_event_type_def find_None_iff list_ex_iff)
  ultimately show ?thesis by blast
qed

text \<open>A concrete \<^verbatim>\<open>ILIKE\<close>: the wildcard \<^verbatim>\<open>%\<close> stands for any text, \<^verbatim>\<open>_\<close> for
  one character.\<close>

fun ilike_match :: "string \<Rightarrow> string \<Rightarrow> bool" where
  "ilike_match [] s = (s = [])"
| "ilike_match (p # ps) s =
     (if p = CHR ''%'' then list_ex (\<lambda>n. ilike_match ps (drop n s)) [0..<Suc (length s)]
      else case s of [] \<Rightarrow> False
        | c # cs \<Rightarrow> (p = CHR ''_'' \<or> to_ascii_lowercase p = to_ascii_lowercase c) \<and> ilike_match ps cs)"

lemma ilike_prefix: "list_all is_ascii_lowercase m \<Longrightarrow>
    ilike_match (m @ ''%'') s \<longleftrightarrow> take (length m) (map to_ascii_lowercase s) = m"
proof (induction m arbitrary: s)
  case Nil
  have "ilike_match ''%'' s" by (auto simp: list_ex_iff intro!: bexI [of _ "length s"])
  then show ?case by simp
next
  case (Cons a m)
  then have "a \<noteq> CHR ''%''" "a \<noteq> CHR ''_''" "to_ascii_lowercase a = a"
    by (auto simp: is_ascii_lowercase_def to_ascii_lowercase_def Let_def)
  then show ?case using Cons by (cases s) auto
qed

lemma contains_str_drop: "m \<noteq> [] \<Longrightarrow> contains_str m s \<longleftrightarrow> (\<exists>n \<le> length s. take (length m) (drop n s) = m)"
proof (induction s)
  case (Cons x xs)
  have "(\<exists>n \<le> length (x # xs). take (length m) (drop n (x # xs)) = m) \<longleftrightarrow>
      take (length m) (x # xs) = m \<or> (\<exists>n \<le> length xs. take (length m) (drop n xs) = m)"
    by (metis (no_types, lifting) Suc_le_mono bot_nat_0.extremum drop0 drop_Suc_Cons length_Cons not0_implies_Suc)
  then show ?case using Cons by simp
qed auto

lemma ilike_match_contains:
  assumes "m \<noteq> []" "list_all is_ascii_lowercase m"
  shows "ilike_match (''%'' @ m @ ''%'') e = contains_str m (map to_ascii_lowercase e)"
  using assms by (auto simp: ilike_prefix contains_str_drop list_ex_iff drop_map less_Suc_eq_le simp del: upt_Suc)

theorem patterns_select_classified_events_witness:
  "list_ex (\<lambda>p. ilike_match p ''MATCH:Funded'')
     (event_type_patterns ((new_filters ''GA'' :: nat transaction_history_filters)\<lparr>th_tx_type := Some Deposit\<rparr>))
   \<and> \<not> list_ex (\<lambda>p. ilike_match p ''match:created'')
     (event_type_patterns ((new_filters ''GA'' :: nat transaction_history_filters)\<lparr>th_tx_type := None\<rparr>))"
proof -
  have "from_event_type ''match:created'' = None" "from_event_type ''MATCH:Funded'' = Some Deposit" by code_simp+
  then show ?thesis
    using patterns_select_classified_events [where ilike = "\<lambda>e p. ilike_match p e" and e = "''match:created''"
        and f = "new_filters ''GA'' :: nat transaction_history_filters", OF ilike_match_contains]
      patterns_select_classified_events [where ilike = "\<lambda>e p. ilike_match p e" and e = "''MATCH:Funded''"
        and f = "new_filters ''GA'' :: nat transaction_history_filters" and t = Deposit, OF ilike_match_contains]
    by simp
qed

end
