(* ===== verification/Indexer_Validation.thy ===== *)
theory Indexer_Validation
  imports Indexer_Transactions
begin

text \<open>
  Input validation of the event indexer's API (services/event-indexer/src/validation.rs): amounts,
  identifiers, enumerations, paging, dates, the decoding of a query string and the middleware that
  validates a request before a handler sees it. A function that returns \<^verbatim>\<open>ValidationResult\<close>
  gives \<open>Inl\<close> of an error or \<open>Inr\<close> of the value. The date parsers of the chrono
  crate are parameters: \<open>rfc3339\<close> for \<^verbatim>\<open>DateTime::parse_from_rfc3339\<close> followed by the
  conversion to UTC, and \<open>naive_date\<close> for the midnight of \<^verbatim>\<open>NaiveDate::parse_from_str\<close>.
\<close>

section \<open>Amounts\<close>

definition validate_token_amount :: "string \<Rightarrow> string \<Rightarrow> validation_error + int" where
  "validate_token_amount field raw =
     (let trimmed = trim raw in
      if trimmed = [] then invalid field MustNotBeEmpty
      else if hd trimmed = CHR ''-'' then invalid field NegativeAmount
      else if hd trimmed = CHR ''+'' then invalid field SignedAmount
      else if CHR ''.'' \<in> set trimmed \<or> CHR '','' \<in> set trimmed then invalid field FractionalAmount
      else if \<not> list_all is_ascii_digit trimmed then invalid field DigitsOnly
      else case parse_signed (2 ^ 127 - 1) (2 ^ 127) trimmed of
        None \<Rightarrow> invalid field (AmountTooLarge MAX_TOKEN_AMOUNT)
      | Some amount \<Rightarrow>
          if amount = 0 then invalid field MustBePositive
          else if amount > MAX_TOKEN_AMOUNT then invalid field (AmountTooLarge MAX_TOKEN_AMOUNT)
          else Inr amount)"

section \<open>Identifiers\<close>

definition validate_game_id_ix :: "string \<Rightarrow> string \<Rightarrow> validation_error + string" where
  "validate_game_id_ix field val =
     (if val = [] then invalid field MustNotBeEmpty
      else if length val > MAX_GAME_ID_LEN_ix then invalid field (TooLong MAX_GAME_ID_LEN_ix (length val))
      else case find (\<lambda>c. \<not> (is_ascii_alphanumeric c \<or> c = CHR ''-'' \<or> c = CHR ''_'')) val of
        Some bad \<Rightarrow> invalid field (BadGameIdCharacter bad)
      | None \<Rightarrow> Inr val)"

definition validate_match_id :: "string \<Rightarrow> string \<Rightarrow> validation_error + nat" where
  "validate_match_id field raw =
     (let trimmed = trim raw in
      if trimmed = [] then invalid field MustNotBeEmpty
      else if hd trimmed = CHR ''-'' then invalid field NegativeMatchId
      else if \<not> list_all is_ascii_digit trimmed then invalid field NotWholeNumber
      else case parse_unsigned (2 ^ 64 - 1) trimmed of
        None \<Rightarrow> invalid field MatchIdOutOfRange
      | Some n \<Rightarrow> Inr n)"

definition validate_token :: "string \<Rightarrow> string \<Rightarrow> validation_error + string" where
  "validate_token field val =
     (if val = [] then invalid field MustNotBeEmpty
      else if length val > MAX_TOKEN_LEN then invalid field (TokenTooLong MAX_TOKEN_LEN)
      else if length val = STELLAR_ADDRESS_LEN then validate_contract_address field val
      else case find (\<lambda>c. \<not> (is_ascii_alphanumeric c \<or> c = CHR '':'' \<or> c = CHR ''-'' \<or> c = CHR ''_'')) val of
        Some bad \<Rightarrow> invalid field (BadTokenCharacter bad)
      | None \<Rightarrow> Inr val)"

section \<open>Enumerations\<close>

datatype match_status = Pending_ix | Active_ix | Completed_ix | Cancelled_ix | Expired_ix

definition validate_match_status :: "string \<Rightarrow> string \<Rightarrow> validation_error + match_status" where
  "validate_match_status field raw =
     (let s = map to_ascii_lowercase (trim raw)
      in if s = ''pending'' then Inr Pending_ix
         else if s = ''active'' then Inr Active_ix
         else if s = ''completed'' then Inr Completed_ix
         else if s = ''cancelled'' then Inr Cancelled_ix
         else if s = ''expired'' then Inr Expired_ix
         else invalid field (UnknownStatus s))"

definition validate_transaction_type :: "string \<Rightarrow> string \<Rightarrow> validation_error + transaction_type" where
  "validate_transaction_type field raw = (case parse_transaction_type raw of
     Some t \<Rightarrow> Inr t | None \<Rightarrow> invalid field (UnknownTransactionType raw))"

definition validate_sort_by :: "string \<Rightarrow> string \<Rightarrow> validation_error + transaction_sort_field" where
  "validate_sort_by field raw = (case parse_sort_field raw of
     Some t \<Rightarrow> Inr t | None \<Rightarrow> invalid field (UnknownSortField raw))"

definition validate_sort_order :: "string \<Rightarrow> string \<Rightarrow> validation_error + sort_order" where
  "validate_sort_order field raw = (case parse_sort_order raw of
     Some t \<Rightarrow> Inr t | None \<Rightarrow> invalid field (UnknownSortOrder raw))"

section \<open>Paging\<close>

definition parse_i64 :: "string \<Rightarrow> string \<Rightarrow> validation_error + int" where
  "parse_i64 field raw =
     (let trimmed = trim raw in
      if trimmed = [] then invalid field MustNotBeEmpty
      else case parse_signed (2 ^ 63 - 1) (2 ^ 63) trimmed of
        None \<Rightarrow> invalid field (NotInteger raw)
      | Some n \<Rightarrow> Inr n)"

definition validate_limit :: "string \<Rightarrow> string \<Rightarrow> validation_error + int" where
  "validate_limit field raw = (case parse_i64 field raw of
     Inl e \<Rightarrow> Inl e
   | Inr val \<Rightarrow>
       if \<not> (MIN_PAGE_LIMIT \<le> val \<and> val \<le> MAX_PAGE_LIMIT) then
         invalid field (LimitOutOfRange MIN_PAGE_LIMIT MAX_PAGE_LIMIT val)
       else Inr val)"

definition validate_offset :: "string \<Rightarrow> string \<Rightarrow> validation_error + int" where
  "validate_offset field raw = (case parse_i64 field raw of
     Inl e \<Rightarrow> Inl e
   | Inr val \<Rightarrow> if val < 0 then invalid field (NegativeOffset val) else Inr val)"

definition validate_ledger_sequence :: "string \<Rightarrow> string \<Rightarrow> validation_error + nat" where
  "validate_ledger_sequence field raw =
     (let trimmed = trim raw in
      if trimmed = [] then invalid field MustNotBeEmpty
      else if \<not> list_all is_ascii_digit trimmed then invalid field NotNonNegativeNumber
      else case parse_unsigned (2 ^ 32 - 1) trimmed of
        None \<Rightarrow> invalid field LedgerOutOfRange
      | Some n \<Rightarrow> Inr n)"

definition validate_ledger_range :: "nat option \<Rightarrow> nat option \<Rightarrow> validation_error + unit" where
  "validate_ledger_range completed_after completed_before = (case (completed_after, completed_before) of
     (Some a, Some b) \<Rightarrow> if a > b then invalid ''completed_after'' (RangeInverted ''completed_before'') else Inr ()
   | _ \<Rightarrow> Inr ())"

section \<open>Dates\<close>

type_synonym 'd date_parser = "string \<Rightarrow> 'd option"

definition validate_date :: "'d date_parser \<Rightarrow> 'd date_parser \<Rightarrow> string \<Rightarrow> string \<Rightarrow> validation_error + 'd" where
  "validate_date rfc3339 naive_date field raw =
     (let trimmed = trim raw in
      if trimmed = [] then invalid field MustNotBeEmpty
      else case rfc3339 trimmed of
        Some dt \<Rightarrow> Inr dt
      | None \<Rightarrow> (case naive_date trimmed of
          Some dt \<Rightarrow> Inr dt
        | None \<Rightarrow> invalid field (NotADate trimmed)))"

definition validate_date_range :: "'d::linorder option \<Rightarrow> 'd option \<Rightarrow> validation_error + unit" where
  "validate_date_range from_date to_date = (case (from_date, to_date) of
     (Some a, Some b) \<Rightarrow> if a > b then invalid ''from_date'' (RangeInverted ''to_date'') else Inr ()
   | _ \<Rightarrow> Inr ())"

section \<open>Query strings\<close>

text \<open>The loop of \<^verbatim>\<open>percent_decode\<close> over the bytes; an escape needs two more bytes.\<close>

fun percent_bytes :: "string \<Rightarrow> string" where
  "percent_bytes [] = []"
| "percent_bytes (c # cs) =
     (if c = CHR ''+'' then CHR '' '' # percent_bytes cs
      else if c = CHR ''%'' then
        (case cs of
           a # b # rest \<Rightarrow> (case (hex_digit a, hex_digit b) of
             (Some hi, Some lo) \<Rightarrow> char_of (hi * 16 + lo) # percent_bytes rest
           | _ \<Rightarrow> c # percent_bytes cs)
         | _ \<Rightarrow> c # percent_bytes cs)
      else c # percent_bytes cs)"

definition percent_decode :: "string \<Rightarrow> string" where
  "percent_decode val = from_utf8_lossy (percent_bytes val)"

definition parse_query_pairs :: "string \<Rightarrow> (string \<times> string) list" where
  "parse_query_pairs query =
     map (\<lambda>part. case split_once (CHR ''='') part of
            Some (k, v) \<Rightarrow> (percent_decode k, percent_decode v)
          | None \<Rightarrow> (percent_decode part, []))
       (filter (\<lambda>part. part \<noteq> []) (split_on (CHR ''&'') query))"

abbreviation checked :: "'e + 'a \<Rightarrow> 'e + unit" where
  "checked r \<equiv> map_sum id (\<lambda>_. ()) r"

definition validate_query_param :: "'d date_parser \<Rightarrow> 'd date_parser \<Rightarrow> string \<Rightarrow> string \<Rightarrow> validation_error + unit" where
  "validate_query_param rfc3339 naive_date key val =
     (if trim val = [] then Inr ()
      else if key \<in> {''player_address'', ''player'', ''address''} then checked (validate_stellar_address key val)
      else if key = ''status'' then checked (validate_match_status key val)
      else if key = ''limit'' then checked (validate_limit key val)
      else if key = ''offset'' then checked (validate_offset key val)
      else if key = ''game_id'' then checked (validate_game_id_ix key val)
      else if key = ''token'' then checked (validate_token key val)
      else if key \<in> {''amount'', ''stake_amount''} then checked (validate_token_amount key val)
      else if key = ''match_id'' then checked (validate_match_id key val)
      else if key \<in> {''type'', ''tx_type''} then checked (validate_transaction_type key val)
      else if key = ''sort_by'' then checked (validate_sort_by key val)
      else if key \<in> {''sort_order'', ''order''} then checked (validate_sort_order key val)
      else if key \<in> {''from_date'', ''to_date'', ''start_date'', ''end_date''} then
        checked (validate_date rfc3339 naive_date key val)
      else Inr ())"

fun first_error :: "('a \<Rightarrow> 'e + unit) \<Rightarrow> 'a list \<Rightarrow> 'e + unit" where
  "first_error f [] = Inr ()"
| "first_error f (x # xs) = (case f x of Inl e \<Rightarrow> Inl e | Inr _ \<Rightarrow> first_error f xs)"

definition lookup_date ::
  "'d date_parser \<Rightarrow> 'd date_parser \<Rightarrow> (string \<times> string) list \<Rightarrow> string set \<Rightarrow> 'd option" where
  "lookup_date rfc3339 naive_date pairs names =
     Option.bind (find (\<lambda>(k, v). k \<in> names \<and> trim v \<noteq> []) pairs)
       (\<lambda>(k, v). case validate_date rfc3339 naive_date k v of Inr d \<Rightarrow> Some d | Inl _ \<Rightarrow> None)"

definition validate_query_string ::
  "'d::linorder date_parser \<Rightarrow> 'd date_parser \<Rightarrow> string \<Rightarrow> validation_error + unit" where
  "validate_query_string rfc3339 naive_date query =
     (let pairs = parse_query_pairs query in
      case first_error (\<lambda>(key, val). validate_query_param rfc3339 naive_date key val) pairs of
        Inl e \<Rightarrow> Inl e
      | Inr _ \<Rightarrow> validate_date_range (lookup_date rfc3339 naive_date pairs {''from_date'', ''start_date''})
          (lookup_date rfc3339 naive_date pairs {''to_date'', ''end_date''}))"

section \<open>Paths and requests\<close>

definition validate_path :: "string \<Rightarrow> validation_error + unit" where
  "validate_path path = (case filter (\<lambda>s. s \<noteq> []) (split_on (CHR ''/'') path) of
     [a, b] \<Rightarrow>
       if a \<in> {''match'', ''events''} then checked (validate_match_id ''match_id'' b)
       else if a = ''matches'' \<and> b \<noteq> ''active'' \<and> b \<noteq> ''pending'' then checked (validate_match_id ''match_id'' b)
       else Inr ()
   | [a, b, c] \<Rightarrow>
       if a = ''transactions'' \<and> b = ''player'' then checked (validate_account_address ''player_address'' c)
       else if a = ''players'' \<and> c = ''matches'' then checked (validate_account_address ''player_address'' b)
       else Inr ()
   | _ \<Rightarrow> Inr ())"

text \<open>The middleware answers \<^verbatim>\<open>400 Bad Request\<close> or runs the rest of the service, which is the
  argument \<open>next\<close>.\<close>

datatype 'r response = BadRequest validation_error | Handled 'r

definition validate_request ::
  "'d::linorder date_parser \<Rightarrow> 'd date_parser \<Rightarrow> string \<Rightarrow> string option \<Rightarrow> 'r \<Rightarrow> 'r response" where
  "validate_request rfc3339 naive_date path query next = (case validate_path path of
     Inl e \<Rightarrow> BadRequest e
   | Inr _ \<Rightarrow> (case query of
       None \<Rightarrow> Handled next
     | Some q \<Rightarrow> (case validate_query_string rfc3339 naive_date q of
         Inl e \<Rightarrow> BadRequest e
       | Inr _ \<Rightarrow> Handled next)))"

section \<open>Numbers\<close>

lemma digit_not_space: "is_ascii_digit c \<Longrightarrow> starts_with_any white_space (c # cs) = None"
  by (auto simp: starts_with_any_def white_space_def is_ascii_digit_def Let_def)

lemma digit_not_space_rev: "is_ascii_digit c \<Longrightarrow> starts_with_any (map rev white_space) (c # cs) = None"
  by (auto simp: starts_with_any_def white_space_def is_ascii_digit_def Let_def)

lemma trim_digits:
  assumes "\<forall>c \<in> set s. is_ascii_digit c"
  shows "trim s = s"
proof (cases "s = []")
  case True
  then show ?thesis by (simp add: trim_def drop_leading.simps starts_with_any_def split: option.split)
next
  case False
  then have "rev s \<noteq> []" "\<forall>c \<in> set (rev s). is_ascii_digit c" using assms by simp_all
  then have "drop_leading (map rev white_space) (rev s) = rev s"
    by (cases "rev s") (simp_all add: drop_leading.simps digit_not_space_rev)
  moreover have "drop_leading white_space s = s"
    using False assms by (cases s) (simp_all add: drop_leading.simps digit_not_space)
  ultimately show ?thesis by (simp add: trim_def)
qed

lemma parse_signed_digits:
  assumes "s \<noteq> []" "list_all is_ascii_digit s"
  shows "parse_signed p n s = map_option int (parse_digits p 0 s)"
  using assms by (cases s) (auto simp: parse_signed_def is_ascii_digit_def)

lemma parse_unsigned_digits:
  assumes "s \<noteq> []" "list_all is_ascii_digit s"
  shows "parse_unsigned p s = parse_digits p 0 s"
  using assms by (cases s) (auto simp: parse_unsigned_def is_ascii_digit_def)

lemma amount_iff:
  "validate_token_amount field raw = Inr a \<longleftrightarrow>
     trim raw \<noteq> [] \<and> list_all is_ascii_digit (trim raw)
     \<and> a = int (read_decimal (map of_char (trim raw))) \<and> 1 \<le> a \<and> a \<le> 2 ^ 63 - 1"
proof (cases "trim raw \<noteq> [] \<and> list_all is_ascii_digit (trim raw)")
  case True
  then have signs: "hd (trim raw) \<noteq> CHR ''-''" "hd (trim raw) \<noteq> CHR ''+''" "CHR ''.'' \<notin> set (trim raw)" "CHR '','' \<notin> set (trim raw)"
    by (cases "trim raw"; auto simp: list_all_iff is_ascii_digit_def)+
  have "parse_digits (2 ^ 127 - 1) 0 (trim raw) =
      (let v = read_decimal (map of_char (trim raw)) in if v \<le> 2 ^ 127 - 1 then Some v else None)"
    using True parse_digits_value [of "trim raw"] by (simp add: list_all_iff read_decimal_def)
  then show ?thesis
    using True signs
    by (auto simp: validate_token_amount_def parse_signed_digits Let_def MAX_TOKEN_AMOUNT_def split: if_splits)
next
  case False
  then show ?thesis by (auto simp: validate_token_amount_def Let_def)
qed

lemma amount_range: "validate_token_amount field raw = Inr a \<Longrightarrow> 0 < a \<and> a < 2 ^ 63"
  by (simp add: amount_iff)

text \<open>C32. Exactly the right amounts pass: an amount is accepted if and only if its text is, up to
  surrounding white space, a non-empty sequence of digits, and then the result is the number the digits
  denote, which is at least one and fits the 64 bits that later arithmetic relies on.\<close>

theorem accepted_amounts:
  "validate_token_amount field raw = Inr a \<longleftrightarrow>
     trim raw \<noteq> [] \<and> list_all is_ascii_digit (trim raw)
     \<and> a = int (read_decimal (map of_char (trim raw))) \<and> 1 \<le> a \<and> a \<le> 2 ^ 63 - 1"
  by (rule amount_iff)

text \<open>C33. Match identifiers survive printing and reading: the decimal text of a number is read back as
  that number when it fits 64 bits, zero included, and is refused as out of range otherwise.\<close>

theorem match_id_round_trip:
  "validate_match_id field (show_nat n) = (if n < 2 ^ 64 then Inr n else invalid field MatchIdOutOfRange)"
proof -
  have digits: "list_all is_ascii_digit (show_nat n)" "show_nat n \<noteq> []"
    using decimal_chars by (simp_all add: list_all_iff)
  then have "hd (show_nat n) \<noteq> CHR ''-''"
    by (cases "show_nat n") (auto simp: is_ascii_digit_def)
  moreover have "trim (show_nat n) = show_nat n"
    using digits by (simp add: trim_digits list_all_iff)
  ultimately show ?thesis
    using digits by (auto simp: validate_match_id_def parse_unsigned_digits parse_show_nat)
qed

section \<open>Decoding a query\<close>

text \<open>Reference: the form encoding of a list of pairs, as a client writes it.\<close>

definition hex_char :: "nat \<Rightarrow> char" where
  "hex_char d = char_of (if d < 10 then 48 + d else 55 + d)"

definition encode_byte :: "char \<Rightarrow> string" where
  "encode_byte c =
     (if is_ascii_alphanumeric c \<or> c \<in> {CHR ''-'', CHR ''_'', CHR ''.'', CHR ''*''} then [c]
      else if c = CHR '' '' then ''+''
      else [CHR ''%'', hex_char (of_char c div 16), hex_char (of_char c mod 16)])"

definition percent_encode :: "string \<Rightarrow> string" where
  "percent_encode s = concat (map encode_byte s)"

fun form_encode :: "(string \<times> string) list \<Rightarrow> string" where
  "form_encode [] = []"
| "form_encode [(k, v)] = percent_encode k @ ''='' @ percent_encode v"
| "form_encode ((k, v) # p # ps) = percent_encode k @ ''='' @ percent_encode v @ ''&'' @ form_encode (p # ps)"

lemma hex_digit_char: "d < 16 \<Longrightarrow> hex_digit (hex_char d) = Some d"
  by (auto simp: hex_digit_def hex_char_def Let_def)

lemma high_nibble: "of_char c div 16 < (16 :: nat)"
proof -
  have "of_char c < (256 :: nat)" by (metis of_char_mod_256 mod_less_divisor zero_less_numeral)
  then show ?thesis by (intro less_mult_imp_div_less) simp
qed

lemma char_of_nibbles: "char_of (of_char c div 16 * 16 + of_char c mod 16 :: nat) = c"
  by simp

lemma percent_bytes_encode: "percent_bytes (encode_byte c @ rest) = c # percent_bytes rest"
proof -
  let ?plain = "is_ascii_alphanumeric c \<or> c \<in> {CHR ''-'', CHR ''_'', CHR ''.'', CHR ''*''}"
  have "?plain \<Longrightarrow> c \<noteq> CHR ''+'' \<and> c \<noteq> CHR ''%''" by (auto simp: is_ascii_alphanumeric_def)
  then show ?thesis
    by (simp add: encode_byte_def hex_digit_char char_of_nibbles high_nibble del: disj_not1)
qed

lemma percent_decode_encode: "percent_decode (percent_encode s) = from_utf8_lossy s"
proof -
  have "percent_bytes (percent_encode s) = s"
    by (induction s) (simp_all add: percent_encode_def percent_bytes_encode)
  then show ?thesis by (simp add: percent_decode_def)
qed

lemma encoded_delimiters: "CHR ''&'' \<notin> set (percent_encode s)" "CHR ''='' \<notin> set (percent_encode s)"
proof -
  have "hex_digit (CHR ''&'') = None" "hex_digit (CHR ''='') = None" by (simp_all add: hex_digit_def)
  then have "hex_char d \<noteq> CHR ''&'' \<and> hex_char d \<noteq> CHR ''=''" if "d < 16" for d
    using hex_digit_char [OF that] by auto
  from this [OF high_nibble] this [of "of_char c mod 16" for c]
  have "CHR ''&'' \<notin> {hex_char (of_char c div 16), hex_char (of_char c mod 16)}
      \<and> CHR ''='' \<notin> {hex_char (of_char c div 16), hex_char (of_char c mod 16)}" for c
    by (metis insert_iff singletonD mod_less_divisor zero_less_numeral)
  then have "CHR ''&'' \<notin> set (encode_byte c) \<and> CHR ''='' \<notin> set (encode_byte c)" for c
    by (auto simp: encode_byte_def is_ascii_alphanumeric_def)
  then show "CHR ''&'' \<notin> set (percent_encode s)" "CHR ''='' \<notin> set (percent_encode s)"
    by (auto simp: percent_encode_def)
qed

lemma split_on_none: "c \<notin> set s \<Longrightarrow> split_on c s = [s]"
  by (induction s) auto

lemma split_on_append: "c \<notin> set s \<Longrightarrow> split_on c (s @ c # t) = s # split_on c t"
  by (induction s) auto

lemma split_once_append: "c \<notin> set s \<Longrightarrow> split_once c (s @ c # t) = Some (s, t)"
  by (induction s) auto

text \<open>C31. Query strings are decoded as they were encoded: the form encoding of a list of keys and values in
  well-formed UTF-8, with delimiters, spaces and every other special byte in them escaped, is read
  back as the same list.\<close>

theorem query_round_trip:
  assumes "\<And>k v. (k, v) \<in> set pairs \<Longrightarrow> from_utf8_lossy k = k \<and> from_utf8_lossy v = v"
  shows "parse_query_pairs (form_encode pairs) = pairs"
  using assms
proof (induction pairs rule: form_encode.induct)
  case 1
  then show ?case by (simp add: parse_query_pairs_def)
next
  case (2 k v)
  have "CHR ''&'' \<notin> set (percent_encode k @ ''='' @ percent_encode v)" using encoded_delimiters by simp
  then show ?case
    using 2 by (simp add: parse_query_pairs_def split_on_none split_once_append encoded_delimiters percent_decode_encode)
next
  case (3 k v p ps)
  have "CHR ''&'' \<notin> set (percent_encode k @ CHR ''='' # percent_encode v)" using encoded_delimiters by simp
  from split_on_append [OF this, of "form_encode (p # ps)"]
  have "split_on (CHR ''&'') (form_encode ((k, v) # p # ps)) =
      (percent_encode k @ CHR ''='' # percent_encode v) # split_on (CHR ''&'') (form_encode (p # ps))"
    by simp
  moreover have "from_utf8_lossy k = k" "from_utf8_lossy v = v" using 3(2) by auto
  moreover have "parse_query_pairs (form_encode (p # ps)) = p # ps" by (rule 3(1)) (use 3(2) in auto)
  ultimately show ?case
    unfolding parse_query_pairs_def by (simp add: split_once_append encoded_delimiters percent_decode_encode)
qed

theorem query_round_trip_witness:
  "parse_query_pairs (form_encode [(''game_id'', ''a&b=c d''), (''status'', ''50%'')]) =
    [(''game_id'', ''a&b=c d''), (''status'', ''50%'')]"
proof (rule query_round_trip)
  fix k v
  assume "(k, v) \<in> set [(''game_id'', ''a&b=c d''), (''status'', ''50%'')]"
  then show "from_utf8_lossy k = k \<and> from_utf8_lossy v = v"
    by (auto intro!: from_utf8_lossy_ascii)
qed

section \<open>Requests that reach a handler\<close>

lemma first_error_ok: "first_error f xs = Inr () \<longleftrightarrow> (\<forall>x \<in> set xs. f x = Inr ())"
  by (induction xs) (auto split: sum.split)

lemma map_sum_ok: "map_sum id (\<lambda>_. ()) r = Inr () \<longleftrightarrow> (\<exists>x. r = Inr x)"
  by (cases r) auto

lemma handled_iff:
  "validate_request rfc3339 naive_date path (Some query) next = Handled r \<longleftrightarrow>
     r = next \<and> validate_path path = Inr () \<and>
     (\<forall>(k, v) \<in> set (parse_query_pairs query). validate_query_param rfc3339 naive_date k v = Inr ()) \<and>
     validate_date_range (lookup_date rfc3339 naive_date (parse_query_pairs query) {''from_date'', ''start_date''})
       (lookup_date rfc3339 naive_date (parse_query_pairs query) {''to_date'', ''end_date''}) = Inr ()"
proof -
  have "validate_query_string rfc3339 naive_date query = Inr () \<longleftrightarrow>
     (\<forall>(k, v) \<in> set (parse_query_pairs query). validate_query_param rfc3339 naive_date k v = Inr ()) \<and>
     validate_date_range (lookup_date rfc3339 naive_date (parse_query_pairs query) {''from_date'', ''start_date''})
       (lookup_date rfc3339 naive_date (parse_query_pairs query) {''to_date'', ''end_date''}) = Inr ()"
    using first_error_ok [of "\<lambda>(key, val). validate_query_param rfc3339 naive_date key val" "parse_query_pairs query"]
    by (auto simp: validate_query_string_def Let_def split: sum.split)
  then show ?thesis
    by (auto simp: validate_request_def split: sum.split)
qed

lemma handled_facts:
  assumes "validate_request rfc3339 naive_date path (Some query) next = Handled r"
    and "(k, v) \<in> set (parse_query_pairs query)" "trim v \<noteq> []"
  shows "k \<in> {''player_address'', ''player'', ''address''} \<Longrightarrow> validate_stellar_address k v = Inr v"
    and "k = ''limit'' \<Longrightarrow> \<exists>n. parse_i64 k v = Inr n \<and> 1 \<le> n \<and> n \<le> 1000"
    and "k = ''offset'' \<Longrightarrow> \<exists>n. parse_i64 k v = Inr n \<and> 0 \<le> n"
    and "k \<in> {''amount'', ''stake_amount''} \<Longrightarrow> \<exists>a. validate_token_amount k v = Inr a \<and> 0 < a \<and> a < 2 ^ 63"
    and "k \<in> {''from_date'', ''to_date'', ''start_date'', ''end_date''} \<Longrightarrow> \<exists>d. rfc3339 (trim v) = Some d \<or> naive_date (trim v) = Some d"
    and "lookup_date rfc3339 naive_date (parse_query_pairs query) {''from_date'', ''start_date''} = Some a \<Longrightarrow> lookup_date rfc3339 naive_date (parse_query_pairs query) {''to_date'', ''end_date''} = Some b \<Longrightarrow> a \<le> b"
proof -
  have ok: "validate_query_param rfc3339 naive_date k v = Inr ()" and range: "validate_date_range
      (lookup_date rfc3339 naive_date (parse_query_pairs query) {''from_date'', ''start_date''})
      (lookup_date rfc3339 naive_date (parse_query_pairs query) {''to_date'', ''end_date''}) = Inr ()"
    using assms by (auto simp: handled_iff)
  show "validate_stellar_address k v = Inr v" if address: "k \<in> {''player_address'', ''player'', ''address''}"
  proof -
    obtain x where "validate_stellar_address k v = Inr x"
      using ok address assms(3) by (auto simp: validate_query_param_def map_sum_ok)
    then show ?thesis unfolding validate_stellar_address_def by (metis validate_strkey_ok)
  qed
  show "\<exists>n. parse_i64 k v = Inr n \<and> 1 \<le> n \<and> n \<le> 1000" if "k = ''limit''"
    using ok that assms(3)
    by (auto simp: validate_query_param_def map_sum_ok validate_limit_def MIN_PAGE_LIMIT_def MAX_PAGE_LIMIT_def
        split: sum.splits if_splits)
  show "\<exists>n. parse_i64 k v = Inr n \<and> 0 \<le> n" if "k = ''offset''"
    using ok that assms(3) by (auto simp: validate_query_param_def map_sum_ok validate_offset_def split: sum.splits if_splits)
  show "\<exists>a. validate_token_amount k v = Inr a \<and> 0 < a \<and> a < 2 ^ 63" if "k \<in> {''amount'', ''stake_amount''}"
  proof -
    have "\<exists>a. validate_token_amount k v = Inr a" using ok that assms(3) by (auto simp: validate_query_param_def map_sum_ok)
    then show ?thesis using amount_range by blast
  qed
  show "\<exists>d. rfc3339 (trim v) = Some d \<or> naive_date (trim v) = Some d"
    if "k \<in> {''from_date'', ''to_date'', ''start_date'', ''end_date''}"
    using ok that assms(3)
    by (auto simp: validate_query_param_def map_sum_ok validate_date_def Let_def split: option.splits)
  show "a \<le> b" if "lookup_date rfc3339 naive_date (parse_query_pairs query) {''from_date'', ''start_date''} = Some a"
    "lookup_date rfc3339 naive_date (parse_query_pairs query) {''to_date'', ''end_date''} = Some b"
    using range that by (auto simp: validate_date_range_def split: if_splits)
qed



end
