(* ===== verification/Indexer_Database.thy ===== *)
theory Indexer_Database
  imports Soroban_Prelude Indexer_Validation
begin

text \<open>
  The tables of the event indexer and the statements that write them (services/event-indexer/src/db.rs,
  models.rs): the event log, the materialised state of each match, the rebuilding of that state after a
  reorganisation of the chain, the ingestion state, and the reading of a match.

  A method of \<^verbatim>\<open>Database\<close> is an action on the tables; its error is the text of the
  \<^verbatim>\<open>anyhow\<close> error. The SQL statements are translated clause by clause with their SQL meaning:
  \<^verbatim>\<open>ON CONFLICT\<close>, \<^verbatim>\<open>COALESCE\<close>, \<^verbatim>\<open>CASE\<close>,
  comparison of rows and \<^verbatim>\<open>NULLS LAST\<close>, a statement that names a column the table does not have is
  rejected, a statement that gives no value for a \<^verbatim>\<open>NOT NULL\<close> column without default is
  rejected, and a transaction that does not commit leaves the tables as they were. The server and the
  connections are the parameter \<open>db_world\<close>: whether a connection can be had, whether a statement
  fails, its clock, and the order of rows where the statement asks for none; each may be different at
  every use. The columns that only record the time of a write (\<^verbatim>\<open>updated_at\<close>,
  \<^verbatim>\<open>last_polled_at\<close>, \<^verbatim>\<open>last_error_at\<close>) are never read and are left
  out.
\<close>

section \<open>Data\<close>

text \<open>\<^verbatim>\<open>as i32\<close>, \<^verbatim>\<open>as i16\<close>, \<^verbatim>\<open>as i64\<close> and the way
  back.\<close>

definition to_signed :: "nat \<Rightarrow> nat \<Rightarrow> int" where
  "to_signed w n = (let x = int n mod 2 ^ w in if x < 2 ^ (w - 1) then x else x - 2 ^ w)"

definition to_unsigned :: "nat \<Rightarrow> int \<Rightarrow> nat" where
  "to_unsigned w x = nat (x mod 2 ^ w)"

record indexed_event =
  ie_id :: string
  ledger_sequence :: nat
  ie_match_id :: nat
  event_type :: string
  ie_player1 :: "string option"
  ie_player2 :: "string option"
  ie_status :: "string option"
  ie_winner :: "string option"
  ie_stake_amount :: "string option"
  ie_token :: "string option"
  ie_game_id :: "string option"
  ie_platform :: "string option"
  ie_timestamp :: int
  txn_hash :: "string option"
  event_index_in_txn :: "nat option"
  reorg_invalidated_at :: "int option"

datatype winner_ix = Player1_ix | Player2_ix | Draw_ix

record match_info =
  mi_match_id :: nat
  mi_player1 :: string
  mi_player2 :: string
  mi_status :: match_status
  mi_winner :: "winner_ix option"
  mi_stake_amount :: string
  mi_token :: string
  mi_game_id :: string
  mi_platform :: string
  mi_created_ledger :: nat
  mi_completed_ledger :: "nat option"
  mi_events :: "indexed_event list"

text \<open>The rows of the tables \<^verbatim>\<open>events\<close>, \<^verbatim>\<open>matches\<close> and
  \<^verbatim>\<open>ingestion_state\<close>. The schema declares \<^verbatim>\<open>matches\<close> twice; the
  row has the columns of both declarations.\<close>

record event_row =
  er_id :: string
  er_ledger_sequence :: int
  er_match_id :: int
  er_event_type :: string
  er_player1 :: "string option"
  er_player2 :: "string option"
  er_status :: "string option"
  er_winner :: "string option"
  er_stake_amount :: "string option"
  er_token :: "string option"
  er_game_id :: "string option"
  er_platform :: "string option"
  er_timestamp :: int
  er_txn_hash :: "string option"
  er_event_index :: "int option"
  er_invalidated_at :: "int option"

record match_row =
  mr_player1 :: "string option"
  mr_player2 :: "string option"
  mr_stake_amount :: "string option"
  mr_token :: "string option"
  mr_game_id :: "string option"
  mr_platform :: "string option"
  mr_created_ledger :: "int option"
  mr_status :: "string option"
  mr_winner :: "string option"
  mr_last_ledger :: int
  mr_last_event_index :: "int option"
  mr_completed_ledger :: "int option"

record ingestion_row =
  in_last_polled_ledger :: "int option"
  in_last_polled_cursor :: "string option"
  in_fallback_start_ledger :: "int option"
  in_last_error :: "string option"

record database =
  matches_columns :: "string list"
  events_table :: "event_row list"
  matches_table :: "int \<rightharpoonup> match_row"
  ingestion_table :: "string \<rightharpoonup> ingestion_row"
  reorg_table :: "(string \<times> int \<times> string \<times> int) list"
  leader_table :: "string \<rightharpoonup> int"
  db_calls :: nat

type_synonym 'a dbact = "(database, string, 'a) action"

record db_world =
  pool_failure :: "nat \<Rightarrow> string option"
  statement_failure :: "nat \<Rightarrow> string option"
  commit_survives :: "nat \<Rightarrow> bool"
  rejection :: "nat \<Rightarrow> string"
  db_now :: "nat \<Rightarrow> int"
  row_order :: "nat \<Rightarrow> int list \<Rightarrow> int list"

section \<open>Connections, statements and transactions\<close>

definition db_step :: "database \<Rightarrow> database" where
  "db_step s = s\<lparr>db_calls := Suc (db_calls s)\<rparr>"

definition attempt :: "(nat \<Rightarrow> string option) \<Rightarrow> string \<Rightarrow> unit dbact" where
  "attempt f context = bnd (gets (\<lambda>s. f (db_calls s))) (\<lambda>r. bnd (modify db_step) (\<lambda>_. case r of
     None \<Rightarrow> ret () | Some m \<Rightarrow> fail (context @ m)))"

definition pool_get :: "'z db_world_scheme \<Rightarrow> string \<Rightarrow> unit dbact" where
  "pool_get w context = attempt (pool_failure w) context"

definition statement :: "'z db_world_scheme \<Rightarrow> string \<Rightarrow> unit dbact" where
  "statement w context = attempt (statement_failure w) context"

text \<open>A statement on the table \<^verbatim>\<open>matches\<close> that names the columns \<open>cols\<close>.\<close>

definition statement_on_matches ::
  "'z db_world_scheme \<Rightarrow> string \<Rightarrow> string list \<Rightarrow> unit dbact" where
  "statement_on_matches w context cols = bnd (statement w context) (\<lambda>_.
     bnd (gets (\<lambda>s. (list_all (\<lambda>c. c \<in> set (matches_columns s)) cols, rejection w (db_calls s)))) (\<lambda>(ok, m).
     reject_if (\<not> ok) (context @ m)))"

text \<open>A transaction. If the connection is lost while it commits, the server may have committed it.\<close>

definition rolled_back :: "database \<Rightarrow> database \<Rightarrow> database" where
  "rolled_back s s' = s\<lparr>db_calls := db_calls s'\<rparr>"

definition commit :: "'z db_world_scheme \<Rightarrow> string \<Rightarrow> database \<Rightarrow> 'a \<Rightarrow> 'a dbact" where
  "commit w context s a = (\<lambda>s'. case statement_failure w (db_calls s') of
     None \<Rightarrow> (Ok a, db_step s')
   | Some m \<Rightarrow> (Err (context @ m),
       db_step (if commit_survives w (db_calls s') then s' else rolled_back s s')))"

definition transaction ::
  "'z db_world_scheme \<Rightarrow> string \<Rightarrow> string \<Rightarrow> 'a dbact \<Rightarrow> 'a dbact" where
  "transaction w begin_context commit_context m = bnd (statement w begin_context) (\<lambda>_ s. case m s of
     (Ok a, s') \<Rightarrow> commit w commit_context s a s'
   | (Err e, s') \<Rightarrow> (Err e, rolled_back s s')
   | (Trap, s') \<Rightarrow> (Trap, rolled_back s s'))"

section \<open>The schema\<close>

text \<open>\<^verbatim>\<open>CREATE TABLE IF NOT EXISTS matches\<close> appears twice in the schema, with different columns; the
  second finds the table that the first has created.\<close>

definition matches_schema :: "string list" where
  "matches_schema =
     [''match_id'', ''player1'', ''player2'', ''stake_amount'', ''token'', ''game_id'', ''platform'',
      ''created_ledger'', ''status'', ''winner'', ''last_ledger'', ''last_event_index'', ''updated_at'']"

definition matches_schema_2 :: "string list" where
  "matches_schema_2 =
     [''match_id'', ''player1'', ''player2'', ''status'', ''winner'', ''stake_amount'', ''token'', ''game_id'',
      ''platform'', ''created_ledger'', ''completed_ledger'', ''updated_at'']"

definition create_matches :: "string list \<Rightarrow> database \<Rightarrow> database" where
  "create_matches cols s = (if matches_columns s = [] then s\<lparr>matches_columns := cols\<rparr> else s)"

section \<open>Rebuilding a match from its events\<close>

definition is_surviving :: "int \<Rightarrow> event_row \<Rightarrow> bool" where
  "is_surviving m r \<longleftrightarrow> er_match_id r = m \<and> er_invalidated_at r = None"

text \<open>\<^verbatim>\<open>ORDER BY ledger_sequence DESC, event_index_in_txn DESC NULLS LAST\<close>; read from the
  other end it is \<^verbatim>\<open>ASC, ASC NULLS FIRST\<close>. \<^verbatim>\<open>DISTINCT ON\<close> keeps the first row in
  that order; of rows that are equal in the order the first of the table is kept here, where SQL leaves the choice
  open.\<close>

definition later :: "event_row \<Rightarrow> event_row \<Rightarrow> bool" where
  "later a b \<longleftrightarrow> er_ledger_sequence b < er_ledger_sequence a \<or>
     er_ledger_sequence b = er_ledger_sequence a \<and>
     (case (er_event_index a, er_event_index b) of
        (Some i, Some j) \<Rightarrow> j < i | (Some _, None) \<Rightarrow> True | (None, _) \<Rightarrow> False)"

definition better :: "('a \<Rightarrow> 'a \<Rightarrow> bool) \<Rightarrow> 'a \<Rightarrow> 'a option \<Rightarrow> 'a option" where
  "better r x acc = (case acc of None \<Rightarrow> Some x | Some b \<Rightarrow> if r x b then Some x else Some b)"

definition first_in_order :: "('a \<Rightarrow> 'a \<Rightarrow> bool) \<Rightarrow> 'a list \<Rightarrow> 'a option" where
  "first_in_order r xs = fold (better r) xs None"

definition is_created_row :: "event_row \<Rightarrow> bool" where
  "is_created_row r = contains_str ''created'' (er_event_type r)"

definition rebuilt_row :: "event_row option \<Rightarrow> event_row \<Rightarrow> match_row" where
  "rebuilt_row c l = \<lparr>
     mr_player1 = Option.bind c er_player1,
     mr_player2 = Option.bind c er_player2,
     mr_stake_amount = Option.bind c er_stake_amount,
     mr_token = Option.bind c er_token,
     mr_game_id = Option.bind c er_game_id,
     mr_platform = Option.bind c er_platform,
     mr_created_ledger = map_option er_ledger_sequence c,
     mr_status = er_status l,
     mr_winner = er_winner l,
     mr_last_ledger = er_ledger_sequence l,
     mr_last_event_index = er_event_index l,
     mr_completed_ledger = None\<rparr>"

definition rebuild_match :: "int \<Rightarrow> event_row list \<Rightarrow> match_row option" where
  "rebuild_match m es =
     (let surviving = filter (is_surviving m) es;
          c = first_in_order (\<lambda>a b. later b a) (filter is_created_row surviving)
      in map_option (rebuilt_row c) (first_in_order later surviving))"

definition rebuilt_columns :: "string list" where
  "rebuilt_columns =
     [''match_id'', ''player1'', ''player2'', ''stake_amount'', ''token'', ''game_id'', ''platform'',
      ''created_ledger'', ''status'', ''winner'', ''last_ledger'', ''last_event_index'', ''updated_at'']"

definition init_schema :: "'z db_world_scheme \<Rightarrow> unit dbact" where
  "init_schema w = bnd (pool_get w ''Pool error: '') (\<lambda>_.
     transaction w ''Schema init begin failed: '' ''Schema init commit failed: ''
       (seqs [statement w ''Schema init lock failed: '',
              statement w ''Schema init failed: '',
              modify (create_matches matches_schema),
              modify (create_matches matches_schema_2),
              statement_on_matches w ''matches backfill failed: '' rebuilt_columns,
              modify (\<lambda>s. s\<lparr>matches_table := (\<lambda>m. case matches_table s m of
                Some r \<Rightarrow> Some r | None \<Rightarrow> rebuild_match m (events_table s))\<rparr>)]))"

section \<open>Ingestion\<close>

text \<open>One event folded into the row of its match (\<^verbatim>\<open>apply_event_to_match\<close>): the row proposed
  by the statement, and the row after its \<^verbatim>\<open>ON CONFLICT\<close> clause.\<close>

definition is_created :: "indexed_event \<Rightarrow> bool" where
  "is_created e = contains_str ''created'' (event_type e)"

definition excluded_row :: "indexed_event \<Rightarrow> match_row" where
  "excluded_row e =
     (let created = (\<lambda>field. if is_created e then field e else None) in \<lparr>
        mr_player1 = created ie_player1,
        mr_player2 = created ie_player2,
        mr_stake_amount = created ie_stake_amount,
        mr_token = created ie_token,
        mr_game_id = created ie_game_id,
        mr_platform = created ie_platform,
        mr_created_ledger = (if is_created e then Some (to_signed 32 (ledger_sequence e)) else None),
        mr_status = ie_status e,
        mr_winner = ie_winner e,
        mr_last_ledger = to_signed 32 (ledger_sequence e),
        mr_last_event_index = map_option (to_signed 16) (event_index_in_txn e),
        mr_completed_ledger = None\<rparr>)"

definition is_earlier_created :: "match_row \<Rightarrow> match_row \<Rightarrow> bool" where
  "is_earlier_created x m = (case mr_created_ledger x of
     None \<Rightarrow> False
   | Some c \<Rightarrow> (case mr_created_ledger m of None \<Rightarrow> True | Some d \<Rightarrow> c < d))"

definition coalesce :: "'a \<Rightarrow> 'a option \<Rightarrow> 'a" where
  "coalesce d x = (case x of None \<Rightarrow> d | Some a \<Rightarrow> a)"

definition is_latest :: "match_row \<Rightarrow> match_row \<Rightarrow> bool" where
  "is_latest x m \<longleftrightarrow> mr_last_ledger m < mr_last_ledger x \<or>
     mr_last_ledger m = mr_last_ledger x \<and>
     coalesce (-1) (mr_last_event_index m) \<le> coalesce (-1) (mr_last_event_index x)"

definition merge_row :: "match_row \<Rightarrow> match_row \<Rightarrow> match_row" where
  "merge_row x m =
     (let c = is_earlier_created x m; l = is_latest x m in \<lparr>
        mr_player1 = (if c then mr_player1 x else mr_player1 m),
        mr_player2 = (if c then mr_player2 x else mr_player2 m),
        mr_stake_amount = (if c then mr_stake_amount x else mr_stake_amount m),
        mr_token = (if c then mr_token x else mr_token m),
        mr_game_id = (if c then mr_game_id x else mr_game_id m),
        mr_platform = (if c then mr_platform x else mr_platform m),
        mr_created_ledger = (if c then mr_created_ledger x else mr_created_ledger m),
        mr_status = (if l then mr_status x else mr_status m),
        mr_winner = (if l then mr_winner x else mr_winner m),
        mr_last_ledger = (if l then mr_last_ledger x else mr_last_ledger m),
        mr_last_event_index = (if l then mr_last_event_index x else mr_last_event_index m),
        mr_completed_ledger = mr_completed_ledger m\<rparr>)"

definition fold_event :: "indexed_event \<Rightarrow> match_row option \<Rightarrow> match_row" where
  "fold_event e row = (case row of None \<Rightarrow> excluded_row e | Some m \<Rightarrow> merge_row (excluded_row e) m)"

definition apply_event_to_match :: "'z db_world_scheme \<Rightarrow> indexed_event \<Rightarrow> unit dbact" where
  "apply_event_to_match w e = bnd (statement_on_matches w ''apply_event_to_match failed: '' rebuilt_columns) (\<lambda>_.
     modify (\<lambda>s. let m = to_signed 64 (ie_match_id e)
                 in s\<lparr>matches_table := (matches_table s)(m \<mapsto> fold_event e (matches_table s m))\<rparr>))"

text \<open>The second write to \<^verbatim>\<open>matches\<close> (\<^verbatim>\<open>upsert_match_state\<close>). It names
  \<^verbatim>\<open>completed_ledger\<close> and gives no value for \<^verbatim>\<open>last_ledger\<close>. A row
  that it could insert has no \<^verbatim>\<open>last_ledger\<close>, a column that its table would not have; the number 0 stands
  there.\<close>

definition or_null :: "'a option \<Rightarrow> 'a option \<Rightarrow> 'a option" where
  "or_null a b = (case a of None \<Rightarrow> b | Some _ \<Rightarrow> a)"

definition greatest :: "int option \<Rightarrow> int option \<Rightarrow> int option" where
  "greatest a b = (case a of None \<Rightarrow> b | Some x \<Rightarrow> (case b of None \<Rightarrow> a | Some y \<Rightarrow> Some (max x y)))"

definition upsert_columns :: "string list" where
  "upsert_columns =
     [''match_id'', ''player1'', ''player2'', ''status'', ''winner'', ''stake_amount'', ''token'', ''game_id'',
      ''platform'', ''created_ledger'', ''completed_ledger'', ''updated_at'']"

definition upsert_excluded :: "indexed_event \<Rightarrow> match_row" where
  "upsert_excluded e =
     (let is_created = event_type e = ''match:created'' \<or> contains_str ''created'' (event_type e);
          ledger = to_signed 32 (ledger_sequence e) in \<lparr>
        mr_player1 = ie_player1 e,
        mr_player2 = ie_player2 e,
        mr_stake_amount = ie_stake_amount e,
        mr_token = ie_token e,
        mr_game_id = ie_game_id e,
        mr_platform = ie_platform e,
        mr_created_ledger = (if is_created then Some ledger else None),
        mr_status = ie_status e,
        mr_winner = ie_winner e,
        mr_last_ledger = 0,
        mr_last_event_index = None,
        mr_completed_ledger = Some ledger\<rparr>)"

definition upsert_row :: "indexed_event \<Rightarrow> match_row option \<Rightarrow> match_row" where
  "upsert_row e row = (let x = upsert_excluded e in case row of None \<Rightarrow> x | Some m \<Rightarrow> m\<lparr>
     mr_player1 := or_null (mr_player1 x) (mr_player1 m),
     mr_player2 := or_null (mr_player2 x) (mr_player2 m),
     mr_status := or_null (mr_status x) (mr_status m),
     mr_winner := or_null (mr_winner x) (mr_winner m),
     mr_stake_amount := or_null (mr_stake_amount x) (mr_stake_amount m),
     mr_token := or_null (mr_token x) (mr_token m),
     mr_game_id := or_null (mr_game_id x) (mr_game_id m),
     mr_platform := or_null (mr_platform x) (mr_platform m),
     mr_created_ledger := or_null (mr_created_ledger m) (mr_created_ledger x),
     mr_completed_ledger := greatest (mr_completed_ledger m) (mr_completed_ledger x)\<rparr>)"

definition upsert_match_state :: "'z db_world_scheme \<Rightarrow> indexed_event \<Rightarrow> unit dbact" where
  "upsert_match_state w e = bnd (pool_get w ''Pool error: '') (\<lambda>_.
     bnd (statement_on_matches w ''upsert_match_state failed: '' upsert_columns) (\<lambda>_.
     bnd (gets (\<lambda>s. (''last_ledger'' \<in> set (matches_columns s), rejection w (db_calls s)))) (\<lambda>(not_null, m).
     bnd (reject_if not_null (''upsert_match_state failed: '' @ m)) (\<lambda>_.
     modify (\<lambda>s. let m = to_signed 64 (ie_match_id e)
                 in s\<lparr>matches_table := (matches_table s)(m \<mapsto> upsert_row e (matches_table s m))\<rparr>)))))"

text \<open>The event log. The primary key makes a second insertion a no-op.\<close>

definition event_to_row :: "indexed_event \<Rightarrow> event_row" where
  "event_to_row e = \<lparr>
     er_id = ie_id e,
     er_ledger_sequence = to_signed 32 (ledger_sequence e),
     er_match_id = to_signed 64 (ie_match_id e),
     er_event_type = event_type e,
     er_player1 = ie_player1 e,
     er_player2 = ie_player2 e,
     er_status = ie_status e,
     er_winner = ie_winner e,
     er_stake_amount = ie_stake_amount e,
     er_token = ie_token e,
     er_game_id = ie_game_id e,
     er_platform = ie_platform e,
     er_timestamp = ie_timestamp e,
     er_txn_hash = txn_hash e,
     er_event_index = map_option (to_signed 16) (event_index_in_txn e),
     er_invalidated_at = reorg_invalidated_at e\<rparr>"

definition is_stored :: "indexed_event \<Rightarrow> database \<Rightarrow> bool" where
  "is_stored e s \<longleftrightarrow> ie_id e \<in> er_id ` set (events_table s)"

definition store_event :: "'z db_world_scheme \<Rightarrow> indexed_event \<Rightarrow> unit dbact" where
  "store_event w e = bnd (statement w ''insert_event failed: '') (\<lambda>_.
     bnd (gets (\<lambda>s. \<not> is_stored e s)) (\<lambda>inserted.
     bnd (only_if inserted (modify (\<lambda>s. s\<lparr>events_table := events_table s @ [event_to_row e]\<rparr>))) (\<lambda>_.
     only_if (inserted \<and> reorg_invalidated_at e = None) (apply_event_to_match w e))))"

definition insert_event :: "'z db_world_scheme \<Rightarrow> indexed_event \<Rightarrow> unit dbact" where
  "insert_event w e =
     seqs [pool_get w ''Pool error: '',
           transaction w ''insert_event begin failed: '' ''insert_event commit failed: '' (store_event w e),
           upsert_match_state w e]"

section \<open>Reorganisations\<close>

definition in_ledgers :: "int \<Rightarrow> int \<Rightarrow> event_row \<Rightarrow> bool" where
  "in_ledgers a b r \<longleftrightarrow> a \<le> er_ledger_sequence r \<and> er_ledger_sequence r \<le> b \<and> er_invalidated_at r = None"

definition invalidate_rows :: "int \<Rightarrow> int \<Rightarrow> int \<Rightarrow> event_row list \<Rightarrow> event_row list" where
  "invalidate_rows now a b es = map (\<lambda>r. if in_ledgers a b r then r\<lparr>er_invalidated_at := Some now\<rparr> else r) es"

definition invalidated_matches :: "int \<Rightarrow> int \<Rightarrow> event_row list \<Rightarrow> int list" where
  "invalidated_matches a b es = remdups (sort (map er_match_id (filter (in_ledgers a b) es)))"

definition rebuild_matches :: "int list \<Rightarrow> database \<Rightarrow> database" where
  "rebuild_matches ids s = s\<lparr>matches_table := (\<lambda>m.
     if m \<in> set ids then rebuild_match m (events_table s) else matches_table s m)\<rparr>"

definition mark_events_as_invalid ::
  "'z db_world_scheme \<Rightarrow> string \<Rightarrow> nat \<Rightarrow> nat \<Rightarrow> string \<Rightarrow> nat dbact" where
  "mark_events_as_invalid w contract_id start_ledger end_ledger reason =
     (let a = to_signed 32 start_ledger; b = to_signed 32 end_ledger in
      bnd (pool_get w ''Pool error: '') (\<lambda>_.
      transaction w ''mark_events_as_invalid begin failed: '' ''mark_events_as_invalid commit failed: ''
        (bnd (statement w ''mark_events_as_invalid failed: '') (\<lambda>_.
         bnd (gets (\<lambda>s. (invalidated_matches a b (events_table s),
                         length (filter (in_ledgers a b) (events_table s)), db_now w (db_calls s)))) (\<lambda>(ids, count, now).
         bnd (modify (\<lambda>s. s\<lparr>events_table := invalidate_rows now a b (events_table s)\<rparr>)) (\<lambda>_.
         bnd (only_if (ids \<noteq> [])
           (seqs [statement_on_matches w ''matches reorg delete failed: '' [''match_id''],
                  statement_on_matches w ''matches reorg rebuild failed: '' rebuilt_columns,
                  modify (rebuild_matches ids)])) (\<lambda>_.
         bnd (statement w ''Failed to log reorg event: '') (\<lambda>_.
         bnd (modify (\<lambda>s. s\<lparr>reorg_table := reorg_table s @ [(contract_id, a, reason, to_signed 32 count)]\<rparr>)) (\<lambda>_.
         ret count)))))))))"

section \<open>The ingestion state\<close>

text \<open>The source has two methods \<^verbatim>\<open>update_ingestion_state\<close>; the second takes a cursor.\<close>

definition no_ingestion :: ingestion_row where
  "no_ingestion = \<lparr>in_last_polled_ledger = None, in_last_polled_cursor = None, in_fallback_start_ledger = None,
     in_last_error = None\<rparr>"

definition get_latest_polled_ledger :: "'z db_world_scheme \<Rightarrow> string \<Rightarrow> nat option dbact" where
  "get_latest_polled_ledger w c = bnd (pool_get w ''Pool error: '') (\<lambda>_.
     bnd (statement w ''get_latest_polled_ledger failed: '') (\<lambda>_.
     gets (\<lambda>s. map_option (to_unsigned 32) (Option.bind (ingestion_table s c) in_last_polled_ledger))))"

definition update_ingestion_state ::
  "'z db_world_scheme \<Rightarrow> string \<Rightarrow> nat \<Rightarrow> string option \<Rightarrow> unit dbact" where
  "update_ingestion_state w c ledger error = bnd (pool_get w ''Pool error: '') (\<lambda>_.
     bnd (statement w ''update_ingestion_state failed: '') (\<lambda>_.
     modify (\<lambda>s. s\<lparr>ingestion_table := (ingestion_table s)(c \<mapsto>
       (coalesce no_ingestion (ingestion_table s c))
         \<lparr>in_last_polled_ledger := Some (to_signed 32 ledger), in_last_error := error\<rparr>)\<rparr>)))"

definition update_ingestion_cursor ::
  "'z db_world_scheme \<Rightarrow> string \<Rightarrow> nat \<Rightarrow> string option \<Rightarrow> string option \<Rightarrow> unit dbact" where
  "update_ingestion_cursor w c ledger cursor error = bnd (pool_get w ''Pool error: '') (\<lambda>_.
     bnd (statement w ''update_ingestion_state failed: '') (\<lambda>_.
     modify (\<lambda>s. s\<lparr>ingestion_table := (ingestion_table s)(c \<mapsto>
       (coalesce no_ingestion (ingestion_table s c))
         \<lparr>in_last_polled_ledger := Some (to_signed 32 ledger), in_last_polled_cursor := cursor,
          in_last_error := error\<rparr>)\<rparr>)))"

record ingestion_state =
  last_polled_ledger :: "nat option"
  last_polled_cursor :: "string option"
  fallback_start_ledger :: "nat option"

definition get_ingestion_state :: "'z db_world_scheme \<Rightarrow> string \<Rightarrow> ingestion_state dbact" where
  "get_ingestion_state w c = bnd (pool_get w ''Pool error: '') (\<lambda>_.
     bnd (statement w ''get_ingestion_state failed: '') (\<lambda>_.
     gets (\<lambda>s. case ingestion_table s c of
       None \<Rightarrow> \<lparr>last_polled_ledger = None, last_polled_cursor = None, fallback_start_ledger = None\<rparr>
     | Some r \<Rightarrow> \<lparr>last_polled_ledger = map_option (to_unsigned 32) (in_last_polled_ledger r),
         last_polled_cursor = in_last_polled_cursor r,
         fallback_start_ledger = map_option (to_unsigned 32) (in_fallback_start_ledger r)\<rparr>)))"

section \<open>Reading\<close>

definition parse_status :: "string option \<Rightarrow> match_status" where
  "parse_status x =
     (if x = Some ''active'' then Active_ix
      else if x = Some ''completed'' then Completed_ix
      else if x = Some ''cancelled'' then Cancelled_ix
      else if x = Some ''expired'' then Expired_ix
      else Pending_ix)"

definition parse_winner :: "string \<Rightarrow> winner_ix option" where
  "parse_winner x =
     (if x = ''player1'' then Some Player1_ix
      else if x = ''player2'' then Some Player2_ix
      else if x = ''draw'' then Some Draw_ix
      else None)"

text \<open>A row is read by position. \<^verbatim>\<open>Row::get\<close> panics at a position that the statement did not
  select, so \<open>row_to_event\<close> has the number of selected columns as an argument.\<close>

definition row_to_event :: "nat \<Rightarrow> event_row \<Rightarrow> indexed_event dbact" where
  "row_to_event selected r = (if 15 < selected then ret \<lparr>
     ie_id = er_id r,
     ledger_sequence = to_unsigned 32 (er_ledger_sequence r),
     ie_match_id = to_unsigned 64 (er_match_id r),
     event_type = er_event_type r,
     ie_player1 = er_player1 r,
     ie_player2 = er_player2 r,
     ie_status = er_status r,
     ie_winner = er_winner r,
     ie_stake_amount = er_stake_amount r,
     ie_token = er_token r,
     ie_game_id = er_game_id r,
     ie_platform = er_platform r,
     ie_timestamp = er_timestamp r,
     txn_hash = er_txn_hash r,
     event_index_in_txn = map_option (to_unsigned 16) (er_event_index r),
     reorg_invalidated_at = er_invalidated_at r\<rparr> else trap)"

definition EVENT_COLUMNS :: "string list" where
  "EVENT_COLUMNS = [''id'', ''ledger_sequence'', ''match_id'', ''event_type'', ''player1'', ''player2'',
     ''status'', ''winner'', ''stake_amount'', ''token'', ''game_id'', ''platform'',
     ''timestamp'', ''txn_hash'', ''event_index_in_txn'', ''reorg_invalidated_at'']"

definition match_event_columns :: "string list" where
  "match_event_columns = [''id'', ''ledger_sequence'', ''match_id'', ''event_type'', ''player1'', ''player2'',
     ''status'', ''winner'', ''stake_amount'', ''token'', ''game_id'', ''platform'',
     ''timestamp'', ''txn_hash'']"

text \<open>\<^verbatim>\<open>ORDER BY ledger_sequence ASC, event_index_in_txn ASC\<close>, where a missing index sorts
  last.\<close>

definition rows_of_match :: "nat \<Rightarrow> event_row list \<Rightarrow> event_row list" where
  "rows_of_match m es = filter (\<lambda>r. er_match_id r = to_signed 64 m) es"

definition get_events_by_match :: "'z db_world_scheme \<Rightarrow> nat \<Rightarrow> indexed_event list dbact" where
  "get_events_by_match w m = bnd (pool_get w ''Read pool error: '') (\<lambda>_.
     bnd (statement w ''get_events_by_match failed: '') (\<lambda>_.
     bnd (gets (\<lambda>s. sort_key er_ledger_sequence
            (sort_key (\<lambda>r. coalesce (2 ^ 15) (er_event_index r)) (rows_of_match m (events_table s))))) (\<lambda>rows.
     collect (row_to_event (length match_event_columns)) rows)))"

definition get_events_by_match_paginated ::
  "'z db_world_scheme \<Rightarrow> nat \<Rightarrow> int \<Rightarrow> int \<Rightarrow> indexed_event list dbact" where
  "get_events_by_match_paginated w m limit offset = bnd (pool_get w ''Read pool error: '') (\<lambda>_.
     bnd (statement w ''get_events_by_match_paginated failed: '') (\<lambda>_.
     bnd (gets (\<lambda>s. (sort_key er_ledger_sequence (rows_of_match m (events_table s)), rejection w (db_calls s)))) (\<lambda>(rows, r).
     bnd (reject_if (limit < 0 \<or> offset < 0) (''get_events_by_match_paginated failed: '' @ r)) (\<lambda>_.
     collect (row_to_event (length EVENT_COLUMNS)) (take (nat limit) (drop (nat offset) rows))))))"

definition build_match_info :: "'z db_world_scheme \<Rightarrow> nat \<Rightarrow> match_info option dbact" where
  "build_match_info w m = bnd (pool_get w ''Read pool error: '') (\<lambda>_.
     bnd (statement w ''build_match_info failed: '') (\<lambda>_.
     bnd (gets (\<lambda>s. matches_table s (to_signed 64 m))) (\<lambda>row. case row of
       None \<Rightarrow> ret None
     | Some r \<Rightarrow>
         bnd (ok_or (mr_created_ledger r) (''no created event found for match '' @ show_nat m)) (\<lambda>created.
         bnd (get_events_by_match w m) (\<lambda>events.
         ret (Some \<lparr>mi_match_id = m,
           mi_player1 = coalesce [] (mr_player1 r),
           mi_player2 = coalesce [] (mr_player2 r),
           mi_status = parse_status (mr_status r),
           mi_winner = Option.bind (mr_winner r) parse_winner,
           mi_stake_amount = coalesce [] (mr_stake_amount r),
           mi_token = coalesce [] (mr_token r),
           mi_game_id = coalesce [] (mr_game_id r),
           mi_platform = coalesce [] (mr_platform r),
           mi_created_ledger = to_unsigned 32 created,
           mi_completed_ledger = Some (to_unsigned 32 (mr_last_ledger r)),
           mi_events = events\<rparr>))))))"

fun status_str :: "match_status \<Rightarrow> string" where
  "status_str Pending_ix = ''pending''"
| "status_str Active_ix = ''active''"
| "status_str Completed_ix = ''completed''"
| "status_str Cancelled_ix = ''cancelled''"
| "status_str Expired_ix = ''expired''"

definition has_status :: "match_status option \<Rightarrow> event_row \<Rightarrow> bool" where
  "has_status status r = (case status of None \<Rightarrow> True | Some x \<Rightarrow> er_status r = Some (status_str x))"

definition get_matches_by_status :: "'z db_world_scheme \<Rightarrow> match_status option \<Rightarrow> match_info list dbact" where
  "get_matches_by_status w status = bnd (pool_get w ''Read pool error: '') (\<lambda>_.
     bnd (statement w (if status = None then ''get_matches_by_status (all) failed: ''
                       else ''get_matches_by_status failed: '')) (\<lambda>_.
     bnd (gets (\<lambda>s. row_order w (db_calls s)
            (remdups (map er_match_id (filter (has_status status) (events_table s)))))) (\<lambda>match_ids.
     bnd (collect (\<lambda>m. build_match_info w (to_unsigned 64 m)) match_ids) (\<lambda>infos.
     ret (List.map_filter id infos)))))"

definition total_event_count :: "'z db_world_scheme \<Rightarrow> nat dbact" where
  "total_event_count w = bnd (pool_get w ''Read pool error: '') (\<lambda>_.
     bnd (statement w ''total_event_count failed: '') (\<lambda>_. gets (\<lambda>s. length (events_table s))))"

definition get_latest_ledger :: "'z db_world_scheme \<Rightarrow> nat option dbact" where
  "get_latest_ledger w = bnd (pool_get w ''Read pool error (get_latest_ledger): '') (\<lambda>_.
     bnd (statement w ''get_latest_ledger failed: '') (\<lambda>_.
     gets (\<lambda>s. if events_table s = [] then None
               else Some (to_unsigned 32 (Max (set (map er_ledger_sequence (events_table s))))))))"

section \<open>Reasoning about statements\<close>

lemma tables_step [simp]:
  "matches_columns (db_step s) = matches_columns s" "events_table (db_step s) = events_table s"
  "matches_table (db_step s) = matches_table s" "ingestion_table (db_step s) = ingestion_table s"
  "leader_table (db_step s) = leader_table s" "db_calls (db_step s) = Suc (db_calls s)"
  by (simp_all add: db_step_def)

lemma tables_rolled_back [simp]:
  "matches_columns (rolled_back s s') = matches_columns s" "events_table (rolled_back s s') = events_table s"
  "matches_table (rolled_back s s') = matches_table s" "ingestion_table (rolled_back s s') = ingestion_table s"
  "leader_table (rolled_back s s') = leader_table s"
  by (simp_all add: rolled_back_def)

lemma wp_attempt [wp_simps]:
  "wp (attempt f c) Q E T s =
     (case f (db_calls s) of None \<Rightarrow> Q () (db_step s) | Some m \<Rightarrow> E (c @ m) (db_step s))"
  by (simp add: attempt_def wp_simps split: option.split)

lemma wp_pool_get [wp_simps]:
  "wp (pool_get w c) Q E T s =
     (case pool_failure w (db_calls s) of None \<Rightarrow> Q () (db_step s) | Some m \<Rightarrow> E (c @ m) (db_step s))"
  by (simp add: pool_get_def wp_simps)

lemma wp_statement [wp_simps]:
  "wp (statement w c) Q E T s =
     (case statement_failure w (db_calls s) of None \<Rightarrow> Q () (db_step s) | Some m \<Rightarrow> E (c @ m) (db_step s))"
  by (simp add: statement_def wp_simps)

lemma wp_statement_on_matches [wp_simps]:
  "wp (statement_on_matches w c cols) Q E T s =
     (case statement_failure w (db_calls s) of
        Some m \<Rightarrow> E (c @ m) (db_step s)
      | None \<Rightarrow> if set cols \<subseteq> set (matches_columns s) then Q () (db_step s)
          else E (c @ rejection w (Suc (db_calls s))) (db_step s))"
  by (auto simp: statement_on_matches_def wp_simps list_all_iff subset_iff split: option.split)

lemma wp_commit:
  "wp (commit w c s\<^sub>0 a) Q E T s =
     (case statement_failure w (db_calls s) of
        None \<Rightarrow> Q a (db_step s)
      | Some m \<Rightarrow> E (c @ m) (db_step (if commit_survives w (db_calls s) then s else rolled_back s\<^sub>0 s)))"
  by (simp add: wp_def commit_def split: option.split)

lemma wp_transaction:
  "wp (transaction w b c m) Q E T s =
     (case statement_failure w (db_calls s) of
        Some x \<Rightarrow> E (b @ x) (db_step s)
      | None \<Rightarrow> wp m (\<lambda>a. wp (commit w c (db_step s) a) Q E T) (\<lambda>e s'. E e (rolled_back (db_step s) s')) T (db_step s))"
  by (auto simp: transaction_def wp_bnd wp_statement split: option.split)
    (auto simp: wp_def split: prod.split outcome.split)

text \<open>What a transaction keeps, whether it commits or not. The property must not depend on the number
  of calls.\<close>

locale table_invariant =
  fixes I :: "database \<Rightarrow> bool"
  assumes calls: "I (s\<lparr>db_calls := n\<rparr>) = I s"
begin

lemma step [simp]: "I (db_step s) = I s"
  by (simp add: db_step_def calls)

lemma undone [simp]: "I (rolled_back s s') = I s"
  by (simp add: rolled_back_def calls)

lemma transaction_keeps:
  assumes "I s" and "wp m (\<lambda>_. I) (\<lambda>_ _. True) T (db_step s)"
  shows "wp (transaction w b c m) (\<lambda>_. I) (\<lambda>_. I) T s"
proof -
  have "wp m (\<lambda>a. wp (commit w c (db_step s) a) (\<lambda>_. I) (\<lambda>_. I) T)
      (\<lambda>e s'. I (rolled_back (db_step s) s')) T (db_step s)"
    using assms(2) by (rule wp_mono) (auto simp: wp_commit assms(1) split: option.split)
  with assms(1) show ?thesis by (auto simp: wp_transaction split: option.split)
qed

lemma keeps_after: "wp m (\<lambda>_. I) (\<lambda>_. I) False s \<Longrightarrow> I (after m s)"
  by (auto simp: wp_after) (metis outcome.exhaust)

end

end
