(* ===== verification/Indexer_Materialised.thy ===== *)
theory Indexer_Materialised
  imports Indexer_Database
begin

text \<open>
  The materialised state of a match is the state its event log gives. The row of a match is kept up to date one event
  at a time (\<^verbatim>\<open>apply_event_to_match\<close>) and rebuilt by one query after a reorganisation
  (\<^verbatim>\<open>REBUILD_MATCHES_SELECT\<close>); the lemmas show that the two agree whatever fails on the way, as long
  as no two surviving events of a match stand at the same place of the chain. What does not hold is stated as well: on
  the schema that \<^verbatim>\<open>init_schema\<close> creates, no insertion ever reports success.
\<close>

section \<open>The rows of the matches and the log\<close>

definition index_ok :: "event_row \<Rightarrow> bool" where
  "index_ok r = (case er_event_index r of None \<Rightarrow> True | Some i \<Rightarrow> 0 \<le> i)"

definition reflects :: "event_row list \<Rightarrow> (int \<rightharpoonup> match_row) \<Rightarrow> bool" where
  "reflects es rows \<longleftrightarrow> list_all index_ok es \<and> (\<forall>m. rows m = rebuild_match m es)"

definition materialised :: "database \<Rightarrow> bool" where
  "materialised s \<longleftrightarrow> matches_columns s = matches_schema \<and> reflects (events_table s) (matches_table s)"

text \<open>The two writers decide ties differently: two events of a match at the same place of the chain, or two
  creations in the same ledger.\<close>

definition clashes :: "event_row \<Rightarrow> event_row \<Rightarrow> bool" where
  "clashes a b \<longleftrightarrow> is_surviving (er_match_id a) b \<and> er_ledger_sequence a = er_ledger_sequence b \<and>
     (er_event_index a = er_event_index b \<or> is_created_row a \<and> is_created_row b)"

definition orderly :: "indexed_event \<Rightarrow> database \<Rightarrow> bool" where
  "orderly e s \<longleftrightarrow> index_ok (event_to_row e) \<and>
     (is_stored e s \<or> list_all (\<lambda>r. \<not> clashes (event_to_row e) r) (events_table s))"

lemma first_in_order_snoc [simp]: "first_in_order r (xs @ [x]) = better r x (first_in_order r xs)"
  by (simp add: first_in_order_def)

lemma first_in_order_Nil [simp]: "first_in_order r [] = None"
  by (simp add: first_in_order_def)

lemma first_in_order_single [simp]: "first_in_order r [x] = Some x"
  by (simp add: first_in_order_def better_def)

lemma first_in_order_None: "first_in_order r xs = None \<longleftrightarrow> xs = []"
  by (induction xs rule: rev_induct) (auto simp: better_def split: option.splits)

lemma first_in_order_in: "first_in_order r xs = Some x \<Longrightarrow> x \<in> set xs"
  by (induction xs arbitrary: x rule: rev_induct) (auto simp: better_def split: option.splits if_splits)

text \<open>The row that the statement proposes, and the merged row, are rows of the rebuilding.\<close>

lemma created_row [simp]: "is_created_row (event_to_row e) = is_created e"
  by (simp add: is_created_row_def is_created_def event_to_row_def)

lemma excluded_rebuilt:
  "excluded_row e = rebuilt_row (if is_created e then Some (event_to_row e) else None) (event_to_row e)"
  by (simp add: excluded_row_def rebuilt_row_def event_to_row_def Let_def)

lemma merge_rows:
  "merge_row (rebuilt_row d r) (rebuilt_row c l) =
     rebuilt_row (if is_earlier_created (rebuilt_row d r) (rebuilt_row c l) then d else c)
       (if is_latest (rebuilt_row d r) (rebuilt_row c l) then r else l)"
  unfolding merge_row_def Let_def
  by (cases "is_earlier_created (rebuilt_row d r) (rebuilt_row c l)"; cases "is_latest (rebuilt_row d r) (rebuilt_row c l)")
    (simp_all only: if_True if_False, simp_all add: rebuilt_row_def)

lemma is_latest_rows:
  assumes "\<not> (er_ledger_sequence l = er_ledger_sequence r \<and> er_event_index l = er_event_index r)" "index_ok r" "index_ok l"
  shows "is_latest (rebuilt_row d r) (rebuilt_row c l) = later r l"
  using assms
  by (cases "er_event_index r"; cases "er_event_index l")
    (auto simp: is_latest_def later_def rebuilt_row_def coalesce_def index_ok_def)

lemma is_earlier_created_rows:
  "is_earlier_created (rebuilt_row d r) (rebuilt_row c l) = (case d of
     None \<Rightarrow> False
   | Some x \<Rightarrow> (case c of None \<Rightarrow> True | Some y \<Rightarrow> er_ledger_sequence x < er_ledger_sequence y))"
  by (simp add: is_earlier_created_def rebuilt_row_def split: option.split)

lemma merge_rebuilt:
  fixes e defines "r \<equiv> event_to_row e"
  assumes c: "\<And>d. c = Some d \<Longrightarrow> is_created e \<Longrightarrow> er_ledger_sequence d \<noteq> er_ledger_sequence r"
    and l: "\<not> (er_ledger_sequence l = er_ledger_sequence r \<and> er_event_index l = er_event_index r)"
    and ok: "index_ok r" "index_ok l"
  shows "merge_row (excluded_row e) (rebuilt_row c l) =
    rebuilt_row (if is_created e then better (\<lambda>a b. later b a) r c else c) (if later r l then r else l)"
  unfolding excluded_rebuilt merge_rows r_def [symmetric] is_latest_rows [OF l ok] is_earlier_created_rows
  using c by (cases c) (auto simp: better_def later_def)

section \<open>One more event\<close>

lemma rebuild_other:
  "\<not> is_surviving m r \<Longrightarrow> rebuild_match m (es @ [r]) = rebuild_match m es"
  by (simp add: rebuild_match_def)

lemma rebuild_snoc:
  fixes e defines "r \<equiv> event_to_row e"
  assumes alive: "reorg_invalidated_at e = None" and ok: "list_all index_ok es" "index_ok r"
    and apart: "list_all (\<lambda>x. \<not> clashes r x) es"
  shows "rebuild_match (er_match_id r) (es @ [r]) = Some (fold_event e (rebuild_match (er_match_id r) es))"
proof -
  let ?xs = "filter (is_surviving (er_match_id r)) es"
  let ?c = "first_in_order (\<lambda>a b. later b a) (filter is_created_row ?xs)"
  have r: "is_surviving (er_match_id r) r" "is_created_row r = is_created e"
    using alive by (simp_all add: r_def is_surviving_def) (simp add: event_to_row_def)
  show ?thesis
  proof (cases "first_in_order later ?xs")
    case None
    then have "?xs = []" by (simp add: first_in_order_None)
    then show ?thesis
      using r by (simp add: rebuild_match_def fold_event_def excluded_rebuilt better_def r_def [symmetric])
  next
    case (Some l)
    then have "l \<in> set ?xs" by (rule first_in_order_in)
    then have l: "\<not> (er_ledger_sequence l = er_ledger_sequence r \<and> er_event_index l = er_event_index r)" "index_ok l"
      using ok(1) apart by (auto simp: list_all_iff clashes_def)
    have c: "er_ledger_sequence d \<noteq> er_ledger_sequence r" if "?c = Some d" "is_created e" for d
      using first_in_order_in [OF that(1)] that(2) apart r(2) by (auto simp: list_all_iff clashes_def)
    have merged: "merge_row (excluded_row e) (rebuilt_row ?c l) =
        rebuilt_row (if is_created e then better (\<lambda>a b. later b a) r ?c else ?c) (if later r l then r else l)"
      unfolding r_def using c l(1) ok(2) l(2) unfolding r_def by (rule merge_rebuilt)
    have before: "rebuild_match (er_match_id r) es = Some (rebuilt_row ?c l)"
      by (simp add: rebuild_match_def Some)
    have new: "filter (is_surviving (er_match_id r)) (es @ [r]) = ?xs @ [r]"
      "filter is_created_row (?xs @ [r]) = filter is_created_row ?xs @ (if is_created e then [r] else [])"
      using r by simp_all
    have created: "first_in_order (\<lambda>a b. later b a) (filter is_created_row ?xs @ (if is_created e then [r] else [])) =
        (if is_created e then better (\<lambda>a b. later b a) r ?c else ?c)"
      by simp
    have latest: "first_in_order later (?xs @ [r]) = Some (if later r l then r else l)"
      by (simp add: Some better_def)
    show ?thesis
      unfolding before fold_event_def option.case merged
      unfolding rebuild_match_def Let_def new created latest option.map ..
  qed
qed

section \<open>Reorganisations\<close>

lemma filter_map_skip:
  "\<forall>x\<in>set xs. f x = x \<or> \<not> P x \<and> \<not> P (f x) \<Longrightarrow> filter P (map f xs) = filter P xs"
  by (induction xs) auto

lemma surviving_invalidated:
  assumes "\<forall>r\<in>set es. in_ledgers a b r \<longrightarrow> er_match_id r \<noteq> m"
  shows "filter (is_surviving m) (invalidate_rows now a b es) = filter (is_surviving m) es"
  unfolding invalidate_rows_def using assms by (intro filter_map_skip) (simp add: is_surviving_def)

lemma rebuild_untouched:
  assumes "m \<notin> set (invalidated_matches a b es)"
  shows "rebuild_match m (invalidate_rows now a b es) = rebuild_match m es"
proof -
  have "filter (is_surviving m) (invalidate_rows now a b es) = filter (is_surviving m) es"
    using assms by (intro surviving_invalidated) (auto simp: invalidated_matches_def)
  then show ?thesis by (simp only: rebuild_match_def)
qed

lemma index_ok_invalidated: "list_all index_ok es \<Longrightarrow> list_all index_ok (invalidate_rows now a b es)"
  by (auto simp: list_all_iff invalidate_rows_def index_ok_def)

section \<open>The operations\<close>

interpretation log: table_invariant materialised
  by unfold_locales (simp add: materialised_def)

interpretation schema: table_invariant "\<lambda>s. matches_columns s = matches_schema"
  by unfold_locales simp

lemma schema_columns:
  "set rebuilt_columns \<subseteq> set matches_schema" "\<not> set upsert_columns \<subseteq> set matches_schema"
  by (simp_all add: rebuilt_columns_def matches_schema_def upsert_columns_def)

lemma reflects_event:
  fixes e defines "r \<equiv> event_to_row e"
  assumes "reflects es rows" "index_ok r" "list_all (\<lambda>x. \<not> clashes r x) es" "reorg_invalidated_at e = None"
  shows "reflects (es @ [r]) (rows(to_signed 64 (ie_match_id e) \<mapsto> fold_event e (rows (to_signed 64 (ie_match_id e)))))"
proof -
  have m: "to_signed 64 (ie_match_id e) = er_match_id r" by (simp add: r_def event_to_row_def)
  have "rebuild_match (er_match_id r) (es @ [r]) = Some (fold_event e (rebuild_match (er_match_id r) es))"
    using assms(2-) unfolding r_def by (intro rebuild_snoc) (simp_all add: reflects_def)
  with assms(2,3) show ?thesis by (auto simp: reflects_def m rebuild_other is_surviving_def)
qed

lemma reflects_dead_event:
  assumes "reflects es rows" "index_ok (event_to_row e)" "reorg_invalidated_at e \<noteq> None"
  shows "reflects (es @ [event_to_row e]) rows"
  using assms by (auto simp: reflects_def rebuild_other is_surviving_def event_to_row_def)

lemma reflects_invalidated:
  assumes "reflects es rows"
  shows "reflects (invalidate_rows now a b es)
    (\<lambda>m. if m \<in> set (invalidated_matches a b es) then rebuild_match m (invalidate_rows now a b es) else rows m)"
  using assms by (auto simp: reflects_def index_ok_invalidated rebuild_untouched)

lemma store_event_keeps:
  assumes "materialised s" "orderly e s"
  shows "wp (store_event w e) (\<lambda>_. materialised) (\<lambda>_ _. True) False s"
  using assms reflects_event [of "events_table s" "matches_table s" e] reflects_dead_event [of "events_table s" "matches_table s" e]
    schema_columns(1)
  by (simp add: store_event_def apply_event_to_match_def wp_simps Let_def materialised_def orderly_def is_stored_def
      split: option.split) blast

lemma insert_event_keeps:
  assumes "materialised s" "orderly e s"
  shows "wp (insert_event w e) (\<lambda>_ _. False) (\<lambda>_. materialised) False s"
proof -
  have upsert: "wp (seqs [upsert_match_state w e]) (\<lambda>_ _. False) (\<lambda>_. materialised) False s'" if "materialised s'" for s'
    using that schema_columns(2) by (simp add: upsert_match_state_def wp_simps materialised_def split: option.split)
  have "orderly e (db_step s')" if "orderly e s'" for s' using that by (simp add: orderly_def is_stored_def)
  then have "wp (transaction w b c (store_event w e)) (\<lambda>_. materialised) (\<lambda>_. materialised) False (db_step s)" for b c
    using assms by (intro log.transaction_keeps store_event_keeps) simp_all
  then have "wp (transaction w b c (store_event w e)) (\<lambda>_. wp (seqs [upsert_match_state w e]) (\<lambda>_ _. False) (\<lambda>_. materialised) False)
      (\<lambda>_. materialised) False (db_step s)" for b c
    by (rule wp_mono) (simp_all add: upsert del: seqs.simps)
  with assms(1) show ?thesis
    unfolding insert_event_def by (simp add: wp_simps split: option.split del: seqs.simps)
qed

lemma mark_events_keeps:
  assumes "materialised s"
  shows "wp (mark_events_as_invalid w c x y reason) (\<lambda>_. materialised) (\<lambda>_. materialised) False s"
proof -
  let ?a = "to_signed 32 x" and ?b = "to_signed 32 y"
  have id: "''match_id'' \<in> set matches_schema" by (simp add: matches_schema_def)
  have same: "reflects (invalidate_rows now ?a ?b es) rows"
    if "reflects es rows" "invalidated_matches ?a ?b es = []" for now es rows
    using reflects_invalidated [OF that(1), of now ?a ?b] that(2) by simp
  show ?thesis
    using assms unfolding mark_events_as_invalid_def Let_def wp_bnd wp_pool_get
    by (auto simp: wp_simps materialised_def id schema_columns rebuild_matches_def same reflects_invalidated
        split: option.split intro!: log.transaction_keeps cong: if_cong)
qed

lemma init_schema_materialises:
  assumes "matches_columns s = []" "matches_table s = Map.empty" "list_all index_ok (events_table s)"
  shows "wp (init_schema w) (\<lambda>_. materialised) (\<lambda>_ _. True) True s"
  using assms schema_columns(1)
  by (simp add: init_schema_def wp_simps wp_transaction wp_commit create_matches_def materialised_def reflects_def
      matches_schema_def split: option.split)

section \<open>Runs\<close>

datatype db_op = Insert indexed_event | Invalidate string nat nat string

primrec exec_db :: "'z db_world_scheme \<Rightarrow> db_op \<Rightarrow> unit dbact" where
  "exec_db w (Insert e) = insert_event w e"
| "exec_db w (Invalidate c a b r) = bnd (mark_events_as_invalid w c a b r) (\<lambda>_. ret ())"

definition run_db :: "'z db_world_scheme \<Rightarrow> db_op list \<Rightarrow> database \<Rightarrow> database" where
  "run_db w ops s = fold (\<lambda>op. after (exec_db w op)) ops s"

primrec orderly_run :: "'z db_world_scheme \<Rightarrow> db_op list \<Rightarrow> database \<Rightarrow> bool" where
  "orderly_run w [] s = True"
| "orderly_run w (op # ops) s \<longleftrightarrow>
     (case op of Insert e \<Rightarrow> orderly e s | Invalidate _ _ _ _ \<Rightarrow> True) \<and> orderly_run w ops (after (exec_db w op) s)"

lemma run_materialised: "materialised s \<Longrightarrow> orderly_run w ops s \<Longrightarrow> materialised (run_db w ops s)"
proof (induction ops arbitrary: s)
  case (Cons op ops)
  have "wp (exec_db w op) (\<lambda>_. materialised) (\<lambda>_. materialised) False s"
  proof (cases op)
    case (Insert e)
    with Cons.prems have "wp (insert_event w e) (\<lambda>_ _. False) (\<lambda>_. materialised) False s"
      by (intro insert_event_keeps) simp_all
    with Insert show ?thesis by (auto elim: wp_mono)
  next
    case (Invalidate c a b r)
    have "wp (bnd (mark_events_as_invalid w c a b r) (\<lambda>_. ret ())) (\<lambda>_. materialised) (\<lambda>_. materialised) False s"
      unfolding wp_bnd by (rule wp_mono [OF mark_events_keeps [OF Cons.prems(1)]]) (simp_all add: wp_ret)
    with Invalidate show ?thesis by simp
  qed
  then have "materialised (after (exec_db w op) s)" by (rule log.keeps_after)
  with Cons show ?case by (simp add: run_db_def)
qed (simp add: run_db_def)


section \<open>What insertions report\<close>

lemma wp_failed:
  "wp m (\<lambda>_ _. False) (\<lambda>_. P) False s \<Longrightarrow> P (after m s) \<and> (\<forall>a s'. m s \<noteq> (Ok a, s'))"
  by (cases "m s"; cases "fst (m s)") (auto simp: wp_def after_def)


section \<open>A concrete history\<close>

text \<open>A server that never fails, and the life of match 7: created, activated and completed, where the activation is
  ingested last and the completion is then invalidated.\<close>

definition quiet_world :: db_world where
  "quiet_world = \<lparr>pool_failure = (\<lambda>_. None), statement_failure = (\<lambda>_. None), commit_survives = (\<lambda>_. False),
     rejection = (\<lambda>_. ''rejected''), db_now = int, row_order = (\<lambda>_ ids. ids)\<rparr>"

definition new_database :: database where
  "new_database = \<lparr>matches_columns = [], events_table = [], matches_table = Map.empty, ingestion_table = Map.empty,
     reorg_table = [], leader_table = Map.empty, db_calls = 0\<rparr>"

definition sample_event :: "string \<Rightarrow> nat \<Rightarrow> string \<Rightarrow> string option \<Rightarrow> indexed_event" where
  "sample_event i ledger kind status = \<lparr>ie_id = i, ledger_sequence = ledger, ie_match_id = 7, event_type = kind,
     ie_player1 = Some ''GA'', ie_player2 = Some ''GB'', ie_status = status, ie_winner = None,
     ie_stake_amount = Some ''50'', ie_token = Some ''XLM'', ie_game_id = None, ie_platform = None, ie_timestamp = 0,
     txn_hash = Some ''t'', event_index_in_txn = Some 0, reorg_invalidated_at = None\<rparr>"

definition sample_history :: "db_op list" where
  "sample_history =
     [Insert (sample_event ''a'' 10 ''match:created'' (Some ''pending'')),
      Insert (sample_event ''c'' 20 ''match:completed'' (Some ''completed'')),
      Insert (sample_event ''b'' 15 ''match:activated'' (Some ''active'')),
      Invalidate ''C'' 20 25 ''ledger_backtrack'']"

definition installed :: database where
  "installed = after (init_schema quiet_world) new_database"

lemma installed_run: "init_schema quiet_world new_database = (Ok (), installed)"
  by (simp add: installed_def after_def init_schema_def transaction_def commit_def statement_on_matches_def statement_def
      pool_get_def attempt_def run_simps quiet_world_def new_database_def db_step_def create_matches_def matches_schema_def rebuilt_columns_def)

lemma sample_orderly: "orderly_run quiet_world sample_history installed"
  by code_simp

lemma sample_row: "map_option mr_status (matches_table (run_db quiet_world sample_history installed) 7) = Some (Some ''active'')"
  by code_simp



end
