(* ===== verification/Service_Files.thy ===== *)
theory Service_Files
  imports Oracle_Types Rust_Text
begin

text \<open>
  The durable files of the oracle service (oracle-service/src/queue.rs, dead_letter.rs,
  reconciliation_cursor.rs, submission_log.rs) and the world they live in. A method of a store is an
  action on the state of the service that may return an \<^verbatim>\<open>OracleServiceError\<close>.

  Everything outside the program is a parameter, the record \<open>world\<close>: what the clock shows,
  whether a read or a write of the disk fails, and what the remote services answer may be different
  each time, so each of them depends on the number of interactions so far, the field \<open>steps\<close>.
  A file holds a value, the result of the JSON round trip of the serde crate; a file that does not parse is
  \<open>Corrupt\<close>. Times are in seconds. \<^verbatim>\<open>Path::exists\<close> is taken to be accurate.
\<close>

section \<open>Data\<close>

datatype platform_sv = Lichess_sv | ChessDotCom_sv

datatype service_error =
    Config string | Transport string | RpcError string | SimulateError string | SendError string
  | TxFailed string | XdrError string | QueueIo string

fun display_error :: "service_error \<Rightarrow> string" where
  "display_error (Config m) = ''configuration error: '' @ m"
| "display_error (Transport m) = ''transport error: '' @ m"
| "display_error (RpcError m) = ''RPC error: '' @ m"
| "display_error (SimulateError m) = ''simulate transaction error: '' @ m"
| "display_error (SendError m) = ''send transaction error: '' @ m"
| "display_error (TxFailed m) = ''transaction failed on-chain: '' @ m"
| "display_error (XdrError m) = ''XDR encoding/decoding error: '' @ m"
| "display_error (QueueIo m) = ''queue I/O error: '' @ m"

record pending_entry =
  pe_match_id :: nat
  pe_game_id :: string
  pe_platform :: platform_sv
  pe_attempts :: nat
  pe_next_attempt_at :: nat
  pe_enqueued_at :: nat
  pe_last_error :: "string option"

record dead_letter_entry =
  dl_entry :: pending_entry
  dl_dead_lettered_at :: nat
  dl_total_attempts :: nat

record submission_record =
  sr_match_id :: nat
  sr_game_id :: string
  sr_platform :: string
  sr_winner :: string
  sr_submitted_at :: nat
  sr_soroban_tx_hash :: string

section \<open>Files\<close>

datatype 'a contents = Absent | Blank | Corrupt | Contents 'a

record 'a disk_file =
  main_file :: "'a contents"
  tmp_file :: "'a contents"

text \<open>The state of the service. \<open>confirmed\<close> lists the results that the network has confirmed; the
  fields \<open>queue_depth\<close> and \<open>dead_letter_count\<close> are the two gauges. The result cache
  is the map of its entries with the times at which they expire.\<close>

record service =
  steps :: nat
  queue_file :: "pending_entry list disk_file"
  dead_file :: "dead_letter_entry list disk_file"
  cursor_file :: "nat disk_file"
  log_file :: "submission_record list disk_file"
  backoff_until :: "platform_sv \<Rightarrow> nat option"
  result_cache :: "(string \<times> string) \<Rightarrow> (winner_oc \<times> nat) option"
  confirmed :: "(nat \<times> winner_oc) list"
  queue_depth :: nat
  dead_letter_count :: nat

type_synonym 'a sact = "(service, service_error, 'a) action"

record disk =
  clock :: "nat \<Rightarrow> nat"
  read_failure :: "nat \<Rightarrow> string option"
  write_failure :: "nat \<Rightarrow> string option"
  remove_failure :: "nat \<Rightarrow> string option"

text \<open>One interaction with the world.\<close>

definition interact :: "(nat \<Rightarrow> 'a) \<Rightarrow> 'a sact" where
  "interact f = bnd (gets (\<lambda>s. f (steps s))) (\<lambda>a. bnd (modify (\<lambda>s. s\<lparr>steps := Suc (steps s)\<rparr>)) (\<lambda>_. ret a))"

definition io :: "(nat \<Rightarrow> string option) \<Rightarrow> unit sact" where
  "io f = bnd (interact f) (\<lambda>r. case r of None \<Rightarrow> ret () | Some m \<Rightarrow> fail (QueueIo m))"

text \<open>Reading a file: an absent file is the value \<open>missing\<close>, a file that does not parse is an
  error.\<close>

definition load_file ::
  "'z disk_scheme \<Rightarrow> (service \<Rightarrow> 'a disk_file) \<Rightarrow> 'a \<Rightarrow> string \<Rightarrow> 'a sact" where
  "load_file w get missing corrupt = bnd (gets (\<lambda>s. main_file (get s))) (\<lambda>f. case f of
     Absent \<Rightarrow> ret missing
   | Contents x \<Rightarrow> bnd (io (read_failure w)) (\<lambda>_. ret x)
   | _ \<Rightarrow> bnd (io (read_failure w)) (\<lambda>_. fail (QueueIo corrupt)))"

text \<open>Writing a file: write a temporary file, which is incomplete if that fails, and rename
  it into place.\<close>

definition replace_file ::
  "'z disk_scheme \<Rightarrow> (('a disk_file \<Rightarrow> 'a disk_file) \<Rightarrow> service \<Rightarrow> service) \<Rightarrow> 'a \<Rightarrow> unit sact" where
  "replace_file w upd x =
     seqs [bnd (interact (write_failure w)) (\<lambda>r. case r of
             Some m \<Rightarrow> bnd (modify (upd (\<lambda>f. f\<lparr>tmp_file := Corrupt\<rparr>))) (\<lambda>_. fail (QueueIo m))
           | None \<Rightarrow> modify (upd (\<lambda>f. f\<lparr>tmp_file := Contents x\<rparr>))),
           io (write_failure w),
           modify (upd (\<lambda>f. f\<lparr>main_file := tmp_file f, tmp_file := Absent\<rparr>))]"

definition save_file ::
  "'z disk_scheme \<Rightarrow> (('a disk_file \<Rightarrow> 'a disk_file) \<Rightarrow> service \<Rightarrow> service) \<Rightarrow> 'a \<Rightarrow> unit sact" where
  "save_file w upd x = bnd (io (write_failure w)) (\<lambda>_. replace_file w upd x)"

section \<open>Reading and writing\<close>

lemma wp_fun: "wp (ret a) Q E T = Q a" "wp (bnd m k) Q E T = wp m (\<lambda>a. wp (k a) Q E T) E T"
  by (rule ext, simp add: wp_simps)+

lemma wp_interact [wp_simps]: "wp (interact f) Q E T s = Q (f (steps s)) (s\<lparr>steps := Suc (steps s)\<rparr>)"
  by (simp add: interact_def wp_simps)

lemma wp_io [wp_simps]:
  "wp (io f) Q E T s = (case f (steps s) of
     None \<Rightarrow> Q () (s\<lparr>steps := Suc (steps s)\<rparr>) | Some m \<Rightarrow> E (QueueIo m) (s\<lparr>steps := Suc (steps s)\<rparr>))"
  by (simp add: io_def wp_simps split: option.split)

lemma frame_interact [frame_rules]: "(\<And>s n. f (s\<lparr>steps := n\<rparr>) = f s) \<Longrightarrow> frame f (interact g)"
  by (simp add: interact_def frame_rules)

text \<open>The value that a file holds, as far as the program can tell.\<close>

definition held :: "'a \<Rightarrow> 'a disk_file \<Rightarrow> 'a option" where
  "held missing f = (case main_file f of Absent \<Rightarrow> Some missing | Contents x \<Rightarrow> Some x | _ \<Rightarrow> None)"

text \<open>A disk on which no access fails.\<close>

definition faultless :: "'z disk_scheme \<Rightarrow> bool" where
  "faultless w \<longleftrightarrow> (\<forall>n. read_failure w n = None \<and> write_failure w n = None \<and> remove_failure w n = None)"

lemma faulty:
  "read_failure w n = Some m \<Longrightarrow> \<not> faultless w" "write_failure w n = Some m \<Longrightarrow> \<not> faultless w"
  "remove_failure w n = Some m \<Longrightarrow> \<not> faultless w"
  by (auto simp: faultless_def)

text \<open>A field of the state that holds a file: the update changes this file and nothing else, and the step
  counter is independent of it. A load, when it returns, gives the value the file holds and changes
  nothing but the counter; a save replaces the value or leaves it as it was.\<close>

locale file_field =
  fixes get :: "service \<Rightarrow> 'a disk_file" and upd :: "('a disk_file \<Rightarrow> 'a disk_file) \<Rightarrow> service \<Rightarrow> service"
  assumes get_upd: "get (upd f s) = f (get s)"
    and get_steps: "get (s\<lparr>steps := n\<rparr>) = get s"
    and upd_const: "upd f s = upd (\<lambda>_. f (get s)) s"
    and upd_upd: "upd (\<lambda>_. a) (upd (\<lambda>_. b) s) = upd (\<lambda>_. a) s"
    and upd_steps: "upd f (s\<lparr>steps := n\<rparr>) = (upd f s)\<lparr>steps := n\<rparr>"
    and upd_same: "upd (\<lambda>_. get s) s = s"
begin

lemma wp_load:
  assumes "\<And>x n. held missing (get s) = Some x \<Longrightarrow> Q x (s\<lparr>steps := n\<rparr>)"
    and "\<And>e n. \<not> faultless w \<or> held missing (get s) = None \<Longrightarrow> E e (s\<lparr>steps := n\<rparr>)"
  shows "wp (load_file w get missing corrupt) Q E T s"
  using assms(1) [where n = "steps s"] assms
  by (auto simp: load_file_def held_def wp_simps dest: faulty split: contents.splits option.split)

lemma wp_replace:
  assumes "\<And>f n. main_file f = Contents x \<Longrightarrow> Q () ((upd (\<lambda>_. f) s)\<lparr>steps := n\<rparr>)"
    and "\<And>e f n. \<not> faultless w \<Longrightarrow> main_file f = main_file (get s) \<Longrightarrow> E e ((upd (\<lambda>_. f) s)\<lparr>steps := n\<rparr>)"
  shows "wp (replace_file w upd x) Q E T s"
proof -
  let ?tmp = "\<lambda>c. (get s)\<lparr>tmp_file := c\<rparr>"
  have step: "upd (\<lambda>f. f\<lparr>tmp_file := c\<rparr>) (s\<lparr>steps := n\<rparr>) = (upd (\<lambda>_. ?tmp c) s)\<lparr>steps := n\<rparr>" for c n
    by (subst upd_const) (simp add: get_steps upd_steps)
  have rename: "upd (\<lambda>f. f\<lparr>main_file := tmp_file f, tmp_file := Absent\<rparr>) ((upd (\<lambda>_. ?tmp (Contents x)) s)\<lparr>steps := n\<rparr>)
      = (upd (\<lambda>_. (get s)\<lparr>main_file := Contents x, tmp_file := Absent\<rparr>) s)\<lparr>steps := n\<rparr>" for n
    by (subst upd_const) (simp add: get_steps get_upd upd_steps upd_upd)
  show ?thesis
    using assms(1) [of "(get s)\<lparr>main_file := Contents x, tmp_file := Absent\<rparr>"] assms(2) [of "?tmp (Contents x)"] assms(2) [of "?tmp Corrupt"]
    by (auto simp: replace_file_def wp_simps step rename dest: faulty split: option.split)
qed

lemma wp_save:
  assumes "\<And>f n. main_file f = Contents x \<Longrightarrow> Q () ((upd (\<lambda>_. f) s)\<lparr>steps := n\<rparr>)"
    and "\<And>e f n. \<not> faultless w \<Longrightarrow> main_file f = main_file (get s) \<Longrightarrow> E e ((upd (\<lambda>_. f) s)\<lparr>steps := n\<rparr>)"
  shows "wp (save_file w upd x) Q E T s"
  unfolding save_file_def wp_bnd
proof (simp only: wp_io, cases "write_failure w (steps s)")
  case None
  then show "case write_failure w (steps s) of None \<Rightarrow> wp (replace_file w upd x) Q E T (s\<lparr>steps := Suc (steps s)\<rparr>)
      | Some m \<Rightarrow> E (QueueIo m) (s\<lparr>steps := Suc (steps s)\<rparr>)"
    using assms by (auto intro!: wp_replace simp: get_steps upd_steps)
next
  case (Some m)
  then show "case write_failure w (steps s) of None \<Rightarrow> wp (replace_file w upd x) Q E T (s\<lparr>steps := Suc (steps s)\<rparr>)
      | Some m \<Rightarrow> E (QueueIo m) (s\<lparr>steps := Suc (steps s)\<rparr>)"
    using assms(2) [of "get s"] by (auto simp: upd_same dest: faulty)
qed

end

interpretation queue_store: file_field queue_file queue_file_update by unfold_locales simp_all

interpretation dead_store: file_field dead_file dead_file_update by unfold_locales simp_all

interpretation cursor_store: file_field cursor_file cursor_file_update by unfold_locales simp_all

interpretation log_store: file_field log_file log_file_update by unfold_locales simp_all

lemma frame_load_file [frame_rules]: "(\<And>s n. f (s\<lparr>steps := n\<rparr>) = f s) \<Longrightarrow> frame f (load_file w get missing corrupt)"
  by (auto simp: load_file_def io_def intro!: frame_rules split: contents.split option.split)

lemma frame_save_file [frame_rules]:
  "(\<And>s n. f (s\<lparr>steps := n\<rparr>) = f s) \<Longrightarrow> (\<And>s g. f (upd g s) = f s) \<Longrightarrow> frame f (save_file w upd x)"
  by (auto simp: save_file_def replace_file_def io_def intro!: frame_rules split: option.split)

end
