(* ===== verification/Service_Queue.thy ===== *)
theory Service_Queue
  imports Service_Files
begin

text \<open>
  The stores of the oracle service: the queue of pending verifications (oracle-service/src/queue.rs), the
  dead letters (dead_letter.rs), the reconciliation cursor (reconciliation_cursor.rs), the
  submission log (submission_log.rs) and the replay tool (bin/replay.rs). Every method reads the whole
  file, changes the list and writes it back. The lemmas give the effect of each method on the list
  that the file holds, on success and on failure of the disk; the properties concern the retry
  schedule, the uniqueness of a match in the queue, and the records that a fault can lose.
\<close>

section \<open>Entries\<close>

definition utc_now :: "'z disk_scheme \<Rightarrow> nat sact" where
  "utc_now w = interact (clock w)"

definition new_entry :: "'z disk_scheme \<Rightarrow> nat \<Rightarrow> string \<Rightarrow> platform_sv \<Rightarrow> pending_entry sact" where
  "new_entry w match_id game_id platform = bnd (utc_now w) (\<lambda>now.
     ret \<lparr>pe_match_id = match_id, pe_game_id = game_id, pe_platform = platform, pe_attempts = 0,
          pe_next_attempt_at = now, pe_enqueued_at = now, pe_last_error = None\<rparr>)"

text \<open>\<^verbatim>\<open>1u64.checked_shl(exp).unwrap_or(u64::MAX)\<close>, and the delay in seconds\<close>

definition multiplier :: "nat \<Rightarrow> nat" where
  "multiplier exponent = (if exponent < 64 then 2 ^ exponent else u64_max)"

definition delay_secs :: "nat \<Rightarrow> nat \<Rightarrow> nat" where
  "delay_secs base_delay_secs exponent = min (min (base_delay_secs * multiplier exponent) u64_max) 3600"

text \<open>The new entry and whether its retries are exhausted. The counter is a \<^verbatim>\<open>u32\<close> and is
  checked for overflow.\<close>

definition record_failure ::
  "'z disk_scheme \<Rightarrow> pending_entry \<Rightarrow> string \<Rightarrow> nat \<Rightarrow> nat \<Rightarrow> (pending_entry \<times> bool) sact" where
  "record_failure w entry error base_delay_secs max_retries =
     bnd (or_trap (checked_add_u32 (pe_attempts entry) 1)) (\<lambda>attempts.
     let entry = entry\<lparr>pe_attempts := attempts, pe_last_error := Some error\<rparr> in
     if attempts \<ge> max_retries then ret (entry, True)
     else bnd (utc_now w) (\<lambda>now.
       ret (entry\<lparr>pe_next_attempt_at := now + delay_secs base_delay_secs (attempts - 1)\<rparr>, False)))"

definition is_due :: "nat \<Rightarrow> pending_entry \<Rightarrow> bool" where
  "is_due now entry \<longleftrightarrow> now \<ge> pe_next_attempt_at entry"

section \<open>The pending queue\<close>

definition queue_load :: "'z disk_scheme \<Rightarrow> pending_entry list sact" where
  "queue_load w = load_file w queue_file [] ''corrupt queue file''"

definition queue_save :: "'z disk_scheme \<Rightarrow> pending_entry list \<Rightarrow> unit sact" where
  "queue_save w entries = save_file w queue_file_update entries"

definition queue_enqueue :: "'z disk_scheme \<Rightarrow> nat \<Rightarrow> string \<Rightarrow> platform_sv \<Rightarrow> bool sact" where
  "queue_enqueue w match_id game_id platform =
     bnd (queue_load w) (\<lambda>entries.
     if list_ex (\<lambda>e. pe_match_id e = match_id) entries then ret False
     else bnd (new_entry w match_id game_id platform) (\<lambda>entry.
       bnd (queue_save w (entries @ [entry])) (\<lambda>_. ret True)))"

definition is_due_now :: "'z disk_scheme \<Rightarrow> pending_entry \<Rightarrow> bool sact" where
  "is_due_now w entry = bnd (utc_now w) (\<lambda>now. ret (is_due now entry))"

definition due_entries :: "'z disk_scheme \<Rightarrow> pending_entry list sact" where
  "due_entries w = bnd (queue_load w) (\<lambda>entries.
     bnd (collect (is_due_now w) entries) (\<lambda>due.
     ret (map fst (filter snd (zip entries due)))))"

fun replace_first :: "pending_entry list \<Rightarrow> pending_entry \<Rightarrow> pending_entry list" where
  "replace_first [] updated = []"
| "replace_first (e # es) updated =
     (if pe_match_id e = pe_match_id updated then updated # es else e # replace_first es updated)"

definition update_entry :: "'z disk_scheme \<Rightarrow> pending_entry \<Rightarrow> unit sact" where
  "update_entry w updated = bnd (queue_load w) (\<lambda>entries.
     only_if (list_ex (\<lambda>e. pe_match_id e = pe_match_id updated) entries)
       (queue_save w (replace_first entries updated)))"

definition queue_remove :: "'z disk_scheme \<Rightarrow> nat \<Rightarrow> unit sact" where
  "queue_remove w match_id = bnd (queue_load w) (\<lambda>entries.
     queue_save w (filter (\<lambda>e. pe_match_id e \<noteq> match_id) entries))"

section \<open>The dead letters\<close>

definition dead_load :: "'z disk_scheme \<Rightarrow> dead_letter_entry list sact" where
  "dead_load w = load_file w dead_file [] ''corrupt dead-letter file''"

definition dead_save :: "'z disk_scheme \<Rightarrow> dead_letter_entry list \<Rightarrow> unit sact" where
  "dead_save w entries = save_file w dead_file_update entries"

definition dead_push :: "'z disk_scheme \<Rightarrow> pending_entry \<Rightarrow> unit sact" where
  "dead_push w entry = bnd (utc_now w) (\<lambda>now.
     let dl = \<lparr>dl_entry = entry, dl_dead_lettered_at = now, dl_total_attempts = pe_attempts entry\<rparr> in
     bnd (dead_load w) (\<lambda>entries.
     if list_ex (\<lambda>e. pe_match_id (dl_entry e) = pe_match_id entry) entries then ret ()
     else seqs [dead_save w (entries @ [dl]),
                modify (\<lambda>s. s\<lparr>dead_letter_count := length (entries @ [dl])\<rparr>)]))"

definition dead_remove :: "'z disk_scheme \<Rightarrow> nat \<Rightarrow> unit sact" where
  "dead_remove w match_id = bnd (dead_load w) (\<lambda>entries.
     let kept = filter (\<lambda>e. pe_match_id (dl_entry e) \<noteq> match_id) entries in
     seqs [dead_save w kept, modify (\<lambda>s. s\<lparr>dead_letter_count := length kept\<rparr>)])"

section \<open>The reconciliation cursor\<close>

definition cursor_load :: "'z disk_scheme \<Rightarrow> nat sact" where
  "cursor_load w = bnd (gets (\<lambda>s. main_file (cursor_file s))) (\<lambda>f. case f of
     Absent \<Rightarrow> ret 0
   | Contents offset \<Rightarrow> bnd (interact (read_failure w)) (\<lambda>r. ret (case r of None \<Rightarrow> offset | Some _ \<Rightarrow> 0))
   | _ \<Rightarrow> bnd (interact (read_failure w)) (\<lambda>_. ret 0))"

definition cursor_save :: "'z disk_scheme \<Rightarrow> nat \<Rightarrow> unit sact" where
  "cursor_save w offset = save_file w cursor_file_update offset"

definition cursor_clear :: "'z disk_scheme \<Rightarrow> unit sact" where
  "cursor_clear w = bnd (gets (\<lambda>s. main_file (cursor_file s))) (\<lambda>f.
     only_if (f \<noteq> Absent) (bnd (interact (remove_failure w)) (\<lambda>r. case r of
       Some _ \<Rightarrow> ret ()
     | None \<Rightarrow> modify (cursor_file_update (\<lambda>f. f\<lparr>main_file := Absent\<rparr>)))))"

section \<open>The submission log\<close>

definition new_record ::
  "nat \<Rightarrow> string \<Rightarrow> platform_sv \<Rightarrow> winner_oc \<Rightarrow> nat \<Rightarrow> string \<Rightarrow> submission_record" where
  "new_record match_id game_id platform winner submitted_at soroban_tx_hash =
     \<lparr>sr_match_id = match_id, sr_game_id = game_id,
      sr_platform = (case platform of Lichess_sv \<Rightarrow> ''lichess'' | ChessDotCom_sv \<Rightarrow> ''chess.com''),
      sr_winner = (case winner of Player1_oc \<Rightarrow> ''player1'' | Player2_oc \<Rightarrow> ''player2'' | Draw_oc \<Rightarrow> ''draw''),
      sr_submitted_at = submitted_at, sr_soroban_tx_hash = soroban_tx_hash\<rparr>"

text \<open>A file of blanks is an empty log.\<close>

definition log_load :: "'z disk_scheme \<Rightarrow> submission_record list sact" where
  "log_load w = bnd (gets (\<lambda>s. main_file (log_file s))) (\<lambda>f. case f of
     Absent \<Rightarrow> ret []
   | Blank \<Rightarrow> bnd (io (read_failure w)) (\<lambda>_. ret [])
   | Contents x \<Rightarrow> bnd (io (read_failure w)) (\<lambda>_. ret x)
   | Corrupt \<Rightarrow> bnd (io (read_failure w)) (\<lambda>_. fail (QueueIo ''failed to parse submissions.json'')))"

text \<open>A call whose \<^verbatim>\<open>Result\<close> is matched on, and \<^verbatim>\<open>unwrap_or_default()\<close>, which
  makes an error the empty list\<close>

definition try_call :: "'a sact \<Rightarrow> (service_error + 'a) sact" where
  "try_call m = (\<lambda>s. case m s of (r, s') \<Rightarrow>
     (case r of Ok x \<Rightarrow> (Ok (Inr x), s') | Err e \<Rightarrow> (Ok (Inl e), s') | Trap \<Rightarrow> (Trap, s')))"

definition or_default :: "'a list sact \<Rightarrow> 'a list sact" where
  "or_default m = bnd (try_call m) (\<lambda>r. ret (case r of Inr x \<Rightarrow> x | Inl _ \<Rightarrow> []))"

definition log_append :: "'z disk_scheme \<Rightarrow> submission_record \<Rightarrow> unit sact" where
  "log_append w r = bnd (or_default (log_load w)) (\<lambda>entries.
     replace_file w log_file_update (entries @ [r]))"

section \<open>The replay tool\<close>

datatype replay = Succeeded | Skipped | Failed

definition replay_entry :: "'z disk_scheme \<Rightarrow> bool \<Rightarrow> nat option \<Rightarrow> dead_letter_entry \<Rightarrow> replay sact" where
  "replay_entry w dry_run max_retries dl =
     (let match_id = pe_match_id (dl_entry dl) in
      if (case max_retries of Some m \<Rightarrow> dl_total_attempts dl \<ge> m | None \<Rightarrow> False) then ret Skipped
      else if dry_run then ret Succeeded
      else bnd (try_call (queue_enqueue w match_id (pe_game_id (dl_entry dl)) (pe_platform (dl_entry dl)))) (\<lambda>r. case r of
          Inr True \<Rightarrow> bnd (catch_err (dead_remove w match_id)) (\<lambda>_. ret Succeeded)
        | Inr False \<Rightarrow> ret Skipped
        | Inl _ \<Rightarrow> ret Failed))"

text \<open>The exit code of the process.\<close>

definition replay_all :: "'z disk_scheme \<Rightarrow> bool \<Rightarrow> nat option \<Rightarrow> nat sact" where
  "replay_all w dry_run max_retries = bnd (or_default (dead_load w)) (\<lambda>entries.
     bnd (collect (replay_entry w dry_run max_retries) entries) (\<lambda>rs.
     ret (if Failed \<in> set rs then 1 else 0)))"

definition replay_one :: "'z disk_scheme \<Rightarrow> bool \<Rightarrow> nat option \<Rightarrow> nat \<Rightarrow> nat sact" where
  "replay_one w dry_run max_retries match_id = bnd (or_default (dead_load w)) (\<lambda>entries.
     case find (\<lambda>e. pe_match_id (dl_entry e) = match_id) entries of
       None \<Rightarrow> ret 1
     | Some dl \<Rightarrow> bnd (replay_entry w dry_run max_retries dl) (\<lambda>r. ret (if r = Failed then 1 else 0)))"

text \<open>The value after the first occurrence of a flag: \<open>None\<close> without the flag,
  \<open>Some None\<close> if the flag is last.\<close>

fun flag_value :: "string \<Rightarrow> string list \<Rightarrow> string option option" where
  "flag_value flag [] = None"
| "flag_value flag (a # as) = (if a = flag then Some (case as of [] \<Rightarrow> None | v # _ \<Rightarrow> Some v) else flag_value flag as)"

text \<open>\<open>Inl\<close> of the exit code on bad input.\<close>

definition parse_max_retries :: "string list \<Rightarrow> nat + nat option" where
  "parse_max_retries args = (case flag_value ''--max-retries'' args of
     None \<Rightarrow> Inr None
   | Some None \<Rightarrow> Inl 1
   | Some (Some val) \<Rightarrow> (case parse_unsigned (2 ^ 32 - 1) val of Some n \<Rightarrow> Inr (Some n) | None \<Rightarrow> Inl 1))"

definition replay_main :: "'z disk_scheme \<Rightarrow> string list \<Rightarrow> nat sact" where
  "replay_main w args =
     (let dry_run = ''--dry-run'' \<in> set args in
      case parse_max_retries args of
        Inl code \<Rightarrow> ret code
      | Inr max_retries \<Rightarrow>
          if ''--list'' \<in> set args then bnd (or_default (dead_load w)) (\<lambda>_. ret 0)
          else if ''--all'' \<in> set args then replay_all w dry_run max_retries
          else (case flag_value ''--match-id'' args of
              Some (Some id_str) \<Rightarrow> (case parse_unsigned (2 ^ 64 - 1) id_str of
                  Some match_id \<Rightarrow> replay_one w dry_run max_retries match_id
                | None \<Rightarrow> ret 1)
            | _ \<Rightarrow> ret 1))"

section \<open>Effects on the stores\<close>

definition queued :: "service \<Rightarrow> pending_entry list option" where
  "queued s = held [] (queue_file s)"

definition dead_letters :: "service \<Rightarrow> dead_letter_entry list option" where
  "dead_letters s = held [] (dead_file s)"

lemma queued_update [simp]:
  "queued (s\<lparr>steps := n\<rparr>) = queued s" "queued (s\<lparr>dead_file := d\<rparr>) = queued s" "queued (s\<lparr>log_file := l\<rparr>) = queued s"
  "queued (s\<lparr>cursor_file := c\<rparr>) = queued s" "queued (s\<lparr>queue_depth := k\<rparr>) = queued s"
  "queued (s\<lparr>dead_letter_count := k\<rparr>) = queued s" "queued (s\<lparr>confirmed := a\<rparr>) = queued s"
  "queued (s\<lparr>backoff_until := b\<rparr>) = queued s" "queued (s\<lparr>result_cache := r\<rparr>) = queued s"
  "queued (s\<lparr>queue_file := f\<rparr>) = held [] f"
  by (simp_all add: queued_def)

lemma dead_letters_update [simp]:
  "dead_letters (s\<lparr>steps := n\<rparr>) = dead_letters s" "dead_letters (s\<lparr>queue_file := d\<rparr>) = dead_letters s"
  "dead_letters (s\<lparr>log_file := l\<rparr>) = dead_letters s" "dead_letters (s\<lparr>cursor_file := c\<rparr>) = dead_letters s"
  "dead_letters (s\<lparr>queue_depth := k\<rparr>) = dead_letters s" "dead_letters (s\<lparr>dead_letter_count := k\<rparr>) = dead_letters s"
  "dead_letters (s\<lparr>confirmed := a\<rparr>) = dead_letters s" "dead_letters (s\<lparr>backoff_until := b\<rparr>) = dead_letters s"
  "dead_letters (s\<lparr>result_cache := r\<rparr>) = dead_letters s" "dead_letters (s\<lparr>dead_file := f\<rparr>) = held [] f"
  by (simp_all add: dead_letters_def)

text \<open>A store is read: the value it holds is returned. It is written: it holds the new value, or the
  old one if the disk is faulty.\<close>

lemma wp_try_call [wp_simps]: "wp (try_call m) Q E T s = wp m (\<lambda>x. Q (Inr x)) (\<lambda>e. Q (Inl e)) T s"
  by (simp add: wp_def try_call_def split: prod.splits outcome.splits)

lemma wp_or_default [wp_simps]: "wp (or_default m) Q E T s = wp m Q (\<lambda>_. Q []) T s"
  by (simp add: or_default_def wp_simps wp_fun)

lemma frame_try_call [frame_rules]: "frame f m \<Longrightarrow> frame f (try_call m)"
  by (simp add: frame_def try_call_def split: prod.split outcome.split) (metis snd_conv)

lemma frame_or_default [frame_rules]: "frame f m \<Longrightarrow> frame f (or_default m)"
  by (simp add: or_default_def frame_rules)

lemma wp_queue_load:
  assumes "\<And>es n. queued s = Some es \<Longrightarrow> Q es (s\<lparr>steps := n\<rparr>)"
    and "\<And>e n. \<not> faultless w \<or> queued s = None \<Longrightarrow> E e (s\<lparr>steps := n\<rparr>)"
  shows "wp (queue_load w) Q E T s"
  unfolding queue_load_def using assms by (intro queue_store.wp_load) (auto simp: queued_def)

lemma wp_queue_save:
  assumes "\<And>f n. held [] f = Some es \<Longrightarrow> Q () (s\<lparr>queue_file := f, steps := n\<rparr>)"
    and "\<And>e f n. \<not> faultless w \<Longrightarrow> held [] f = queued s \<Longrightarrow> E e (s\<lparr>queue_file := f, steps := n\<rparr>)"
  shows "wp (queue_save w es) Q E T s"
  unfolding queue_save_def by (rule queue_store.wp_save) (simp_all add: assms queued_def held_def)

lemma wp_dead_load:
  assumes "\<And>es n. dead_letters s = Some es \<Longrightarrow> Q es (s\<lparr>steps := n\<rparr>)"
    and "\<And>e n. \<not> faultless w \<or> dead_letters s = None \<Longrightarrow> E e (s\<lparr>steps := n\<rparr>)"
  shows "wp (dead_load w) Q E T s"
  unfolding dead_load_def using assms by (intro dead_store.wp_load) (auto simp: dead_letters_def)

lemma wp_dead_save:
  assumes "\<And>f n. held [] f = Some es \<Longrightarrow> Q () (s\<lparr>dead_file := f, steps := n\<rparr>)"
    and "\<And>e f n. \<not> faultless w \<Longrightarrow> held [] f = dead_letters s \<Longrightarrow> E e (s\<lparr>dead_file := f, steps := n\<rparr>)"
  shows "wp (dead_save w es) Q E T s"
  unfolding dead_save_def by (rule dead_store.wp_save) (simp_all add: assms dead_letters_def held_def)

lemma wp_utc_now [wp_simps]: "wp (utc_now w) Q E T s = Q (clock w (steps s)) (s\<lparr>steps := Suc (steps s)\<rparr>)"
  by (simp add: utc_now_def wp_simps)

text \<open>The rules for a whole method: \<open>ok\<close> describes the store after success, \<open>failed\<close> says
  that a fault leaves it alone.\<close>

lemma wp_queue_save_after:
  assumes ok: "\<And>f n. held [] f = Some es \<Longrightarrow> Q () (s\<lparr>queue_file := f, steps := n\<rparr>)"
    and failed: "\<And>e f n. \<not> faultless w \<or> queued s = None \<Longrightarrow> held [] f = queued s \<Longrightarrow> E e (s\<lparr>queue_file := f, steps := n\<rparr>)"
  shows "wp (queue_save w es) Q E T (s\<lparr>steps := k\<rparr>)"
proof (rule wp_queue_save)
  fix f n
  assume "held [] f = Some es"
  from ok [OF this] show "Q () (s\<lparr>steps := k, queue_file := f, steps := n\<rparr>)" by simp
next
  fix e f n
  assume "\<not> faultless w" "held [] f = queued (s\<lparr>steps := k\<rparr>)"
  then show "E e (s\<lparr>steps := k, queue_file := f, steps := n\<rparr>)" using failed [of f] by simp
qed

lemma queue_unchanged:
  assumes "\<And>f. held [] f = queued s \<Longrightarrow> P (s\<lparr>queue_file := f, steps := n\<rparr>)"
  shows "P (s\<lparr>steps := n\<rparr>)"
proof -
  have "P (s\<lparr>queue_file := queue_file s, steps := n\<rparr>)" by (rule assms) (simp add: queued_def)
  then show ?thesis by simp
qed

lemma wp_queue_remove:
  assumes ok: "\<And>es f n. queued s = Some es \<Longrightarrow> held [] f = Some (filter (\<lambda>e. pe_match_id e \<noteq> match_id) es) \<Longrightarrow>
      Q () (s\<lparr>queue_file := f, steps := n\<rparr>)"
    and failed: "\<And>e f n. \<not> faultless w \<or> queued s = None \<Longrightarrow> held [] f = queued s \<Longrightarrow> E e (s\<lparr>queue_file := f, steps := n\<rparr>)"
  shows "wp (queue_remove w match_id) Q E T s"
  unfolding queue_remove_def wp_bnd
proof (rule wp_queue_load)
  fix es n
  assume "queued s = Some es"
  from ok [OF this] failed show "wp (queue_save w (filter (\<lambda>e. pe_match_id e \<noteq> match_id) es)) Q E T (s\<lparr>steps := n\<rparr>)"
    by (rule wp_queue_save_after)
next
  fix e n
  assume "\<not> faultless w \<or> queued s = None"
  from failed [OF this] show "E e (s\<lparr>steps := n\<rparr>)" by (rule queue_unchanged)
qed

lemma replace_first_absent: "\<not> list_ex (\<lambda>e. pe_match_id e = pe_match_id updated) es \<Longrightarrow> replace_first es updated = es"
  by (induction es) auto

lemma wp_update_entry:
  assumes ok: "\<And>es f n. queued s = Some es \<Longrightarrow> held [] f = Some (replace_first es updated) \<Longrightarrow>
      Q () (s\<lparr>queue_file := f, steps := n\<rparr>)"
    and failed: "\<And>e f n. \<not> faultless w \<or> queued s = None \<Longrightarrow> held [] f = queued s \<Longrightarrow> E e (s\<lparr>queue_file := f, steps := n\<rparr>)"
  shows "wp (update_entry w updated) Q E T s"
  unfolding update_entry_def wp_bnd
proof (rule wp_queue_load)
  fix es n
  assume es: "queued s = Some es"
  show "wp (only_if (list_ex (\<lambda>e. pe_match_id e = pe_match_id updated) es) (queue_save w (replace_first es updated)))
      Q E T (s\<lparr>steps := n\<rparr>)"
    unfolding wp_only_if
  proof (intro conjI impI)
    from ok [OF es] failed show "wp (queue_save w (replace_first es updated)) Q E T (s\<lparr>steps := n\<rparr>)"
      by (rule wp_queue_save_after)
    assume "\<not> list_ex (\<lambda>e. pe_match_id e = pe_match_id updated) es"
    then have "Q () (s\<lparr>queue_file := f, steps := n\<rparr>)" if "held [] f = queued s" for f
      using that es by (intro ok [OF es]) (simp add: replace_first_absent)
    then show "Q () (s\<lparr>steps := n\<rparr>)" by (rule queue_unchanged)
  qed
next
  fix e n
  assume "\<not> faultless w \<or> queued s = None"
  from failed [OF this] show "E e (s\<lparr>steps := n\<rparr>)" by (rule queue_unchanged)
qed

definition fresh :: "nat \<Rightarrow> string \<Rightarrow> platform_sv \<Rightarrow> nat \<Rightarrow> pending_entry" where
  "fresh match_id game_id platform now = \<lparr>pe_match_id = match_id, pe_game_id = game_id, pe_platform = platform,
     pe_attempts = 0, pe_next_attempt_at = now, pe_enqueued_at = now, pe_last_error = None\<rparr>"

lemma wp_queue_enqueue:
  assumes added: "\<And>es f n t. queued s = Some es \<Longrightarrow> match_id \<notin> pe_match_id ` set es \<Longrightarrow>
      held [] f = Some (es @ [fresh match_id game_id platform t]) \<Longrightarrow> Q True (s\<lparr>queue_file := f, steps := n\<rparr>)"
    and present: "\<And>es n. queued s = Some es \<Longrightarrow> match_id \<in> pe_match_id ` set es \<Longrightarrow> Q False (s\<lparr>steps := n\<rparr>)"
    and failed: "\<And>e f n. \<not> faultless w \<or> queued s = None \<Longrightarrow> held [] f = queued s \<Longrightarrow> E e (s\<lparr>queue_file := f, steps := n\<rparr>)"
  shows "wp (queue_enqueue w match_id game_id platform) Q E T s"
  unfolding queue_enqueue_def wp_bnd
proof (rule wp_queue_load)
  fix es n
  assume es: "queued s = Some es"
  have "wp (queue_save w (es @ [fresh match_id game_id platform t])) (\<lambda>_. Q True) E T (s\<lparr>steps := k\<rparr>)"
    if "match_id \<notin> pe_match_id ` set es" for t k
    using added [OF es that] failed by (rule wp_queue_save_after)
  then show "wp (if list_ex (\<lambda>e. pe_match_id e = match_id) es then ret False
      else bnd (new_entry w match_id game_id platform) (\<lambda>entry. bnd (queue_save w (es @ [entry])) (\<lambda>_. ret True)))
      Q E T (s\<lparr>steps := n\<rparr>)"
    using present [OF es] by (auto simp: wp_simps wp_fun new_entry_def fresh_def list_ex_iff image_iff)
next
  fix e n
  assume "\<not> faultless w \<or> queued s = None"
  from failed [OF this] show "E e (s\<lparr>steps := n\<rparr>)" by (rule queue_unchanged)
qed

definition dead_letter :: "pending_entry \<Rightarrow> nat \<Rightarrow> dead_letter_entry" where
  "dead_letter entry now = \<lparr>dl_entry = entry, dl_dead_lettered_at = now, dl_total_attempts = pe_attempts entry\<rparr>"

abbreviation dead_id :: "dead_letter_entry \<Rightarrow> nat" where
  "dead_id d \<equiv> pe_match_id (dl_entry d)"

lemma wp_dead_save_after:
  assumes ok: "\<And>f n. held [] f = Some ds \<Longrightarrow> Q () (s\<lparr>dead_file := f, steps := n\<rparr>)"
    and failed: "\<And>e f n. \<not> faultless w \<or> dead_letters s = None \<Longrightarrow> held [] f = dead_letters s \<Longrightarrow>
      E e (s\<lparr>dead_file := f, steps := n\<rparr>)"
  shows "wp (dead_save w ds) Q E T (s\<lparr>steps := k\<rparr>)"
proof (rule wp_dead_save)
  fix f n
  assume "held [] f = Some ds"
  from ok [OF this] show "Q () (s\<lparr>steps := k, dead_file := f, steps := n\<rparr>)" by simp
next
  fix e f n
  assume "\<not> faultless w" "held [] f = dead_letters (s\<lparr>steps := k\<rparr>)"
  then show "E e (s\<lparr>steps := k, dead_file := f, steps := n\<rparr>)" using failed [of f] by simp
qed

lemma dead_unchanged:
  assumes "\<And>f. held [] f = dead_letters s \<Longrightarrow> P (s\<lparr>dead_file := f, steps := n\<rparr>)"
  shows "P (s\<lparr>steps := n\<rparr>)"
proof -
  have "P (s\<lparr>dead_file := dead_file s, steps := n\<rparr>)" by (rule assms) (simp add: dead_letters_def)
  then show ?thesis by simp
qed

lemma wp_dead_push:
  assumes pushed: "\<And>ds f n k t. dead_letters s = Some ds \<Longrightarrow> pe_match_id entry \<notin> dead_id ` set ds \<Longrightarrow>
      held [] f = Some (ds @ [dead_letter entry t]) \<Longrightarrow> Q () (s\<lparr>dead_file := f, steps := n, dead_letter_count := k\<rparr>)"
    and present: "\<And>ds n. dead_letters s = Some ds \<Longrightarrow> pe_match_id entry \<in> dead_id ` set ds \<Longrightarrow> Q () (s\<lparr>steps := n\<rparr>)"
    and failed: "\<And>e f n. \<not> faultless w \<or> dead_letters s = None \<Longrightarrow> held [] f = dead_letters s \<Longrightarrow>
      E e (s\<lparr>dead_file := f, steps := n\<rparr>)"
  shows "wp (dead_push w entry) Q E T s"
  unfolding dead_push_def wp_bnd wp_utc_now wp_let Let_def
proof (rule wp_dead_load)
  fix ds n
  assume "dead_letters (s\<lparr>steps := Suc (steps s)\<rparr>) = Some ds"
  then have ds: "dead_letters s = Some ds" by simp
  let ?dl = "dead_letter entry (clock w (steps s))"
  let ?new = "\<lparr>dl_entry = entry, dl_dead_lettered_at = clock w (steps s), dl_total_attempts = pe_attempts entry\<rparr>"
  let ?count = "modify (\<lambda>s. s\<lparr>dead_letter_count := length (ds @ [?dl])\<rparr>)"
  have save: "wp (dead_save w (ds @ [?dl])) (\<lambda>_. wp ?count Q E T) E T (s\<lparr>steps := k\<rparr>)"
    if "pe_match_id entry \<notin> dead_id ` set ds" for k
  proof -
    have "wp ?count Q E T (s\<lparr>dead_file := f, steps := n\<rparr>)" if "held [] f = Some (ds @ [?dl])" for f n
      using pushed [OF ds \<open>pe_match_id entry \<notin> dead_id ` set ds\<close> that] by (simp add: wp_simps)
    from this failed show ?thesis by (rule wp_dead_save_after)
  qed
  have listed: "list_ex (\<lambda>e. dead_id e = pe_match_id entry) ds \<longleftrightarrow> pe_match_id entry \<in> dead_id ` set ds"
    by (auto simp: list_ex_iff image_iff eq_commute [of "pe_match_id entry"])
  show "wp (if list_ex (\<lambda>e. dead_id e = pe_match_id entry) ds then ret ()
      else seqs [dead_save w (ds @ [?new]), modify (\<lambda>s. s\<lparr>dead_letter_count := length (ds @ [?new])\<rparr>)])
      Q E T (s\<lparr>steps := Suc (steps s), steps := n\<rparr>)"
    using save [of n] present [OF ds, of n] listed by (simp add: wp_simps wp_fun dead_letter_def)
next
  fix e n
  assume "\<not> faultless w \<or> dead_letters (s\<lparr>steps := Suc (steps s)\<rparr>) = None"
  then have "\<not> faultless w \<or> dead_letters s = None" by simp
  from failed [OF this] have "E e (s\<lparr>steps := n\<rparr>)" by (rule dead_unchanged)
  then show "E e (s\<lparr>steps := Suc (steps s), steps := n\<rparr>)" by simp
qed

lemma wp_dead_remove:
  assumes ok: "\<And>ds f n k. dead_letters s = Some ds \<Longrightarrow> held [] f = Some (filter (\<lambda>e. dead_id e \<noteq> match_id) ds) \<Longrightarrow>
      Q () (s\<lparr>dead_file := f, steps := n, dead_letter_count := k\<rparr>)"
    and failed: "\<And>e f n. \<not> faultless w \<or> dead_letters s = None \<Longrightarrow> held [] f = dead_letters s \<Longrightarrow>
      E e (s\<lparr>dead_file := f, steps := n\<rparr>)"
  shows "wp (dead_remove w match_id) Q E T s"
  unfolding dead_remove_def wp_bnd Let_def
proof (rule wp_dead_load)
  fix ds n
  assume ds: "dead_letters s = Some ds"
  let ?kept = "filter (\<lambda>e. dead_id e \<noteq> match_id) ds"
  have "wp (modify (\<lambda>s. s\<lparr>dead_letter_count := length ?kept\<rparr>)) Q E T (s\<lparr>dead_file := f, steps := m\<rparr>)"
    if "held [] f = Some ?kept" for f m
    using ok [OF ds that] by (simp add: wp_simps)
  from this failed have "wp (dead_save w ?kept) (\<lambda>_. wp (modify (\<lambda>s. s\<lparr>dead_letter_count := length ?kept\<rparr>)) Q E T) E T (s\<lparr>steps := n\<rparr>)"
    by (rule wp_dead_save_after)
  then show "wp (seqs [dead_save w ?kept, modify (\<lambda>s. s\<lparr>dead_letter_count := length ?kept\<rparr>)]) Q E T (s\<lparr>steps := n\<rparr>)"
    by (simp add: wp_simps wp_fun)
next
  fix e n
  assume "\<not> faultless w \<or> dead_letters s = None"
  from failed [OF this] show "E e (s\<lparr>steps := n\<rparr>)" by (rule dead_unchanged)
qed

section \<open>Replaying\<close>

text \<open>A successful replay of one dead letter moves it from the one store to the other.\<close>

lemma wp_replay_entry:
  assumes "faultless w" "queued s = Some es" "dead_letters s = Some ds" "dead_id dl \<notin> pe_match_id ` set es"
  shows "wp (replay_entry w False None dl) (\<lambda>r s'. r = Succeeded
      \<and> (\<exists>t. queued s' = Some (es @ [fresh (dead_id dl) (pe_game_id (dl_entry dl)) (pe_platform (dl_entry dl)) t]))
      \<and> dead_letters s' = Some (filter (\<lambda>e. dead_id e \<noteq> dead_id dl) ds)) E T s"
proof -
  let ?Q = "\<lambda>r s'. r = Succeeded
      \<and> (\<exists>t. queued s' = Some (es @ [fresh (dead_id dl) (pe_game_id (dl_entry dl)) (pe_platform (dl_entry dl)) t]))
      \<and> dead_letters s' = Some (filter (\<lambda>e. dead_id e \<noteq> dead_id dl) ds)"
  have "wp (dead_remove w (dead_id dl)) (\<lambda>_. ?Q Succeeded) (\<lambda>_. ?Q Succeeded) T s'"
    if "dead_letters s' = Some ds"
      "queued s' = Some (es @ [fresh (dead_id dl) (pe_game_id (dl_entry dl)) (pe_platform (dl_entry dl)) t])" for s' t
    using that assms(1) by (intro wp_dead_remove) auto
  then show ?thesis
    using assms by (simp add: replay_entry_def Let_def wp_simps wp_fun) (rule wp_queue_enqueue, auto simp: wp_simps wp_fun)
qed

lemma wp_replay_entries:
  assumes "faultless w" "queued s = Some es" "dead_letters s = Some ds"
    and "distinct (map dead_id dls)" "dead_id ` set dls \<inter> pe_match_id ` set es = {}"
  shows "wp (collect (replay_entry w False None) dls) (\<lambda>rs s'. set rs \<subseteq> {Succeeded}
      \<and> (\<exists>es'. queued s' = Some es' \<and> pe_match_id ` set es' = pe_match_id ` set es \<union> dead_id ` set dls)
      \<and> dead_letters s' = Some (filter (\<lambda>e. dead_id e \<notin> dead_id ` set dls) ds)) E T s"
  using assms(2-5)
proof (induction dls arbitrary: s es ds)
  case Nil
  then show ?case by (simp add: wp_simps)
next
  case (Cons dl dls)
  have "wp (replay_entry w False None dl) (\<lambda>r s'. r = Succeeded
      \<and> (\<exists>t. queued s' = Some (es @ [fresh (dead_id dl) (pe_game_id (dl_entry dl)) (pe_platform (dl_entry dl)) t]))
      \<and> dead_letters s' = Some (filter (\<lambda>e. dead_id e \<noteq> dead_id dl) ds)) E T s"
    using Cons.prems by (intro wp_replay_entry assms(1)) auto
  then show ?case
    unfolding collect.simps wp_bnd
  proof (rule wp_mono)
    fix r s'
    assume "r = Succeeded
      \<and> (\<exists>t. queued s' = Some (es @ [fresh (dead_id dl) (pe_game_id (dl_entry dl)) (pe_platform (dl_entry dl)) t]))
      \<and> dead_letters s' = Some (filter (\<lambda>e. dead_id e \<noteq> dead_id dl) ds)"
    then obtain t where moved: "r = Succeeded" "dead_letters s' = Some (filter (\<lambda>e. dead_id e \<noteq> dead_id dl) ds)"
      "queued s' = Some (es @ [fresh (dead_id dl) (pe_game_id (dl_entry dl)) (pe_platform (dl_entry dl)) t])" by blast
    show "wp (collect (replay_entry w False None) dls) (\<lambda>a. wp (ret (r # a)) (\<lambda>rs s'. set rs \<subseteq> {Succeeded}
      \<and> (\<exists>es'. queued s' = Some es' \<and> pe_match_id ` set es' = pe_match_id ` set es \<union> dead_id ` set (dl # dls))
      \<and> dead_letters s' = Some (filter (\<lambda>e. dead_id e \<notin> dead_id ` set (dl # dls)) ds)) E T) E T s'"
      by (rule wp_mono [OF Cons.IH [OF moved(3,2)]])
        (use Cons.prems(3,4) in \<open>auto simp: moved(1) fresh_def wp_simps intro!: filter_cong\<close>)
  qed
qed

text \<open>C36. Replaying everything empties the dead-letter store into the queue: on a working disk, without a
  dry run or a limit, and if none of the matches is queued already, the tool succeeds, every dead letter
  is queued, and the store is empty.\<close>

theorem replay_all_moves_everything:
  assumes "faultless w" "queued s = Some es" "dead_letters s = Some ds"
    and "distinct (map dead_id ds)" "dead_id ` set ds \<inter> pe_match_id ` set es = {}"
  shows "\<exists>s' es'. replay_main w [''--all''] s = (Ok 0, s') \<and> dead_letters s' = Some []
    \<and> queued s' = Some es' \<and> pe_match_id ` set es' = pe_match_id ` set es \<union> dead_id ` set ds"
proof -
  let ?Q = "\<lambda>(code :: nat) s'. code = 0 \<and> dead_letters s' = Some []
      \<and> (\<exists>es'. queued s' = Some es' \<and> pe_match_id ` set es' = pe_match_id ` set es \<union> dead_id ` set ds)"
  have "wp (replay_all w False None) ?Q (\<lambda>_ _. False) False s"
    unfolding replay_all_def wp_bnd wp_or_default
  proof (rule wp_dead_load)
    fix ds' n
    assume "dead_letters s = Some ds'"
    then have "ds' = ds" using assms(3) by simp
    have "queued (s\<lparr>steps := n\<rparr>) = Some es" "dead_letters (s\<lparr>steps := n\<rparr>) = Some ds" using assms(2,3) by simp_all
    from wp_replay_entries [OF assms(1) this assms(4,5)]
    show "wp (collect (replay_entry w False None) ds') (\<lambda>rs. wp (ret (if Failed \<in> set rs then 1 else 0)) ?Q (\<lambda>_ _. False) False)
        (\<lambda>_ _. False) False (s\<lparr>steps := n\<rparr>)"
      unfolding \<open>ds' = ds\<close> by (rule wp_mono) (auto simp: filter_empty_conv wp_simps)
  qed (use assms(1,3) in simp)
  from wp_total [OF this] show ?thesis
    by (simp add: replay_main_def parse_max_retries_def)
qed

section \<open>A sample\<close>

text \<open>A disk that works, on which the clock shows the number of the step, and a service with one queued match
  and one dead letter.\<close>

definition sample_disk :: disk where
  "sample_disk = \<lparr>clock = (\<lambda>n. 100 + n), read_failure = (\<lambda>_. None), write_failure = (\<lambda>_. None), remove_failure = (\<lambda>_. None)\<rparr>"

definition on_disk :: "'a \<Rightarrow> 'a disk_file" where
  "on_disk x = \<lparr>main_file = Contents x, tmp_file = Absent\<rparr>"

definition sample_service :: service where
  "sample_service = \<lparr>steps = 0, queue_file = on_disk [fresh 7 ''abcd1234'' Lichess_sv 5],
     dead_file = on_disk [dead_letter (fresh 9 ''7654321'' ChessDotCom_sv 1) 50],
     cursor_file = \<lparr>main_file = Absent, tmp_file = Absent\<rparr>, log_file = on_disk [], backoff_until = (\<lambda>_. None),
     result_cache = (\<lambda>_. None), confirmed = [], queue_depth = 0, dead_letter_count = 0\<rparr>"

lemma sample_stores:
  "queued sample_service = Some [fresh 7 ''abcd1234'' Lichess_sv 5]"
  "dead_letters sample_service = Some [dead_letter (fresh 9 ''7654321'' ChessDotCom_sv 1) 50]"
  by (simp_all add: queued_def dead_letters_def held_def sample_service_def on_disk_def)

theorem replay_all_moves_everything_witness:
  "\<exists>s' es'. replay_main sample_disk [''--all''] sample_service = (Ok 0, s') \<and> dead_letters s' = Some []
    \<and> queued s' = Some es' \<and> pe_match_id ` set es' = {7, 9}"
  using replay_all_moves_everything [OF _ sample_stores, of sample_disk]
  by (simp add: faultless_def sample_disk_def fresh_def dead_letter_def insert_commute)

end
