(* ===== verification/Service_Poller.thy ===== *)
theory Service_Poller
  imports Service_Queue
begin

text \<open>
  The pipeline poller of the oracle service (oracle-service/src/poller.rs) with the result cache
  (result_cache.rs): reconciliation, which discovers matches and puts them into the queue, and the tick, which
  fetches results, submits them and retries or gives up on failures.

  The record \<open>world\<close> adds to the disk what the poller calls and this repository does not
  contain: the clients of the two chess platforms and of the Soroban network as the answers they give, the
  \<^verbatim>\<open>put\<close> of the lru crate, which may drop other entries, and the functions
  \<^verbatim>\<open>validate_lichess_game_id\<close>, \<^verbatim>\<open>validate_chess_com_game_id\<close>,
  \<^verbatim>\<open>classify_lichess_error\<close>, \<^verbatim>\<open>classify_lichess_error_ref\<close> and
  \<^verbatim>\<open>classify_chess_com_error\<close>, which the poller imports and no module defines. The file
  defines \<^verbatim>\<open>process_lichess_batch\<close> twice; the model has the second definition, whose type fits
  the call in \<^verbatim>\<open>tick\<close>. Log lines and spans are left out.
\<close>

section \<open>Clients\<close>

datatype lichess_error =
    LiInvalidGameId | LiHttp string | LiTimeout | LiRateLimited nat | LiConcurrencyLimitReached
  | LiHttpStatus nat | LiGameNotFound | LiGameNotFinished | LiInvalidResponse

datatype chess_com_error =
    CcInvalidGameId | CcHttp string | CcTimeout | CcRateLimited nat | CcConcurrencyLimitReached
  | CcHttpStatus nat | CcGameNotFound | CcInvalidResponse | CcGameNotFinished

datatype fetch_error = Permanent string | Transient string

record active_match =
  am_match_id :: nat
  am_game_id :: string
  am_platform :: platform_sv

record world = disk +
  submit_result_rpc :: "nat \<Rightarrow> nat \<Rightarrow> winner_oc \<Rightarrow> service_error + string"
  active_matches_rpc :: "nat \<Rightarrow> nat \<Rightarrow> nat \<Rightarrow> service_error + active_match list"
  has_result_rpc :: "nat \<Rightarrow> nat \<Rightarrow> service_error + bool"
  lichess_fetch :: "nat \<Rightarrow> string \<Rightarrow> lichess_error + winner_oc"
  lichess_fetch_batch :: "nat \<Rightarrow> string list \<Rightarrow> lichess_error + (string \<Rightarrow> (lichess_error + winner_oc) option)"
  chess_com_fetch :: "nat \<Rightarrow> string \<Rightarrow> chess_com_error + winner_oc"
  lru_put :: "string \<times> string \<Rightarrow> winner_oc \<times> nat \<Rightarrow> (string \<times> string \<Rightarrow> (winner_oc \<times> nat) option) \<Rightarrow>
    (string \<times> string \<Rightarrow> (winner_oc \<times> nat) option)"
  validate_lichess_game_id :: "string \<Rightarrow> string option"
  validate_chess_com_game_id :: "string \<Rightarrow> string option"
  classify_lichess_error :: "lichess_error \<Rightarrow> fetch_error"
  classify_lichess_error_ref :: "lichess_error \<Rightarrow> fetch_error"
  classify_chess_com_error :: "chess_com_error \<Rightarrow> fetch_error"
  display_lichess_error :: "lichess_error \<Rightarrow> string"

record poller_config =
  max_retries :: nat
  retry_base_delay_secs :: nat

definition DEFAULT_RATE_LIMIT_BACKOFF :: nat where "DEFAULT_RATE_LIMIT_BACKOFF = 60"

text \<open>\<^verbatim>\<open>if let Err(e) = m { error!(..) }\<close>\<close>

definition ignore_err :: "'a sact \<Rightarrow> unit sact" where
  "ignore_err m = bnd (catch_err m) (\<lambda>_. ret ())"

section \<open>Result cache\<close>

definition DEFAULT_CACHE_TTL_SECS_sv :: nat where "DEFAULT_CACHE_TTL_SECS_sv = 60"

definition cache_key :: "platform_sv \<Rightarrow> string \<Rightarrow> string \<times> string" where
  "cache_key platform game_id =
     ((case platform of Lichess_sv \<Rightarrow> ''lichess'' | ChessDotCom_sv \<Rightarrow> ''chess.com''), game_id)"

definition cache_get :: "world \<Rightarrow> platform_sv \<Rightarrow> string \<Rightarrow> winner_oc option sact" where
  "cache_get w platform game_id = bnd (gets (\<lambda>s. result_cache s (cache_key platform game_id))) (\<lambda>e. case e of
     None \<Rightarrow> ret None
   | Some (winner, expires_at) \<Rightarrow> bnd (utc_now w) (\<lambda>now.
       if now \<ge> expires_at then
         bnd (modify (\<lambda>s. s\<lparr>result_cache := (result_cache s)(cache_key platform game_id := None)\<rparr>)) (\<lambda>_. ret None)
       else ret (Some winner)))"

definition cache_insert :: "world \<Rightarrow> platform_sv \<Rightarrow> string \<Rightarrow> winner_oc \<Rightarrow> unit sact" where
  "cache_insert w platform game_id winner = bnd (utc_now w) (\<lambda>now.
     modify (\<lambda>s. s\<lparr>result_cache :=
       lru_put w (cache_key platform game_id) (winner, now + DEFAULT_CACHE_TTL_SECS_sv) (result_cache s)\<rparr>))"

section \<open>Game identifiers\<close>

definition validate_game_id_sv :: "world \<Rightarrow> platform_sv \<Rightarrow> string \<Rightarrow> string option" where
  "validate_game_id_sv w platform game_id =
     (let len = length game_id in
      if len = 0 then Some ''game_id is empty''
      else if len > 64 then Some (''game_id is too long ('' @ show_nat len @ '' bytes, max 64)'')
      else case platform of
        Lichess_sv \<Rightarrow> validate_lichess_game_id w game_id
      | ChessDotCom_sv \<Rightarrow> validate_chess_com_game_id w game_id)"

section \<open>Giving up, retrying, submitting\<close>

definition exhaust_entry :: "world \<Rightarrow> pending_entry \<Rightarrow> unit sact" where
  "exhaust_entry w entry = seqs [ignore_err (dead_push w entry), ignore_err (queue_remove w (pe_match_id entry))]"

definition handle_transient :: "world \<Rightarrow> poller_config \<Rightarrow> pending_entry \<Rightarrow> string \<Rightarrow> unit sact" where
  "handle_transient w c entry reason =
     bnd (record_failure w entry reason (retry_base_delay_secs c) (max_retries c)) (\<lambda>(entry, exhausted).
     if exhausted then exhaust_entry w entry else ignore_err (update_entry w entry))"

definition dead_letter_now :: "world \<Rightarrow> poller_config \<Rightarrow> pending_entry \<Rightarrow> string \<Rightarrow> unit sact" where
  "dead_letter_now w c entry reason =
     exhaust_entry w (entry\<lparr>pe_last_error := Some reason, pe_attempts := max_retries c\<rparr>)"

definition submit_and_complete :: "world \<Rightarrow> poller_config \<Rightarrow> pending_entry \<Rightarrow> winner_oc \<Rightarrow> unit sact" where
  "submit_and_complete w c entry winner =
     (let match_id = pe_match_id entry in
      bnd (interact (\<lambda>n. submit_result_rpc w n match_id winner)) (\<lambda>r. case r of
        Inr tx_hash \<Rightarrow> seqs [
          modify (\<lambda>s. s\<lparr>confirmed := confirmed s @ [(match_id, winner)]\<rparr>),
          bnd (catch_err (queue_remove w match_id)) (\<lambda>e. only_if (e = None)
            (ignore_err (bnd (queue_load w) (\<lambda>entries. modify (\<lambda>s. s\<lparr>queue_depth := length entries\<rparr>))))),
          bnd (utc_now w) (\<lambda>now. ignore_err (log_append w
            (new_record match_id (pe_game_id entry) (pe_platform entry) winner now tx_hash)))]
      | Inl e \<Rightarrow> handle_transient w c entry (display_error e)))"

definition handle_fetch_outcome ::
  "world \<Rightarrow> poller_config \<Rightarrow> pending_entry \<Rightarrow> fetch_error + winner_oc \<Rightarrow> unit sact" where
  "handle_fetch_outcome w c entry winner_result = (case winner_result of
     Inr winner \<Rightarrow> seqs [cache_insert w (pe_platform entry) (pe_game_id entry) winner,
                         submit_and_complete w c entry winner]
   | Inl (Permanent reason) \<Rightarrow> dead_letter_now w c entry reason
   | Inl (Transient reason) \<Rightarrow> handle_transient w c entry reason)"

section \<open>Back-pressure\<close>

definition back_off :: "world \<Rightarrow> platform_sv \<Rightarrow> nat \<Rightarrow> unit sact" where
  "back_off w platform retry_after = bnd (utc_now w) (\<lambda>now.
     modify (\<lambda>s. s\<lparr>backoff_until := (backoff_until s)(platform := Some (now + retry_after))\<rparr>))"

definition skip_if_backing_off :: "world \<Rightarrow> platform_sv \<Rightarrow> bool sact" where
  "skip_if_backing_off w platform = bnd (gets (\<lambda>s. backoff_until s platform)) (\<lambda>until. case until of
     None \<Rightarrow> ret False
   | Some t \<Rightarrow> bnd (utc_now w) (\<lambda>now.
       if t \<ge> now then ret True
       else bnd (modify (\<lambda>s. s\<lparr>backoff_until := (backoff_until s)(platform := None)\<rparr>)) (\<lambda>_. ret False)))"

section \<open>Processing entries\<close>

definition fetch_lichess :: "world \<Rightarrow> poller_config \<Rightarrow> pending_entry \<Rightarrow> unit sact" where
  "fetch_lichess w c entry = bnd (interact (\<lambda>n. lichess_fetch w n (pe_game_id entry))) (\<lambda>r. case r of
     Inl (LiRateLimited retry_after) \<Rightarrow> back_off w Lichess_sv retry_after
   | Inl e \<Rightarrow> handle_fetch_outcome w c entry (Inl (classify_lichess_error w e))
   | Inr winner \<Rightarrow> handle_fetch_outcome w c entry (Inr winner))"

definition fetch_chess_com :: "world \<Rightarrow> poller_config \<Rightarrow> pending_entry \<Rightarrow> unit sact" where
  "fetch_chess_com w c entry = bnd (interact (\<lambda>n. chess_com_fetch w n (pe_game_id entry))) (\<lambda>r. case r of
     Inl (CcRateLimited retry_after) \<Rightarrow> back_off w ChessDotCom_sv retry_after
   | Inl e \<Rightarrow>
       if e = CcHttpStatus 429 then back_off w ChessDotCom_sv DEFAULT_RATE_LIMIT_BACKOFF
       else handle_fetch_outcome w c entry (Inl (classify_chess_com_error w e))
   | Inr winner \<Rightarrow> handle_fetch_outcome w c entry (Inr winner))"

definition process_entry :: "world \<Rightarrow> poller_config \<Rightarrow> pending_entry \<Rightarrow> unit sact" where
  "process_entry w c entry = (case validate_game_id_sv w (pe_platform entry) (pe_game_id entry) of
     Some reason \<Rightarrow> dead_letter_now w c entry reason
   | None \<Rightarrow> bnd (cache_get w (pe_platform entry) (pe_game_id entry)) (\<lambda>cached. case cached of
       Some winner \<Rightarrow> submit_and_complete w c entry winner
     | None \<Rightarrow> (case pe_platform entry of
         Lichess_sv \<Rightarrow> fetch_lichess w c entry
       | ChessDotCom_sv \<Rightarrow> fetch_chess_com w c entry)))"

text \<open>A loop over entries that stops when the platform is backing off.\<close>

fun process_until_backoff :: "world \<Rightarrow> poller_config \<Rightarrow> pending_entry list \<Rightarrow> unit sact" where
  "process_until_backoff w c [] = ret ()"
| "process_until_backoff w c (entry # rest) = bnd (skip_if_backing_off w (pe_platform entry)) (\<lambda>skip.
     if skip then ret ()
     else bnd (process_entry w c entry) (\<lambda>_. process_until_backoff w c rest))"

text \<open>The first loop of \<^verbatim>\<open>process_lichess_batch\<close>: the entries that need a request.\<close>

fun lichess_pending :: "world \<Rightarrow> poller_config \<Rightarrow> pending_entry list \<Rightarrow> pending_entry list sact" where
  "lichess_pending w c [] = ret []"
| "lichess_pending w c (entry # rest) = (case validate_game_id_sv w (pe_platform entry) (pe_game_id entry) of
     Some reason \<Rightarrow> bnd (dead_letter_now w c entry reason) (\<lambda>_. lichess_pending w c rest)
   | None \<Rightarrow> bnd (cache_get w (pe_platform entry) (pe_game_id entry)) (\<lambda>cached. case cached of
       Some winner \<Rightarrow> bnd (submit_and_complete w c entry winner) (\<lambda>_. lichess_pending w c rest)
     | None \<Rightarrow> bnd (lichess_pending w c rest) (\<lambda>pending. ret (entry # pending))))"

definition batch_outcome :: "world \<Rightarrow> (string \<Rightarrow> (lichess_error + winner_oc) option) \<Rightarrow> string \<Rightarrow> fetch_error + winner_oc" where
  "batch_outcome w results game_id = (case results game_id of
     Some (Inr winner) \<Rightarrow> Inr winner
   | Some (Inl e) \<Rightarrow> Inl (classify_lichess_error_ref w e)
   | None \<Rightarrow> Inl (Transient ''missing from batch result''))"

definition process_lichess_batch :: "world \<Rightarrow> poller_config \<Rightarrow> pending_entry list \<Rightarrow> unit sact" where
  "process_lichess_batch w c entries = bnd (skip_if_backing_off w Lichess_sv) (\<lambda>skip.
     if skip then ret ()
     else bnd (lichess_pending w c entries) (\<lambda>pending.
       if pending = [] then ret ()
       else bnd (interact (\<lambda>n. lichess_fetch_batch w n (map pe_game_id pending))) (\<lambda>r. case r of
           Inr results \<Rightarrow> seqs (map (\<lambda>entry. handle_fetch_outcome w c entry (batch_outcome w results (pe_game_id entry))) pending)
         | Inl (LiRateLimited retry_after) \<Rightarrow> back_off w Lichess_sv retry_after
         | Inl e \<Rightarrow>
             if e = LiHttpStatus 404 \<or> e = LiHttpStatus 405 then process_until_backoff w c pending
             else seqs (map (\<lambda>entry. handle_transient w c entry (display_lichess_error w e)) pending))))"

section \<open>Ticks\<close>

definition tick :: "world \<Rightarrow> poller_config \<Rightarrow> unit sact" where
  "tick w c = bnd (due_entries w) (\<lambda>due. bnd (queue_load w) (\<lambda>entries.
     bnd (modify (\<lambda>s. s\<lparr>queue_depth := length entries\<rparr>)) (\<lambda>_.
     if due = [] then ret ()
     else let lichess = filter (\<lambda>e. pe_platform e = Lichess_sv) due;
              others = filter (\<lambda>e. pe_platform e \<noteq> Lichess_sv) due
       in seqs [only_if (lichess \<noteq> []) (process_lichess_batch w c lichess), process_until_backoff w c others])))"

fun process_chess_com :: "world \<Rightarrow> poller_config \<Rightarrow> nat \<Rightarrow> pending_entry list \<Rightarrow> nat sact" where
  "process_chess_com w c count [] = ret count"
| "process_chess_com w c count (entry # rest) = bnd (skip_if_backing_off w ChessDotCom_sv) (\<lambda>skip.
     if skip then ret count
     else bnd (process_entry w c entry) (\<lambda>_. process_chess_com w c (Suc count) rest))"

definition tick_chess_com :: "world \<Rightarrow> poller_config \<Rightarrow> nat sact" where
  "tick_chess_com w c = bnd (due_entries w) (\<lambda>due.
     process_chess_com w c 0 (filter (\<lambda>e. pe_platform e = ChessDotCom_sv) due))"

definition poller_enqueue :: "world \<Rightarrow> nat \<Rightarrow> string \<Rightarrow> platform_sv \<Rightarrow> bool sact" where
  "poller_enqueue w match_id game_id platform = bnd (queue_enqueue w match_id game_id platform) (\<lambda>added.
     bnd (only_if added (bnd (queue_load w) (\<lambda>entries. modify (\<lambda>s. s\<lparr>queue_depth := length entries\<rparr>)))) (\<lambda>_. ret added))"

section \<open>Reconciliation\<close>

definition PAGE_SIZE :: nat where "PAGE_SIZE = 50"

definition reconcile_match :: "world \<Rightarrow> nat set \<Rightarrow> active_match \<Rightarrow> unit sact" where
  "reconcile_match w dead_lettered_ids m = bnd (interact (\<lambda>n. has_result_rpc w n (am_match_id m))) (\<lambda>r. case r of
     Inl e \<Rightarrow> ret ()
   | Inr already_resolved \<Rightarrow>
       if already_resolved then ret ()
       else if am_match_id m \<in> dead_lettered_ids then ret ()
       else ignore_err (queue_enqueue w (am_match_id m) (am_game_id m) (am_platform m)))"

text \<open>The loop over the pages. The offset is a \<^verbatim>\<open>u32\<close> that is checked for overflow, and a
  further page is requested only after a full one, so the loop ends.\<close>

function reconcile_pages :: "world \<Rightarrow> nat set \<Rightarrow> nat \<Rightarrow> unit sact" where
  "reconcile_pages w dead_lettered_ids offset =
     bnd (interact (\<lambda>n. active_matches_rpc w n offset PAGE_SIZE)) (\<lambda>r. case r of
       Inl e \<Rightarrow> fail e
     | Inr page \<Rightarrow>
         if page = [] then ret ()
         else bnd (seqs (map (reconcile_match w dead_lettered_ids) page)) (\<lambda>_.
           case checked_add_u32 offset (length page mod 2 ^ 32) of
             None \<Rightarrow> trap
           | Some offset' \<Rightarrow> bnd (ignore_err (cursor_save w offset')) (\<lambda>_.
               if length page mod 2 ^ 32 < PAGE_SIZE then ret ()
               else reconcile_pages w dead_lettered_ids offset')))"
  by pat_completeness auto
termination
  by (relation "measure (\<lambda>(_, _, offset). u32_max - offset)") (auto simp: checked_add_u32_def PAGE_SIZE_def split: if_splits)

declare reconcile_pages.simps [simp del]

definition reconcile :: "world \<Rightarrow> unit sact" where
  "reconcile w = bnd (dead_load w) (\<lambda>dead.
     bnd (cursor_load w) (\<lambda>offset.
     bnd (reconcile_pages w ((pe_match_id \<circ> dl_entry) ` set dead) offset) (\<lambda>_. cursor_clear w)))"

end
