(* ===== verification/Service_Safety.thy ===== *)
theory Service_Safety
  imports Service_Poller
begin

text \<open>
  Properties of the oracle service: the retry schedule, the invariant of the queue, that no match is lost on
  a disk without faults and where a fault loses one, and what a pass of reconciliation achieves. The two
  relations between states are interpretations of the interfaces \<open>state_invariant\<close> and
  \<open>state_order\<close>, so a fact about the methods of the stores becomes a fact about the loops
  of the poller.
\<close>

section \<open>Retry schedule\<close>

text \<open>C35. The delay before the next attempt, computed with a checked shift and a saturating
  multiplication in 64 bits, is the documented one for every number of failures: the base delay doubled
  for each failure after the first, and at most an hour.\<close>

theorem retry_delay: "delay_secs base k = min (base * 2 ^ k) 3600"
proof (cases "base = 0 \<or> k < 64")
  case True
  then show ?thesis by (auto simp: delay_secs_def multiplier_def u64_max_def)
next
  case False
  then have "1 \<le> base" "(64 :: nat) \<le> k" by auto
  moreover from this(2) have "(2 :: nat) ^ 64 \<le> 2 ^ k" by (rule power_increasing) simp
  ultimately have "3600 \<le> base * 2 ^ k" "3600 \<le> base * u64_max"
    using mult_le_mono [of 1 base "2 ^ 64" "2 ^ k"] mult_le_mono [of 1 base u64_max u64_max]
    by (simp_all add: u64_max_def)
  then show ?thesis using False by (simp add: delay_secs_def multiplier_def u64_max_def min_def)
qed

section \<open>What the poller does to its stores\<close>

lemma frame_utc_now [frame_rules]: "(\<And>s n. f (s\<lparr>steps := n\<rparr>) = f s) \<Longrightarrow> frame f (utc_now w)"
  by (simp add: utc_now_def frame_rules)

text \<open>The parts of the state that a match can be recorded in.\<close>

definition stores :: "service \<Rightarrow> pending_entry list disk_file \<times> dead_letter_entry list disk_file \<times> (nat \<times> winner_oc) list" where
  "stores s = (queue_file s, dead_file s, confirmed s)"

lemma stores_update [simp]:
  "stores (s\<lparr>steps := n\<rparr>) = stores s" "stores (s\<lparr>log_file := l\<rparr>) = stores s" "stores (s\<lparr>cursor_file := c\<rparr>) = stores s"
  "stores (s\<lparr>queue_depth := k\<rparr>) = stores s" "stores (s\<lparr>dead_letter_count := k\<rparr>) = stores s"
  "stores (s\<lparr>backoff_until := b\<rparr>) = stores s" "stores (s\<lparr>result_cache := r\<rparr>) = stores s"
  "stores (log_file_update g s) = stores s" "stores (cursor_file_update h s) = stores s"
  "stores (queue_depth_update u s) = stores s"
  by (simp_all add: stores_def)

lemma frame_ignore_err [frame_rules]: "frame f m \<Longrightarrow> frame f (ignore_err m)"
  by (simp add: ignore_err_def frame_rules)

lemma frame_io [frame_rules]: "(\<And>s n. f (s\<lparr>steps := n\<rparr>) = f s) \<Longrightarrow> frame f (io g)"
  by (auto simp: io_def intro!: frame_rules split: option.split)

lemma frame_stores:
  "frame stores (queue_load w)" "frame stores (dead_load w)" "frame stores (log_append w r)" "frame stores (cursor_load w)"
  "frame stores (cursor_save w k)" "frame stores (cursor_clear w)" "frame stores (due_entries w)"
  by (auto simp: queue_load_def dead_load_def log_append_def log_load_def replace_file_def cursor_load_def cursor_save_def
      cursor_clear_def due_entries_def is_due_now_def intro!: frame_rules split: contents.split option.split)

lemma frame_stores_poller:
  "frame stores (cache_get v p g)" "frame stores (cache_insert v p g x)" "frame stores (back_off v p k)"
  "frame stores (skip_if_backing_off v p)"
  by (auto simp: cache_get_def cache_insert_def back_off_def skip_if_backing_off_def intro!: frame_rules split: option.split)

text \<open>What a relation between states must allow so that the poller keeps it: changes outside the stores,
  giving up on an entry, an update of an entry with retries left, an enqueue, and the removal of
  an entry after its result is confirmed.\<close>

locale poller_order = state_order R for R :: "service \<Rightarrow> service \<Rightarrow> bool" +
  fixes w :: world and c :: poller_config
  assumes outside: "stores s' = stores s \<Longrightarrow> R s s'"
    and giving_up: "obeys (exhaust_entry w entry)"
    and updating: "pe_attempts entry < max_retries c \<Longrightarrow> obeys (update_entry w entry)"
    and enqueueing: "obeys (queue_enqueue w match_id game_id platform)"
    and removing: "wp (queue_remove w match_id) (\<lambda>_. R s) (\<lambda>_. R s) True (s\<lparr>confirmed := confirmed s @ [(match_id, winner)]\<rparr>)"
begin

lemma obeys_outside: "frame stores m \<Longrightarrow> obeys m"
  by (erule obeys_frame) (rule outside)

lemma obeys_stores [intro!, simp]:
  "obeys (queue_load w)" "obeys (dead_load w)" "obeys (cursor_load w)" "obeys (cursor_clear w)" "obeys (due_entries w)"
  "obeys (cursor_save w k)" "obeys (log_append w r)" "obeys (cache_get w p g)" "obeys (cache_insert w p g x)"
  "obeys (back_off w p k)" "obeys (skip_if_backing_off w p)" "obeys (utc_now w)"
  "obeys (modify (queue_depth_update h))" "obeys (interact f)"
  by (auto intro!: obeys_outside frame_stores frame_stores_poller frame_rules)

lemma obeys_ignore_err [intro!]: "obeys m \<Longrightarrow> obeys (ignore_err m)"
  by (simp add: ignore_err_def obeys_rules)

lemma obeys_at: "obeys m \<Longrightarrow> wp m (\<lambda>_. R s) (\<lambda>_. R s) True s"
  by (simp add: obeys_def)

lemma obeys_later:
  assumes "obeys m" "R s s'"
  shows "wp m (\<lambda>_. R s) (\<lambda>_. R s) True s'"
  by (rule wp_mono [OF obeys_at [OF assms(1), of s']]) (auto intro: order_trans [OF assms(2)])

lemma obeys_continue:
  assumes "wp m (\<lambda>_. R s) (\<lambda>_. R s) True s'" "\<And>a. obeys (k a)"
  shows "wp (bnd m k) (\<lambda>_. R s) (\<lambda>_. R s) True s'"
  unfolding wp_bnd by (rule wp_mono [OF assms(1)]) (auto intro: obeys_later assms(2))

lemma obeys_transient [intro!]: "obeys (handle_transient w c entry reason)"
  unfolding obeys_def
proof
  fix s :: service
  have "wp (ignore_err (update_entry w e)) (\<lambda>_. R s) (\<lambda>_. R s) True (s\<lparr>steps := Suc (steps s)\<rparr>)"
    if "pe_attempts e < max_retries c" for e
    by (rule obeys_later [OF obeys_ignore_err [OF updating [OF that]] outside]) simp
  then show "wp (handle_transient w c entry reason) (\<lambda>_. R s) (\<lambda>_. R s) True s"
    using obeys_at [OF giving_up] by (auto simp: handle_transient_def record_failure_def wp_simps wp_fun Let_def not_le)
qed

lemma obeys_dead_letter_now [intro!]: "obeys (dead_letter_now w c entry reason)"
  by (simp add: dead_letter_now_def giving_up)

lemma obeys_submit [intro!]: "obeys (submit_and_complete w c entry winner)"
  unfolding obeys_def
proof
  fix s :: service
  let ?id = "pe_match_id entry" and ?s = "s\<lparr>steps := Suc (steps s)\<rparr>"
  let ?gauge = "\<lambda>e. only_if (e = None) (ignore_err (bnd (queue_load w) (\<lambda>es. modify (\<lambda>s. s\<lparr>queue_depth := length es\<rparr>))))"
  let ?log = "\<lambda>tx. bnd (utc_now w) (\<lambda>now. ignore_err (log_append w (new_record ?id (pe_game_id entry) (pe_platform entry) winner now tx)))"
  have rest: "obeys (bnd (?gauge e) (\<lambda>_. bnd (?log tx) (\<lambda>_. ret ())))" for e tx
    by (intro obeys_rules obeys_ignore_err obeys_stores)
  have removed: "wp (queue_remove w ?id) (\<lambda>_. R s) (\<lambda>_. R s) True (?s\<lparr>confirmed := confirmed s @ [(?id, winner)]\<rparr>)"
  proof (rule wp_mono)
    show "wp (queue_remove w ?id) (\<lambda>_. R ?s) (\<lambda>_. R ?s) True (?s\<lparr>confirmed := confirmed s @ [(?id, winner)]\<rparr>)"
      using removing [where s = ?s and match_id = ?id and winner = winner] by simp
    show "R ?s s' \<Longrightarrow> R s s'" "R ?s s' \<Longrightarrow> R s s'" for s' by (rule order_trans [OF outside], simp_all)+
  qed simp
  have "wp (bnd (catch_err (queue_remove w ?id)) (\<lambda>e. bnd (?gauge e) (\<lambda>_. bnd (?log tx) (\<lambda>_. ret ()))))
      (\<lambda>_. R s) (\<lambda>_. R s) True (?s\<lparr>confirmed := confirmed s @ [(?id, winner)]\<rparr>)" for tx
    using removed by (intro obeys_continue rest) (simp add: wp_catch_err)
  moreover have "wp (handle_transient w c entry (display_error e)) (\<lambda>_. R s) (\<lambda>_. R s) True ?s" for e
    by (rule obeys_later [OF obeys_transient outside]) simp
  ultimately show "wp (submit_and_complete w c entry winner) (\<lambda>_. R s) (\<lambda>_. R s) True s"
    by (auto simp: submit_and_complete_def wp_simps wp_fun split: sum.split)
qed

lemma obeys_fetch_outcome [intro!]: "obeys (handle_fetch_outcome w c entry r)"
  by (auto simp: handle_fetch_outcome_def intro!: obeys_bnd obeys_pure split: sum.split fetch_error.split)

lemma obeys_entry [intro!]: "obeys (process_entry w c entry)"
  by (auto simp: process_entry_def fetch_lichess_def fetch_chess_com_def
      intro!: obeys_bnd obeys_cond split: option.split sum.split platform_sv.split lichess_error.split chess_com_error.split)

lemma obeys_until_backoff [intro!]: "obeys (process_until_backoff w c es)"
  by (induction es) (auto intro!: obeys_rules)

lemma obeys_lichess_pending [intro!]: "obeys (lichess_pending w c es)"
  by (induction es) (auto intro!: obeys_bnd obeys_pure split: option.split)

lemma obeys_batch [intro!]: "obeys (process_lichess_batch w c es)"
  by (auto simp: process_lichess_batch_def intro!: obeys_bnd obeys_cond obeys_pure obeys_seqs_map
      split: sum.split lichess_error.split)

lemma obeys_tick: "obeys (tick w c)"
  by (auto simp: tick_def Let_def intro!: obeys_rules)

lemma obeys_chess_com: "obeys (process_chess_com w c n es)"
  by (induction es arbitrary: n) (auto intro!: obeys_rules)

lemma obeys_tick_chess_com: "obeys (tick_chess_com w c)"
  by (auto simp: tick_chess_com_def intro!: obeys_bnd obeys_chess_com)

lemma obeys_poller_enqueue: "obeys (poller_enqueue w match_id game_id platform)"
  by (auto simp: poller_enqueue_def intro!: obeys_rules enqueueing)

lemma obeys_reconcile_match: "obeys (reconcile_match w ids m)"
  by (auto simp: reconcile_match_def intro!: obeys_bnd obeys_cond obeys_pure enqueueing split: sum.split)

lemma obeys_reconcile_pages: "v = w \<Longrightarrow> obeys (reconcile_pages v ids offset)"
proof (induction v ids offset rule: reconcile_pages.induct)
  case (1 v ids offset)
  show ?case
    using 1 by (subst reconcile_pages.simps)
      (auto intro!: obeys_bnd obeys_cond obeys_pure obeys_seqs_map obeys_reconcile_match split: sum.split option.split)
qed

lemma obeys_reconcile: "obeys (reconcile w)"
  by (auto simp: reconcile_def intro!: obeys_bnd obeys_reconcile_pages)

end

section \<open>The queue\<close>

text \<open>No match is queued twice, and an entry that has been tried has retries left.\<close>

definition queue_wf :: "nat \<Rightarrow> service \<Rightarrow> bool" where
  "queue_wf limit s \<longleftrightarrow> (case queued s of None \<Rightarrow> True
     | Some es \<Rightarrow> distinct (map pe_match_id es) \<and> (\<forall>e \<in> set es. pe_attempts e = 0 \<or> pe_attempts e < limit))"

interpretation wf: state_invariant "queue_wf limit" for limit .

lemma queue_wf_cong: "queued s' = queued s \<Longrightarrow> queue_wf limit s' = queue_wf limit s"
  by (simp add: queue_wf_def)

lemma frame_queued: "frame queue_file m \<Longrightarrow> wf.obeys limit m"
  by (erule wf.obeys_frame) (simp add: queue_wf_def queued_def)

lemma wf_enqueue: "wf.obeys limit (queue_enqueue w match_id game_id platform)"
  by (intro wf.obeysI wp_queue_enqueue) (auto simp: queue_wf_def fresh_def split: option.splits)

lemma wf_remove: "wf.obeys limit (queue_remove w match_id)"
  by (intro wf.obeysI wp_queue_remove) (auto simp: queue_wf_def distinct_map_filter split: option.splits)

lemma replace_first_ids: "map pe_match_id (replace_first es e) = map pe_match_id es"
  by (induction es) auto

lemma replace_first_set: "set (replace_first es e) \<subseteq> insert e (set es)"
  by (induction es) auto

lemma wf_update: "pe_attempts updated < limit \<Longrightarrow> wf.obeys limit (update_entry w updated)"
  using replace_first_set [of _ updated]
  by (intro wf.obeysI wp_update_entry) (fastforce simp: queue_wf_def replace_first_ids split: option.splits)+

lemma frame_dead_push: "frame queue_file (dead_push w entry)"
  by (auto simp: dead_push_def dead_load_def dead_save_def Let_def intro!: frame_rules)

lemma wf_exhaust: "wf.obeys limit (exhaust_entry w entry)"
  by (simp add: exhaust_entry_def ignore_err_def wf.obeys_rules wf_remove frame_queued [OF frame_dead_push])

lemma wf_poller_remove:
  "wp (queue_remove w i) (\<lambda>_ s'. queue_wf (max_retries c) s \<longrightarrow> queue_wf (max_retries c) s')
    (\<lambda>_ s'. queue_wf (max_retries c) s \<longrightarrow> queue_wf (max_retries c) s') True s"
  using wf_remove [of "max_retries c" w i] by (simp add: wf.obeys_def)

interpretation wf_poller: poller_order "\<lambda>s s'. queue_wf (max_retries c) s \<longrightarrow> queue_wf (max_retries c) s'" w c for w c
proof unfold_locales
  show "queue_wf (max_retries c) s \<longrightarrow> queue_wf (max_retries c) s'" if "stores s' = stores s" for s s'
    using that by (simp add: stores_def queue_wf_def queued_def)
  show "wp (queue_remove w i) (\<lambda>_ s'. queue_wf (max_retries c) s \<longrightarrow> queue_wf (max_retries c) s')
      (\<lambda>_ s'. queue_wf (max_retries c) s \<longrightarrow> queue_wf (max_retries c) s') True (s\<lparr>confirmed := confirmed s @ [(i, x)]\<rparr>)" for i x s
    using wf_poller_remove [where c = c and w = w and i = i and s = "s\<lparr>confirmed := confirmed s @ [(i, x)]\<rparr>"]
    by (simp add: queue_wf_cong [of "s\<lparr>confirmed := confirmed s @ [(i, x)]\<rparr>" s])
qed (auto intro: wf_exhaust wf_update wf_enqueue)

lemma wf_at:
  assumes "wf.obeys limit m" "queue_wf limit s"
  shows "wp m (\<lambda>_. queue_wf limit) (\<lambda>_. queue_wf limit) True s"
  using assms(1) unfolding wf.obeys_def by (rule allE [of _ s], elim wp_mono) (simp_all add: assms(2))

text \<open>C28. Whatever the disk, the network and the platforms do, every tick, every enqueue and every pass of
  reconciliation keeps the queue well-formed: a match is never queued twice, and an entry that has
  failed before has retries left, so the number of attempts on an entry is bounded by the
  configured maximum.\<close>

theorem queue_stays_well_formed:
  assumes "queue_wf (max_retries c) s"
  shows "wp (tick w c) (\<lambda>_. queue_wf (max_retries c)) (\<lambda>_. queue_wf (max_retries c)) True s
    \<and> wp (tick_chess_com w c) (\<lambda>_. queue_wf (max_retries c)) (\<lambda>_. queue_wf (max_retries c)) True s
    \<and> wp (poller_enqueue w i g p) (\<lambda>_. queue_wf (max_retries c)) (\<lambda>_. queue_wf (max_retries c)) True s
    \<and> wp (reconcile w) (\<lambda>_. queue_wf (max_retries c)) (\<lambda>_. queue_wf (max_retries c)) True s"
  using assms by (intro conjI wf_at wf_poller.obeys_tick wf_poller.obeys_tick_chess_com wf_poller.obeys_poller_enqueue
      wf_poller.obeys_reconcile)

section \<open>No match is lost\<close>

text \<open>The matches that the service keeps track of: queued, given up, or confirmed.\<close>

definition tracked :: "service \<Rightarrow> nat set" where
  "tracked s = (case queued s of None \<Rightarrow> {} | Some es \<Rightarrow> pe_match_id ` set es)
     \<union> (case dead_letters s of None \<Rightarrow> {} | Some ds \<Rightarrow> dead_id ` set ds) \<union> fst ` set (confirmed s)"

definition keeps :: "service \<Rightarrow> service \<Rightarrow> bool" where
  "keeps s s' \<longleftrightarrow> (dead_letters s \<noteq> None \<longrightarrow> dead_letters s' \<noteq> None \<and> tracked s \<subseteq> tracked s')"

interpretation kept: state_order keeps
  by unfold_locales (auto simp: keeps_def)

lemma keeps_queue:
  assumes "queued s = Some es" "held [] f = Some es'" "pe_match_id ` set es \<subseteq> pe_match_id ` set es'"
  shows "keeps s (s\<lparr>queue_file := f, steps := n\<rparr>)"
  using assms by (auto simp: keeps_def tracked_def)

lemma keeps_queue_same: "held [] f = queued s \<Longrightarrow> keeps s (s\<lparr>queue_file := f, steps := n\<rparr>)"
  by (simp add: keeps_def tracked_def)

lemma kept_enqueue: "kept.obeys (queue_enqueue w match_id game_id platform)"
  unfolding kept.obeys_def
  by (intro allI wp_queue_enqueue) (auto intro: keeps_queue keeps_queue_same simp: keeps_def tracked_def)

lemma kept_update: "kept.obeys (update_entry w updated)"
  unfolding kept.obeys_def
proof (intro allI wp_update_entry)
  fix s es f n
  assume "queued s = Some es" "held [] f = Some (replace_first es updated)"
  moreover have "pe_match_id ` set es \<subseteq> pe_match_id ` set (replace_first es updated)"
    using replace_first_ids [of es updated] by (metis order_refl set_map)
  ultimately show "keeps s (s\<lparr>queue_file := f, steps := n\<rparr>)" by (rule keeps_queue)
qed (rule keeps_queue_same)

text \<open>The match is recorded elsewhere, so its entry may leave the queue.\<close>

definition recorded :: "service \<Rightarrow> nat \<Rightarrow> bool" where
  "recorded s i \<longleftrightarrow> (\<exists>ds. dead_letters s = Some ds \<and> i \<in> dead_id ` set ds) \<or> i \<in> fst ` set (confirmed s)"

lemma kept_remove:
  assumes "keeps s s'" "dead_letters s \<noteq> None \<Longrightarrow> recorded s' i"
  shows "wp (queue_remove w i) (\<lambda>_. keeps s) (\<lambda>_. keeps s) True s'"
proof (rule wp_queue_remove)
  fix es f n
  assume "queued s' = Some es" "held [] f = Some (filter (\<lambda>e. pe_match_id e \<noteq> i) es)"
  then have "recorded s' i \<Longrightarrow> tracked s' \<subseteq> tracked (s'\<lparr>queue_file := f, steps := n\<rparr>)"
    by (auto simp: tracked_def recorded_def)
  then show "keeps s (s'\<lparr>queue_file := f, steps := n\<rparr>)"
    using assms by (auto simp: keeps_def)
next
  fix f n
  assume "held [] f = queued s'"
  with assms(1) show "keeps s (s'\<lparr>queue_file := f, steps := n\<rparr>)" by (rule kept.order_trans [OF _ keeps_queue_same])
qed

lemma kept_push:
  assumes "faultless w"
  shows "wp (dead_push w entry) (\<lambda>_ s'. keeps s s' \<and> (dead_letters s \<noteq> None \<longrightarrow> recorded s' (pe_match_id entry)))
    (\<lambda>_ s'. keeps s s' \<and> (dead_letters s \<noteq> None \<longrightarrow> recorded s' (pe_match_id entry))) True s"
  using assms by (intro wp_dead_push) (auto simp: keeps_def tracked_def recorded_def dead_letter_def)

lemma kept_exhaust:
  assumes "faultless w"
  shows "kept.obeys (exhaust_entry w entry)"
  unfolding kept.obeys_def exhaust_entry_def ignore_err_def
proof
  fix s :: service
  let ?remove = "seqs [bnd (catch_err (queue_remove w (pe_match_id entry))) (\<lambda>_. ret ())]"
  have "wp ?remove (\<lambda>_. keeps s) (\<lambda>_. keeps s) True s'"
    if "keeps s s'" "dead_letters s \<noteq> None \<longrightarrow> recorded s' (pe_match_id entry)" for s'
    using kept_remove [of s s' "pe_match_id entry" w] that by (simp add: wp_simps wp_fun)
  then show "wp (seqs [bnd (catch_err (dead_push w entry)) (\<lambda>_. ret ()), bnd (catch_err (queue_remove w (pe_match_id entry))) (\<lambda>_. ret ())])
      (\<lambda>_. keeps s) (\<lambda>_. keeps s) True s"
    by (simp add: wp_simps wp_fun) (rule wp_mono [OF kept_push [OF assms]], auto)
qed

interpretation kept_on: state_order "\<lambda>s s'. faultless w \<longrightarrow> keeps s s'" for w :: world
  by unfold_locales (auto intro: kept.order_refl kept.order_trans)

lemma kept_onI:
  assumes "faultless w \<Longrightarrow> kept.obeys m"
  shows "kept_on.obeys w m"
  unfolding kept_on.obeys_def
proof
  fix s
  show "wp m (\<lambda>_ s'. faultless w \<longrightarrow> keeps s s') (\<lambda>_ s'. faultless w \<longrightarrow> keeps s s') True s"
    using assms by (cases "faultless w") (simp_all add: kept.obeys_def wpI_any)
qed

interpretation kept_poller: poller_order "\<lambda>s s'. faultless w \<longrightarrow> keeps s s'" w c for w c
proof unfold_locales
  show "faultless w \<longrightarrow> keeps s s'" if "stores s' = stores s" for s s'
    using that by (auto simp: stores_def keeps_def tracked_def queued_def dead_letters_def)
  have "keeps s (s\<lparr>confirmed := confirmed s @ [(i, x)]\<rparr>)" for s i x
    by (auto simp: keeps_def tracked_def)
  moreover have "recorded (s\<lparr>confirmed := confirmed s @ [(i, x)]\<rparr>) i" for s i x
    by (simp add: recorded_def)
  ultimately have "wp (queue_remove w i) (\<lambda>_. keeps s) (\<lambda>_. keeps s) True (s\<lparr>confirmed := confirmed s @ [(i, x)]\<rparr>)" for s i x
    by (rule kept_remove)
  then show "wp (queue_remove w i) (\<lambda>_ s'. faultless w \<longrightarrow> keeps s s') (\<lambda>_ s'. faultless w \<longrightarrow> keeps s s') True
      (s\<lparr>confirmed := confirmed s @ [(i, x)]\<rparr>)" for s i x
    by (rule wp_mono) simp_all
qed (auto intro: kept_onI kept_exhaust kept_update kept_enqueue)

lemma kept_at:
  assumes "kept_on.obeys w m" "faultless w" "dead_letters s \<noteq> None" "i \<in> tracked s"
  shows "wp m (\<lambda>_ s'. i \<in> tracked s') (\<lambda>_ s'. i \<in> tracked s') True s"
  using assms(1) unfolding kept_on.obeys_def
  by (rule allE [of _ s], elim wp_mono) (use assms(2-4) in \<open>auto simp: keeps_def\<close>)


text \<open>C38. An unreadable dead-letter file loses matches: giving up on an entry then removes it from the
  queue although it could not be recorded, so nothing refers to the match any more.\<close>

theorem giving_up_can_lose_a_match:
  assumes "faultless w" "dead_letters s = None" "queued s = Some es" "i = pe_match_id entry"
    and "i \<notin> fst ` set (confirmed s)"
  shows "wp (exhaust_entry w entry) (\<lambda>_ s'. i \<notin> tracked s') (\<lambda>_ _. False) False s"
proof -
  let ?remove = "seqs [bnd (catch_err (queue_remove w i)) (\<lambda>_. ret ())]"
  have "wp (queue_remove w i) (\<lambda>_ s''. i \<notin> tracked s'') (\<lambda>_ s''. i \<notin> tracked s'') False s'"
    if "dead_letters s' = None" "queued s' = Some es" "confirmed s' = confirmed s" for s'
    using that assms(1,5) by (intro wp_queue_remove) (auto simp: tracked_def)
  then have "wp ?remove (\<lambda>_ s''. i \<notin> tracked s'') (\<lambda>_ _. False) False s'"
    if "dead_letters s' = None" "queued s' = Some es" "confirmed s' = confirmed s" for s'
    using that by (simp add: wp_simps wp_fun)
  moreover have "wp (dead_push w entry)
      (\<lambda>_ s'. dead_letters s' = None \<and> queued s' = Some es \<and> confirmed s' = confirmed s)
      (\<lambda>_ s'. dead_letters s' = None \<and> queued s' = Some es \<and> confirmed s' = confirmed s) False s"
    using assms(2,3) by (intro wp_dead_push) auto
  ultimately show ?thesis
    unfolding exhaust_entry_def ignore_err_def assms(4)
    by (simp add: wp_simps wp_fun) (erule wp_mono, auto)
qed

section \<open>Reconciliation\<close>

definition queue_has :: "nat set \<Rightarrow> service \<Rightarrow> bool" where
  "queue_has ids s \<longleftrightarrow> (\<exists>es. queued s = Some es \<and> pe_match_id ` set es = ids)"

definition wanted :: "nat set \<Rightarrow> active_match list \<Rightarrow> nat set" where
  "wanted excluded ms = am_match_id ` set ms - excluded"

lemma wanted_single: "ids \<union> wanted X [m] = (if am_match_id m \<in> X then ids else insert (am_match_id m) ids)"
  by (auto simp: wanted_def)

lemma wp_enqueue_has:
  assumes "faultless w" "queue_has ids s"
  shows "wp (queue_enqueue w i g p) (\<lambda>_. queue_has (insert i ids)) (\<lambda>_ _. False) False s"
  using assms by (intro wp_queue_enqueue) (auto simp: queue_has_def fresh_def insert_absorb)

lemma wp_reconcile_match:
  assumes "faultless w" "queue_has ids s" "\<And>n i. has_result_rpc w n i = Inr (i \<in> resolved)"
  shows "wp (reconcile_match w dead m) (\<lambda>_. queue_has (ids \<union> wanted (resolved \<union> dead) [m])) (\<lambda>_ _. False) False s"
proof -
  have stepped: "queue_has ids (s\<lparr>steps := Suc (steps s)\<rparr>)" using assms(2) by (simp add: queue_has_def)
  have "wp (queue_enqueue w (am_match_id m) (am_game_id m) (am_platform m))
      (\<lambda>_. queue_has (insert (am_match_id m) ids)) (\<lambda>_. queue_has (insert (am_match_id m) ids)) False (s\<lparr>steps := Suc (steps s)\<rparr>)"
    by (rule wp_mono [OF wp_enqueue_has [OF assms(1) stepped]]) auto
  then show ?thesis
    using stepped
    by (cases "am_match_id m \<in> resolved \<union> dead")
      (auto simp: reconcile_match_def assms(3) ignore_err_def wanted_single wp_simps wp_fun)
qed

lemma wp_reconcile_page:
  assumes "faultless w" "\<And>n i. has_result_rpc w n i = Inr (i \<in> resolved)" "queue_has ids s"
  shows "wp (seqs (map (reconcile_match w dead) ms)) (\<lambda>_. queue_has (ids \<union> wanted (resolved \<union> dead) ms)) (\<lambda>_ _. False) False s"
  using assms(3)
proof (induction ms arbitrary: ids s)
  case Nil
  then show ?case by (simp add: wp_simps wanted_def)
next
  case (Cons m ms)
  have "ids \<union> wanted (resolved \<union> dead) [m] \<union> wanted (resolved \<union> dead) ms = ids \<union> wanted (resolved \<union> dead) (m # ms)"
    by (auto simp: wanted_def)
  then show ?case
    using wp_reconcile_match [OF assms(1) Cons.prems assms(2), of dead m] Cons.IH [of "ids \<union> wanted (resolved \<union> dead) [m]"]
    by (simp add: wp_bnd) (erule wp_mono, auto)
qed

lemma wp_cursor_save_has:
  "queue_has ids s \<Longrightarrow> wp (ignore_err (cursor_save w k)) (\<lambda>_. queue_has ids) (\<lambda>_ _. False) False s"
  unfolding ignore_err_def cursor_save_def wp_bnd wp_catch_err
  by (rule cursor_store.wp_save) (simp_all add: wp_simps queue_has_def)

lemma wp_reconcile_pages:
  assumes "faultless v" "\<And>n i. has_result_rpc v n i = Inr (i \<in> resolved)"
    and "\<And>n k. active_matches_rpc v n k PAGE_SIZE = Inr (take PAGE_SIZE (drop k ms))" "length ms \<le> u32_max"
    and "offset \<le> length ms" "queue_has ids s"
  shows "wp (reconcile_pages v dead offset) (\<lambda>_. queue_has (ids \<union> wanted (resolved \<union> dead) (drop offset ms))) (\<lambda>_ _. False) False s"
  using assms
proof (induction v dead offset arbitrary: ids s rule: reconcile_pages.induct)
  case (1 v dead offset)
  define page where "page = take PAGE_SIZE (drop offset ms)"
  define offset' where "offset' = offset + length page"
  have len: "length page mod 2 ^ 32 = length page" by (simp add: page_def PAGE_SIZE_def)
  have stepped: "queue_has ids (s\<lparr>steps := Suc (steps s)\<rparr>)" using "1.prems"(6) by (simp add: queue_has_def)
  show ?case
  proof (cases "page = []")
    case True
    then have "drop offset ms = []" by (simp add: page_def PAGE_SIZE_def)
    then show ?thesis
      using stepped by (subst reconcile_pages.simps) (simp add: "1.prems"(3) wp_simps wanted_def)
  next
    case False
    have bound: "offset' \<le> length ms" using "1.prems"(5) by (simp add: offset'_def page_def)
    then have sum: "checked_add_u32 offset (length page mod 2 ^ 32) = Some offset'"
      using "1.prems"(4) unfolding len by (simp add: checked_add_u32_def offset'_def)
    have "drop PAGE_SIZE (drop offset ms) = drop offset' ms"
      by (cases "length (drop offset ms) < PAGE_SIZE") (simp_all add: page_def offset'_def min_def add.commute)
    then have "drop offset ms = page @ drop offset' ms"
      unfolding page_def using append_take_drop_id [of PAGE_SIZE "drop offset ms"] by simp
    then have split: "wanted X page \<union> wanted X (drop offset' ms) = wanted X (drop offset ms)" for X
      by (auto simp: wanted_def)
    have next_page: "wp (if length page mod 2 ^ 32 < PAGE_SIZE then ret () else reconcile_pages v dead offset')
        (\<lambda>_. queue_has (ids \<union> wanted (resolved \<union> dead) (drop offset ms))) (\<lambda>_ _. False) False s'"
      if "queue_has (ids \<union> wanted (resolved \<union> dead) page) s'" for s'
    proof (cases "length page < PAGE_SIZE")
      case True
      then have "page = drop offset ms" by (simp add: page_def)
      then show ?thesis using that True len by (simp add: wp_simps)
    next
      case full: False
      have "wp (reconcile_pages v dead offset') (\<lambda>_. queue_has (ids \<union> wanted (resolved \<union> dead) page
          \<union> wanted (resolved \<union> dead) (drop offset' ms))) (\<lambda>_ _. False) False s'"
        by (rule "1.IH" [OF False sum]) (use full len that "1.prems" bound in simp_all)
      then show ?thesis using full len split by (simp add: Un_assoc)
    qed
    let ?rest = "\<lambda>_. bnd (ignore_err (cursor_save v offset')) (\<lambda>_.
        if length page mod 2 ^ 32 < PAGE_SIZE then ret () else reconcile_pages v dead offset')"
    have "wp (?rest ()) (\<lambda>_. queue_has (ids \<union> wanted (resolved \<union> dead) (drop offset ms))) (\<lambda>_ _. False) False s'"
      if "queue_has (ids \<union> wanted (resolved \<union> dead) page) s'" for s'
      unfolding wp_bnd by (rule wp_mono [OF wp_cursor_save_has [OF that]]) (erule next_page, simp_all)
    then have "wp (bnd (seqs (map (reconcile_match v dead) page)) ?rest)
        (\<lambda>_. queue_has (ids \<union> wanted (resolved \<union> dead) (drop offset ms))) (\<lambda>_ _. False) False (s\<lparr>steps := Suc (steps s)\<rparr>)"
      unfolding wp_bnd [of "seqs (map (reconcile_match v dead) page)"]
      by (intro wp_mono [OF wp_reconcile_page [OF "1.prems"(1,2) stepped]]) auto
    then show ?thesis
      using False sum by (subst reconcile_pages.simps) (simp add: "1.prems"(3) wp_bnd [of "interact f" for f] wp_interact page_def [symmetric])
  qed
qed

lemma wp_cursor_clear_has:
  assumes "faultless w" "queue_has ids s"
  shows "wp (cursor_clear w) (\<lambda>_ s'. queue_has ids s' \<and> main_file (cursor_file s') = Absent) E T s"
proof -
  have "remove_failure w (steps s) = None" using assms(1) by (simp add: faultless_def)
  moreover have "queue_has ids (cursor_file_update g (s\<lparr>steps := n\<rparr>))" for g n
    using assms(2) by (simp add: queue_has_def queued_def)
  ultimately show ?thesis using assms(2) by (simp add: cursor_clear_def wp_simps)
qed

lemma reconcile_queues_wanted:
  assumes "faultless w" "\<And>n i. has_result_rpc w n i = Inr (i \<in> resolved)"
    and "\<And>n k. active_matches_rpc w n k PAGE_SIZE = Inr (take PAGE_SIZE (drop k ms))" "length ms \<le> u32_max"
    and "queued s = Some es" "dead_letters s = Some ds" "main_file (cursor_file s) = Absent"
  shows "wp (reconcile w) (\<lambda>_ s'. queue_has (pe_match_id ` set es \<union> wanted (resolved \<union> dead_id ` set ds) ms) s'
    \<and> main_file (cursor_file s') = Absent) (\<lambda>_ _. False) False s"
  unfolding reconcile_def wp_bnd
proof (rule wp_dead_load)
  fix ds' n
  assume "dead_letters s = Some ds'"
  then have [simp]: "ds' = ds" using assms(6) by simp
  let ?P = "queue_has (pe_match_id ` set es \<union> wanted (resolved \<union> dead_id ` set ds) ms)"
  have "queue_has (pe_match_id ` set es) (s\<lparr>steps := n\<rparr>)" using assms(5) by (simp add: queue_has_def)
  from wp_reconcile_pages [OF assms(1-4) _ this, of 0 "dead_id ` set ds"]
  have "wp (reconcile_pages w (dead_id ` set ds) 0) (\<lambda>_. ?P) (\<lambda>_ _. False) False (s\<lparr>steps := n\<rparr>)" by simp
  then have "wp (reconcile_pages w (dead_id ` set ds) 0)
      (\<lambda>_. wp (cursor_clear w) (\<lambda>_ s'. ?P s' \<and> main_file (cursor_file s') = Absent) (\<lambda>_ _. False) False) (\<lambda>_ _. False) False (s\<lparr>steps := n\<rparr>)"
    by (rule wp_mono) (auto intro: wp_cursor_clear_has [OF assms(1)])
  then show "wp (cursor_load w) (\<lambda>offset. wp (reconcile_pages w ((pe_match_id \<circ> dl_entry) ` set ds') offset)
      (\<lambda>_. wp (cursor_clear w) (\<lambda>_ s'. ?P s' \<and> main_file (cursor_file s') = Absent) (\<lambda>_ _. False) False) (\<lambda>_ _. False) False)
      (\<lambda>_ _. False) False (s\<lparr>steps := n\<rparr>)"
    using assms(7) by (simp add: cursor_load_def wp_simps comp_def)
qed (use assms(1,6) in simp)

section \<open>The submission log\<close>

text \<open>C39. The audit log does not survive a failed read: appending a record while the log cannot be read
  leaves a log with this record alone, and all earlier submissions are gone.\<close>

theorem unreadable_log_is_overwritten:
  assumes "main_file (log_file s) = Contents old" "read_failure w (steps s) = Some e" "\<And>n. write_failure w n = None"
  shows "\<exists>s'. log_append w r s = (Ok (), s') \<and> main_file (log_file s') = Contents [r]"
  using assms
  by (simp add: log_append_def or_default_def try_call_def log_load_def replace_file_def io_def interact_def run_simps)

section \<open>Samples\<close>

text \<open>A world on a working disk in which every request succeeds, with one active match whose result is
  not known yet.\<close>

definition sample_world :: world where
  "sample_world = disk.extend sample_disk \<lparr>submit_result_rpc = (\<lambda>_ _ _. Inr ''ab12''),
     active_matches_rpc = (\<lambda>_ k n. Inr (take n (drop k [\<lparr>am_match_id = 3, am_game_id = ''wxyz5678'', am_platform = Lichess_sv\<rparr>]))),
     has_result_rpc = (\<lambda>_ _. Inr False), lichess_fetch = (\<lambda>_ _. Inr Player1_oc),
     lichess_fetch_batch = (\<lambda>_ _. Inr (\<lambda>_. Some (Inr Player1_oc))), chess_com_fetch = (\<lambda>_ _. Inr Draw_oc),
     lru_put = (\<lambda>k e m. m(k := Some e)), validate_lichess_game_id = (\<lambda>_. None), validate_chess_com_game_id = (\<lambda>_. None),
     classify_lichess_error = (\<lambda>_. Transient ''lichess''), classify_lichess_error_ref = (\<lambda>_. Transient ''lichess''),
     classify_chess_com_error = (\<lambda>_. Transient ''chess.com''), display_lichess_error = (\<lambda>_. ''lichess'')\<rparr>"

definition sample_config :: poller_config where
  "sample_config = \<lparr>max_retries = 5, retry_base_delay_secs = 10\<rparr>"

lemma sample_faultless: "faultless sample_world"
  by (simp add: faultless_def sample_world_def sample_disk_def disk.defs)

lemmas service_defs = tick_def due_entries_def is_due_now_def is_due_def queue_load_def queue_save_def queue_remove_def
  load_file_def save_file_def replace_file_def io_def interact_def utc_now_def process_lichess_batch_def skip_if_backing_off_def
  validate_game_id_sv_def cache_get_def cache_insert_def cache_key_def handle_fetch_outcome_def batch_outcome_def
  submit_and_complete_def ignore_err_def log_append_def log_load_def or_default_def try_call_def

text \<open>The first tick submits the result of the queued match and empties the queue.\<close>

lemma sample_tick:
  "wp (tick sample_world sample_config) Q E T sample_service = Q () (after (tick sample_world sample_config) sample_service)"
  "queued (after (tick sample_world sample_config) sample_service) = Some []"
  by (simp_all add: wp_def after_def service_defs run_simps sample_world_def sample_service_def sample_disk_def disk.defs fresh_def
      on_disk_def queued_def held_def Let_def)

theorem queue_stays_well_formed_witness:
  "queue_wf 5 sample_service \<and>
   wp (tick sample_world sample_config) (\<lambda>_. queue_wf 5) (\<lambda>_. queue_wf 5) True sample_service"
proof -
  have "queue_wf 5 sample_service" by (simp add: queue_wf_def sample_stores fresh_def)
  then show ?thesis using queue_stays_well_formed [of sample_config sample_service sample_world] by (simp add: sample_config_def)
qed


theorem giving_up_can_lose_a_match_witness:
  "wp (exhaust_entry sample_world (fresh 7 ''abcd1234'' Lichess_sv 5)) (\<lambda>_ s'. 7 \<notin> tracked s') (\<lambda>_ _. False) False
     (sample_service\<lparr>dead_file := \<lparr>main_file = Corrupt, tmp_file = Absent\<rparr>\<rparr>)"
  by (rule giving_up_can_lose_a_match [OF sample_faultless])
    (simp_all add: held_def sample_stores, simp_all add: fresh_def sample_service_def)

theorem unreadable_log_is_overwritten_witness:
  "\<exists>s'. log_append (sample_disk\<lparr>read_failure := \<lambda>_. Some ''busy''\<rparr>) (new_record 3 ''x'' Lichess_sv Draw_oc 9 ''t'')
      (sample_service\<lparr>log_file := on_disk [new_record 1 ''y'' Lichess_sv Draw_oc 4 ''u'']\<rparr>) = (Ok (), s')
    \<and> main_file (log_file s') = Contents [new_record 3 ''x'' Lichess_sv Draw_oc 9 ''t'']"
  by (rule unreadable_log_is_overwritten) (simp_all add: on_disk_def sample_disk_def)

end
