(* ===== verification/Service_Contracts.thy ===== *)
theory Service_Contracts
  imports Service_Safety Escrow_Samples Oracle_Results
begin

text \<open>
  The oracle service together with the contracts it watches. The first part is the decoding of contract
  values in the Soroban client (oracle-service/src/soroban_client.rs): \<open>scval\<close> has the
  constructors of the XDR crate's \<^verbatim>\<open>ScVal\<close> that the client looks at. The second part puts
  reconciliation on top of the models of the escrow contract's index of active matches and of the
  oracle contract's results: every active match without a result gets queued.
\<close>

section \<open>Contract values\<close>

datatype scval = ScBool bool | ScU32 nat | ScU64 nat | ScString string | ScSymbol string
  | ScVec "scval list option" | ScMap "(scval \<times> scval) list option" | ScOther

definition winner_to_sc_val :: "winner_oc \<Rightarrow> scval" where
  "winner_to_sc_val winner = ScSymbol (case winner of
     Player1_oc \<Rightarrow> ''Player1'' | Player2_oc \<Rightarrow> ''Player2'' | Draw_oc \<Rightarrow> ''Draw'')"

text \<open>\<^verbatim>\<open>to_utf8_string\<close> fails on bytes that are not UTF-8.\<close>

definition to_utf8_string :: "string \<Rightarrow> string option" where
  "to_utf8_string s = (if from_utf8_lossy s = s then Some s else None)"

definition map_get :: "(scval \<times> scval) list \<Rightarrow> string \<Rightarrow> scval option" where
  "map_get m key = map_option snd (find (\<lambda>(k, _). case k of ScSymbol s \<Rightarrow> to_utf8_string s = Some key | _ \<Rightarrow> False) m)"

definition decode_platform :: "scval \<Rightarrow> service_error + platform_sv" where
  "decode_platform val = (case val of
     ScVec (Some v) \<Rightarrow> (case v of
       ScSymbol symbol # _ \<Rightarrow> (case to_utf8_string symbol of
         None \<Rightarrow> Inl (XdrError ''platform: symbol decode'')
       | Some name \<Rightarrow>
           if name = ''Lichess'' then Inr Lichess_sv
           else if name = ''ChessDotCom'' then Inr ChessDotCom_sv
           else Inl (XdrError ''platform: unknown variant''))
     | _ \<Rightarrow> Inl (XdrError ''platform: expected leading Symbol discriminant''))
   | _ \<Rightarrow> Inl (XdrError ''platform: expected Vec-encoded enum''))"

definition decode_match_summary :: "scval \<Rightarrow> service_error + active_match" where
  "decode_match_summary val = (case val of
     ScMap (Some m) \<Rightarrow> (case map_get m ''id'' of
       Some (ScU64 match_id) \<Rightarrow> (case map_get m ''game_id'' of
         Some (ScString s) \<Rightarrow> (case to_utf8_string s of
           Some game_id \<Rightarrow> (case map_get m ''platform'' of
             Some platform_val \<Rightarrow> (case decode_platform platform_val of
               Inr platform \<Rightarrow> Inr \<lparr>am_match_id = match_id, am_game_id = game_id, am_platform = platform\<rparr>
             | Inl e \<Rightarrow> Inl e)
           | None \<Rightarrow> Inl (XdrError ''Match.platform: field missing''))
         | None \<Rightarrow> Inl (XdrError ''Match.game_id: string decode''))
       | _ \<Rightarrow> Inl (XdrError ''Match.game_id: expected String''))
     | _ \<Rightarrow> Inl (XdrError ''Match.id: expected U64''))
   | _ \<Rightarrow> Inl (XdrError ''Match: expected Map-encoded struct''))"

fun all_or_error :: "('a \<Rightarrow> 'e + 'b) \<Rightarrow> 'a list \<Rightarrow> 'e + 'b list" where
  "all_or_error f [] = Inr []"
| "all_or_error f (x # xs) = (case f x of Inl e \<Rightarrow> Inl e
     | Inr y \<Rightarrow> (case all_or_error f xs of Inl e \<Rightarrow> Inl e | Inr ys \<Rightarrow> Inr (y # ys)))"

definition decode_active_matches :: "scval \<Rightarrow> service_error + active_match list" where
  "decode_active_matches val = (case val of
     ScVec (Some v) \<Rightarrow> all_or_error decode_match_summary v
   | _ \<Rightarrow> Inl (XdrError ''get_active_matches_paginated: expected Vec return value''))"

section \<open>Decoding matches of the escrow contract\<close>

text \<open>How the contract's values are encoded, as the comments of the client describe it: a struct is a map
  from symbols to the fields, a variant without fields is a vector of its name.\<close>

definition platform_name :: "platform \<Rightarrow> string" where
  "platform_name p = (case p of Lichess \<Rightarrow> ''Lichess'' | ChessDotCom \<Rightarrow> ''ChessDotCom'')"

definition encodes :: "match_rec \<Rightarrow> scval \<Rightarrow> bool" where
  "encodes m v \<longleftrightarrow> (\<exists>fields. v = ScMap (Some fields) \<and> map_get fields ''id'' = Some (ScU64 (m_id m))
     \<and> map_get fields ''game_id'' = Some (ScString (m_game_id m))
     \<and> map_get fields ''platform'' = Some (ScVec (Some [ScSymbol (platform_name (m_platform m))])))"

definition summary :: "match_rec \<Rightarrow> active_match" where
  "summary m = \<lparr>am_match_id = m_id m, am_game_id = m_game_id m,
     am_platform = (case m_platform m of Lichess \<Rightarrow> Lichess_sv | ChessDotCom \<Rightarrow> ChessDotCom_sv)\<rparr>"

lemma decode_encoded:
  assumes "encodes m v" "from_utf8_lossy (m_game_id m) = m_game_id m"
  shows "decode_match_summary v = Inr (summary m)"
  using assms
  by (auto simp: encodes_def decode_match_summary_def to_utf8_string_def decode_platform_def platform_name_def summary_def
      continuations_def split: platform.split)


section \<open>Reconciliation against the contracts\<close>

abbreviation active_ids :: "'w escrow \<Rightarrow> nat list" where
  "active_ids chain \<equiv> ids_in_state (p_matches_by_state (pers chain)) Active"

text \<open>The network answers from the state of the two contracts: a page is what the escrow contract's
  \<^verbatim>\<open>get_active_matches_paginated\<close> returns, and \<^verbatim>\<open>has_result\<close> is asked of the
  oracle contract.\<close>

definition answers_from :: "world \<Rightarrow> 'w escrow \<Rightarrow> 'x oracle_state \<Rightarrow> bool" where
  "answers_from w chain results \<longleftrightarrow>
     (\<forall>n k. active_matches_rpc w n k PAGE_SIZE = Inr (map summary (collect_matches_by_state_paginated Active k PAGE_SIZE chain)))
     \<and> (\<forall>n i. has_result_rpc w n i = Inr (has_result i results))"


section \<open>Samples\<close>

definition sample_value :: "match_rec \<Rightarrow> scval" where
  "sample_value m = ScMap (Some [(ScSymbol ''game_id'', ScString (m_game_id m)), (ScSymbol ''id'', ScU64 (m_id m)),
     (ScSymbol ''platform'', ScVec (Some [ScSymbol (platform_name (m_platform m))]))])"

lemma sample_game: "from_utf8_lossy (m_game_id sample_match) = m_game_id sample_match"
  by (rule from_utf8_lossy_ascii) (simp add: sample_match_def)


text \<open>A network on which the sample match of the escrow contract is active and has no result.\<close>

definition sample_network :: world where
  "sample_network = sample_world\<lparr>
     active_matches_rpc := (\<lambda>_ k n. Inr (map summary (collect_matches_by_state_paginated Active k n (with_match sample_match sample_state)))),
     has_result_rpc := (\<lambda>_ i. Inr (has_result i (deployed_oc sample_ledger)))\<rparr>"


end
