(* ===== verification/Spec2Isabelle.thy ===== *)
theory Spec2Isabelle
  imports Escrow_Authority Escrow_Delays Oracle_Quotas Indexer_Materialised Service_Contracts
begin

text \<open>
  Verification of the Checkmate escrow.
\<close>

section \<open>Matches under any transaction\<close>

text \<open>C4. Whatever transaction is run in whatever state, every stored match is still there
  afterwards, with the terms it was created with; its state followed edges of the lifecycle graph,
  a completed or cancelled match keeps its state, and no deposit or claim flag was reset.\<close>

theorem transactions_evolve_matches:
  assumes "invoke (exec env c) s = (r, s')" "p_match (pers s) i = Some m"
  shows "\<exists>m'. p_match (pers s') i = Some m' \<and> same_terms m m' \<and> edge\<^sup>*\<^sup>* (m_state m) (m_state m') \<and>
    (m_state m \<in> {Completed, Cancelled} \<longrightarrow> m_state m' = m_state m) \<and>
    (m_player1_deposited m \<longrightarrow> m_player1_deposited m') \<and> (m_player2_deposited m \<longrightarrow> m_player2_deposited m') \<and>
    (m_player1_claimed m \<longrightarrow> m_player1_claimed m') \<and> (m_player2_claimed m \<longrightarrow> m_player2_claimed m')"
proof -
  have "evolves s s'"
    using assms(1) by (cases rule: invoke_cases) (auto dest: exec_evolves intro: evolution.order_refl)
  with assms(2) obtain m' where m': "p_match (pers s') i = Some m'" and path: "match_step\<^sup>*\<^sup>* m m'"
    by (auto simp: evolves_def)
  note kept = match_path [OF path]
  have "m_state m \<in> {Completed, Cancelled} \<longrightarrow> m_state m' = m_state m"
    using path_from_terminal [OF kept(2)] by blast
  with m' kept show ?thesis by blast
qed

theorem transactions_evolve_matches_witness:
  "m_state (the (p_match (pers (snd (invoke (exec (sample_env 120 600) (OnMatch (PauseMatch 7 (Address 3))))
     (with_match sample_match sample_state)))) 7)) = Paused \<and> edge\<^sup>*\<^sup>* Active Paused"
proof -
  let ?s = "with_match sample_match sample_state"
  let ?m = "invoke (exec (sample_env 120 600) (OnMatch (PauseMatch 7 (Address 3)))) ?s"
  have "p_match (pers ?s) 7 = Some sample_match" by (simp add: with_match_def sample_match_def)
  then obtain m' where "p_match (pers (snd ?m)) 7 = Some m'" "edge\<^sup>*\<^sup>* (m_state sample_match) (m_state m')"
    using transactions_evolve_matches [of "sample_env 120 600" "OnMatch (PauseMatch 7 (Address 3))" ?s
        "fst ?m" "snd ?m" 7 sample_match] by auto
  moreover have "map_option m_state (p_match (pers (snd ?m)) 7) = Some Paused"
    by (simp add: pause_match_def eval_defs)
  ultimately show ?thesis by (simp add: sample_match_def)
qed

section \<open>Reachable states\<close>

text \<open>C5. In every state an initialised contract can reach, by any sequence of transactions in any
  environments, an oracle and an admin are installed, all parameters are within the bounds their
  setters enforce, the three registries agree with their listings, and every stored match is well
  formed, stored under its own id and numbered below the match counter.\<close>

theorem reachable_states_are_consistent:
  assumes "reachable s"
  shows "i_oracle (inst s) \<noteq> None \<and> i_admin (inst s) \<noteq> None \<and> config_inv s \<and> registries_inv s \<and>
    (\<forall>i m. p_match (pers s) i = Some m \<longrightarrow> match_wf m \<and> m_id m = i \<and> i < get_match_count s)"
  using reachable_inv [OF assms] by (simp add: contract_inv_def matches_inv_def)

theorem reachable_states_are_consistent_witness:
  "reachable sample_state \<and> config_inv sample_state \<and> i_admin (inst sample_state) = Some (Address 2)"
  using reachable_states_are_consistent [OF sample_reachable] sample_reachable by simp

text \<open>C6. Every transaction but a batch of deposits keeps the state index exact: the list of each
  state holds in ascending order exactly the ids of the matches in that state. So a page of a
  by-state query after the transaction is a slice of all matches in that state.\<close>

theorem state_index_stays_exact:
  assumes "invoke (exec env c) s = (r, s')" "index_inv s" "\<And>es. c \<noteq> OnMatch (DepositBatch es)"
    and "length (ids_in_state (p_matches_by_state (pers s')) st) \<le> u32_max"
  shows "sorted_wrt (<) (ids_in_state (p_matches_by_state (pers s')) st) \<and>
    (\<forall>i. i \<in> set (ids_in_state (p_matches_by_state (pers s')) st) \<longleftrightarrow>
       (\<exists>m. p_match (pers s') i = Some m \<and> m_state m = st)) \<and>
    collect_matches_by_state_paginated st offset limit s' = map (\<lambda>i. the (p_match (pers s') i))
      (take limit (drop offset (ids_in_state (p_matches_by_state (pers s')) st)))"
proof -
  have inv: "index_inv s'"
    using assms(1) by (cases rule: invoke_cases) (use assms(2,3) in \<open>auto dest: exec_keeps_index\<close>)
  then show ?thesis
    using paginated_slice [OF inv assms(4)] by (auto simp: index_inv_def match_ids.exact_def state_of_def)
qed

theorem state_index_stays_exact_witness:
  "collect_matches_by_state_paginated Paused 0 5
     (snd (invoke (exec (sample_env 120 600) (OnMatch (PauseMatch 7 (Address 3)))) (with_match sample_match sample_state)))
   = [sample_match\<lparr>m_state := Paused, m_paused_ledger := Some 120\<rparr>]"
proof -
  let ?s = "with_match sample_match sample_state"
  let ?m = "invoke (exec (sample_env 120 600) (OnMatch (PauseMatch 7 (Address 3)))) ?s"
  have "ids_in_state (p_matches_by_state (pers (snd ?m))) Paused = [7]"
    "p_match (pers (snd ?m)) 7 = Some (sample_match\<lparr>m_state := Paused, m_paused_ledger := Some 120\<rparr>)"
    by (simp_all add: pause_match_def eval_defs get_index_def ids_in_state_def insert_id_def)
  then show ?thesis
    using state_index_stays_exact [of "sample_env 120 600" "OnMatch (PauseMatch 7 (Address 3))" ?s "fst ?m" "snd ?m"
        Paused 0 5] sample_index_inv
    by (simp add: u32_max_def)
qed

end
